(* ===== verification/Prelude.thy ===== *)
theory Prelude
  imports Main "HOL-Library.AList" "HOL-Library.Sublist" "HOL-Library.List_Lexorder" "HOL-Library.Char_ord"
    "HOL-Library.Multiset"
begin

text \<open>
  Shared vocabulary of the development: the exceptions of the Python program as values, the
  sequencing of fallible calls, the Python dictionary as an association list in insertion
  order, and the lemmas on them that the component theories use.
\<close>

section \<open>Exceptions as values\<close>

text \<open>
  \<open>ContractError\<close> and \<open>StateConflictError\<close> are the classes of \<^verbatim>\<open>models.py\<close>,
  \<open>IntegrationRejected\<close> and \<open>VerificationEnvironmentError\<close> the subclasses of \<open>ContractError\<close>
  of \<^verbatim>\<open>integrator.py\<close> and \<^verbatim>\<open>verification.py\<close>, \<open>ProviderConfigurationError\<close> and
  \<open>ProviderIdentityError\<close> those of \<^verbatim>\<open>providers/base.py\<close>; the others are the built-in exceptions
  that an unchecked operation raises.  The message text of an exception is not modelled.
\<close>

datatype error =
    ContractError
  | StateConflictError
  | IntegrationRejected
  | VerificationEnvironmentError
  | ProviderConfigurationError
  | ProviderIdentityError
  | KeyError
  | TypeError
  | ValueError
  | IndexError
  | OSError
  | RecursionError

type_synonym 'a result = "error + 'a"

text \<open>What \<^verbatim>\<open>except ContractError\<close> catches.\<close>

definition is_contract_error :: "error \<Rightarrow> bool" where
  "is_contract_error e =
     (e \<in> {ContractError, IntegrationRejected, VerificationEnvironmentError, ProviderConfigurationError,
            ProviderIdentityError})"

text \<open>Sequencing: the first raise ends the computation.\<close>

definition bnd :: "'a result \<Rightarrow> ('a \<Rightarrow> 'b result) \<Rightarrow> 'b result" where
  "bnd m f = (case m of Inl e \<Rightarrow> Inl e | Inr x \<Rightarrow> f x)"

text \<open>\<open>chk b\<close> is the statement \<^verbatim>\<open>if not b: raise ContractError(...)\<close>.\<close>

definition chk :: "bool \<Rightarrow> unit result" where
  "chk b = (if b then Inr () else Inl ContractError)"

text \<open>\<open>chk_state b\<close> is \<^verbatim>\<open>if not b: raise StateConflictError(...)\<close>.\<close>

definition chk_state :: "bool \<Rightarrow> unit result" where
  "chk_state b = (if b then Inr () else Inl StateConflictError)"

definition ok :: "'a result \<Rightarrow> bool" where
  "ok m = (case m of Inl _ \<Rightarrow> False | Inr _ \<Rightarrow> True)"

text \<open>A list comprehension whose body may raise, and a \<^verbatim>\<open>for\<close> loop whose body may raise.\<close>

fun mapr :: "('a \<Rightarrow> 'b result) \<Rightarrow> 'a list \<Rightarrow> 'b list result" where
  "mapr f [] = Inr []"
| "mapr f (x # xs) = bnd (f x) (\<lambda>y. bnd (mapr f xs) (\<lambda>ys. Inr (y # ys)))"

fun forr :: "('a \<Rightarrow> unit result) \<Rightarrow> 'a list \<Rightarrow> unit result" where
  "forr f [] = Inr ()"
| "forr f (x # xs) = bnd (f x) (\<lambda>_. forr f xs)"

text \<open>A loop that carries a state and may raise.\<close>

fun foldr_r :: "('s \<Rightarrow> 'a \<Rightarrow> 's result) \<Rightarrow> 's \<Rightarrow> 'a list \<Rightarrow> 's result" where
  "foldr_r f s [] = Inr s"
| "foldr_r f s (x # xs) = bnd (f s x) (\<lambda>s'. foldr_r f s' xs)"

text \<open>\<open>void\<close> runs a call for its check only; \<open>checks\<close> is a block of such calls, one after
  the other.\<close>

definition void :: "'a result \<Rightarrow> unit result" where
  "void m = bnd m (\<lambda>_. Inr ())"

fun checks :: "unit result list \<Rightarrow> unit result" where
  "checks [] = Inr ()"
| "checks (c # cs) = bnd c (\<lambda>_. checks cs)"

named_theorems res_simps "sequencing of fallible calls: when a call returns, when it raises"

lemma bnd_Inr [simp]: "bnd (Inr x) f = f x"
  by (simp add: bnd_def)

lemma bnd_Inl [simp]: "bnd (Inl e) f = Inl e"
  by (simp add: bnd_def)

lemma bnd_eq_Inr [res_simps]: "bnd m f = Inr y \<longleftrightarrow> (\<exists>x. m = Inr x \<and> f x = Inr y)"
  by (cases m) auto

lemma bnd_InrE: "bnd m f = Inr y \<Longrightarrow> (\<And>x. m = Inr x \<Longrightarrow> f x = Inr y \<Longrightarrow> thesis) \<Longrightarrow> thesis"
  by (auto simp: bnd_eq_Inr)

lemma bnd_eq_Inl [res_simps]:
  "bnd m f = Inl e \<longleftrightarrow> m = Inl e \<or> (\<exists>x. m = Inr x \<and> f x = Inl e)"
  by (cases m) auto

lemma bnd_return [simp]: "bnd m Inr = m"
  by (cases m) auto

lemma bnd_assoc: "bnd (bnd m f) g = bnd m (\<lambda>x. bnd (f x) g)"
  by (cases m) auto

lemma chk_eq_Inr [simp]: "chk b = Inr u \<longleftrightarrow> b"
  by (simp add: chk_def)

lemma chk_eq_Inl [simp]: "chk b = Inl e \<longleftrightarrow> \<not> b \<and> e = ContractError"
  by (auto simp: chk_def)

lemma chk_True [simp]: "chk True = Inr ()"
  by (simp add: chk_def)

lemma chk_False [simp]: "chk False = Inl ContractError"
  by (simp add: chk_def)

lemma chk_state_eq_Inr [simp]: "chk_state b = Inr u \<longleftrightarrow> b"
  by (simp add: chk_state_def)

lemma chk_state_eq_Inl [simp]: "chk_state b = Inl e \<longleftrightarrow> \<not> b \<and> e = StateConflictError"
  by (auto simp: chk_state_def)

lemma chk_state_True [simp]: "chk_state True = Inr ()"
  by (simp add: chk_state_def)

lemma chk_state_False [simp]: "chk_state False = Inl StateConflictError"
  by (simp add: chk_state_def)

lemma ok_iff: "ok m \<longleftrightarrow> (\<exists>x. m = Inr x)"
  by (auto simp: ok_def split: sum.splits)

lemma ok_Inr [simp]: "ok (Inr x)"
  by (simp add: ok_def)

lemma ok_Inl [simp]: "\<not> ok (Inl e)"
  by (simp add: ok_def)

lemma ok_unit: "ok m \<longleftrightarrow> m = Inr ()"
  by (auto simp: ok_iff)

lemma ok_bnd: "ok (bnd m f) \<longleftrightarrow> (\<exists>x. m = Inr x \<and> ok (f x))"
  by (cases m) auto

lemma mapr_eq_Inr [res_simps]: "mapr f xs = Inr ys \<longleftrightarrow> list_all2 (\<lambda>x y. f x = Inr y) xs ys"
proof (induction xs arbitrary: ys)
  case Nil
  then show ?case by auto
next
  case (Cons x xs)
  then show ?case by (cases ys) (auto simp: bnd_eq_Inr)
qed

lemma ok_mapr: "ok (mapr f xs) \<longleftrightarrow> (\<forall>x\<in>set xs. ok (f x))"
proof (induction xs)
  case (Cons x xs)
  then show ?case by (cases "f x"; cases "mapr f xs") auto
qed simp

lemma mapr_total: "(\<And>x. x \<in> set xs \<Longrightarrow> f x = Inr (g x)) \<Longrightarrow> mapr f xs = Inr (map g xs)"
  by (induction xs) auto

lemma mapr_Inl: "mapr f xs = Inl e \<Longrightarrow> \<exists>x\<in>set xs. f x = Inl e"
  by (induction xs) (auto simp: bnd_eq_Inl)

lemma forr_eq_Inr [res_simps]: "forr f xs = Inr u \<longleftrightarrow> (\<forall>x\<in>set xs. f x = Inr ())"
  by (induction xs) (auto simp: bnd_eq_Inr)

lemma void_eq_Inr [simp]: "void m = Inr u \<longleftrightarrow> ok m"
  by (cases m) (auto simp: void_def)

lemma void_eq_Inl [simp]: "void m = Inl e \<longleftrightarrow> m = Inl e"
  by (cases m) (auto simp: void_def)

lemma checks_eq_Inr: "checks cs = Inr u \<longleftrightarrow> (\<forall>c\<in>set cs. c = Inr ())"
  by (induction cs) (auto simp: bnd_eq_Inr)

lemma checks_Cons_Inl: "checks (c # cs) = Inl e \<longleftrightarrow> c = Inl e \<or> c = Inr () \<and> checks cs = Inl e"
  by (auto simp: bnd_eq_Inl)

lemma checks_Cons_Inr [simp]: "checks (c # cs) = Inr u \<longleftrightarrow> c = Inr () \<and> checks cs = Inr ()"
  by (auto simp: bnd_eq_Inr)

declare checks.simps(2) [simp del]

lemma checks_eq_Inl: "checks cs = Inl e \<Longrightarrow> \<exists>c\<in>set cs. c = Inl e"
  by (induction cs) (auto simp: checks_Cons_Inl)

lemma ok_checks: "ok (checks cs) \<longleftrightarrow> (\<forall>c\<in>set cs. ok c)"
  by (simp add: ok_unit checks_eq_Inr)

lemma ok_void [simp]: "ok (void m) = ok m"
  by (cases m) (auto simp: void_def)

lemma ok_chk [simp]: "ok (chk b) = b"
  by (simp add: chk_def)

lemma ok_forr: "ok (forr f xs) \<longleftrightarrow> (\<forall>x\<in>set xs. ok (f x))"
  by (auto simp: ok_unit forr_eq_Inr)

lemma forr_eq_Inl: "forr f xs = Inl e \<Longrightarrow> \<exists>x\<in>set xs. f x = Inl e"
  by (induction xs) (auto simp: bnd_eq_Inl)

lemma forr_append: "forr f (xs @ ys) = bnd (forr f xs) (\<lambda>_. forr f ys)"
  by (induction xs) (auto simp: bnd_assoc)

lemma foldr_r_append:
  "foldr_r f s (xs @ ys) = bnd (foldr_r f s xs) (\<lambda>s'. foldr_r f s' ys)"
  by (induction xs arbitrary: s) (auto simp: bnd_assoc)

lemma foldr_r_inv:
  assumes "foldr_r f s xs = Inr s'" and "P s"
    and "\<And>s x s'. P s \<Longrightarrow> x \<in> set xs \<Longrightarrow> f s x = Inr s' \<Longrightarrow> P s'"
  shows "P s'"
  using assms
proof (induction xs arbitrary: s)
  case (Cons x xs)
  from Cons.prems(1) obtain t where t: "f s x = Inr t" "foldr_r f t xs = Inr s'"
    by (auto simp: bnd_eq_Inr)
  have "P t" by (rule Cons.prems(3) [OF Cons.prems(2) _ t(1)]) simp
  show ?case
    by (rule Cons.IH [OF t(2) \<open>P t\<close>]) (rule Cons.prems(3), auto)
qed simp

section \<open>Effects\<close>

text \<open>
  An operation on a state that may raise: the result, and the state also when it raises, since
  what was done by then stays done.  \<open>sget\<close> reads the state, \<open>slift\<close> embeds a computation
  without effects, \<open>stry\<close> is \<^verbatim>\<open>try ... except ContractError\<close>.
\<close>

type_synonym ('s, 'a) eff = "'s \<Rightarrow> 'a result \<times> 's"

definition slift :: "'a result \<Rightarrow> ('s, 'a) eff" where
  "slift r = (\<lambda>s. (r, s))"

definition sget :: "('s \<Rightarrow> 'a result) \<Rightarrow> ('s, 'a) eff" where
  "sget f = (\<lambda>s. (f s, s))"

definition sbnd :: "('s, 'a) eff \<Rightarrow> ('a \<Rightarrow> ('s, 'b) eff) \<Rightarrow> ('s, 'b) eff" where
  "sbnd m f = (\<lambda>s. case m s of (Inl e, s') \<Rightarrow> (Inl e, s') | (Inr x, s') \<Rightarrow> f x s')"

definition stry :: "('s, 'a) eff \<Rightarrow> ('s, 'a) eff \<Rightarrow> ('s, 'a) eff" where
  "stry m handler = (\<lambda>s. case m s of
     (Inl e, s') \<Rightarrow> if is_contract_error e then handler s' else (Inl e, s')
   | (Inr x, s') \<Rightarrow> (Inr x, s'))"

text \<open>A loop over a list whose body has effects.\<close>

fun smap :: "('a \<Rightarrow> ('s, 'b) eff) \<Rightarrow> 'a list \<Rightarrow> ('s, 'b list) eff" where
  "smap f [] = slift (Inr [])"
| "smap f (x # xs) = sbnd (f x) (\<lambda>y. sbnd (smap f xs) (\<lambda>ys. slift (Inr (y # ys))))"

lemma sbnd_eq: "sbnd m f s = (r, s') \<longleftrightarrow>
    (\<exists>e. m s = (Inl e, s') \<and> r = Inl e) \<or> (\<exists>x s''. m s = (Inr x, s'') \<and> f x s'' = (r, s'))"
  by (auto simp: sbnd_def split: prod.splits sum.splits)

lemma sbnd_Inr: "sbnd m f s = (Inr y, s') \<longleftrightarrow> (\<exists>x s''. m s = (Inr x, s'') \<and> f x s'' = (Inr y, s'))"
  by (auto simp: sbnd_def split: prod.splits sum.splits)

lemma slift_eq [simp]: "slift r s = (r', s') \<longleftrightarrow> r = r' \<and> s' = s"
  by (auto simp: slift_def)

lemma sget_eq [simp]: "sget f s = (r, s') \<longleftrightarrow> f s = r \<and> s' = s"
  by (auto simp: sget_def)

lemma sbnd_InrE:
  assumes "sbnd f k s = (Inr y, s')" obtains x s1 where "f s = (Inr x, s1)" "k x s1 = (Inr y, s')"
  using assms by (auto simp: sbnd_Inr)

lemma slift_InrE: assumes "slift r s = (Inr x, s')" obtains "r = Inr x" "s' = s"
  using assms by simp

lemma sget_InrE: assumes "sget f s = (Inr x, s')" obtains "f s = Inr x" "s' = s"
  using assms by simp

lemma smap_Inr: "smap f xs s = (Inr ys, s') \<Longrightarrow> list_all2 (\<lambda>x y. \<exists>s1 s2. f x s1 = (Inr y, s2)) xs ys"
proof (induction xs arbitrary: s ys)
  case (Cons x xs)
  then obtain y s1 ys' where "f x s = (Inr y, s1)" "smap f xs s1 = (Inr ys', s')" "ys = y # ys'"
    by (auto simp: sbnd_Inr)
  with Cons.IH show ?case by auto
qed simp

lemma map_eq_list_all2: "list_all2 (\<lambda>x y. P x y) xs ys \<Longrightarrow> (\<And>x y. P x y \<Longrightarrow> f x = g y) \<Longrightarrow> map f xs = map g ys"
  by (induction rule: list_all2_induct) auto

text \<open>\<open>keeps I m\<close>: the property \<open>I\<close> of the state survives \<open>m\<close>, whether it returns or raises.\<close>

definition keeps :: "('s \<Rightarrow> bool) \<Rightarrow> ('s, 'a) eff \<Rightarrow> bool" where
  "keeps I m \<longleftrightarrow> (\<forall>s. I s \<longrightarrow> I (snd (m s)))"

named_theorems keeps_intros "operations that keep a property of the state"

lemma keeps_slift [keeps_intros]: "keeps I (slift r)"
  by (simp add: keeps_def slift_def)

lemma keeps_sget [keeps_intros]: "keeps I (sget f)"
  by (simp add: keeps_def sget_def)

lemma keeps_sbnd [keeps_intros]: "keeps I m \<Longrightarrow> (\<And>x. keeps I (f x)) \<Longrightarrow> keeps I (sbnd m f)"
  by (fastforce simp: keeps_def sbnd_def split: prod.splits sum.splits)

lemma keeps_stry [keeps_intros]: "keeps I m \<Longrightarrow> keeps I handler \<Longrightarrow> keeps I (stry m handler)"
  by (fastforce simp: keeps_def stry_def split: prod.splits sum.splits)

lemma keeps_smap [keeps_intros]: "(\<And>x. x \<in> set xs \<Longrightarrow> keeps I (f x)) \<Longrightarrow> keeps I (smap f xs)"
  by (induction xs) (auto intro!: keeps_intros)

section \<open>Dictionaries\<close>

text \<open>
  A Python dictionary keeps its insertion order: an association list, where assignment
  replaces the value of a present key in place and appends a new key.  The library's
  \<^const>\<open>AList.update\<close> and \<^const>\<open>AList.delete\<close> are these operations.
\<close>

type_synonym ('k, 'v) dict = "('k \<times> 'v) list"

definition keys_of :: "('k, 'v) dict \<Rightarrow> 'k list" where
  "keys_of d = map fst d"

lemma keys_of_simps [simp]: "keys_of [] = []" "keys_of (p # d) = fst p # keys_of d"
  by (simp_all add: keys_of_def)

lemma map_of_update [simp]:
  "map_of (AList.update k v d) k' = (if k' = k then Some v else map_of d k')"
  by (simp add: AList.update_conv')

lemma map_of_delete [simp]:
  "map_of (AList.delete k d) k' = (if k' = k then None else map_of d k')"
  by (simp add: AList.delete_conv')

lemma set_keys_update [simp]: "set (keys_of (AList.update k v d)) = insert k (set (keys_of d))"
  by (induction d) (auto simp: keys_of_def)

lemma keys_update_present: "k \<in> set (keys_of d) \<Longrightarrow> keys_of (AList.update k v d) = keys_of d"
  by (induction d) (auto simp: keys_of_def)

lemma distinct_keys_update [simp]:
  "distinct (keys_of d) \<Longrightarrow> distinct (keys_of (AList.update k v d))"
  by (simp add: keys_of_def AList.distinct_update)

lemma set_keys_delete [simp]: "set (keys_of (AList.delete k d)) = set (keys_of d) - {k}"
  by (induction d) (auto simp: keys_of_def AList.delete_eq)

lemma distinct_keys_delete [simp]:
  "distinct (keys_of d) \<Longrightarrow> distinct (keys_of (AList.delete k d))"
  by (simp add: keys_of_def AList.distinct_delete)

lemma map_of_eq_None_keys: "map_of d k = None \<longleftrightarrow> k \<notin> set (keys_of d)"
  by (auto simp: keys_of_def map_of_eq_None_iff)

lemma map_of_Some_keys: "map_of d k = Some v \<Longrightarrow> k \<in> set (keys_of d)"
  by (force simp: keys_of_def dest: map_of_SomeD)

lemma keys_map_of: "k \<in> set (keys_of d) \<longleftrightarrow> (\<exists>v. map_of d k = Some v)"
  by (metis map_of_eq_None_keys not_None_eq)

section \<open>Lists\<close>

text \<open>\<^verbatim>\<open>tuple(dict.fromkeys(xs))\<close>: the first occurrences, in order.\<close>

fun dedup :: "'a list \<Rightarrow> 'a list" where
  "dedup [] = []"
| "dedup (x # xs) = x # filter (\<lambda>y. y \<noteq> x) (dedup xs)"

lemma set_dedup [simp]: "set (dedup xs) = set xs"
  by (induction xs) auto

lemma distinct_dedup [simp]: "distinct (dedup xs)"
  by (induction xs) auto

lemma dedup_distinct: "distinct xs \<Longrightarrow> dedup xs = xs"
proof (induction xs)
  case (Cons x xs)
  then show ?case by (auto simp: filter_id_conv)
qed simp

lemma dedup_prefix: "distinct xs \<Longrightarrow> prefix xs (dedup (xs @ ys))"
proof (induction xs)
  case (Cons x xs)
  then obtain zs where zs: "dedup (xs @ ys) = xs @ zs" by (auto simp: prefix_def)
  with Cons.prems have "filter (\<lambda>y. y \<noteq> x) xs = xs" by (auto simp: filter_id_conv)
  with zs show ?case by simp
qed simp

text \<open>\<^verbatim>\<open>len(set(xs)) == len(xs)\<close>\<close>

definition unique :: "'a list \<Rightarrow> bool" where
  "unique xs = (card (set xs) = length xs)"

lemma unique_iff [simp]: "unique xs \<longleftrightarrow> distinct xs"
  by (auto simp: unique_def card_distinct distinct_card)

lemma unique_code [code]: "unique xs = distinct xs"
  by simp

lemma prefix_take: "prefix xs ys \<longleftrightarrow> take (length xs) ys = xs"
  by (metis append_eq_conv_conj append_take_drop_id prefix_def)

end
