(* ===== verification/PyText.thy ===== *)
theory PyText
  imports Prelude
begin

text \<open>
  The Python text operations the program uses.  A Python \<^verbatim>\<open>str\<close> is represented by the bytes of
  its UTF-8 encoding (a lone surrogate by its three-byte form), so a literal such as
  \<open>''state.json''\<close> denotes itself, equality, prefix, suffix and splitting at ASCII characters
  are the operations on bytes, and the order of strings is the order of code points.
  Operations that look at single characters go through \<open>codepoints\<close>.
\<close>

section \<open>Characters\<close>

text \<open>The code points of a string, decoded from UTF-8.\<close>

definition byte :: "char \<Rightarrow> int" where
  "byte c = of_char c"

definition cont :: "char \<Rightarrow> int" where
  "cont c = byte c mod 64"

fun codepoints :: "string \<Rightarrow> int list" where
  "codepoints [] = []"
| "codepoints (c # cs) =
     (if byte c < 128 then byte c # codepoints cs
      else if byte c < 224 then
        (case cs of c1 # r \<Rightarrow> (byte c mod 32 * 64 + cont c1) # codepoints r | [] \<Rightarrow> [byte c])
      else if byte c < 240 then
        (case cs of c1 # c2 # r \<Rightarrow>
           (byte c mod 16 * 4096 + cont c1 * 64 + cont c2) # codepoints r
         | _ \<Rightarrow> [byte c])
      else
        (case cs of c1 # c2 # c3 # r \<Rightarrow>
           (byte c mod 8 * 262144 + cont c1 * 4096 + cont c2 * 64 + cont c3) # codepoints r
         | _ \<Rightarrow> [byte c]))"

definition ascii :: "string \<Rightarrow> bool" where
  "ascii s = list_all (\<lambda>c. byte c < 128) s"

lemma codepoints_ascii: "ascii s \<Longrightarrow> codepoints s = map byte s"
  by (induction s) (auto simp: ascii_def)

text \<open>\<^verbatim>\<open>str.isspace\<close> of one character, and the characters that the regular expression
  \<^verbatim>\<open>\d\<close> matches: the decimal digits of every script, ten from each zero.\<close>

definition py_space :: "int \<Rightarrow> bool" where
  "py_space c = (9 \<le> c \<and> c \<le> 13 \<or> 28 \<le> c \<and> c \<le> 32 \<or> c = 0x85 \<or> c = 0xA0 \<or> c = 0x1680
     \<or> 0x2000 \<le> c \<and> c \<le> 0x200A \<or> c = 0x2028 \<or> c = 0x2029 \<or> c = 0x202F \<or> c = 0x205F
     \<or> c = 0x3000)"

definition digit_zeros :: "int list" where
  "digit_zeros =
     [0x30, 0x660, 0x6f0, 0x7c0, 0x966, 0x9e6, 0xa66, 0xae6, 0xb66, 0xbe6, 0xc66, 0xce6,
      0xd66, 0xde6, 0xe50, 0xed0, 0xf20, 0x1040, 0x1090, 0x17e0, 0x1810, 0x1946, 0x19d0,
      0x1a80, 0x1a90, 0x1b50, 0x1bb0, 0x1c40, 0x1c50, 0xa620, 0xa8d0, 0xa900, 0xa9d0, 0xa9f0,
      0xaa50, 0xabf0, 0xff10, 0x104a0, 0x10d30, 0x11066, 0x110f0, 0x11136, 0x111d0, 0x112f0,
      0x11450, 0x114d0, 0x11650, 0x116c0, 0x11730, 0x118e0, 0x11950, 0x11c50, 0x11d50,
      0x11da0, 0x16a60, 0x16ac0, 0x16b50, 0x1d7ce, 0x1d7d8, 0x1d7e2, 0x1d7ec, 0x1d7f6,
      0x1e140, 0x1e2f0, 0x1e950, 0x1fbf0]"

definition py_digit :: "int \<Rightarrow> bool" where
  "py_digit c = list_ex (\<lambda>z. z \<le> c \<and> c \<le> z + 9) digit_zeros"

text \<open>\<^verbatim>\<open>not value.strip()\<close>: nothing but white space.\<close>

definition blank :: "string \<Rightarrow> bool" where
  "blank s = list_all py_space (codepoints s)"

text \<open>\<^verbatim>\<open>any(0xD800 <= ord(character) <= 0xDFFF for character in value)\<close>\<close>

definition has_surrogate :: "string \<Rightarrow> bool" where
  "has_surrogate s = list_ex (\<lambda>c. 0xD800 \<le> c \<and> c \<le> 0xDFFF) (codepoints s)"

definition is_lower :: "char \<Rightarrow> bool" where
  "is_lower c = (97 \<le> byte c \<and> byte c \<le> 122)"

definition is_upper :: "char \<Rightarrow> bool" where
  "is_upper c = (65 \<le> byte c \<and> byte c \<le> 90)"

definition is_dec :: "char \<Rightarrow> bool" where
  "is_dec c = (48 \<le> byte c \<and> byte c \<le> 57)"

definition is_hex :: "char \<Rightarrow> bool" where
  "is_hex c = (is_dec c \<or> 97 \<le> byte c \<and> byte c \<le> 102)"

definition is_alnum :: "char \<Rightarrow> bool" where
  "is_alnum c = (is_lower c \<or> is_upper c \<or> is_dec c)"

text \<open>For evaluation: the code of the character is computed once.\<close>

definition hex_code :: "int \<Rightarrow> bool" where
  "hex_code b = (48 \<le> b \<and> b \<le> 57 \<or> 97 \<le> b \<and> b \<le> 102)"

lemma is_hex_code [code]: "is_hex c = hex_code (byte c)"
  by (simp add: is_hex_def is_dec_def hex_code_def)

definition codepoints_via :: "int \<Rightarrow> string \<Rightarrow> int list" where
  "codepoints_via b cs =
     (if b < 128 then b # codepoints cs
      else if b < 224 then
        (case cs of c1 # r \<Rightarrow> (b mod 32 * 64 + cont c1) # codepoints r | [] \<Rightarrow> [b])
      else if b < 240 then
        (case cs of c1 # c2 # r \<Rightarrow> (b mod 16 * 4096 + cont c1 * 64 + cont c2) # codepoints r
         | _ \<Rightarrow> [b])
      else
        (case cs of c1 # c2 # c3 # r \<Rightarrow>
           (b mod 8 * 262144 + cont c1 * 4096 + cont c2 * 64 + cont c3) # codepoints r
         | _ \<Rightarrow> [b]))"

lemma codepoints_code [code]:
  "codepoints [] = []"
  "codepoints (c # cs) = codepoints_via (byte c) cs"
  by (simp_all add: codepoints_via_def)

lemma blank_Nil [simp]: "blank []"
  by (simp add: blank_def)

lemma ascii_no_surrogate: "ascii s \<Longrightarrow> \<not> has_surrogate s"
  by (fastforce simp: has_surrogate_def codepoints_ascii list_ex_iff ascii_def list_all_iff)

lemma hex_ascii: "list_all is_hex s \<Longrightarrow> ascii s"
  by (fastforce simp: ascii_def is_hex_def is_dec_def list_all_iff)

lemma hex_not_blank: "list_all is_hex s \<Longrightarrow> s \<noteq> [] \<Longrightarrow> \<not> blank s"
  by (cases s) (auto simp: blank_def codepoints_ascii hex_ascii is_hex_def is_dec_def py_space_def)

section \<open>The regular expressions of the contracts\<close>

text \<open>\<open>re_ident first rest n s\<close> matches \<^verbatim>\<open>[first][rest]{0,n}\Z\<close>.\<close>

definition re_ident :: "(char \<Rightarrow> bool) \<Rightarrow> (char \<Rightarrow> bool) \<Rightarrow> nat \<Rightarrow> string \<Rightarrow> bool" where
  "re_ident first rest n s =
     (case s of [] \<Rightarrow> False | c # cs \<Rightarrow> first c \<and> list_all rest cs \<and> length cs \<le> n)"

text \<open>\<open>re_tagged tag n s\<close> matches \<^verbatim>\<open>tag-\d{n}\Z\<close>.\<close>

definition re_tagged :: "string \<Rightarrow> nat \<Rightarrow> string \<Rightarrow> bool" where
  "re_tagged tag n s =
     (let cs = codepoints s
      in take (length tag) cs = map byte tag \<and> length cs = length tag + n
         \<and> list_all py_digit (drop (length tag) cs))"

section \<open>Splitting, prefixes, paths\<close>

definition startswith :: "string \<Rightarrow> string \<Rightarrow> bool" where
  "startswith s p = prefix p s"

definition endswith :: "string \<Rightarrow> string \<Rightarrow> bool" where
  "endswith s p = suffix p s"

lemma startswith_code [code]: "startswith s p = (take (length p) s = p)"
  by (simp add: startswith_def prefix_take)

lemma endswith_code [code]: "endswith s p = (drop (length s - length p) s = p \<and> length p \<le> length s)"
  by (auto simp: endswith_def suffix_def) (metis append_take_drop_id)

text \<open>\<^verbatim>\<open>s.split(c)\<close> for one separator character, and \<^verbatim>\<open>c.join(parts)\<close>.\<close>

fun split_on :: "char \<Rightarrow> string \<Rightarrow> string list" where
  "split_on c [] = [[]]"
| "split_on c (x # xs) =
     (if x = c then [] # split_on c xs
      else case split_on c xs of [] \<Rightarrow> [[x]] | p # ps \<Rightarrow> (x # p) # ps)"

fun join_with :: "char \<Rightarrow> string list \<Rightarrow> string" where
  "join_with c [] = []"
| "join_with c [p] = p"
| "join_with c (p # q # ps) = p @ c # join_with c (q # ps)"

text \<open>\<^verbatim>\<open>s.rstrip("/")\<close>\<close>

definition rstrip_slash :: "string \<Rightarrow> string" where
  "rstrip_slash s = rev (dropWhile (\<lambda>c. c = CHR ''/'') (rev s))"

text \<open>
  \<^verbatim>\<open>PurePosixPath\<close>: the root is \<open>//\<close> for exactly two leading slashes and \<open>/\<close> for one or
  more than two; empty components and \<open>.\<close> components are dropped; \<^verbatim>\<open>as_posix\<close> of the empty
  path is \<open>.\<close>.
\<close>

definition posix_root :: "string \<Rightarrow> string" where
  "posix_root s =
     (if startswith s ''//'' \<and> \<not> startswith s ''///'' then ''//''
      else if startswith s ''/'' then ''/'' else [])"

definition posix_rel :: "string \<Rightarrow> string list" where
  "posix_rel s = filter (\<lambda>p. p \<noteq> [] \<and> p \<noteq> ''.'') (split_on (CHR ''/'') s)"

definition posix_parts :: "string \<Rightarrow> string list" where
  "posix_parts s = (if posix_root s = [] then posix_rel s else posix_root s # posix_rel s)"

definition is_absolute :: "string \<Rightarrow> bool" where
  "is_absolute s = (posix_root s \<noteq> [])"

definition as_posix :: "string \<Rightarrow> string" where
  "as_posix s =
     (if posix_root s = [] \<and> posix_rel s = [] then ''.''
      else posix_root s @ join_with (CHR ''/'') (posix_rel s))"

lemma split_on_ne [simp]: "split_on c s \<noteq> []"
  by (induction s) (auto split: list.splits)

lemma join_split [simp]: "join_with c (split_on c s) = s"
proof (induction s)
  case (Cons x xs)
  show ?case
  proof (cases "split_on c xs")
    case Nil
    then show ?thesis by simp
  next
    case (Cons p ps)
    with \<open>join_with c (split_on c xs) = xs\<close> show ?thesis
      by (cases ps) auto
  qed
qed simp

lemma split_join:
  "ps \<noteq> [] \<Longrightarrow> \<forall>p\<in>set ps. c \<notin> set p \<Longrightarrow> split_on c (join_with c ps) = ps"
proof (induction c ps rule: join_with.induct)
  case (2 c p)
  then have "c \<notin> set p" by simp
  then show ?case by (induction p) auto
next
  case (3 c p q ps)
  then have IH: "split_on c (join_with c (q # ps)) = q # ps" and p: "c \<notin> set p" by auto
  from p have "split_on c (p @ c # join_with c (q # ps)) = p # split_on c (join_with c (q # ps))"
    by (induction p) auto
  with IH show ?case by simp
qed simp

lemma split_on_no_sep: "p \<in> set (split_on c s) \<Longrightarrow> c \<notin> set p"
  by (induction s arbitrary: p) (auto split: if_splits list.splits)

lemma split_on_append_sep: "split_on c (a @ c # b) = split_on c a @ split_on c b"
proof (induction a)
  case (Cons x a)
  then show ?case by (cases "split_on c a") auto
qed simp

section \<open>Decimal numbers\<close>

text \<open>\<^verbatim>\<open>str(n)\<close> and \<^verbatim>\<open>f"{n:03d}"\<close>.\<close>

definition dec_char :: "nat \<Rightarrow> char" where
  "dec_char d = char_of (48 + int d)"

fun nat_digits :: "nat \<Rightarrow> string" where
  "nat_digits n = (if n < 10 then [dec_char n] else nat_digits (n div 10) @ [dec_char (n mod 10)])"

declare nat_digits.simps [simp del]

definition int_text :: "int \<Rightarrow> string" where
  "int_text i = (if i < 0 then CHR ''-'' # nat_digits (nat (- i)) else nat_digits (nat i))"

definition pad3 :: "int \<Rightarrow> string" where
  "pad3 i =
     (let s = int_text i
      in if i < 0 then CHR ''-'' # replicate (3 - length s) (CHR ''0'') @ tl s
         else replicate (3 - length s) (CHR ''0'') @ s)"

definition dec_val :: "char \<Rightarrow> int" where
  "dec_val c = byte c - 48"

lemma dec_val_char: "d < 10 \<Longrightarrow> dec_val (dec_char d) = int d"
  by (simp add: dec_val_def dec_char_def byte_def of_char_of)

lemma is_dec_char: "d < 10 \<Longrightarrow> is_dec (dec_char d)"
  by (simp add: is_dec_def dec_char_def byte_def of_char_of)

lemma nat_digits_ne [simp]: "nat_digits n \<noteq> []"
  by (subst nat_digits.simps) simp

lemma nat_digits_dec: "list_all is_dec (nat_digits n)"
proof (induction n rule: nat_digits.induct)
  case (1 n)
  then show ?case by (subst nat_digits.simps) (auto simp: is_dec_char)
qed

definition digits_val :: "string \<Rightarrow> int" where
  "digits_val s = foldl (\<lambda>a c. 10 * a + dec_val c) 0 s"

lemma digits_val_nat_digits [simp]: "digits_val (nat_digits n) = int n"
proof (induction n rule: nat_digits.induct)
  case (1 n)
  show ?case
  proof (cases "n < 10")
    case True
    then show ?thesis by (subst nat_digits.simps) (simp add: digits_val_def dec_val_char)
  next
    case False
    with 1 have "digits_val (nat_digits (n div 10)) = int (n div 10)" by simp
    with False show ?thesis
      by (subst nat_digits.simps) (simp add: digits_val_def dec_val_char zdiv_int zmod_int)
  qed
qed

lemma nat_digits_inj: "nat_digits m = nat_digits n \<Longrightarrow> m = n"
  by (metis digits_val_nat_digits of_nat_eq_iff)

end
