(* ===== verification/Json.thy ===== *)
theory Json
  imports PyText
begin

text \<open>
  The JSON values that the program loads, checks, mutates and stores.  An object is a Python
  dictionary: an association list in insertion order.  A floating-point number is kept as the
  text Python prints for it; nothing in the program computes with one.
\<close>

datatype json =
    JNull
  | JBool bool
  | JInt int
  | JFloat string
  | JStr string
  | JList "json list"
  | JObj "(string \<times> json) list"

section \<open>Type tests and access\<close>

definition is_obj :: "json \<Rightarrow> bool" where
  "is_obj v = (case v of JObj _ \<Rightarrow> True | _ \<Rightarrow> False)"

definition is_list :: "json \<Rightarrow> bool" where
  "is_list v = (case v of JList _ \<Rightarrow> True | _ \<Rightarrow> False)"

definition is_str :: "json \<Rightarrow> bool" where
  "is_str v = (case v of JStr _ \<Rightarrow> True | _ \<Rightarrow> False)"

definition is_int :: "json \<Rightarrow> bool" where
  "is_int v = (case v of JInt _ \<Rightarrow> True | _ \<Rightarrow> False)"

definition is_bool :: "json \<Rightarrow> bool" where
  "is_bool v = (case v of JBool _ \<Rightarrow> True | _ \<Rightarrow> False)"

definition items :: "json \<Rightarrow> (string \<times> json) list" where
  "items v = (case v of JObj d \<Rightarrow> d | _ \<Rightarrow> [])"

definition elems :: "json \<Rightarrow> json list" where
  "elems v = (case v of JList xs \<Rightarrow> xs | _ \<Rightarrow> [])"

definition str_of :: "json \<Rightarrow> string" where
  "str_of v = (case v of JStr s \<Rightarrow> s | _ \<Rightarrow> [])"

definition int_of :: "json \<Rightarrow> int" where
  "int_of v = (case v of JInt i \<Rightarrow> i | _ \<Rightarrow> 0)"

definition jkeys :: "json \<Rightarrow> string list" where
  "jkeys v = keys_of (items v)"

text \<open>
  \<open>has_key\<close> is \<^verbatim>\<open>key in d\<close>; \<open>sub d k\<close> is \<^verbatim>\<open>d.get(k)\<close>, which is also \<^verbatim>\<open>d[k]\<close> wherever
  the key is known to be present; \<open>item d k\<close> is \<^verbatim>\<open>d[k]\<close> with its \<^verbatim>\<open>KeyError\<close>.
\<close>

definition jget :: "json \<Rightarrow> string \<Rightarrow> json option" where
  "jget v k = map_of (items v) k"

definition has_key :: "json \<Rightarrow> string \<Rightarrow> bool" where
  "has_key v k = (jget v k \<noteq> None)"

definition sub :: "json \<Rightarrow> string \<Rightarrow> json" where
  "sub v k = (case jget v k of None \<Rightarrow> JNull | Some w \<Rightarrow> w)"

definition get_or :: "json \<Rightarrow> string \<Rightarrow> json \<Rightarrow> json" where
  "get_or v k w = (case jget v k of None \<Rightarrow> w | Some u \<Rightarrow> u)"

definition item :: "json \<Rightarrow> string \<Rightarrow> json result" where
  "item v k = (case jget v k of None \<Rightarrow> Inl KeyError | Some w \<Rightarrow> Inr w)"

text \<open>\<open>put d k v\<close> is \<^verbatim>\<open>d[k] = v\<close>, \<open>del d k\<close> is \<^verbatim>\<open>del d[k]\<close>, \<open>upd d k f\<close> mutates the value
  stored under a key in place, \<open>push xs v\<close> is \<^verbatim>\<open>xs.append(v)\<close>.\<close>

definition put :: "json \<Rightarrow> string \<Rightarrow> json \<Rightarrow> json" where
  "put v k w = (case v of JObj d \<Rightarrow> JObj (AList.update k w d) | _ \<Rightarrow> v)"

definition del :: "json \<Rightarrow> string \<Rightarrow> json" where
  "del v k = (case v of JObj d \<Rightarrow> JObj (AList.delete k d) | _ \<Rightarrow> v)"

definition upd :: "json \<Rightarrow> string \<Rightarrow> (json \<Rightarrow> json) \<Rightarrow> json" where
  "upd v k f = put v k (f (sub v k))"

definition push :: "json \<Rightarrow> json \<Rightarrow> json" where
  "push v w = (case v of JList xs \<Rightarrow> JList (xs @ [w]) | _ \<Rightarrow> v)"

named_theorems json_simps "access to JSON objects after an update"

lemma type_simps [simp]:
  "is_obj (JObj d)" "\<not> is_obj JNull" "\<not> is_obj (JBool b)" "\<not> is_obj (JInt i)"
  "\<not> is_obj (JFloat t)" "\<not> is_obj (JStr s)" "\<not> is_obj (JList xs)"
  "is_list (JList xs)" "\<not> is_list JNull" "\<not> is_list (JBool b)" "\<not> is_list (JInt i)"
  "\<not> is_list (JFloat t)" "\<not> is_list (JStr s)" "\<not> is_list (JObj d)"
  "is_str (JStr s)" "\<not> is_str JNull" "\<not> is_str (JBool b)" "\<not> is_str (JInt i)"
  "\<not> is_str (JFloat t)" "\<not> is_str (JList xs)" "\<not> is_str (JObj d)"
  "is_int (JInt i)" "\<not> is_int JNull" "\<not> is_int (JBool b)" "\<not> is_int (JStr s)"
  "\<not> is_int (JFloat t)" "\<not> is_int (JList xs)" "\<not> is_int (JObj d)"
  "is_bool (JBool b)" "\<not> is_bool JNull" "\<not> is_bool (JInt i)" "\<not> is_bool (JStr s)"
  "\<not> is_bool (JFloat t)" "\<not> is_bool (JList xs)" "\<not> is_bool (JObj d)"
  "items (JObj d) = d" "elems (JList xs) = xs" "str_of (JStr s) = s" "int_of (JInt i) = i"
  by (simp_all add: is_obj_def is_list_def is_str_def is_int_def is_bool_def items_def elems_def
      str_of_def int_of_def)

lemma is_obj_iff: "is_obj v \<longleftrightarrow> (\<exists>d. v = JObj d)"
  by (cases v) auto

lemma is_list_iff: "is_list v \<longleftrightarrow> (\<exists>xs. v = JList xs)"
  by (cases v) auto

lemma is_str_iff: "is_str v \<longleftrightarrow> (\<exists>s. v = JStr s)"
  by (cases v) auto

lemma is_int_iff: "is_int v \<longleftrightarrow> (\<exists>i. v = JInt i)"
  by (cases v) auto

lemma is_bool_iff: "is_bool v \<longleftrightarrow> (\<exists>b. v = JBool b)"
  by (cases v) auto

lemma jget_JObj [simp]: "jget (JObj d) k = map_of d k"
  by (simp add: jget_def)

lemma jget_put [json_simps]: "is_obj v \<Longrightarrow> jget (put v k w) k' = (if k' = k then Some w else jget v k')"
  by (auto simp: is_obj_iff put_def)

lemma sub_put [json_simps]: "is_obj v \<Longrightarrow> sub (put v k w) k' = (if k' = k then w else sub v k')"
  by (simp add: sub_def jget_put)

lemma sub_put_other [simp]: "k' \<noteq> k \<Longrightarrow> sub (put v k w) k' = sub v k'"
  by (cases v) (auto simp: sub_def put_def jget_def items_def)

lemma sub_put_other' [simp]: "k \<noteq> k' \<Longrightarrow> sub (put v k w) k' = sub v k'"
  by (rule sub_put_other) simp

lemma jget_put_other [simp]: "k' \<noteq> k \<Longrightarrow> jget (put v k w) k' = jget v k'"
  by (cases v) (auto simp: put_def jget_def items_def)

lemma is_obj_put [simp]: "is_obj (put v k w) = is_obj v"
  by (cases v) (auto simp: put_def)

lemma is_obj_del [simp]: "is_obj (del v k) = is_obj v"
  by (cases v) (auto simp: del_def)

lemma sub_put_same [simp]: "is_obj v \<Longrightarrow> sub (put v k w) k = w"
  by (simp add: sub_put)

lemma jget_del [json_simps]: "jget (del v k) k' = (if k' = k then None else jget v k')"
  by (cases v) (auto simp: del_def jget_def items_def)

lemma sub_del [json_simps]: "sub (del v k) k' = (if k' = k then JNull else sub v k')"
  by (simp add: sub_def jget_del)

lemma has_key_put [simp]: "is_obj v \<Longrightarrow> has_key (put v k w) k' \<longleftrightarrow> k' = k \<or> has_key v k'"
  by (simp add: has_key_def jget_put)

lemma set_jkeys_put [simp]: "is_obj v \<Longrightarrow> set (jkeys (put v k w)) = insert k (set (jkeys v))"
  by (auto simp: is_obj_iff put_def jkeys_def)

lemma jkeys_put_present: "is_obj v \<Longrightarrow> k \<in> set (jkeys v) \<Longrightarrow> jkeys (put v k w) = jkeys v"
  by (auto simp: is_obj_iff put_def jkeys_def keys_update_present)

lemma has_key_iff: "has_key v k \<longleftrightarrow> k \<in> set (jkeys v)"
  by (auto simp: has_key_def jget_def jkeys_def map_of_eq_None_keys)

lemma jget_sub: "has_key v k \<Longrightarrow> jget v k = Some (sub v k)"
  by (auto simp: has_key_def sub_def)

lemma item_present: "has_key v k \<Longrightarrow> item v k = Inr (sub v k)"
  by (simp add: item_def jget_sub)

lemma sub_JObj: "sub (JObj d) k = (case map_of d k of None \<Rightarrow> JNull | Some w \<Rightarrow> w)"
  by (simp add: sub_def)

lemma sub_Cons [simp]:
  "sub (JObj []) k = JNull" "sub (JObj ((k', w) # d)) k = (if k = k' then w else sub (JObj d) k)"
  by (simp_all add: sub_def)

lemma jkeys_JObj [simp]: "jkeys (JObj d) = keys_of d"
  by (simp add: jkeys_def)

lemma sub_not_JNull: "sub v k \<noteq> JNull \<Longrightarrow> has_key v k"
  by (auto simp: sub_def has_key_def split: option.splits)

lemma upd_simps [simp]:
  "is_obj (upd v k f) = is_obj v"
  "k' \<noteq> k \<Longrightarrow> sub (upd v k f) k' = sub v k'"
  "is_obj v \<Longrightarrow> sub (upd v k f) k = f (sub v k)"
  "is_obj v \<Longrightarrow> set (jkeys (upd v k f)) = insert k (set (jkeys v))"
  by (simp_all add: upd_def)

lemma elems_push [simp]: "is_list v \<Longrightarrow> elems (push v w) = elems v @ [w]"
  by (auto simp: is_list_iff push_def)

lemma is_list_push [simp]: "is_list (push v w) = is_list v"
  by (cases v) (auto simp: push_def)

lemma alist_update_triv: "map_of d k = Some v \<Longrightarrow> AList.update k v d = d"
  by (induction d) (auto split: if_splits)

lemma alist_update_swap:
  "k \<noteq> k' \<Longrightarrow> k \<in> set (keys_of d) \<Longrightarrow> k' \<in> set (keys_of d) \<Longrightarrow>
   AList.update k v (AList.update k' w d) = AList.update k' w (AList.update k v d)"
proof (induction d)
  case (Cons p d)
  show ?case
  proof (cases "fst p = k \<or> fst p = k'")
    case True
    with Cons.prems show ?thesis by (cases p) auto
  next
    case False
    with Cons show ?thesis by (cases p) auto
  qed
qed simp

lemma put_put [simp]: "put (put v k w) k u = put v k u"
  by (cases v) (auto simp: put_def AList.update_last)

lemma put_triv: "has_key v k \<Longrightarrow> sub v k = w \<Longrightarrow> put v k w = v"
  by (cases v) (auto simp: put_def has_key_def sub_def alist_update_triv)

lemma put_swap:
  "k \<noteq> k' \<Longrightarrow> has_key v k \<Longrightarrow> has_key v k' \<Longrightarrow> put (put v k w) k' u = put (put v k' u) k w"
  by (cases v) (auto simp: put_def has_key_iff alist_update_swap)

section \<open>Python equality\<close>

text \<open>
  \<^verbatim>\<open>==\<close> on JSON values: \<^verbatim>\<open>True == 1\<close> and \<^verbatim>\<open>1 == 1.0\<close> hold, and two dictionaries are equal
  when they have the same keys with equal values, in any order.
\<close>

fun py_eq :: "json \<Rightarrow> json \<Rightarrow> bool"
  and py_eq_list :: "json list \<Rightarrow> json list \<Rightarrow> bool"
  and py_eq_dict :: "(string \<times> json) list \<Rightarrow> (string \<times> json) list \<Rightarrow> bool"
where
  "py_eq JNull w = (w = JNull)"
| "py_eq (JBool b) w =
     (w = JBool b \<or> w = JInt (if b then 1 else 0) \<or> w = JFloat (if b then ''1.0'' else ''0.0''))"
| "py_eq (JInt i) w =
     (w = JInt i \<or> i = 1 \<and> w = JBool True \<or> i = 0 \<and> w = JBool False
      \<or> w = JFloat (int_text i @ ''.0''))"
| "py_eq (JFloat t) w =
     (w = JFloat t \<or> (case w of JInt i \<Rightarrow> t = int_text i @ ''.0''
        | JBool b \<Rightarrow> t = (if b then ''1.0'' else ''0.0'') | _ \<Rightarrow> False))"
| "py_eq (JStr s) w = (w = JStr s)"
| "py_eq (JList xs) w = (case w of JList ys \<Rightarrow> py_eq_list xs ys | _ \<Rightarrow> False)"
| "py_eq (JObj d) w =
     (case w of JObj e \<Rightarrow> length d = length e \<and> py_eq_dict d e | _ \<Rightarrow> False)"
| "py_eq_list [] ys = (ys = [])"
| "py_eq_list (x # xs) ys =
     (case ys of [] \<Rightarrow> False | y # zs \<Rightarrow> py_eq x y \<and> py_eq_list xs zs)"
| "py_eq_dict [] e = True"
| "py_eq_dict (p # d) e =
     ((case map_of e (fst p) of None \<Rightarrow> False | Some w \<Rightarrow> py_eq (snd p) w) \<and> py_eq_dict d e)"

definition py_in :: "json \<Rightarrow> json list \<Rightarrow> bool" where
  "py_in v xs = list_ex (\<lambda>w. py_eq v w) xs"

text \<open>No dictionary has a key twice.\<close>

fun wf_json :: "json \<Rightarrow> bool"
  and wf_list :: "json list \<Rightarrow> bool"
  and wf_dict :: "(string \<times> json) list \<Rightarrow> bool"
where
  "wf_json (JList xs) = wf_list xs"
| "wf_json (JObj d) = (distinct (keys_of d) \<and> wf_dict d)"
| "wf_json JNull = True"
| "wf_json (JBool b) = True"
| "wf_json (JInt i) = True"
| "wf_json (JFloat t) = True"
| "wf_json (JStr s) = True"
| "wf_list [] = True"
| "wf_list (x # xs) = (wf_json x \<and> wf_list xs)"
| "wf_dict [] = True"
| "wf_dict (p # d) = (wf_json (snd p) \<and> wf_dict d)"

lemma wf_list_iff: "wf_list xs \<longleftrightarrow> (\<forall>x\<in>set xs. wf_json x)"
  by (induction xs) auto

lemma wf_dict_iff: "wf_dict d \<longleftrightarrow> (\<forall>p\<in>set d. wf_json (snd p))"
  by (induction d) auto

lemma wf_sub: "wf_json v \<Longrightarrow> wf_json (sub v k)"
  by (cases v) (auto simp: sub_def jget_def items_def wf_dict_iff dest!: map_of_SomeD split: option.splits)

lemma wf_dict_update: "wf_dict d \<Longrightarrow> wf_json w \<Longrightarrow> wf_dict (AList.update k w d)"
  by (induction d) auto

lemma wf_put [simp]: "wf_json v \<Longrightarrow> wf_json w \<Longrightarrow> wf_json (put v k w)"
  by (cases v) (auto simp: put_def wf_dict_update)

lemma wf_elems: "wf_json v \<Longrightarrow> x \<in> set (elems v) \<Longrightarrow> wf_json x"
  by (cases v) (auto simp: elems_def wf_list_iff)

lemma py_eq_dict_sub:
  assumes "\<And>p. p \<in> set d \<Longrightarrow> map_of e (fst p) = Some (snd p)"
    and "\<And>p. p \<in> set d \<Longrightarrow> py_eq (snd p) (snd p)"
  shows "py_eq_dict d e"
  using assms by (induction d) auto

lemma py_eq_refl: "wf_json v \<Longrightarrow> py_eq v v"
  and "wf_list xs \<Longrightarrow> py_eq_list xs xs"
  and "wf_dict d \<Longrightarrow> \<forall>p\<in>set d. py_eq (snd p) (snd p)"
proof (induction v and xs and d rule: wf_json_wf_list_wf_dict.induct)
  case (2 d)
  then have "distinct (map fst d)" and "\<forall>p\<in>set d. py_eq (snd p) (snd p)"
    by (auto simp: keys_of_def)
  then have "py_eq_dict d d" by (intro py_eq_dict_sub) (auto intro: map_of_is_SomeI)
  then show ?case by simp
qed auto

lemma py_eq_JStr [simp]: "py_eq v (JStr s) \<longleftrightarrow> v = JStr s"
  by (cases v) auto

lemma py_eq_JNull [simp]: "py_eq v JNull \<longleftrightarrow> v = JNull"
  by (cases v) auto

section \<open>Scalars\<close>

text \<open>\<^verbatim>\<open>reject_invalid_json_scalars\<close>: no string or key holds a surrogate.\<close>

fun reject_invalid_json_scalars :: "json \<Rightarrow> unit result"
  and reject_list :: "json list \<Rightarrow> unit result"
  and reject_dict :: "(string \<times> json) list \<Rightarrow> unit result"
where
  "reject_invalid_json_scalars (JStr s) = chk (\<not> has_surrogate s)"
| "reject_invalid_json_scalars (JObj d) = reject_dict d"
| "reject_invalid_json_scalars (JList xs) = reject_list xs"
| "reject_invalid_json_scalars JNull = Inr ()"
| "reject_invalid_json_scalars (JBool b) = Inr ()"
| "reject_invalid_json_scalars (JInt i) = Inr ()"
| "reject_invalid_json_scalars (JFloat t) = Inr ()"
| "reject_list [] = Inr ()"
| "reject_list (x # xs) = bnd (reject_invalid_json_scalars x) (\<lambda>_. reject_list xs)"
| "reject_dict [] = Inr ()"
| "reject_dict (p # d) =
     bnd (chk (\<not> has_surrogate (fst p))) (\<lambda>_.
     bnd (reject_invalid_json_scalars (snd p)) (\<lambda>_. reject_dict d))"

text \<open>\<open>clean v\<close>: every string of the value is well-formed Unicode.\<close>

definition clean :: "json \<Rightarrow> bool" where
  "clean v = (reject_invalid_json_scalars v = Inr ())"

lemma reject_list_iff: "reject_list xs = Inr u \<longleftrightarrow> (\<forall>x\<in>set xs. clean x)"
  by (induction xs) (auto simp: clean_def bnd_eq_Inr)

lemma reject_dict_iff:
  "reject_dict d = Inr u \<longleftrightarrow> (\<forall>p\<in>set d. \<not> has_surrogate (fst p) \<and> clean (snd p))"
  by (induction d) (auto simp: clean_def bnd_eq_Inr)

lemma clean_simps [simp]:
  "clean JNull" "clean (JBool b)" "clean (JInt i)" "clean (JFloat t)"
  "clean (JStr s) \<longleftrightarrow> \<not> has_surrogate s"
  "clean (JList xs) \<longleftrightarrow> (\<forall>x\<in>set xs. clean x)"
  "clean (JObj d) \<longleftrightarrow> (\<forall>p\<in>set d. \<not> has_surrogate (fst p) \<and> clean (snd p))"
  by (simp_all add: clean_def [of JNull] clean_def [of "JBool b"] clean_def [of "JInt i"]
      clean_def [of "JFloat t"] clean_def [of "JStr s"] clean_def [of "JList xs"]
      clean_def [of "JObj d"] reject_list_iff reject_dict_iff)

lemma set_alist_update: "set (AList.update k w d) \<subseteq> insert (k, w) (set d)"
  by (induction d) auto

lemma clean_put: "clean v \<Longrightarrow> \<not> has_surrogate k \<Longrightarrow> clean w \<Longrightarrow> clean (put v k w)"
  by (cases v) (auto simp: put_def dest!: set_alist_update [THEN subsetD])

end
