(* ===== verification/PyTime.thy ===== *)
theory PyTime
  imports PyText
begin

text \<open>
  \<^verbatim>\<open>datetime.fromisoformat\<close> as documented for Python 3.10, the oldest version the package
  supports: \<^verbatim>\<open>YYYY-MM-DD[*HH[:MM[:SS[.fff[fff]]]][+HH:MM[:SS[.ffffff]]]]\<close>, where \<^verbatim>\<open>*\<close> is any
  one character.  Two aware datetimes compare by the instant they denote, counted here in
  microseconds.
\<close>

record datetime =
  dt_local :: int
  dt_offset :: "int option"

definition all_dec :: "string \<Rightarrow> bool" where
  "all_dec s = list_all is_dec s"

definition num_of :: "string \<Rightarrow> int" where
  "num_of s = digits_val s"

definition leap_year :: "int \<Rightarrow> bool" where
  "leap_year y = (y mod 4 = 0 \<and> (y mod 100 \<noteq> 0 \<or> y mod 400 = 0))"

definition days_in_month :: "int \<Rightarrow> int \<Rightarrow> int" where
  "days_in_month y m =
     (if m = 2 then (if leap_year y then 29 else 28)
      else if m = 4 \<or> m = 6 \<or> m = 9 \<or> m = 11 then 30 else 31)"

definition days_before_month :: "int \<Rightarrow> int \<Rightarrow> int" where
  "days_before_month y m = sum_list (map (\<lambda>k. days_in_month y (int k)) [1..<nat m])"

definition days_before_year :: "int \<Rightarrow> int" where
  "days_before_year y = (y - 1) * 365 + (y - 1) div 4 - (y - 1) div 100 + (y - 1) div 400"

text \<open>\<^verbatim>\<open>YYYY-MM-DD\<close> as a day number.\<close>

definition parse_date :: "string \<Rightarrow> int option" where
  "parse_date s =
     (if length s = 10 \<and> all_dec (take 4 s) \<and> s ! 4 = CHR ''-'' \<and> all_dec (take 2 (drop 5 s))
         \<and> s ! 7 = CHR ''-'' \<and> all_dec (drop 8 s)
      then let y = num_of (take 4 s); m = num_of (take 2 (drop 5 s)); d = num_of (drop 8 s)
        in if 1 \<le> y \<and> 1 \<le> m \<and> m \<le> 12 \<and> 1 \<le> d \<and> d \<le> days_in_month y m
           then Some (days_before_year y + days_before_month y m + d) else None
      else None)"

text \<open>\<^verbatim>\<open>HH[:MM[:SS[.fff[fff]]]]\<close> as microseconds.\<close>

definition parse_seconds :: "string \<Rightarrow> int option" where
  "parse_seconds s =
     (case split_on (CHR ''.'') s of
        [ss] \<Rightarrow> if length ss = 2 \<and> all_dec ss \<and> num_of ss < 60 then Some (num_of ss * 1000000) else None
      | [ss, ff] \<Rightarrow>
          if length ss = 2 \<and> all_dec ss \<and> num_of ss < 60 \<and> all_dec ff
             \<and> (length ff = 3 \<or> length ff = 6)
          then Some (num_of ss * 1000000 + num_of ff * (if length ff = 3 then 1000 else 1))
          else None
      | _ \<Rightarrow> None)"

definition parse_field :: "string \<Rightarrow> int \<Rightarrow> int option" where
  "parse_field s bound = (if length s = 2 \<and> all_dec s \<and> num_of s < bound then Some (num_of s) else None)"

definition parse_hms :: "string \<Rightarrow> int option" where
  "parse_hms s =
     (case split_on (CHR '':'') s of
        [h] \<Rightarrow> map_option (\<lambda>h. h * 3600000000) (parse_field h 24)
      | [h, m] \<Rightarrow> (case (parse_field h 24, parse_field m 60) of
          (Some h, Some m) \<Rightarrow> Some (h * 3600000000 + m * 60000000) | _ \<Rightarrow> None)
      | [h, m, s] \<Rightarrow> (case (parse_field h 24, parse_field m 60, parse_seconds s) of
          (Some h, Some m, Some u) \<Rightarrow> Some (h * 3600000000 + m * 60000000 + u) | _ \<Rightarrow> None)
      | _ \<Rightarrow> None)"

definition is_sign :: "char \<Rightarrow> bool" where
  "is_sign c = (c = CHR ''+'' \<or> c = CHR ''-'')"

definition parse_offset :: "string \<Rightarrow> int option" where
  "parse_offset s =
     (case s of [] \<Rightarrow> None
      | c # r \<Rightarrow> if length s = 6 \<or> length s = 9 \<or> length s = 16
          then map_option (\<lambda>u. if c = CHR ''-'' then - u else u) (parse_hms r) else None)"

text \<open>The separator is one character: one to four bytes.\<close>

definition char_width :: "char \<Rightarrow> nat" where
  "char_width c = (if byte c < 128 then 1 else if byte c < 224 then 2 else if byte c < 240 then 3 else 4)"

definition fromisoformat :: "string \<Rightarrow> datetime option" where
  "fromisoformat s =
     (case parse_date (take 10 s) of None \<Rightarrow> None
      | Some day \<Rightarrow>
          (case drop 10 s of [] \<Rightarrow> Some \<lparr>dt_local = day * 86400000000, dt_offset = None\<rparr>
           | c # _ \<Rightarrow>
               let t = drop (10 + char_width c) s;
                   clock = takeWhile (\<lambda>x. \<not> is_sign x) t;
                   zone = dropWhile (\<lambda>x. \<not> is_sign x) t
               in case parse_hms clock of None \<Rightarrow> None
                  | Some u \<Rightarrow>
                      if zone = [] then Some \<lparr>dt_local = day * 86400000000 + u, dt_offset = None\<rparr>
                      else case parse_offset zone of None \<Rightarrow> None
                        | Some z \<Rightarrow> Some \<lparr>dt_local = day * 86400000000 + u, dt_offset = Some z\<rparr>))"

text \<open>The instant an aware datetime denotes; \<^verbatim>\<open><\<close> on two aware datetimes compares instants.\<close>

definition instant :: "datetime \<Rightarrow> int" where
  "instant t = dt_local t - (case dt_offset t of None \<Rightarrow> 0 | Some z \<Rightarrow> z)"

definition is_aware :: "string \<Rightarrow> bool" where
  "is_aware s = (case fromisoformat s of None \<Rightarrow> False | Some t \<Rightarrow> dt_offset t \<noteq> None)"

definition instant_of :: "string \<Rightarrow> int" where
  "instant_of s = (case fromisoformat s of None \<Rightarrow> 0 | Some t \<Rightarrow> instant t)"

lemma example_timestamp:
  "is_aware ''2026-07-23T12:00:00.123456+00:00''"
  "instant_of ''2026-07-23T12:00:00.000000+00:00'' < instant_of ''2026-07-23T12:00:00.123456+00:00''"
  by code_simp+

lemma example_zone_shift:
  "instant_of ''2026-07-23T14:00:00+02:00'' = instant_of ''2026-07-23T12:00:00+00:00''"
  by code_simp

lemma aware_not_blank: "is_aware s \<Longrightarrow> \<not> blank s"
proof -
  assume "is_aware s"
  then obtain day where d: "parse_date (take 10 s) = Some day"
    by (auto simp: is_aware_def fromisoformat_def split: option.splits)
  then have "length (take 10 s) = 10" and a: "all_dec (take 4 (take 10 s))"
    by (auto simp: parse_date_def split: if_splits)
  then have ne: "s \<noteq> []" by auto
  then obtain c cs where s: "s = c # cs" by (cases s) auto
  with a have "is_dec c" by (simp add: all_dec_def)
  with s show ?thesis by (auto simp: blank_def is_dec_def py_space_def)
qed

end
