(* ===== verification/Models.thy ===== *)
theory Models
  imports Json PyTime
begin

text \<open>
  The data of \<^verbatim>\<open>models.py\<close> and its contract primitives: the status enumerations, the artifact
  and prompt references, the plan, configuration and pending-integration dataclasses, and the
  functions \<^verbatim>\<open>_require_*\<close>, \<^verbatim>\<open>_artifact*\<close> and \<^verbatim>\<open>_optional_error\<close> that check one JSON value.
\<close>

section \<open>Enumerations\<close>

datatype run_status =
    CREATED | PLANNING | EXECUTING | GLOBAL_VERIFYING | EVALUATING | REPAIRING | PAUSED | STOPPED
  | SUCCEEDED | FAILED | IMPORTED_READ_ONLY

datatype task_status =
    T_PENDING | T_READY | T_RUNNING | T_READY_TO_INTEGRATE | T_INTEGRATING | T_COMPLETED
  | T_FAILED | T_CANCELLED

datatype attempt_status =
    A_STARTING | A_RUNNING | A_VERIFYING | A_SUCCEEDED | A_FAILED | A_CANCELLED | A_ABANDONED

datatype provider_status = P_RUNNING | P_SUCCEEDED | P_FAILED

datatype evaluation_verdict = PASS | NEEDS_REPAIR | UNVERIFIED | BLOCKED

text \<open>\<^verbatim>\<open>.value\<close> of a member, and the constructor call \<^verbatim>\<open>RunStatus(value)\<close>, which raises for a value
  that names no member.\<close>

fun run_status_value :: "run_status \<Rightarrow> string" where
  "run_status_value CREATED = ''CREATED''"
| "run_status_value PLANNING = ''PLANNING''"
| "run_status_value EXECUTING = ''EXECUTING''"
| "run_status_value GLOBAL_VERIFYING = ''GLOBAL_VERIFYING''"
| "run_status_value EVALUATING = ''EVALUATING''"
| "run_status_value REPAIRING = ''REPAIRING''"
| "run_status_value PAUSED = ''PAUSED''"
| "run_status_value STOPPED = ''STOPPED''"
| "run_status_value SUCCEEDED = ''SUCCEEDED''"
| "run_status_value FAILED = ''FAILED''"
| "run_status_value IMPORTED_READ_ONLY = ''IMPORTED_READ_ONLY''"

definition run_statuses :: "run_status list" where
  "run_statuses =
     [CREATED, PLANNING, EXECUTING, GLOBAL_VERIFYING, EVALUATING, REPAIRING, PAUSED, STOPPED,
      SUCCEEDED, FAILED, IMPORTED_READ_ONLY]"

fun task_status_value :: "task_status \<Rightarrow> string" where
  "task_status_value T_PENDING = ''PENDING''"
| "task_status_value T_READY = ''READY''"
| "task_status_value T_RUNNING = ''RUNNING''"
| "task_status_value T_READY_TO_INTEGRATE = ''READY_TO_INTEGRATE''"
| "task_status_value T_INTEGRATING = ''INTEGRATING''"
| "task_status_value T_COMPLETED = ''COMPLETED''"
| "task_status_value T_FAILED = ''FAILED''"
| "task_status_value T_CANCELLED = ''CANCELLED''"

definition task_statuses :: "task_status list" where
  "task_statuses =
     [T_PENDING, T_READY, T_RUNNING, T_READY_TO_INTEGRATE, T_INTEGRATING, T_COMPLETED, T_FAILED,
      T_CANCELLED]"

fun attempt_status_value :: "attempt_status \<Rightarrow> string" where
  "attempt_status_value A_STARTING = ''STARTING''"
| "attempt_status_value A_RUNNING = ''RUNNING''"
| "attempt_status_value A_VERIFYING = ''VERIFYING''"
| "attempt_status_value A_SUCCEEDED = ''SUCCEEDED''"
| "attempt_status_value A_FAILED = ''FAILED''"
| "attempt_status_value A_CANCELLED = ''CANCELLED''"
| "attempt_status_value A_ABANDONED = ''ABANDONED''"

definition attempt_statuses :: "attempt_status list" where
  "attempt_statuses =
     [A_STARTING, A_RUNNING, A_VERIFYING, A_SUCCEEDED, A_FAILED, A_CANCELLED, A_ABANDONED]"

fun verdict_value :: "evaluation_verdict \<Rightarrow> string" where
  "verdict_value PASS = ''PASS''"
| "verdict_value NEEDS_REPAIR = ''NEEDS_REPAIR''"
| "verdict_value UNVERIFIED = ''UNVERIFIED''"
| "verdict_value BLOCKED = ''BLOCKED''"

definition verdicts :: "evaluation_verdict list" where
  "verdicts = [PASS, NEEDS_REPAIR, UNVERIFIED, BLOCKED]"

definition enum_of :: "('e \<Rightarrow> string) \<Rightarrow> 'e list \<Rightarrow> json \<Rightarrow> 'e result" where
  "enum_of value members v =
     (case find (\<lambda>m. v = JStr (value m)) members of
        None \<Rightarrow> Inl ContractError | Some m \<Rightarrow> Inr m)"

definition RunStatus :: "json \<Rightarrow> run_status result" where
  "RunStatus v = enum_of run_status_value run_statuses v"

definition TaskStatus :: "json \<Rightarrow> task_status result" where
  "TaskStatus v = enum_of task_status_value task_statuses v"

definition AttemptStatus :: "json \<Rightarrow> attempt_status result" where
  "AttemptStatus v = enum_of attempt_status_value attempt_statuses v"

definition EvaluationVerdict :: "json \<Rightarrow> evaluation_verdict result" where
  "EvaluationVerdict v = enum_of verdict_value verdicts v"

lemma run_status_value_inj [simp]: "run_status_value a = run_status_value b \<longleftrightarrow> a = b"
  by (cases a; cases b) simp_all

lemma task_status_value_inj [simp]: "task_status_value a = task_status_value b \<longleftrightarrow> a = b"
  by (cases a; cases b) simp_all

lemma attempt_status_value_inj [simp]: "attempt_status_value a = attempt_status_value b \<longleftrightarrow> a = b"
  by (cases a; cases b) simp_all

lemma enum_of_Inr:
  assumes "inj value" and "m \<in> set members"
  shows "enum_of value members v = Inr m \<longleftrightarrow> v = JStr (value m)"
proof
  assume "enum_of value members v = Inr m"
  then show "v = JStr (value m)"
    by (auto simp: enum_of_def find_Some_iff split: option.splits)
next
  assume v: "v = JStr (value m)"
  have "find (\<lambda>m'. v = JStr (value m')) members = Some m"
    using assms v by (induction members) (auto simp: inj_eq)
  then show "enum_of value members v = Inr m"
    by (simp add: enum_of_def)
qed

lemma enum_of_error: "enum_of value members v = Inl e \<Longrightarrow> e = ContractError"
  by (auto simp: enum_of_def split: option.splits)

lemma RunStatus_Inr: "RunStatus v = Inr m \<longleftrightarrow> v = JStr (run_status_value m)"
  unfolding RunStatus_def
  by (rule enum_of_Inr) (auto simp: inj_def run_statuses_def, cases m, simp_all)

lemma TaskStatus_Inr: "TaskStatus v = Inr m \<longleftrightarrow> v = JStr (task_status_value m)"
  unfolding TaskStatus_def
  by (rule enum_of_Inr) (auto simp: inj_def task_statuses_def, cases m, simp_all)

lemma AttemptStatus_Inr: "AttemptStatus v = Inr m \<longleftrightarrow> v = JStr (attempt_status_value m)"
  unfolding AttemptStatus_def
  by (rule enum_of_Inr) (auto simp: inj_def attempt_statuses_def, cases m, simp_all)

lemma enum_value_parse [simp]:
  "RunStatus (JStr (run_status_value m)) = Inr m"
  "TaskStatus (JStr (task_status_value t)) = Inr t"
  "AttemptStatus (JStr (attempt_status_value a)) = Inr a"
  by (simp_all add: RunStatus_Inr TaskStatus_Inr AttemptStatus_Inr)

section \<open>Dataclasses\<close>

record artifact_ref =
  ar_path :: string
  ar_sha256 :: string

definition artifact_as_dict :: "artifact_ref \<Rightarrow> json" where
  "artifact_as_dict r = JObj [(''path'', JStr (ar_path r)), (''sha256'', JStr (ar_sha256 r))]"

record prompt_ref =
  pr_id :: string
  pr_version :: int
  pr_sha256 :: string

definition prompt_as_dict :: "prompt_ref \<Rightarrow> json" where
  "prompt_as_dict r =
     JObj [(''id'', JStr (pr_id r)), (''version'', JInt (pr_version r)),
           (''sha256'', JStr (pr_sha256 r))]"

record command_spec =
  cs_id :: string
  cs_purpose :: string
  cs_argv :: "string list"
  cs_cwd :: string
  cs_timeout_seconds :: int
  cs_env_allowlist :: "string list"

definition jstrs :: "string list \<Rightarrow> json" where
  "jstrs xs = JList (map JStr xs)"

definition command_as_dict :: "command_spec \<Rightarrow> json" where
  "command_as_dict c =
     JObj [(''id'', JStr (cs_id c)), (''purpose'', JStr (cs_purpose c)),
           (''argv'', jstrs (cs_argv c)), (''cwd'', JStr (cs_cwd c)),
           (''timeout_seconds'', JInt (cs_timeout_seconds c)),
           (''env_allowlist'', jstrs (cs_env_allowlist c))]"

record command_authorization =
  ca_mode :: string
  ca_source_path :: "string option"
  ca_source_sha256 :: string

definition jopt :: "string option \<Rightarrow> json" where
  "jopt x = (case x of None \<Rightarrow> JNull | Some s \<Rightarrow> JStr s)"

definition authorization_as_dict :: "command_authorization \<Rightarrow> json" where
  "authorization_as_dict a =
     JObj [(''mode'', JStr (ca_mode a)), (''source_path'', jopt (ca_source_path a)),
           (''source_sha256'', JStr (ca_source_sha256 a))]"

record frozen_run_config =
  provider_name :: string
  max_workers :: int
  task_attempts :: int
  provider_retries :: int
  evidence_rounds :: int
  repair_rounds :: int
  max_plan_tasks :: int
  command_catalog :: "command_spec list"
  required_command_ids :: "string list"
  command_auth :: command_authorization

definition config_as_dict :: "frozen_run_config \<Rightarrow> json" where
  "config_as_dict c =
     JObj [(''provider'', JObj [(''name'', JStr (provider_name c))]),
           (''scheduler'', JObj [(''max_workers'', JInt (max_workers c))]),
           (''limits'', JObj [(''task_attempts'', JInt (task_attempts c)),
              (''provider_retries'', JInt (provider_retries c)),
              (''evidence_rounds'', JInt (evidence_rounds c)),
              (''repair_rounds'', JInt (repair_rounds c)),
              (''max_plan_tasks'', JInt (max_plan_tasks c))]),
           (''verification'', JObj [
              (''command_catalog'', JList (map command_as_dict (command_catalog c))),
              (''required_command_ids'', jstrs (required_command_ids c)),
              (''authorization'', authorization_as_dict (command_auth c))])]"

record acceptance_criterion =
  ac_id :: string
  ac_description :: string

record task_contract =
  tc_id :: string
  tc_objective :: string
  tc_worker_type :: string
  tc_covers :: "string list"
  tc_depends_on :: "string list"
  tc_path_scope :: "string list"
  tc_exclusive_resources :: "string list"
  tc_acceptance_checks :: "string list"
  tc_max_attempts :: int

record plan_document =
  pd_schema_version :: int
  pd_plan_version :: int
  pd_summary :: string
  pd_acceptance_criteria :: "acceptance_criterion list"
  pd_global_verification :: "string list"
  pd_tasks :: "task_contract list"

record pending_integration =
  pi_operation_id :: string
  pi_task_id :: string
  pi_attempt_no :: int
  pi_expected_head :: string
  pi_candidate_head :: string
  pi_source_base :: string
  pi_source_head :: string
  pi_verification :: artifact_ref

definition pending_as_dict :: "pending_integration \<Rightarrow> json" where
  "pending_as_dict p =
     JObj [(''operation_id'', JStr (pi_operation_id p)), (''task_id'', JStr (pi_task_id p)),
           (''attempt_no'', JInt (pi_attempt_no p)),
           (''expected_head'', JStr (pi_expected_head p)),
           (''candidate_head'', JStr (pi_candidate_head p)),
           (''source_base'', JStr (pi_source_base p)), (''source_head'', JStr (pi_source_head p)),
           (''verification'', artifact_as_dict (pi_verification p))]"

record stop_request =
  sr_run_id :: string
  sr_observed_revision :: int
  sr_controller_token :: string
  sr_requested_at :: string
  sr_nonce :: string

definition stop_request_as_dict :: "stop_request \<Rightarrow> json" where
  "stop_request_as_dict r =
     JObj [(''run_id'', JStr (sr_run_id r)), (''observed_revision'', JInt (sr_observed_revision r)),
           (''controller_token'', JStr (sr_controller_token r)),
           (''requested_at'', JStr (sr_requested_at r)), (''nonce'', JStr (sr_nonce r))]"

record stop_receipt =
  sp_request :: stop_request
  sp_outcome :: string
  sp_stopped_tokens :: "string list"
  sp_forced_tokens :: "string list"
  sp_completed_at :: string

definition stop_receipt_as_dict :: "stop_receipt \<Rightarrow> json result" where
  "stop_receipt_as_dict r =
     (if sp_outcome r \<notin> {''STOPPED'', ''IGNORED_STALE_CONTROLLER''} then Inl ContractError
      else Inr (JObj [(''request'', stop_request_as_dict (sp_request r)),
           (''outcome'', JStr (sp_outcome r)), (''stopped_tokens'', jstrs (sp_stopped_tokens r)),
           (''forced_tokens'', jstrs (sp_forced_tokens r)),
           (''completed_at'', JStr (sp_completed_at r))]))"

section \<open>Identifier patterns\<close>

definition DIGEST_RE :: "string \<Rightarrow> bool" where
  "DIGEST_RE s = (take 7 s = ''sha256:'' \<and> length s = 71 \<and> list_all is_hex (drop 7 s))"

definition OID_RE :: "string \<Rightarrow> bool" where
  "OID_RE s = ((length s = 40 \<or> length s = 64) \<and> list_all is_hex s)"

definition RUN_ID_RE :: "string \<Rightarrow> bool" where
  "RUN_ID_RE s =
     (let cs = codepoints s
      in length cs = 16 \<and> take 4 cs = map byte ''RUN-'' \<and> list_all py_digit (take 8 (drop 4 cs))
         \<and> cs ! 12 = byte (CHR ''-'') \<and> list_all py_digit (drop 13 cs))"

definition TASK_ID_RE :: "string \<Rightarrow> bool" where
  "TASK_ID_RE s = re_tagged ''TASK-'' 3 s"

definition ACCEPTANCE_ID_RE :: "string \<Rightarrow> bool" where
  "ACCEPTANCE_ID_RE s = re_tagged ''AC-'' 3 s"

definition OPERATION_ID_RE :: "string \<Rightarrow> bool" where
  "OPERATION_ID_RE s =
     re_ident is_alnum (\<lambda>c. is_alnum c \<or> c = CHR ''_'' \<or> c = CHR ''-'') 127 s"

section \<open>Contract primitives\<close>

definition require_plain_int :: "json \<Rightarrow> int \<Rightarrow> int result" where
  "require_plain_int v minimum =
     (case v of JInt i \<Rightarrow> if i < minimum then Inl ContractError else Inr i
      | _ \<Rightarrow> Inl ContractError)"

definition require_string :: "json \<Rightarrow> string result" where
  "require_string v =
     (case v of JStr s \<Rightarrow>
        if blank s then Inl ContractError
        else if has_surrogate s then Inl ContractError else Inr s
      | _ \<Rightarrow> Inl ContractError)"

definition require_exact_fields :: "json \<Rightarrow> string list \<Rightarrow> json result" where
  "require_exact_fields v expected =
     (if \<not> is_obj v then Inl ContractError
      else if set (jkeys v) \<noteq> set expected then Inl ContractError
      else Inr v)"

definition require_rfc3339 :: "json \<Rightarrow> string result" where
  "require_rfc3339 v =
     bnd (require_string v) (\<lambda>text.
       case fromisoformat text of None \<Rightarrow> Inl ContractError
       | Some parsed \<Rightarrow> if dt_offset parsed = None then Inl ContractError else Inr text)"

definition require_oid :: "json \<Rightarrow> string result" where
  "require_oid v =
     bnd (require_string v) (\<lambda>text. if \<not> OID_RE text then Inl ContractError else Inr text)"

definition bad_artifact_path :: "string \<Rightarrow> bool" where
  "bad_artifact_path raw_path =
     (let parts = posix_parts raw_path
      in parts = [] \<or> is_absolute raw_path \<or> ''..'' \<in> set parts \<or> ''.'' \<in> set parts
         \<or> raw_path \<noteq> as_posix raw_path \<or> hd parts \<in> {''state.json'', ''controller.lock''})"

definition artifact :: "json \<Rightarrow> artifact_ref result" where
  "artifact v =
     bnd (require_exact_fields v [''path'', ''sha256'']) (\<lambda>raw.
     bnd (require_string (sub raw ''path'')) (\<lambda>raw_path.
     if bad_artifact_path raw_path then Inl ContractError
     else bnd (require_string (sub raw ''sha256'')) (\<lambda>digest.
     if \<not> DIGEST_RE digest then Inl ContractError
     else Inr \<lparr>ar_path = raw_path, ar_sha256 = digest\<rparr>)))"

definition optional_artifact :: "json \<Rightarrow> artifact_ref option result" where
  "optional_artifact v =
     (if v = JNull then Inr None else bnd (artifact v) (\<lambda>r. Inr (Some r)))"

text \<open>The loop that refuses one path with two digests.\<close>

definition note_reference :: "(string, string) dict \<Rightarrow> artifact_ref \<Rightarrow> (string, string) dict result" where
  "note_reference paths r =
     (case map_of paths (ar_path r) of
        Some previous \<Rightarrow>
          if previous \<noteq> ar_sha256 r then Inl ContractError
          else Inr (AList.update (ar_path r) (ar_sha256 r) paths)
      | None \<Rightarrow> Inr (AList.update (ar_path r) (ar_sha256 r) paths))"

definition artifact_list :: "json \<Rightarrow> artifact_ref list result" where
  "artifact_list v =
     (if \<not> is_list v then Inl ContractError
      else bnd (mapr artifact (elems v)) (\<lambda>references.
           bnd (foldr_r note_reference [] references) (\<lambda>_. Inr references)))"

definition optional_error :: "json \<Rightarrow> json result" where
  "optional_error v =
     (if v = JNull then Inr JNull
      else if \<not> is_obj v then Inl ContractError
      else if \<not> {''code'', ''message'', ''retryable''} \<subseteq> set (jkeys v)
              \<or> \<not> set (jkeys v) \<subseteq> {''code'', ''message'', ''retryable'', ''evidence''}
      then Inl ContractError
      else bnd (checks
        [void (require_string (sub v ''code'')),
         void (require_string (sub v ''message'')),
         chk (is_bool (sub v ''retryable'')),
         if has_key v ''evidence'' then void (artifact (sub v ''evidence'')) else Inr ()])
        (\<lambda>_. Inr v))"

definition require_relative_path :: "json \<Rightarrow> string result" where
  "require_relative_path v =
     bnd (require_string v) (\<lambda>raw.
       let parts = posix_parts raw
       in if is_absolute raw \<or> parts = [] \<or> ''.'' \<in> set parts \<or> ''..'' \<in> set parts
             \<or> raw \<noteq> as_posix raw
          then Inl ContractError else Inr raw)"

end
