(* ===== verification/RunState.thy ===== *)
theory RunState
  imports Models
begin

text \<open>
  The Schema 4 run-state contract of \<^verbatim>\<open>models.py\<close>: \<^verbatim>\<open>validate_run_state\<close> and the checks it is
  composed of, in the order of the source.  A check returns, or raises \<open>ContractError\<close>; the
  only other exception is the \<open>TypeError\<close> of a set membership test on an unhashable role.
\<close>

section \<open>Field tables\<close>

definition RUN_FIELDS :: "string list" where
  "RUN_FIELDS =
     [''schema_version'', ''run_id'', ''revision'', ''goal'', ''repository'', ''status'',
      ''resume_status'', ''plan_version'', ''repair_round'', ''max_repair_rounds'',
      ''max_workers'', ''controller'', ''creation'', ''config'', ''artifact_index'', ''plans'',
      ''role_attempts'', ''role_runtime'', ''evaluations'', ''verifications'',
      ''legacy_import'', ''tasks'', ''pending_dispatches'', ''pending_source_commit'',
      ''pending_integration'', ''pending_evaluation'', ''latest_evaluation'',
      ''global_verification'', ''stop_receipts'', ''last_error'', ''created_at'',
      ''updated_at'']"

definition TASK_FIELDS :: "string list" where
  "TASK_FIELDS =
     [''task'', ''status'', ''attempt_no'', ''failure_count'', ''max_attempts'',
      ''active_attempt'', ''attempts'', ''result'', ''verification'', ''source_commits'',
      ''integrated_commits'', ''last_error'']"

definition ACTIVE_ATTEMPT_FIELDS :: "string list" where
  "ACTIVE_ATTEMPT_FIELDS =
     [''attempt_token'', ''status'', ''created_at'', ''task_base_sha'', ''branch'',
      ''worktree'', ''preflight'', ''provider_handle'', ''result_path'']"

definition PROVIDER_HANDLE_FIELDS :: "string list" where
  "PROVIDER_HANDLE_FIELDS =
     [''adapter'', ''attempt_token'', ''pid'', ''process_start_identity'', ''process_group'',
      ''child_pid'', ''child_process_start_identity'', ''child_process_group'']"

definition PENDING_DISPATCH_FIELDS :: "string list" where
  "PENDING_DISPATCH_FIELDS =
     [''attempt_token'', ''role'', ''operation_id'', ''task_id'', ''attempt_no'',
      ''attempt_created_at'', ''provider_retry_no'', ''expected_base'', ''branch'',
      ''worktree'', ''provider_prefix'', ''prompt'', ''schema'', ''preflight'',
      ''prompt_versions'', ''request'', ''launch_path'', ''stdout_path'', ''stderr_path'',
      ''exit_path'', ''result_path'', ''launch'', ''stdout'', ''stderr'', ''exit'',
      ''result'', ''provider_attempts'', ''provider_handle'', ''prepared_revision'']"

section \<open>Repository, controller, provider handle, role runtime\<close>

definition validate_repository :: "json \<Rightarrow> string \<Rightarrow> unit result" where
  "validate_repository v run_id =
     bnd (require_exact_fields v
       [''identity'', ''base_ref'', ''base_sha'', ''integration_ref'', ''integration_head''])
     (\<lambda>repository.
     bnd (require_string (sub repository ''identity'')) (\<lambda>identity.
     bnd (chk (DIGEST_RE identity)) (\<lambda>_.
     bnd (require_string (sub repository ''base_ref'')) (\<lambda>base_ref.
     checks
       [chk (base_ref = ''HEAD'' \<or> startswith base_ref ''refs/'' \<or> OID_RE base_ref),
        void (require_oid (sub repository ''base_sha'')),
        void (require_oid (sub repository ''integration_head'')),
        chk (sub repository ''integration_ref'' = JStr (''refs/heads/vibe/run-'' @ run_id))]))))"

definition validate_controller :: "json \<Rightarrow> unit result" where
  "validate_controller v =
     (if v = JNull then Inr ()
      else bnd (require_exact_fields v
        [''pid'', ''process_start_identity'', ''process_group'', ''controller_token''])
      (\<lambda>controller. checks
        [void (require_plain_int (sub controller ''pid'') 1),
         void (require_plain_int (sub controller ''process_group'') 1),
         void (require_string (sub controller ''process_start_identity'')),
         void (require_string (sub controller ''controller_token''))]))"

definition validate_provider_handle :: "json \<Rightarrow> json result" where
  "validate_provider_handle v =
     (if v = JNull then Inr JNull
      else bnd (require_exact_fields v PROVIDER_HANDLE_FIELDS) (\<lambda>handle.
      bnd (checks
        [void (require_string (sub handle ''adapter'')),
         void (require_string (sub handle ''attempt_token'')),
         forr (\<lambda>name. void (require_plain_int (sub handle name) 1))
           [''pid'', ''process_group'', ''child_pid'', ''child_process_group''],
         forr (\<lambda>name. void (require_string (sub handle name)))
           [''process_start_identity'', ''child_process_start_identity'']])
      (\<lambda>_. Inr handle)))"

definition validate_runtime_of :: "json \<Rightarrow> unit result" where
  "validate_runtime_of v =
     bnd (require_exact_fields v
       [''operation_id'', ''attempt_no'', ''failure_count'', ''max_attempts'',
        ''active_attempt_token'', ''last_error''])
     (\<lambda>runtime.
     let operation_id = sub runtime ''operation_id'' in
     bnd (if operation_id \<noteq> JNull
          then bnd (require_string operation_id) (\<lambda>operation. chk (OPERATION_ID_RE operation))
          else Inr ()) (\<lambda>_.
     bnd (require_plain_int (sub runtime ''attempt_no'') 0) (\<lambda>attempt_no.
     bnd (require_plain_int (sub runtime ''failure_count'') 0) (\<lambda>failures.
     bnd (require_plain_int (sub runtime ''max_attempts'') 1) (\<lambda>maximum.
     bnd (chk (\<not> failures > maximum)) (\<lambda>_.
     let token = sub runtime ''active_attempt_token'' in
     bnd (if token \<noteq> JNull
          then bnd (require_string token) (\<lambda>_.
               chk (\<not> (operation_id = JNull \<or> attempt_no < 1)))
          else Inr ()) (\<lambda>_.
     void (optional_error (sub runtime ''last_error'')))))))))"

definition validate_role_runtime :: "json \<Rightarrow> unit result" where
  "validate_role_runtime v =
     bnd (require_exact_fields v [''planner'', ''evaluator'']) (\<lambda>roles.
       forr (\<lambda>role. validate_runtime_of (sub roles role)) [''planner'', ''evaluator''])"

section \<open>Tasks\<close>

definition validate_active_attempt :: "json \<Rightarrow> json result" where
  "validate_active_attempt v =
     (if v = JNull then Inr JNull
      else bnd (require_exact_fields v ACTIVE_ATTEMPT_FIELDS) (\<lambda>active.
      bnd (require_string (sub active ''attempt_token'')) (\<lambda>_.
      bnd (AttemptStatus (sub active ''status'')) (\<lambda>status.
      bnd (require_rfc3339 (sub active ''created_at'')) (\<lambda>_.
      bnd (require_oid (sub active ''task_base_sha'')) (\<lambda>_.
      bnd (require_string (sub active ''branch'')) (\<lambda>branch.
      bnd (chk (startswith branch ''refs/heads/vibe/'')) (\<lambda>_.
      bnd (require_relative_path (sub active ''worktree'')) (\<lambda>_.
      bnd (require_relative_path (sub active ''result_path'')) (\<lambda>_.
      bnd (optional_artifact (sub active ''preflight'')) (\<lambda>preflight.
      bnd (validate_provider_handle (sub active ''provider_handle'')) (\<lambda>handle.
      bnd (chk (\<not> (preflight = None \<and> status \<noteq> A_STARTING))) (\<lambda>_.
      bnd (chk (\<not> (handle \<noteq> JNull
             \<and> \<not> py_eq (sub handle ''attempt_token'') (sub active ''attempt_token'')))) (\<lambda>_.
      Inr active))))))))))))))"

text \<open>The fields that have to agree with the status of a task.\<close>

definition task_coherent ::
  "task_status \<Rightarrow> json \<Rightarrow> artifact_ref list \<Rightarrow> artifact_ref option \<Rightarrow> artifact_ref option
   \<Rightarrow> json \<Rightarrow> unit result" where
  "task_coherent status active attempts result verification task =
     (if status \<in> {T_PENDING, T_READY} then
        chk (\<not> (active \<noteq> JNull \<or> result \<noteq> None \<or> verification \<noteq> None))
      else if status = T_RUNNING then
        bnd (chk (\<not> (active = JNull \<or> verification \<noteq> None))) (\<lambda>_.
        if sub active ''status'' = JStr (attempt_status_value A_VERIFYING) then
          chk (\<not> (result = None \<or> sub active ''provider_handle'' \<noteq> JNull))
        else chk (\<not> result \<noteq> None))
      else if status = T_READY_TO_INTEGRATE then
        chk (\<not> (active = JNull
          \<or> sub active ''status'' \<noteq> JStr (attempt_status_value A_VERIFYING)
          \<or> result = None \<or> verification \<noteq> None
          \<or> length (elems (sub task ''source_commits'')) \<noteq> 1))
      else if status = T_INTEGRATING then
        chk (\<not> (active \<noteq> JNull \<or> attempts = [] \<or> result = None \<or> verification = None))
      else if status = T_COMPLETED then
        chk (\<not> (active \<noteq> JNull \<or> attempts = [] \<or> result = None \<or> verification = None
          \<or> elems (sub task ''source_commits'') = [] \<or> elems (sub task ''integrated_commits'') = []))
      else if status \<in> {T_FAILED, T_CANCELLED} then
        chk (\<not> (active \<noteq> JNull \<or> attempts = []))
      else Inr ())"

definition validate_oid_list :: "json \<Rightarrow> unit result" where
  "validate_oid_list v =
     (if \<not> is_list v then Inl ContractError else forr (\<lambda>oid. void (require_oid oid)) (elems v))"

definition validate_task :: "string \<Rightarrow> json \<Rightarrow> unit result" where
  "validate_task task_id v =
     bnd (chk (TASK_ID_RE task_id)) (\<lambda>_.
     bnd (require_exact_fields v TASK_FIELDS) (\<lambda>task.
     bnd (artifact (sub task ''task'')) (\<lambda>_.
     bnd (TaskStatus (sub task ''status'')) (\<lambda>status.
     bnd (require_plain_int (sub task ''attempt_no'') 0) (\<lambda>attempt_no.
     bnd (require_plain_int (sub task ''failure_count'') 0) (\<lambda>failures.
     bnd (require_plain_int (sub task ''max_attempts'') 1) (\<lambda>maximum.
     bnd (chk (\<not> failures > maximum)) (\<lambda>_.
     bnd (validate_active_attempt (sub task ''active_attempt'')) (\<lambda>active.
     bnd (artifact_list (sub task ''attempts'')) (\<lambda>attempts.
     bnd (optional_artifact (sub task ''result'')) (\<lambda>result.
     bnd (optional_artifact (sub task ''verification'')) (\<lambda>verification.
     bnd (forr (\<lambda>name. validate_oid_list (sub task name))
            [''source_commits'', ''integrated_commits'']) (\<lambda>_.
     bnd (optional_error (sub task ''last_error'')) (\<lambda>_.
     bnd (task_coherent status active attempts result verification task) (\<lambda>_.
     chk (\<not> (active \<noteq> JNull \<and> attempt_no < 1)))))))))))))))))"

section \<open>Pending dispatches and prepared markers\<close>

text \<open>\<^verbatim>\<open>value in {"a", ...}\<close> for a set of strings: a list or dictionary is unhashable.\<close>

definition in_str_set :: "json \<Rightarrow> string list \<Rightarrow> bool result" where
  "in_str_set v names =
     (case v of JList _ \<Rightarrow> Inl TypeError | JObj _ \<Rightarrow> Inl TypeError
      | JStr s \<Rightarrow> Inr (s \<in> set names) | _ \<Rightarrow> Inr False)"

definition validate_worker_dispatch :: "string \<Rightarrow> json \<Rightarrow> json \<Rightarrow> unit result" where
  "validate_worker_dispatch token pending state =
     (let task_id = sub pending ''task_id'' in
      bnd (chk (is_str task_id \<and> has_key (sub state ''tasks'') (str_of task_id))) (\<lambda>_.
      bnd (chk (is_str (sub pending ''branch''))) (\<lambda>_.
      let active = sub (sub (sub state ''tasks'') (str_of task_id)) ''active_attempt'' in
      checks
        [chk (\<not> (active = JNull \<or> sub active ''attempt_token'' \<noteq> JStr token)),
         chk (py_eq (sub active ''preflight'') (sub pending ''preflight'')),
         chk (py_eq (sub active ''provider_handle'') (sub pending ''provider_handle''))])))"

definition validate_readonly_dispatch :: "string \<Rightarrow> string \<Rightarrow> json \<Rightarrow> json \<Rightarrow> unit result" where
  "validate_readonly_dispatch role token pending state =
     bnd (chk (\<not> (sub pending ''task_id'' \<noteq> JNull \<or> sub pending ''branch'' \<noteq> JNull))) (\<lambda>_.
     let runtime = sub (sub state ''role_runtime'') role in
     chk (\<not> (sub runtime ''active_attempt_token'' \<noteq> JStr token
       \<or> \<not> py_eq (sub runtime ''operation_id'') (sub pending ''operation_id''))))"

definition validate_pending_dispatch :: "string \<Rightarrow> json \<Rightarrow> json \<Rightarrow> unit result" where
  "validate_pending_dispatch token v state =
     bnd (require_exact_fields v PENDING_DISPATCH_FIELDS) (\<lambda>pending.
     bnd (chk (sub pending ''attempt_token'' = JStr token)) (\<lambda>_.
     let role = sub pending ''role'' in
     bnd (in_str_set role [''planner'', ''worker'', ''evaluator'']) (\<lambda>known.
     bnd (chk known) (\<lambda>_.
     bnd (checks
       [void (require_string (sub pending ''operation_id'')),
        void (require_plain_int (sub pending ''attempt_no'') 1),
        void (require_plain_int (sub pending ''provider_retry_no'') 0),
        void (require_plain_int (sub pending ''prepared_revision'') 1),
        void (require_rfc3339 (sub pending ''attempt_created_at'')),
        void (require_oid (sub pending ''expected_base'')),
        void (require_relative_path (sub pending ''worktree'')),
        void (require_relative_path (sub pending ''provider_prefix'')),
        forr (\<lambda>name. void (require_relative_path (sub pending name)))
          [''launch_path'', ''stdout_path'', ''stderr_path'', ''exit_path'', ''result_path''],
        forr (\<lambda>name. void (artifact (sub pending name)))
          [''prompt'', ''schema'', ''preflight'', ''request''],
        forr (\<lambda>name. void (optional_artifact (sub pending name)))
          [''launch'', ''stdout'', ''stderr'', ''exit'', ''result''],
        void (artifact_list (sub pending ''provider_attempts'')),
        chk (is_list (sub pending ''prompt_versions''))]) (\<lambda>_.
     bnd (validate_provider_handle (sub pending ''provider_handle'')) (\<lambda>handle.
     bnd (chk (\<not> (handle \<noteq> JNull \<and> sub handle ''attempt_token'' \<noteq> JStr token))) (\<lambda>_.
     if role = JStr ''worker'' then validate_worker_dispatch token pending state
     else validate_readonly_dispatch (str_of role) token pending state)))))))"

definition validate_source_marker :: "json \<Rightarrow> json \<Rightarrow> unit result" where
  "validate_source_marker source state =
     bnd (require_exact_fields source
       [''operation_id'', ''task_id'', ''attempt_no'', ''expected_base'', ''task_ref'',
        ''tree_oid'', ''candidate_commit'', ''author_name'', ''author_email'', ''timestamp'',
        ''message'', ''source_audit'']) (\<lambda>raw.
     bnd (require_string (sub raw ''task_id'')) (\<lambda>task_id.
     checks
       [chk (has_key (sub state ''tasks'') task_id),
        void (require_plain_int (sub raw ''attempt_no'') 1),
        forr (\<lambda>name. void (require_oid (sub raw name)))
          [''expected_base'', ''tree_oid'', ''candidate_commit''],
        void (require_rfc3339 (sub raw ''timestamp'')),
        void (artifact (sub raw ''source_audit''))]))"

definition validate_integration_marker :: "json \<Rightarrow> json \<Rightarrow> unit result" where
  "validate_integration_marker integration state =
     bnd (require_exact_fields integration
       [''operation_id'', ''task_id'', ''attempt_no'', ''expected_head'', ''candidate_head'',
        ''source_base'', ''source_head'', ''verification'']) (\<lambda>raw.
     bnd (require_string (sub raw ''task_id'')) (\<lambda>task_id.
     checks
       [chk (has_key (sub state ''tasks'') task_id),
        void (require_plain_int (sub raw ''attempt_no'') 1),
        forr (\<lambda>name. void (require_oid (sub raw name)))
          [''expected_head'', ''candidate_head'', ''source_base'', ''source_head''],
        void (artifact (sub raw ''verification''))]))"

definition validate_evaluation_marker :: "json \<Rightarrow> unit result" where
  "validate_evaluation_marker evaluation =
     bnd (require_exact_fields evaluation
       [''operation_id'', ''attempt_no'', ''attempt_token'', ''evaluation_round'',
        ''evidence_round'', ''integration_head'', ''attempt'', ''raw_result'']) (\<lambda>raw.
     checks
       [forr (\<lambda>name. void (require_plain_int (sub raw name) 1)) [''attempt_no'', ''evaluation_round''],
        void (require_plain_int (sub raw ''evidence_round'') 0),
        void (require_oid (sub raw ''integration_head'')),
        void (artifact (sub raw ''attempt'')),
        void (artifact (sub raw ''raw_result''))])"

definition validate_prepared_markers :: "json \<Rightarrow> unit result" where
  "validate_prepared_markers state =
     (let source = sub state ''pending_source_commit'';
          integration = sub state ''pending_integration'';
          evaluation = sub state ''pending_evaluation'' in
      bnd (chk (\<not> length (filter (\<lambda>i. i \<noteq> JNull) [source, integration, evaluation]) > 1)) (\<lambda>_.
      checks
        [if source \<noteq> JNull then validate_source_marker source state else Inr (),
         if integration \<noteq> JNull then validate_integration_marker integration state else Inr (),
         if evaluation \<noteq> JNull then validate_evaluation_marker evaluation else Inr ()]))"

section \<open>The run state\<close>

definition validate_latest_evaluation :: "json \<Rightarrow> unit result" where
  "validate_latest_evaluation latest =
     (if latest = JNull then Inr ()
      else bnd (require_exact_fields latest
        [''evaluation'', ''verdict'', ''evaluation_round'', ''evidence_round'', ''integration_head''])
      (\<lambda>raw. checks
        [void (artifact (sub raw ''evaluation'')),
         void (EvaluationVerdict (sub raw ''verdict'')),
         void (require_plain_int (sub raw ''evaluation_round'') 1),
         void (require_plain_int (sub raw ''evidence_round'') 0),
         void (require_oid (sub raw ''integration_head''))]))"

definition validate_global_verification :: "json \<Rightarrow> unit result" where
  "validate_global_verification v =
     (if v = JNull then Inr ()
      else bnd (require_exact_fields v [''verification'', ''integration_head'', ''passed''])
      (\<lambda>raw. checks
        [void (artifact (sub raw ''verification'')),
         void (require_oid (sub raw ''integration_head'')),
         chk (is_bool (sub raw ''passed''))]))"

definition validate_stop_receipts :: "json \<Rightarrow> unit result" where
  "validate_stop_receipts v =
     (if \<not> is_list v then Inl ContractError
      else forr (\<lambda>entry.
        bnd (require_exact_fields entry [''nonce'', ''receipt'']) (\<lambda>raw.
        checks [void (require_string (sub raw ''nonce'')), void (artifact (sub raw ''receipt''))]))
        (elems v))"

definition static_for_resume :: "run_status list" where
  "static_for_resume = [PAUSED, STOPPED, SUCCEEDED, FAILED, IMPORTED_READ_ONLY]"

definition validate_resume_status :: "json \<Rightarrow> unit result" where
  "validate_resume_status resume_value =
     (if resume_value = JNull then Inr ()
      else bnd (RunStatus resume_value) (\<lambda>resume. chk (resume \<notin> set static_for_resume)))"

text \<open>The closing checks: how \<^verbatim>\<open>status\<close>, \<^verbatim>\<open>resume_status\<close> and the pending work agree.\<close>

definition validate_status_coherence :: "json \<Rightarrow> run_status \<Rightarrow> json \<Rightarrow> unit result" where
  "validate_status_coherence state status last_error =
     (let resume_value = sub state ''resume_status'';
          migration_pause = status = PAUSED \<and> is_obj last_error
            \<and> sub last_error ''code'' \<in> {JStr ''SCHEMA3_REPLAN_REQUIRED'', JStr ''MIGRATION_INSTALLING''} in
      checks
        [if status \<in> {PAUSED, STOPPED}
         then chk (\<not> (resume_value = JNull \<and> \<not> migration_pause))
         else chk (\<not> resume_value \<noteq> JNull),
         chk (\<not> (status \<in> {SUCCEEDED, FAILED, IMPORTED_READ_ONLY}
           \<and> (items (sub state ''pending_dispatches'') \<noteq> []
              \<or> sub state ''pending_source_commit'' \<noteq> JNull
              \<or> sub state ''pending_integration'' \<noteq> JNull
              \<or> sub state ''pending_evaluation'' \<noteq> JNull)))])"

definition validate_histories :: "json \<Rightarrow> unit result" where
  "validate_histories state =
     bnd (require_exact_fields (sub state ''creation'') [''intent'', ''receipt'']) (\<lambda>creation.
     bnd (artifact (sub creation ''intent'')) (\<lambda>_.
     bnd (optional_artifact (sub creation ''receipt'')) (\<lambda>_.
     bnd (artifact (sub state ''config'')) (\<lambda>_.
     bnd (artifact_list (sub state ''artifact_index'')) (\<lambda>artifact_index.
     bnd (foldr_r note_reference [] artifact_index) (\<lambda>_.
     bnd (artifact_list (sub state ''plans'')) (\<lambda>plans.
     bnd (chk (sub state ''plan_version'' = JInt (int (length plans)))) (\<lambda>_.
     bnd (require_exact_fields (sub state ''role_attempts'') [''planner'', ''evaluator'']) (\<lambda>role_attempts.
     checks
       [forr (\<lambda>role. void (artifact_list (sub role_attempts role))) [''planner'', ''evaluator''],
        validate_role_runtime (sub state ''role_runtime''),
        void (artifact_list (sub state ''evaluations'')),
        void (artifact_list (sub state ''verifications'')),
        void (optional_artifact (sub state ''legacy_import''))])))))))))"

definition validate_work :: "json \<Rightarrow> unit result" where
  "validate_work state =
     checks
       [chk (is_obj (sub state ''tasks'')),
        forr (\<lambda>p. validate_task (fst p) (snd p)) (items (sub state ''tasks'')),
        chk (is_obj (sub state ''pending_dispatches'')),
        forr (\<lambda>p. bnd (require_string (JStr (fst p))) (\<lambda>_.
            validate_pending_dispatch (fst p) (snd p) state))
          (items (sub state ''pending_dispatches'')),
        validate_prepared_markers state]"

definition validate_run_state :: "json \<Rightarrow> json result" where
  "validate_run_state v =
     (if \<not> is_obj v then Inl ContractError
      else if \<not> set (jkeys v) \<subseteq> set RUN_FIELDS then Inl ContractError
      else if \<not> set RUN_FIELDS \<subseteq> set (jkeys v) then Inl ContractError
      else let state = v in
      bnd (reject_invalid_json_scalars state) (\<lambda>_.
      bnd (chk (sub state ''schema_version'' = JInt 4)) (\<lambda>_.
      bnd (require_string (sub state ''run_id'')) (\<lambda>run_id.
      bnd (chk (RUN_ID_RE run_id)) (\<lambda>_.
      bnd (require_plain_int (sub state ''revision'') 0) (\<lambda>_.
      bnd (require_string (sub state ''goal'')) (\<lambda>_.
      bnd (validate_repository (sub state ''repository'') run_id) (\<lambda>_.
      bnd (RunStatus (sub state ''status'')) (\<lambda>status.
      bnd (validate_resume_status (sub state ''resume_status'')) (\<lambda>_.
      bnd (checks
        [void (require_plain_int (sub state ''plan_version'') 0),
         void (require_plain_int (sub state ''repair_round'') 0),
         void (require_plain_int (sub state ''max_repair_rounds'') 1),
         void (require_plain_int (sub state ''max_workers'') 1),
         validate_controller (sub state ''controller''),
         validate_histories state,
         validate_work state,
         validate_latest_evaluation (sub state ''latest_evaluation''),
         validate_global_verification (sub state ''global_verification''),
         validate_stop_receipts (sub state ''stop_receipts'')]) (\<lambda>_.
      bnd (optional_error (sub state ''last_error'')) (\<lambda>last_error.
      bnd (require_rfc3339 (sub state ''created_at'')) (\<lambda>created_at.
      bnd (require_rfc3339 (sub state ''updated_at'')) (\<lambda>updated_at.
      bnd (chk (\<not> instant_of updated_at < instant_of created_at)) (\<lambda>_.
      bnd (validate_status_coherence state status last_error) (\<lambda>_.
      Inr state))))))))))))))))"

end
