(* ===== verification/Sample.thy ===== *)
theory Sample
  imports RunState
begin

text \<open>
  Concrete values for the witnesses: the minimal run state of the repository's own tests
  (\<^verbatim>\<open>tests/test_models.py\<close>), with the fields the witnesses vary as arguments.
\<close>

definition hexes :: "char \<Rightarrow> nat \<Rightarrow> string" where
  "hexes c n = replicate n c"

definition sample_oid :: string where
  "sample_oid = hexes (CHR ''a'') 40"

text \<open>The digest of the document \<^verbatim>\<open>{}\<close> and a newline.\<close>

definition sample_digest :: string where
  "sample_digest = ''sha256:ca3d163bab055381827226140568f3bef7eaac187cebd76878e0b63e9e442356''"

definition sample_ref :: "string \<Rightarrow> json" where
  "sample_ref path = JObj [(''path'', JStr path), (''sha256'', JStr sample_digest)]"

definition idle_runtime :: json where
  "idle_runtime =
     JObj [(''operation_id'', JNull), (''attempt_no'', JInt 0), (''failure_count'', JInt 0),
           (''max_attempts'', JInt 3), (''active_attempt_token'', JNull), (''last_error'', JNull)]"

definition sample_repository :: json where
  "sample_repository =
     JObj [(''identity'', JStr (''sha256:'' @ hexes (CHR ''1'') 64)),
           (''base_ref'', JStr ''refs/heads/main''), (''base_sha'', JStr sample_oid),
           (''integration_ref'', JStr ''refs/heads/vibe/run-RUN-20260723-001''),
           (''integration_head'', JStr sample_oid)]"

definition sample_state :: "string \<Rightarrow> json \<Rightarrow> json list \<Rightarrow> (string \<times> json) list \<Rightarrow> json" where
  "sample_state status resume plans tasks =
     JObj [(''schema_version'', JInt 4), (''run_id'', JStr ''RUN-20260723-001''),
       (''revision'', JInt 0), (''goal'', JStr ''Build the external controller''),
       (''repository'', sample_repository), (''status'', JStr status), (''resume_status'', resume),
       (''plan_version'', JInt (int (length plans))), (''repair_round'', JInt 0),
       (''max_repair_rounds'', JInt 3), (''max_workers'', JInt 4), (''controller'', JNull),
       (''creation'', JObj [(''intent'', sample_ref ''creation.intent.json''), (''receipt'', JNull)]),
       (''config'', sample_ref ''config.json''),
       (''artifact_index'', JList [sample_ref ''creation.intent.json'', sample_ref ''config.json'']),
       (''plans'', JList plans),
       (''role_attempts'', JObj [(''planner'', JList []), (''evaluator'', JList [])]),
       (''role_runtime'', JObj [(''planner'', idle_runtime), (''evaluator'', idle_runtime)]),
       (''evaluations'', JList []), (''verifications'', JList []), (''legacy_import'', JNull),
       (''tasks'', JObj tasks), (''pending_dispatches'', JObj []),
       (''pending_source_commit'', JNull), (''pending_integration'', JNull),
       (''pending_evaluation'', JNull), (''latest_evaluation'', JNull),
       (''global_verification'', JNull), (''stop_receipts'', JList []), (''last_error'', JNull),
       (''created_at'', JStr ''2026-07-23T00:00:00+00:00''),
       (''updated_at'', JStr ''2026-07-23T00:00:00+00:00'')]"

definition minimal_state :: json where
  "minimal_state = sample_state ''CREATED'' JNull [] []"

lemma minimal_state_ok: "ok (validate_run_state minimal_state)"
  by code_simp

end
