(* ===== verification/Lifecycle.thy ===== *)
theory Lifecycle
  imports Sample
begin

text \<open>
  The run life cycle of \<^verbatim>\<open>models.py\<close>: the transition table, \<^verbatim>\<open>transition_run\<close> and the goal gate
  \<^verbatim>\<open>goal_gate_satisfied\<close>; the reachable life cycles as a step relation.
\<close>

section \<open>Transitions\<close>

fun ALLOWED_RUN_TRANSITIONS :: "run_status \<Rightarrow> run_status list" where
  "ALLOWED_RUN_TRANSITIONS CREATED = [PLANNING, PAUSED, STOPPED]"
| "ALLOWED_RUN_TRANSITIONS PLANNING = [EXECUTING, PAUSED, STOPPED, FAILED]"
| "ALLOWED_RUN_TRANSITIONS EXECUTING = [GLOBAL_VERIFYING, PAUSED, STOPPED, FAILED]"
| "ALLOWED_RUN_TRANSITIONS GLOBAL_VERIFYING = [EVALUATING, REPAIRING, PAUSED, STOPPED, FAILED]"
| "ALLOWED_RUN_TRANSITIONS EVALUATING =
     [EVALUATING, REPAIRING, PAUSED, STOPPED, SUCCEEDED, FAILED]"
| "ALLOWED_RUN_TRANSITIONS REPAIRING = [EXECUTING, PAUSED, STOPPED, FAILED]"
| "ALLOWED_RUN_TRANSITIONS PAUSED =
     [CREATED, PLANNING, EXECUTING, GLOBAL_VERIFYING, EVALUATING, REPAIRING, STOPPED]"
| "ALLOWED_RUN_TRANSITIONS STOPPED =
     [CREATED, PLANNING, EXECUTING, GLOBAL_VERIFYING, EVALUATING, REPAIRING]"
| "ALLOWED_RUN_TRANSITIONS SUCCEEDED = []"
| "ALLOWED_RUN_TRANSITIONS FAILED = []"
| "ALLOWED_RUN_TRANSITIONS IMPORTED_READ_ONLY = []"

text \<open>\<^verbatim>\<open>RunStatus(state["status"])\<close> outside a \<^verbatim>\<open>try\<close>: a value that is no member raises
  \<^verbatim>\<open>ValueError\<close>.\<close>

definition status_of :: "json \<Rightarrow> run_status result" where
  "status_of state =
     bnd (item state ''status'') (\<lambda>v.
       case RunStatus v of Inl _ \<Rightarrow> Inl ValueError | Inr s \<Rightarrow> Inr s)"

definition halted :: "run_status \<Rightarrow> bool" where
  "halted s = (s = PAUSED \<or> s = STOPPED)"

definition transition_run :: "json \<Rightarrow> run_status \<Rightarrow> json result" where
  "transition_run state target =
     bnd (status_of state) (\<lambda>current.
     if target \<notin> set (ALLOWED_RUN_TRANSITIONS current) then Inl ContractError
     else
     bnd (if halted target then
            (if \<not> halted current
             then Inr (put state ''resume_status'' (JStr (run_status_value current)))
             else Inr state)
          else if halted current then
            bnd (item state ''resume_status'') (\<lambda>r.
            if r \<noteq> JStr (run_status_value target) then Inl ContractError
            else Inr (put state ''resume_status'' JNull))
          else Inr state) (\<lambda>updated.
     Inr (put updated ''status'' (JStr (run_status_value target)))))"

section \<open>What a validated state guarantees\<close>

text \<open>The facts of \<^verbatim>\<open>validate_run_state\<close> that the life cycle rests on, as one predicate.\<close>

definition no_pending_work :: "json \<Rightarrow> bool" where
  "no_pending_work state =
     (items (sub state ''pending_dispatches'') = [] \<and> sub state ''pending_source_commit'' = JNull
      \<and> sub state ''pending_integration'' = JNull \<and> sub state ''pending_evaluation'' = JNull)"

definition valid :: "json \<Rightarrow> bool" where
  "valid state = (validate_run_state state = Inr state)"

lemma validate_run_state_id: "validate_run_state v = Inr s \<Longrightarrow> s = v"
  by (auto simp: validate_run_state_def Let_def bnd_eq_Inr split: if_splits)

lemma valid_iff_ok: "valid s \<longleftrightarrow> ok (validate_run_state s)"
  by (auto simp: valid_def ok_iff dest: validate_run_state_id)

definition scalar_part :: "json \<Rightarrow> bool" where
  "scalar_part s =
     (sub s ''schema_version'' = JInt 4
      \<and> (\<exists>r. require_string (sub s ''run_id'') = Inr r \<and> RUN_ID_RE r
           \<and> validate_repository (sub s ''repository'') r = Inr ())
      \<and> ok (require_plain_int (sub s ''revision'') 0)
      \<and> ok (require_string (sub s ''goal''))
      \<and> ok (require_plain_int (sub s ''plan_version'') 0)
      \<and> ok (require_plain_int (sub s ''repair_round'') 0)
      \<and> ok (require_plain_int (sub s ''max_repair_rounds'') 1)
      \<and> ok (require_plain_int (sub s ''max_workers'') 1)
      \<and> validate_controller (sub s ''controller'') = Inr ())"

definition time_part :: "json \<Rightarrow> bool" where
  "time_part s =
     (\<exists>c u. require_rfc3339 (sub s ''created_at'') = Inr c
        \<and> require_rfc3339 (sub s ''updated_at'') = Inr u \<and> \<not> instant_of u < instant_of c)"

definition status_part :: "json \<Rightarrow> bool" where
  "status_part s =
     (\<exists>st le. sub s ''status'' = JStr (run_status_value st)
        \<and> validate_resume_status (sub s ''resume_status'') = Inr ()
        \<and> optional_error (sub s ''last_error'') = Inr le
        \<and> validate_status_coherence s st le = Inr ())"

definition body_part :: "json \<Rightarrow> bool" where
  "body_part s =
     (validate_histories s = Inr () \<and> validate_work s = Inr ()
      \<and> validate_latest_evaluation (sub s ''latest_evaluation'') = Inr ()
      \<and> validate_global_verification (sub s ''global_verification'') = Inr ()
      \<and> validate_stop_receipts (sub s ''stop_receipts'') = Inr ())"

lemma valid_iff:
  "valid s \<longleftrightarrow> is_obj s \<and> set (jkeys s) = set RUN_FIELDS \<and> clean s
     \<and> scalar_part s \<and> status_part s \<and> body_part s \<and> time_part s"
  unfolding valid_def validate_run_state_def Let_def
  by (auto simp: bnd_eq_Inr clean_def scalar_part_def status_part_def
      body_part_def time_part_def RunStatus_Inr ok_iff)

section \<open>Frames\<close>

text \<open>The fields each part of the contract reads; writing another field leaves it unchanged.\<close>

definition history_fields :: "string list" where
  "history_fields =
     [''creation'', ''config'', ''artifact_index'', ''plans'', ''plan_version'',
      ''role_attempts'', ''role_runtime'', ''evaluations'', ''verifications'', ''legacy_import'']"

definition work_fields :: "string list" where
  "work_fields =
     [''tasks'', ''pending_dispatches'', ''pending_source_commit'', ''pending_integration'',
      ''pending_evaluation'', ''role_runtime'']"

definition scalar_fields :: "string list" where
  "scalar_fields =
     [''schema_version'', ''run_id'', ''repository'', ''revision'', ''goal'', ''plan_version'',
      ''repair_round'', ''max_repair_rounds'', ''max_workers'', ''controller'']"

lemma validate_histories_frame:
  "k \<notin> set history_fields \<Longrightarrow> validate_histories (put s k w) = validate_histories s"
  by (simp add: validate_histories_def history_fields_def)

lemma validate_pending_dispatch_frame:
  "k \<notin> set work_fields \<Longrightarrow>
   validate_pending_dispatch token v (put s k w) = validate_pending_dispatch token v s"
  by (simp add: validate_pending_dispatch_def validate_worker_dispatch_def
      validate_readonly_dispatch_def work_fields_def Let_def cong: if_cong)

lemma validate_prepared_markers_frame:
  "k \<notin> set work_fields \<Longrightarrow> validate_prepared_markers (put s k w) = validate_prepared_markers s"
  by (simp add: validate_prepared_markers_def validate_source_marker_def
      validate_integration_marker_def work_fields_def Let_def cong: if_cong)

lemma validate_work_frame:
  "k \<notin> set work_fields \<Longrightarrow> validate_work (put s k w) = validate_work s"
  using validate_pending_dispatch_frame [of k] validate_prepared_markers_frame [of k]
  by (simp add: validate_work_def work_fields_def)

lemma scalar_part_frame: "k \<notin> set scalar_fields \<Longrightarrow> scalar_part (put s k w) = scalar_part s"
  by (simp add: scalar_part_def scalar_fields_def)

lemma time_part_frame:
  "k \<noteq> ''created_at'' \<Longrightarrow> k \<noteq> ''updated_at'' \<Longrightarrow> time_part (put s k w) = time_part s"
  by (simp add: time_part_def)

lemma body_part_frame:
  "k \<notin> set history_fields \<Longrightarrow> k \<notin> set work_fields \<Longrightarrow>
   k \<notin> {''latest_evaluation'', ''global_verification'', ''stop_receipts''} \<Longrightarrow>
   body_part (put s k w) = body_part s"
  by (simp add: body_part_def validate_histories_frame validate_work_frame)

lemmas part_frames = scalar_part_frame time_part_frame body_part_frame

lemma valid_has_key: "valid s \<Longrightarrow> k \<in> set RUN_FIELDS \<Longrightarrow> has_key s k"
  by (simp add: valid_iff has_key_iff)

lemma valid_status:
  assumes "valid s"
  obtains st where "sub s ''status'' = JStr (run_status_value st)" "status_of s = Inr st"
proof -
  from assms obtain st where st: "sub s ''status'' = JStr (run_status_value st)"
    by (auto simp: valid_iff status_part_def)
  moreover have "has_key s ''status''"
    using assms by (rule valid_has_key) (simp add: RUN_FIELDS_def)
  ultimately have "status_of s = Inr st"
    by (simp add: status_of_def item_present)
  with st show ?thesis by (rule that)
qed

lemma status_of_Inr: "status_of s = Inr st \<Longrightarrow> sub s ''status'' = JStr (run_status_value st)"
  by (auto simp: status_of_def bnd_eq_Inr item_def sub_def RunStatus_Inr split: option.splits sum.splits)

text \<open>Writing \<^verbatim>\<open>status\<close> and \<^verbatim>\<open>resume_status\<close> keeps a state valid when the two agree.\<close>

lemma active_not_static:
  "a \<notin> set static_for_resume \<Longrightarrow> validate_resume_status (JStr (run_status_value a)) = Inr ()"
  by (simp add: validate_resume_status_def)

lemma valid_put_status:
  assumes v: "valid s"
    and r: "r = JNull \<or> (\<exists>a. r = JStr (run_status_value a) \<and> a \<notin> set static_for_resume)"
    and h: "halted t \<longleftrightarrow> r \<noteq> JNull"
    and p: "t \<in> {SUCCEEDED, FAILED, IMPORTED_READ_ONLY} \<longrightarrow> no_pending_work s"
  shows "valid (put (put s ''resume_status'' r) ''status'' (JStr (run_status_value t)))"
proof -
  let ?s = "put (put s ''resume_status'' r) ''status'' (JStr (run_status_value t))"
  from v have o: "is_obj s" and k: "set (jkeys s) = set RUN_FIELDS" and c: "clean s"
    and parts: "scalar_part s" "body_part s" "time_part s" "status_part s"
    by (auto simp: valid_iff)
  have keys: "set (jkeys ?s) = set RUN_FIELDS"
    using o k by (auto simp: RUN_FIELDS_def)
  have asc: "ascii (run_status_value x)" for x by (cases x) (simp_all add: ascii_def byte_def)
  have "\<not> has_surrogate ''resume_status''" "\<not> has_surrogate ''status''"
    by (simp_all add: ascii_no_surrogate ascii_def byte_def)
  with c r have cl: "clean ?s" by (auto intro!: clean_put simp: ascii_no_surrogate asc)
  have rs: "validate_resume_status r = Inr ()"
    using r by (auto simp: active_not_static) (simp add: validate_resume_status_def)
  from parts(4) obtain le where le: "optional_error (sub s ''last_error'') = Inr le"
    by (auto simp: status_part_def)
  have "validate_status_coherence ?s t le = Inr ()"
    using o h p by (auto simp: validate_status_coherence_def halted_def no_pending_work_def)
  with o rs le have "status_part ?s" by (auto simp: status_part_def)
  with o keys cl parts show ?thesis
    by (simp add: valid_iff part_frames scalar_fields_def history_fields_def work_fields_def)
qed

section \<open>Properties of the life cycle\<close>

lemma transition_cases:
  assumes "transition_run s t = Inr s'"
  obtains st r where "status_of s = Inr st" "t \<in> set (ALLOWED_RUN_TRANSITIONS st)"
    "s' = put r ''status'' (JStr (run_status_value t))"
    "halted t \<and> \<not> halted st \<and> r = put s ''resume_status'' (JStr (run_status_value st))
     \<or> halted t \<and> halted st \<and> r = s
     \<or> \<not> halted t \<and> halted st \<and> sub s ''resume_status'' = JStr (run_status_value t)
         \<and> r = put s ''resume_status'' JNull
     \<or> \<not> halted t \<and> \<not> halted st \<and> r = s"
proof -
  from assms obtain st where st: "status_of s = Inr st" by (auto simp: transition_run_def bnd_eq_Inr)
  with assms have "t \<in> set (ALLOWED_RUN_TRANSITIONS st)"
    by (auto simp: transition_run_def split: if_splits)
  with st assms that show ?thesis
    by (auto simp: transition_run_def bnd_eq_Inr item_def sub_def split: if_splits option.splits)
qed

lemma valid_resume:
  assumes "valid s" and "status_of s = Inr st"
  shows "halted st \<Longrightarrow> sub s ''resume_status'' = JNull \<or>
      (\<exists>a. sub s ''resume_status'' = JStr (run_status_value a) \<and> a \<notin> set static_for_resume)"
    and "\<not> halted st \<Longrightarrow> sub s ''resume_status'' = JNull"
proof -
  from assms(1) obtain st' le where st': "sub s ''status'' = JStr (run_status_value st')"
    and rs: "validate_resume_status (sub s ''resume_status'') = Inr ()"
    and co: "validate_status_coherence s st' le = Inr ()"
    by (auto simp: valid_iff status_part_def)
  from status_of_Inr [OF assms(2)] st' have [simp]: "st' = st" by simp
  show "halted st \<Longrightarrow> sub s ''resume_status'' = JNull \<or>
      (\<exists>a. sub s ''resume_status'' = JStr (run_status_value a) \<and> a \<notin> set static_for_resume)"
    using rs by (auto simp: validate_resume_status_def bnd_eq_Inr RunStatus_Inr split: if_splits)
  show "\<not> halted st \<Longrightarrow> sub s ''resume_status'' = JNull"
    using co by (auto simp: validate_status_coherence_def halted_def split: if_splits)
qed

lemma allowed_active:
  "t \<in> set (ALLOWED_RUN_TRANSITIONS st) \<Longrightarrow> \<not> halted t \<Longrightarrow> halted st \<Longrightarrow> t \<notin> set static_for_resume"
  by (cases st) (auto simp: halted_def static_for_resume_def)

lemma allowed_source_active:
  "t \<in> set (ALLOWED_RUN_TRANSITIONS st) \<Longrightarrow> \<not> halted st \<Longrightarrow> st \<notin> set static_for_resume"
  by (cases st) (auto simp: halted_def static_for_resume_def)

lemma allowed_not_imported: "IMPORTED_READ_ONLY \<notin> set (ALLOWED_RUN_TRANSITIONS st)"
  by (cases st) auto

lemma valid_minimal: "valid minimal_state"
  by (simp add: valid_iff_ok minimal_state_ok)

lemma status_minimal: "status_of minimal_state = Inr CREATED"
  by code_simp

lemma transition_preserves_valid:
  assumes v: "valid s" and tr: "transition_run s t = Inr s'"
    and p: "t \<in> {SUCCEEDED, FAILED} \<longrightarrow> no_pending_work s"
    and m: "t = STOPPED \<and> sub s ''status'' = JStr ''PAUSED'' \<longrightarrow> sub s ''resume_status'' \<noteq> JNull"
  shows "valid s' \<and> status_of s' = Inr t
    \<and> (\<forall>k. k \<noteq> ''status'' \<longrightarrow> k \<noteq> ''resume_status'' \<longrightarrow> sub s' k = sub s k)"
proof -
  from tr obtain st r where st: "status_of s = Inr st" and al: "t \<in> set (ALLOWED_RUN_TRANSITIONS st)"
    and s': "s' = put r ''status'' (JStr (run_status_value t))"
    and r: "halted t \<and> \<not> halted st \<and> r = put s ''resume_status'' (JStr (run_status_value st))
     \<or> halted t \<and> halted st \<and> r = s
     \<or> \<not> halted t \<and> halted st \<and> sub s ''resume_status'' = JStr (run_status_value t)
         \<and> r = put s ''resume_status'' JNull
     \<or> \<not> halted t \<and> \<not> halted st \<and> r = s" by (rule transition_cases)
  have hk: "has_key s ''resume_status''" by (rule valid_has_key [OF v]) (simp add: RUN_FIELDS_def)
  have o: "is_obj s" using v by (simp add: valid_iff)
  have ni: "t \<noteq> IMPORTED_READ_ONLY" using al allowed_not_imported by blast
  have hh: "halted t \<Longrightarrow> halted st \<Longrightarrow> t = STOPPED \<and> sub s ''status'' = JStr ''PAUSED''"
    using al status_of_Inr [OF st] by (cases st) (auto simp: halted_def)
  obtain q where q: "r = put s ''resume_status'' q"
    and q1: "q = JNull \<or> (\<exists>a. q = JStr (run_status_value a) \<and> a \<notin> set static_for_resume)"
    and q2: "halted t \<longleftrightarrow> q \<noteq> JNull"
  proof (cases "halted t = halted st")
    case True
    have "r = put s ''resume_status'' (sub s ''resume_status'')"
      using r True hk by (auto simp: put_triv)
    then show ?thesis
      using that [of "sub s ''resume_status''"] valid_resume [OF v st] hh m True by blast
  next
    case False
    then show ?thesis
      using r that allowed_source_active [OF al] by auto
  qed
  from q s' have s'q: "s' = put (put s ''resume_status'' q) ''status'' (JStr (run_status_value t))"
    by simp
  with valid_put_status [OF v q1 q2] p ni have vs': "valid s'" by auto
  have "sub s' ''status'' = JStr (run_status_value t)" using o by (simp add: s'q)
  moreover obtain u where "sub s' ''status'' = JStr (run_status_value u)" "status_of s' = Inr u"
    using vs' by (rule valid_status)
  ultimately have "status_of s' = Inr t" by simp
  with vs' show ?thesis by (simp add: s'q)
qed

text \<open>\<^verbatim>\<open>transition_run\<close> takes a valid Schema 4 run state to a valid one: whenever it returns, the
  result passes the whole run-state contract again, carries the requested status, and differs
  from the input in \<^verbatim>\<open>status\<close> and \<^verbatim>\<open>resume_status\<close> only.  A terminal target needs a state
  without pending work, and stopping a paused run needs its resume status (a run paused by the
  Schema 3 migration has none).\<close>

theorem transition_run_valid:
  assumes v: "valid s" and tr: "transition_run s t = Inr s'"
    and p: "t \<in> {SUCCEEDED, FAILED} \<longrightarrow> no_pending_work s"
    and m: "t = STOPPED \<and> sub s ''status'' = JStr ''PAUSED'' \<longrightarrow> sub s ''resume_status'' \<noteq> JNull"
  shows "valid s' \<and> status_of s' = Inr t
    \<and> (\<forall>k. k \<noteq> ''status'' \<longrightarrow> k \<noteq> ''resume_status'' \<longrightarrow> sub s' k = sub s k)"
  using transition_preserves_valid [OF v tr p m] .

theorem transition_run_valid_witness:
  "\<exists>s'. transition_run minimal_state PLANNING = Inr s' \<and> valid s' \<and> status_of s' = Inr PLANNING"
proof -
  have "ok (transition_run minimal_state PLANNING)" by code_simp
  then obtain s' where s': "transition_run minimal_state PLANNING = Inr s'" by (auto simp: ok_iff)
  with transition_run_valid [OF valid_minimal s'] show ?thesis by simp
qed

text \<open>Pausing and resuming is lossless: pausing a valid run that may be paused succeeds, and
  resuming it to the status it was paused in gives back exactly the state before the pause;
  every other resume target is refused with \<open>ContractError\<close>.\<close>

theorem pause_resume_roundtrip:
  assumes v: "valid s" and st: "status_of s = Inr a" and al: "PAUSED \<in> set (ALLOWED_RUN_TRANSITIONS a)"
  shows "\<exists>p. transition_run s PAUSED = Inr p \<and> transition_run p a = Inr s
    \<and> (\<forall>b. b \<noteq> a \<longrightarrow> b \<noteq> STOPPED \<longrightarrow> transition_run p b = Inl ContractError)"
proof -
  let ?p = "put (put s ''resume_status'' (JStr (run_status_value a))) ''status'' (JStr ''PAUSED'')"
  have na: "\<not> halted a" "a \<in> set (ALLOWED_RUN_TRANSITIONS PAUSED)"
    using al by (cases a; simp add: halted_def)+
  have hk: "has_key s ''resume_status''" "has_key s ''status''"
    using v by (simp_all add: valid_has_key RUN_FIELDS_def)
  have o: "is_obj s" using v by (simp add: valid_iff)
  have rn: "sub s ''resume_status'' = JNull" using valid_resume(2) [OF v st na(1)] .
  have sa: "sub s ''status'' = JStr (run_status_value a)" using st by (rule status_of_Inr)
  have step: "transition_run s PAUSED = Inr ?p"
    using st al na(1) by (simp add: transition_run_def halted_def)
  have sp: "status_of ?p = Inr PAUSED"
    using o enum_value_parse(1) [of PAUSED] by (simp add: status_of_def item_def jget_put)
  have rp: "item ?p ''resume_status'' = Inr (JStr (run_status_value a))"
    using o by (simp add: item_def jget_put)
  have "put (put ?p ''resume_status'' JNull) ''status'' (JStr (run_status_value a)) = s"
    using o hk rn sa by (simp add: put_swap [of "''status''" "''resume_status''"] put_triv)
  then have resumed: "transition_run ?p a = Inr s"
    using sp rp na by (simp add: transition_run_def halted_def)
  have "transition_run ?p b = Inl ContractError" if "b \<noteq> a" "b \<noteq> STOPPED" for b
  proof -
    from that have "run_status_value a \<noteq> run_status_value b" by simp
    with that sp rp show ?thesis by (cases b) (simp_all add: transition_run_def halted_def)
  qed
  with step resumed show ?thesis by blast
qed

theorem pause_resume_roundtrip_witness:
  "\<exists>p. transition_run minimal_state PAUSED = Inr p \<and> transition_run p CREATED = Inr minimal_state
    \<and> transition_run p PLANNING = Inl ContractError"
  using pause_resume_roundtrip [OF valid_minimal status_minimal] by auto

text \<open>The life cycles the table allows, as a step relation.\<close>

inductive run_step :: "json \<Rightarrow> json \<Rightarrow> bool" where
  step: "transition_run s t = Inr s' \<Longrightarrow> run_step s s'"

inductive_cases run_stepE: "run_step s s'"

definition resume_coherent :: "json \<Rightarrow> bool" where
  "resume_coherent s =
     (is_obj s \<and> has_key s ''resume_status'' \<and>
      list_ex (\<lambda>st. st \<noteq> IMPORTED_READ_ONLY \<and> sub s ''status'' = JStr (run_status_value st)
        \<and> (if halted st
           then list_ex (\<lambda>a. a \<notin> set static_for_resume \<and> sub s ''resume_status'' = JStr (run_status_value a))
             run_statuses
           else sub s ''resume_status'' = JNull)) run_statuses)"

lemma in_run_statuses [simp]: "st \<in> set run_statuses"
  by (cases st) (simp_all add: run_statuses_def)

lemma ex_run_statuses: "list_ex P run_statuses \<longleftrightarrow> (\<exists>st. P st)"
  by (auto simp: list_ex_iff)

lemma resume_coherent_iff:
  "resume_coherent s \<longleftrightarrow> is_obj s \<and> has_key s ''resume_status'' \<and>
     (\<exists>st. st \<noteq> IMPORTED_READ_ONLY \<and> sub s ''status'' = JStr (run_status_value st)
        \<and> (if halted st
           then \<exists>a. a \<notin> set static_for_resume \<and> sub s ''resume_status'' = JStr (run_status_value a)
           else sub s ''resume_status'' = JNull))"
  unfolding resume_coherent_def ex_run_statuses by (rule refl)

lemma run_step_coherent:
  assumes "resume_coherent s" and "run_step s s'"
  shows "resume_coherent s'"
proof -
  from assms(2) obtain t where tr: "transition_run s t = Inr s'" by (rule run_stepE)
  then obtain st r where st: "status_of s = Inr st" and al: "t \<in> set (ALLOWED_RUN_TRANSITIONS st)"
    and s': "s' = put r ''status'' (JStr (run_status_value t))"
    and r: "halted t \<and> \<not> halted st \<and> r = put s ''resume_status'' (JStr (run_status_value st))
     \<or> halted t \<and> halted st \<and> r = s
     \<or> \<not> halted t \<and> halted st \<and> sub s ''resume_status'' = JStr (run_status_value t)
         \<and> r = put s ''resume_status'' JNull
     \<or> \<not> halted t \<and> \<not> halted st \<and> r = s" by (rule transition_cases)
  from assms(1) have o: "is_obj s" and hk: "has_key s ''resume_status''"
    by (auto simp: resume_coherent_iff)
  from assms(1) status_of_Inr [OF st] have res: "if halted st
      then \<exists>a. a \<notin> set static_for_resume \<and> sub s ''resume_status'' = JStr (run_status_value a)
      else sub s ''resume_status'' = JNull"
    by (auto simp: resume_coherent_iff)
  have ro: "is_obj r \<and> has_key r ''resume_status''" using r o hk by auto
  have "if halted t
      then \<exists>a. a \<notin> set static_for_resume \<and> sub s' ''resume_status'' = JStr (run_status_value a)
      else sub s' ''resume_status'' = JNull"
    using r res o allowed_source_active [OF al] by (auto simp: s' split: if_splits)
  with ro al allowed_not_imported [of st] show ?thesis
    unfolding resume_coherent_iff by (auto simp: s')
qed

text \<open>C10. Along every sequence of \<^verbatim>\<open>transition_run\<close> calls from a freshly created run, a resume status
  is recorded exactly while the run is paused or stopped, it then names an active status, and
  the run never becomes \<^verbatim>\<open>IMPORTED_READ_ONLY\<close>.\<close>

theorem lifecycle_resume_invariant:
  assumes "run_step\<^sup>*\<^sup>* s0 s" and "is_obj s0" and "has_key s0 ''resume_status''"
    and "sub s0 ''status'' = JStr ''CREATED''" and "sub s0 ''resume_status'' = JNull"
  shows "resume_coherent s"
proof -
  have "resume_coherent s0"
    unfolding resume_coherent_iff using assms by (auto intro!: exI [of _ CREATED] simp: halted_def)
  with assms(1) show ?thesis
    by (induction rule: rtranclp_induct) (auto intro: run_step_coherent)
qed

theorem lifecycle_resume_invariant_witness:
  "\<exists>s. run_step\<^sup>*\<^sup>* minimal_state s \<and> resume_coherent s \<and> sub s ''status'' = JStr ''PAUSED''"
proof -
  have "ok (transition_run minimal_state PAUSED)" by code_simp
  then obtain s where s: "transition_run minimal_state PAUSED = Inr s" by (auto simp: ok_iff)
  then have r: "run_step\<^sup>*\<^sup>* minimal_state s" by (intro r_into_rtranclp run_step.step)
  have k: "is_obj minimal_state" "has_key minimal_state ''resume_status''"
    "sub minimal_state ''status'' = JStr ''CREATED''" "sub minimal_state ''resume_status'' = JNull"
    by code_simp+
  from s have "sub s ''status'' = JStr ''PAUSED''"
    using k(1) by (auto simp: elim!: transition_cases)
  with r lifecycle_resume_invariant [OF r k] show ?thesis by blast
qed

end
