(* ===== verification/GoalGate.thy ===== *)
theory GoalGate
  imports Lifecycle
begin

text \<open>
  \<^verbatim>\<open>goal_gate_satisfied\<close> of \<^verbatim>\<open>models.py\<close>: the predicate that decides whether a run may succeed.
  The Python expression short-circuits and may raise \<^verbatim>\<open>TypeError\<close> on values of the wrong type,
  so the model is a \<open>bool result\<close>.
\<close>

section \<open>Short-circuit Boolean expressions\<close>

text \<open>\<^verbatim>\<open>a and b and ...\<close> and \<^verbatim>\<open>all(f(x) for x in xs)\<close>.\<close>

fun ands :: "bool result list \<Rightarrow> bool result" where
  "ands [] = Inr True"
| "ands (c # cs) = bnd c (\<lambda>b. if b then ands cs else Inr False)"

fun alls :: "('a \<Rightarrow> bool result) \<Rightarrow> 'a list \<Rightarrow> bool result" where
  "alls f [] = Inr True"
| "alls f (x # xs) = bnd (f x) (\<lambda>b. if b then alls f xs else Inr False)"

lemma ands_True: "ands cs = Inr True \<longleftrightarrow> (\<forall>c\<in>set cs. c = Inr True)"
  by (induction cs) (auto simp: bnd_eq_Inr)

lemma alls_True: "alls f xs = Inr True \<longleftrightarrow> (\<forall>x\<in>set xs. f x = Inr True)"
  by (induction xs) (auto simp: bnd_eq_Inr)

lemma ok_ands: "\<forall>c\<in>set cs. ok c \<Longrightarrow> ok (ands cs)"
  by (induction cs) (auto simp: ok_bnd ok_iff)

lemma ok_alls: "\<forall>x\<in>set xs. ok (f x) \<Longrightarrow> ok (alls f xs)"
  by (induction xs) (auto simp: ok_bnd ok_iff)

lemma ands_Cons_True [simp]: "ands (c # cs) = Inr True \<longleftrightarrow> c = Inr True \<and> ands cs = Inr True"
  by (auto simp: bnd_eq_Inr)

declare ands.simps(2) [simp del]

section \<open>Truth, length, membership\<close>

fun truthy :: "json \<Rightarrow> bool" where
  "truthy JNull = False"
| "truthy (JBool b) = b"
| "truthy (JInt i) = (i \<noteq> 0)"
| "truthy (JFloat t) = (t \<noteq> ''0.0'' \<and> t \<noteq> ''-0.0'')"
| "truthy (JStr s) = (s \<noteq> [])"
| "truthy (JList xs) = (xs \<noteq> [])"
| "truthy (JObj d) = (d \<noteq> [])"

text \<open>\<^verbatim>\<open>v >= 1\<close>; a positive float is below 1 exactly when it prints with a leading zero or a
  negative exponent.\<close>

fun ge_one :: "json \<Rightarrow> bool result" where
  "ge_one (JInt i) = Inr (1 \<le> i)"
| "ge_one (JBool b) = Inr b"
| "ge_one (JFloat t) = Inr (\<not> startswith t ''-'' \<and> \<not> startswith t ''0'' \<and> \<not> sublist ''e-'' t)"
| "ge_one _ = Inl TypeError"

fun py_len :: "json \<Rightarrow> int result" where
  "py_len (JList xs) = Inr (int (length xs))"
| "py_len (JObj d) = Inr (int (length d))"
| "py_len (JStr s) = Inr (int (length (codepoints s)))"
| "py_len _ = Inl TypeError"

definition py_contains :: "json \<Rightarrow> json \<Rightarrow> bool result" where
  "py_contains x c =
     (case c of
        JList ys \<Rightarrow> Inr (py_in x ys)
      | JStr t \<Rightarrow> (case x of JStr s \<Rightarrow> Inr (sublist s t) | _ \<Rightarrow> Inl TypeError)
      | JObj d \<Rightarrow> (case x of JStr s \<Rightarrow> Inr (s \<in> set (keys_of d)) | JList _ \<Rightarrow> Inl TypeError
          | JObj _ \<Rightarrow> Inl TypeError | _ \<Rightarrow> Inr False)
      | _ \<Rightarrow> Inl TypeError)"

text \<open>\<^verbatim>\<open>v[-1]\<close>\<close>

definition last_char :: "string \<Rightarrow> string" where
  "last_char s =
     (let tail = takeWhile (\<lambda>c. 128 \<le> byte c \<and> byte c < 192) (rev s)
      in drop (length s - length tail - 1) s)"

fun last_item :: "json \<Rightarrow> json result" where
  "last_item (JList xs) = (if xs = [] then Inl IndexError else Inr (last xs))"
| "last_item (JStr s) = (if s = [] then Inl IndexError else Inr (JStr (last_char s)))"
| "last_item (JObj d) = Inl KeyError"
| "last_item _ = Inl TypeError"

section \<open>The gate\<close>

definition evidence_supports :: "json \<Rightarrow> json \<Rightarrow> json \<Rightarrow> json \<Rightarrow> json \<Rightarrow> bool result" where
  "evidence_supports state catalog head entry evidence_id =
     (let record = sub catalog (str_of evidence_id) in
      ands [Inr (is_str evidence_id),
            Inr (is_obj record),
            Inr (py_eq (sub record ''integration_head'') head),
            py_contains (sub entry ''id'') (get_or record ''criterion_ids'' (JList [])),
            py_contains (sub record ''verification'') (get_or state ''verifications'' (JList []))])"

definition criterion_proved :: "json \<Rightarrow> json \<Rightarrow> json \<Rightarrow> json \<Rightarrow> bool result" where
  "criterion_proved state catalog head entry =
     ands [Inr (is_obj entry),
           Inr (sub entry ''verdict'' = JStr ''PASS''),
           Inr (is_list (sub entry ''evidence_ids'')),
           Inr (truthy (sub entry ''evidence_ids'')),
           alls (evidence_supports state catalog head entry) (elems (sub entry ''evidence_ids''))]"

definition evidence_is_complete :: "json \<Rightarrow> json \<Rightarrow> json \<Rightarrow> bool result" where
  "evidence_is_complete state envelope head =
     (let catalog = sub envelope ''evidence_catalog''; criteria = sub envelope ''criteria'' in
      ands [Inr (is_obj catalog), Inr (is_list criteria), Inr (truthy criteria),
            alls (criterion_proved state catalog head) (elems criteria)])"

definition task_done :: "json \<Rightarrow> json \<Rightarrow> bool result" where
  "task_done state task =
     ands [Inr (is_obj task),
           Inr (sub task ''status'' = JStr (task_status_value T_COMPLETED)),
           Inr (truthy (sub task ''attempts'')),
           Inr (is_obj (sub task ''result'')),
           Inr (is_obj (sub task ''verification'')),
           py_contains (sub task ''verification'') (get_or state ''verifications'' (JList []))]"

definition goal_gate_satisfied :: "json \<Rightarrow> json \<Rightarrow> string \<Rightarrow> bool result" where
  "goal_gate_satisfied state envelope actual_head =
     (let repository = sub state ''repository'';
          latest = sub state ''latest_evaluation'';
          verification = sub state ''global_verification'';
          tasks = get_or state ''tasks'' (JObj []) in
      if \<not> is_obj repository then Inr False
      else let head = sub repository ''integration_head'' in
      bnd (evidence_is_complete state envelope head) (\<lambda>complete.
      ands
        [ge_one (get_or state ''plan_version'' (JInt 0)),
         bnd (py_len (get_or state ''plans'' (JList []))) (\<lambda>n.
           Inr (py_eq (sub state ''plan_version'') (JInt n))),
         Inr (is_obj tasks),
         Inr (truthy tasks),
         alls (task_done state) (map snd (items tasks)),
         Inr (is_obj latest),
         Inr (is_obj verification),
         Inr (sub latest ''verdict'' = JStr (verdict_value PASS)),
         Inr (truthy (sub state ''evaluations'')),
         bnd (last_item (get_or state ''evaluations'' (JList []))) (\<lambda>e.
           Inr (py_eq (sub latest ''evaluation'') e)),
         Inr (py_eq (sub latest ''integration_head'') head),
         Inr (sub envelope ''verdict'' = JStr (verdict_value PASS)),
         Inr (py_eq (sub envelope ''integration_head'') head),
         Inr complete,
         Inr (\<not> truthy (sub envelope ''findings'')),
         Inr (sub verification ''passed'' = JBool True),
         py_contains (sub verification ''verification'') (get_or state ''verifications'' (JList [])),
         Inr (py_eq (sub verification ''integration_head'') head),
         Inr (py_eq (JStr actual_head) head),
         Inr (\<not> truthy (sub state ''pending_dispatches'')),
         Inr (sub state ''pending_source_commit'' = JNull),
         Inr (sub state ''pending_integration'' = JNull),
         Inr (sub state ''pending_evaluation'' = JNull),
         Inr (sub state ''last_error'' = JNull)]))"

section \<open>Properties of the gate\<close>

text \<open>What an open gate guarantees, as plain facts about the state and the envelope.\<close>

definition goal_reached :: "json \<Rightarrow> json \<Rightarrow> string \<Rightarrow> bool" where
  "goal_reached state envelope head =
     (sub (sub state ''repository'') ''integration_head'' = JStr head
      \<and> items (sub state ''tasks'') \<noteq> []
      \<and> list_all (\<lambda>p. sub (snd p) ''status'' = JStr ''COMPLETED'') (items (sub state ''tasks''))
      \<and> sub (sub state ''latest_evaluation'') ''verdict'' = JStr ''PASS''
      \<and> sub (sub state ''latest_evaluation'') ''integration_head'' = JStr head
      \<and> sub envelope ''verdict'' = JStr ''PASS''
      \<and> sub envelope ''integration_head'' = JStr head
      \<and> elems (sub envelope ''criteria'') \<noteq> []
      \<and> list_all (\<lambda>c. sub c ''verdict'' = JStr ''PASS'' \<and> elems (sub c ''evidence_ids'') \<noteq> []
           \<and> list_all (\<lambda>e. sub (sub (sub envelope ''evidence_catalog'') (str_of e)) ''integration_head''
                = JStr head) (elems (sub c ''evidence_ids'')))
          (elems (sub envelope ''criteria''))
      \<and> sub (sub state ''global_verification'') ''passed'' = JBool True
      \<and> sub (sub state ''global_verification'') ''integration_head'' = JStr head
      \<and> sub state ''last_error'' = JNull
      \<and> no_pending_work state)"

lemma truthy_elems: "is_list v \<Longrightarrow> truthy v \<Longrightarrow> elems v \<noteq> []"
  by (cases v) auto

lemma truthy_items: "is_obj v \<Longrightarrow> truthy v \<longleftrightarrow> items v \<noteq> []"
  by (cases v) auto

lemma not_truthy_items: "\<not> truthy v \<Longrightarrow> items v = []"
  by (cases v) (auto simp: items_def)

lemma criterion_proved_facts:
  assumes "criterion_proved state catalog (JStr head) entry = Inr True"
  shows "sub entry ''verdict'' = JStr ''PASS'' \<and> elems (sub entry ''evidence_ids'') \<noteq> []
    \<and> list_all (\<lambda>e. sub (sub catalog (str_of e)) ''integration_head'' = JStr head)
        (elems (sub entry ''evidence_ids''))"
  using assms
  by (auto simp: criterion_proved_def ands_True alls_True evidence_supports_def Let_def list_all_iff
      truthy_elems)

lemma gate_open_facts:
  assumes "goal_gate_satisfied state envelope head = Inr True"
  shows "goal_reached state envelope head"
proof -
  let ?h = "sub (sub state ''repository'') ''integration_head''"
  from assms obtain "evidence_is_complete state envelope ?h = Inr True"
    and rest: "ge_one (get_or state ''plan_version'' (JInt 0)) = Inr True"
      "is_obj (get_or state ''tasks'' (JObj []))" "truthy (get_or state ''tasks'' (JObj []))"
      "\<forall>t\<in>snd ` set (items (get_or state ''tasks'' (JObj []))). task_done state t = Inr True"
      "sub (sub state ''latest_evaluation'') ''verdict'' = JStr ''PASS''"
      "py_eq (sub (sub state ''latest_evaluation'') ''integration_head'') ?h"
      "sub envelope ''verdict'' = JStr ''PASS''" "py_eq (sub envelope ''integration_head'') ?h"
      "sub (sub state ''global_verification'') ''passed'' = JBool True"
      "py_eq (sub (sub state ''global_verification'') ''integration_head'') ?h"
      "py_eq (JStr head) ?h" "\<not> truthy (sub state ''pending_dispatches'')"
      "sub state ''pending_source_commit'' = JNull" "sub state ''pending_integration'' = JNull"
      "sub state ''pending_evaluation'' = JNull" "sub state ''last_error'' = JNull"
    by (auto simp: goal_gate_satisfied_def Let_def bnd_eq_Inr ands_True alls_True split: if_splits)
  then have h: "?h = JStr head" by simp
  have tasks: "get_or state ''tasks'' (JObj []) = sub state ''tasks''"
    using rest(3) by (auto simp: get_or_def sub_def split: option.splits)
  have crit: "is_list (sub envelope ''criteria'') \<and> truthy (sub envelope ''criteria'')
      \<and> (\<forall>c\<in>set (elems (sub envelope ''criteria'')).
          criterion_proved state (sub envelope ''evidence_catalog'') (JStr head) c = Inr True)"
    using \<open>evidence_is_complete state envelope ?h = Inr True\<close> h
    by (auto simp: evidence_is_complete_def Let_def ands_True alls_True)
  have "list_all (\<lambda>c. sub c ''verdict'' = JStr ''PASS'' \<and> elems (sub c ''evidence_ids'') \<noteq> []
      \<and> list_all (\<lambda>e. sub (sub (sub envelope ''evidence_catalog'') (str_of e)) ''integration_head''
           = JStr head) (elems (sub c ''evidence_ids''))) (elems (sub envelope ''criteria''))"
    unfolding list_all_iff [of _ "elems (sub envelope ''criteria'')"]
    using crit criterion_proved_facts by blast
  moreover have "elems (sub envelope ''criteria'') \<noteq> []" using crit truthy_elems by blast
  moreover have "list_all (\<lambda>p. sub (snd p) ''status'' = JStr ''COMPLETED'') (items (sub state ''tasks''))"
    using rest(4) tasks by (auto simp: list_all_iff task_done_def ands_True)
  moreover have "items (sub state ''tasks'') \<noteq> []" using rest(2,3) tasks by (simp add: truthy_items)
  moreover have "no_pending_work state"
    using rest(12-15) by (simp add: no_pending_work_def not_truthy_items)
  ultimately show ?thesis
    using rest h unfolding goal_reached_def by simp
qed


text \<open>A run in \<^verbatim>\<open>EVALUATING\<close> whose goal gate is open can be completed: the transition to
  \<^verbatim>\<open>SUCCEEDED\<close> is allowed and leaves a valid terminal state.\<close>

lemma goal_gate_permits_success:
  assumes v: "valid state" and st: "status_of state = Inr EVALUATING"
    and g: "goal_gate_satisfied state envelope head = Inr True"
  shows "\<exists>s'. transition_run state SUCCEEDED = Inr s' \<and> valid s' \<and> status_of s' = Inr SUCCEEDED"
proof -
  from gate_open_facts [OF g] have np: "no_pending_work state" by (simp add: goal_reached_def)
  obtain s' where s': "transition_run state SUCCEEDED = Inr s'"
    using st by (auto simp: transition_run_def halted_def)
  have "valid s' \<and> status_of s' = Inr SUCCEEDED"
    using transition_preserves_valid [OF v s'] np by simp
  with s' show ?thesis by blast
qed

section \<open>Witness: an accepted run\<close>

definition done_task :: json where
  "done_task =
     JObj [(''task'', sample_ref ''tasks/TASK-001/task.json''), (''status'', JStr ''COMPLETED''),
       (''attempt_no'', JInt 1), (''failure_count'', JInt 0), (''max_attempts'', JInt 3),
       (''active_attempt'', JNull),
       (''attempts'', JList [sample_ref ''tasks/TASK-001/attempts/001/attempt.json'']),
       (''result'', sample_ref ''tasks/TASK-001/attempts/001/result.json''),
       (''verification'', sample_ref ''verification/v1.json''),
       (''source_commits'', JList [JStr sample_oid]), (''integrated_commits'', JList [JStr sample_oid]),
       (''last_error'', JNull)]"

definition accepted_state :: json where
  "accepted_state =
     put (put (put (put
       (sample_state ''EVALUATING'' JNull [sample_ref ''plan/plan-v001.json''] [(''TASK-001'', done_task)])
       ''verifications'' (JList [sample_ref ''verification/v1.json'']))
       ''evaluations'' (JList [sample_ref ''evaluations/e1.json'']))
       ''latest_evaluation'' (JObj [(''evaluation'', sample_ref ''evaluations/e1.json''),
         (''verdict'', JStr ''PASS''), (''evaluation_round'', JInt 1), (''evidence_round'', JInt 0),
         (''integration_head'', JStr sample_oid)]))
       ''global_verification'' (JObj [(''verification'', sample_ref ''verification/v1.json''),
         (''integration_head'', JStr sample_oid), (''passed'', JBool True)])"

definition accepted_envelope :: json where
  "accepted_envelope =
     JObj [(''verdict'', JStr ''PASS''), (''integration_head'', JStr sample_oid),
       (''criteria'', JList [JObj [(''id'', JStr ''AC-001''), (''verdict'', JStr ''PASS''),
         (''evidence_ids'', JList [JStr ''EV-1''])]]),
       (''evidence_catalog'', JObj [(''EV-1'', JObj [(''integration_head'', JStr sample_oid),
         (''criterion_ids'', JList [JStr ''AC-001'']),
         (''verification'', sample_ref ''verification/v1.json'')])]),
       (''findings'', JList [])]"

lemma accepted_valid: "ok (validate_run_state accepted_state)"
  by code_simp

lemma accepted_gate: "goal_gate_satisfied accepted_state accepted_envelope sample_oid = Inr True"
  by code_simp

lemma accepted_status: "status_of accepted_state = Inr EVALUATING"
  by code_simp


theorem goal_gate_permits_success_witness:
  "\<exists>s'. transition_run accepted_state SUCCEEDED = Inr s' \<and> valid s'"
  using goal_gate_permits_success [OF _ accepted_status accepted_gate] accepted_valid
  by (auto simp: valid_iff_ok)

end
