(* ===== verification/Digest.thy ===== *)
theory Digest
  imports Models "HOL-Library.Word"
begin

unbundle bit_operations_syntax

text \<open>
  SHA-256 as \<^verbatim>\<open>hashlib.sha256(body).hexdigest()\<close> computes it (FIPS 180-4): padding, message
  schedule and compression on 32-bit words, and the lower-case hexadecimal text of the result.
  A byte string is a list of characters.
\<close>

type_synonym u32 = "32 word"

definition sha_k :: "u32 list" where
  "sha_k =
     [1116352408, 1899447441, 3049323471, 3921009573, 961987163, 1508970993, 2453635748,
      2870763221, 3624381080, 310598401, 607225278, 1426881987, 1925078388, 2162078206,
      2614888103, 3248222580, 3835390401, 4022224774, 264347078, 604807628, 770255983,
      1249150122, 1555081692, 1996064986, 2554220882, 2821834349, 2952996808, 3210313671,
      3336571891, 3584528711, 113926993, 338241895, 666307205, 773529912, 1294757372,
      1396182291, 1695183700, 1986661051, 2177026350, 2456956037, 2730485921, 2820302411,
      3259730800, 3345764771, 3516065817, 3600352804, 4094571909, 275423344, 430227734,
      506948616, 659060556, 883997877, 958139571, 1322822218, 1537002063, 1747873779,
      1955562222, 2024104815, 2227730452, 2361852424, 2428436474, 2756734187, 3204031479,
      3329325298]"

definition sha_h0 :: "u32 list" where
  "sha_h0 =
     [1779033703, 3144134277, 1013904242, 2773480762, 1359893119, 2600822924, 528734635,
      1541459225]"

definition rotr :: "nat \<Rightarrow> u32 \<Rightarrow> u32" where
  "rotr n w = drop_bit n w OR push_bit (32 - n) w"

definition small_sigma0 :: "u32 \<Rightarrow> u32" where
  "small_sigma0 w = rotr 7 w XOR rotr 18 w XOR drop_bit 3 w"

definition small_sigma1 :: "u32 \<Rightarrow> u32" where
  "small_sigma1 w = rotr 17 w XOR rotr 19 w XOR drop_bit 10 w"

definition big_sigma0 :: "u32 \<Rightarrow> u32" where
  "big_sigma0 w = rotr 2 w XOR rotr 13 w XOR rotr 22 w"

definition big_sigma1 :: "u32 \<Rightarrow> u32" where
  "big_sigma1 w = rotr 6 w XOR rotr 11 w XOR rotr 25 w"

definition ch :: "u32 \<Rightarrow> u32 \<Rightarrow> u32 \<Rightarrow> u32" where
  "ch x y z = (x AND y) XOR (NOT x AND z)"

definition maj :: "u32 \<Rightarrow> u32 \<Rightarrow> u32 \<Rightarrow> u32" where
  "maj x y z = (x AND y) XOR (x AND z) XOR (y AND z)"

text \<open>The message schedule, newest word first.\<close>

fun schedule :: "nat \<Rightarrow> u32 list \<Rightarrow> u32 list" where
  "schedule 0 ws = ws"
| "schedule (Suc n) ws =
     schedule n ((small_sigma1 (ws ! 1) + ws ! 6 + small_sigma0 (ws ! 14) + ws ! 15) # ws)"

fun sha_round :: "u32 list \<Rightarrow> u32 \<times> u32 \<Rightarrow> u32 list" where
  "sha_round [a, b, c, d, e, f, g, h] (k, w) =
     (let t1 = h + big_sigma1 e + ch e f g + k + w; t2 = big_sigma0 a + maj a b c
      in [t1 + t2, a, b, c, d + t1, e, f, g])"
| "sha_round s kw = s"

definition compress :: "u32 list \<Rightarrow> u32 list \<Rightarrow> u32 list" where
  "compress h block =
     map2 (+) h (foldl sha_round h (zip sha_k (rev (schedule 48 (rev block)))))"

definition byte_word :: "char \<Rightarrow> u32" where
  "byte_word c = of_int (byte c)"

fun be_words :: "string \<Rightarrow> u32 list" where
  "be_words (a # b # c # d # r) =
     (byte_word a * 0x1000000 + byte_word b * 0x10000 + byte_word c * 0x100 + byte_word d) # be_words r"
| "be_words _ = []"

definition be_length :: "string \<Rightarrow> u32 list" where
  "be_length body =
     (let bits = 8 * int (length body) in [of_int (bits div 0x100000000), of_int bits])"

text \<open>One \<open>1\<close> bit, zero bytes up to 56 modulo 64, and the length in bits.\<close>

definition sha_pad :: "string \<Rightarrow> u32 list" where
  "sha_pad body =
     (let n = length body + 1;
          zeros = (64 - (n + 8) mod 64) mod 64
      in be_words (body @ char_of (128::int) # replicate zeros (char_of (0::int))) @ be_length body)"

fun sha_blocks :: "nat \<Rightarrow> u32 list \<Rightarrow> u32 list \<Rightarrow> u32 list" where
  "sha_blocks 0 h ws = h"
| "sha_blocks (Suc n) h ws = sha_blocks n (compress h (take 16 ws)) (drop 16 ws)"

definition hex_char :: "int \<Rightarrow> char" where
  "hex_char d = (if d < 10 then char_of (48 + d) else char_of (87 + d))"

definition word_hex :: "u32 \<Rightarrow> string" where
  "word_hex w = map (\<lambda>i. hex_char (uint w div 16 ^ i mod 16)) [7, 6, 5, 4, 3, 2, 1, 0]"

definition sha256 :: "string \<Rightarrow> string" where
  "sha256 body =
     (let ws = sha_pad body
      in concat (map word_hex (sha_blocks (length ws div 16) sha_h0 ws)))"

text \<open>\<^verbatim>\<open>"sha256:" + hashlib.sha256(body).hexdigest()\<close>\<close>

definition digest_of :: "string \<Rightarrow> string" where
  "digest_of body = ''sha256:'' @ sha256 body"

section \<open>The digest is always canonical\<close>

lemma hex_char_is_hex: "0 \<le> d \<Longrightarrow> d < 16 \<Longrightarrow> is_hex (hex_char d)"
  by (auto simp: is_hex_def is_dec_def hex_char_def byte_def of_char_of)

lemma word_hex_props: "length (word_hex w) = 8" "list_all is_hex (word_hex w)"
  by (simp_all add: word_hex_def hex_char_is_hex)

lemma sha_round_length: "length s = 8 \<Longrightarrow> length (sha_round s kw) = 8"
  by (cases "(s, kw)" rule: sha_round.cases) (auto simp: Let_def)

lemma compress_length: "length h = 8 \<Longrightarrow> length (compress h block) = 8"
proof -
  assume h: "length h = 8"
  have "length (foldl sha_round s kws) = 8" if "length s = 8" for s kws
    using that by (induction kws arbitrary: s) (auto simp: sha_round_length)
  with h show ?thesis by (simp add: compress_def)
qed

lemma sha_blocks_length: "length h = 8 \<Longrightarrow> length (sha_blocks n h ws) = 8"
  by (induction n arbitrary: h ws) (auto simp: compress_length)

lemma sha256_length [simp]: "length (sha256 body) = 64"
proof -
  have "length (sha_blocks n sha_h0 ws) = 8" for n ws
    by (rule sha_blocks_length) (simp add: sha_h0_def)
  then have "sum_list (map length (map word_hex (sha_blocks n sha_h0 ws))) = 64" for n ws
    by (simp add: comp_def word_hex_props sum_list_triv)
  then show ?thesis by (simp add: sha256_def Let_def length_concat)
qed

lemma sha256_hex: "list_all is_hex (sha256 body)"
  by (auto simp: sha256_def Let_def list_all_iff word_hex_props(2) [unfolded list_all_iff, rule_format])

lemma digest_of_canonical [simp]: "DIGEST_RE (digest_of body)"
  by (simp add: DIGEST_RE_def digest_of_def sha256_hex)

lemma digest_of_no_surrogate: "\<not> has_surrogate (digest_of body)"
proof -
  have "ascii (digest_of body)"
    using hex_ascii [OF sha256_hex, of body] by (simp add: digest_of_def ascii_def byte_def)
  then show ?thesis by (rule ascii_no_surrogate)
qed

lemma digest_of_not_blank: "\<not> blank (digest_of body)"
  by (simp add: blank_def digest_of_def byte_def py_space_def)

lemma require_string_digest [simp]: "require_string (JStr (digest_of body)) = Inr (digest_of body)"
  by (simp add: require_string_def digest_of_no_surrogate digest_of_not_blank)

text \<open>The digest of the document \<^verbatim>\<open>{}\<close> and a newline, computed.\<close>

lemma digest_empty_object:
  "digest_of [CHR ''{'', CHR ''}'', CHR 0x0A] =
     ''sha256:ca3d163bab055381827226140568f3bef7eaac187cebd76878e0b63e9e442356''"
  by code_simp

end
