(* ===== verification/JsonText.thy ===== *)
theory JsonText
  imports Json
begin

text \<open>
  JSON text: \<^verbatim>\<open>canonical_json_bytes\<close> of \<^verbatim>\<open>state_store.py\<close> (\<^verbatim>\<open>json.dumps\<close> with sorted keys, compact
  separators and no ASCII escaping, encoded as UTF-8, and a final newline) and
  \<^verbatim>\<open>parse_json_object_bytes\<close> (strict UTF-8, \<^verbatim>\<open>json.loads\<close> with duplicate keys and non-finite
  constants refused), and the proof that reading what was written gives the value back.  A
  floating-point literal keeps its text.  The parser carries fuel: twice the length of the input,
  since each level of nesting spends two units and consumes at least one character.
\<close>

section \<open>UTF-8\<close>

definition cont_in :: "int \<Rightarrow> int \<Rightarrow> char \<Rightarrow> bool" where
  "cont_in lo hi c = (lo \<le> byte c \<and> byte c \<le> hi)"

text \<open>\<^verbatim>\<open>bytes.decode("utf-8")\<close> accepts exactly the shortest encodings of scalar values.\<close>

fun utf8_valid :: "string \<Rightarrow> bool" where
  "utf8_valid [] = True"
| "utf8_valid (c # cs) =
     (if byte c < 128 then utf8_valid cs
      else if 194 \<le> byte c \<and> byte c < 224 then
        (case cs of c1 # r \<Rightarrow> cont_in 128 191 c1 \<and> utf8_valid r | _ \<Rightarrow> False)
      else if 224 \<le> byte c \<and> byte c < 240 then
        (case cs of c1 # c2 # r \<Rightarrow>
           cont_in (if byte c = 224 then 160 else 128) (if byte c = 237 then 159 else 191) c1
           \<and> cont_in 128 191 c2 \<and> utf8_valid r
         | _ \<Rightarrow> False)
      else if 240 \<le> byte c \<and> byte c < 245 then
        (case cs of c1 # c2 # c3 # r \<Rightarrow>
           cont_in (if byte c = 240 then 144 else 128) (if byte c = 244 then 143 else 191) c1
           \<and> cont_in 128 191 c2 \<and> cont_in 128 191 c3 \<and> utf8_valid r
         | _ \<Rightarrow> False)
      else False)"

text \<open>The encoding of one code point (a surrogate by its three-byte form).\<close>

definition utf8_encode :: "int \<Rightarrow> string" where
  "utf8_encode u =
     (if u < 0x80 then [char_of u]
      else if u < 0x800 then [char_of (192 + u div 64), char_of (128 + u mod 64)]
      else if u < 0x10000 then
        [char_of (224 + u div 4096), char_of (128 + u div 64 mod 64), char_of (128 + u mod 64)]
      else
        [char_of (240 + u div 262144), char_of (128 + u div 4096 mod 64),
         char_of (128 + u div 64 mod 64), char_of (128 + u mod 64)])"

section \<open>Writing\<close>

abbreviation QUOTE :: char where "QUOTE \<equiv> CHR 0x22"
abbreviation BACKSLASH :: char where "BACKSLASH \<equiv> CHR 0x5C"
abbreviation NEWLINE :: char where "NEWLINE \<equiv> CHR 0x0A"

definition hex_digit :: "int \<Rightarrow> char" where
  "hex_digit d = (if d < 10 then char_of (48 + d) else char_of (87 + d))"

definition esc_char :: "char \<Rightarrow> string" where
  "esc_char c =
     (if c = QUOTE then [BACKSLASH, QUOTE]
      else if c = BACKSLASH then [BACKSLASH, BACKSLASH]
      else if c = CHR 0x0A then [BACKSLASH, CHR ''n'']
      else if c = CHR 0x0D then [BACKSLASH, CHR ''r'']
      else if c = CHR 0x09 then [BACKSLASH, CHR ''t'']
      else if c = CHR 0x0C then [BACKSLASH, CHR ''f'']
      else if c = CHR 0x08 then [BACKSLASH, CHR ''b'']
      else if byte c < 32 then
        [BACKSLASH, CHR ''u'', CHR ''0'', CHR ''0'', hex_digit (byte c div 16), hex_digit (byte c mod 16)]
      else [c])"

definition quote_text :: "string \<Rightarrow> string" where
  "quote_text s = QUOTE # concat (map esc_char s) @ [QUOTE]"

fun print_json :: "json \<Rightarrow> string"
  and print_list :: "json list \<Rightarrow> string"
  and print_dict :: "(string \<times> json) list \<Rightarrow> string"
where
  "print_json JNull = ''null''"
| "print_json (JBool b) = (if b then ''true'' else ''false'')"
| "print_json (JInt i) = int_text i"
| "print_json (JFloat t) = t"
| "print_json (JStr s) = quote_text s"
| "print_json (JList xs) = CHR ''['' # print_list xs @ '']''"
| "print_json (JObj d) = CHR ''{'' # print_dict d @ ''}''"
| "print_list [] = []"
| "print_list (x # xs) = print_json x @ (if xs = [] then [] else CHR '','' # print_list xs)"
| "print_dict [] = []"
| "print_dict (p # d) =
     quote_text (fst p) @ CHR '':'' # print_json (snd p)
     @ (if d = [] then [] else CHR '','' # print_dict d)"

text \<open>\<^verbatim>\<open>sort_keys=True\<close>, in every object.\<close>

fun canon :: "json \<Rightarrow> json"
  and canon_list :: "json list \<Rightarrow> json list"
  and canon_dict :: "(string \<times> json) list \<Rightarrow> (string \<times> json) list"
where
  "canon (JList xs) = JList (canon_list xs)"
| "canon (JObj d) = JObj (sort_key fst (canon_dict d))"
| "canon JNull = JNull"
| "canon (JBool b) = JBool b"
| "canon (JInt i) = JInt i"
| "canon (JFloat t) = JFloat t"
| "canon (JStr s) = JStr s"
| "canon_list [] = []"
| "canon_list (x # xs) = canon x # canon_list xs"
| "canon_dict [] = []"
| "canon_dict (p # d) = (fst p, canon (snd p)) # canon_dict d"

fun finite_floats :: "json \<Rightarrow> bool"
  and finite_floats_list :: "json list \<Rightarrow> bool"
  and finite_floats_dict :: "(string \<times> json) list \<Rightarrow> bool"
where
  "finite_floats (JFloat t) = (t \<notin> {''nan'', ''inf'', ''-inf''})"
| "finite_floats (JList xs) = finite_floats_list xs"
| "finite_floats (JObj d) = finite_floats_dict d"
| "finite_floats JNull = True"
| "finite_floats (JBool b) = True"
| "finite_floats (JInt i) = True"
| "finite_floats (JStr s) = True"
| "finite_floats_list [] = True"
| "finite_floats_list (x # xs) = (finite_floats x \<and> finite_floats_list xs)"
| "finite_floats_dict [] = True"
| "finite_floats_dict (p # d) = (finite_floats (snd p) \<and> finite_floats_dict d)"

definition canonical_json_bytes :: "json \<Rightarrow> string result" where
  "canonical_json_bytes v =
     (if finite_floats v \<and> clean v then Inr (print_json (canon v) @ [NEWLINE])
      else Inl ContractError)"

section \<open>Reading\<close>

definition is_ws :: "char \<Rightarrow> bool" where
  "is_ws c = (c = CHR '' '' \<or> c = CHR 0x09 \<or> c = CHR 0x0A \<or> c = CHR 0x0D)"

definition skip_ws :: "string \<Rightarrow> string" where
  "skip_ws s = dropWhile is_ws s"

definition hex_val :: "char \<Rightarrow> int option" where
  "hex_val c =
     (if 48 \<le> byte c \<and> byte c \<le> 57 then Some (byte c - 48)
      else if 97 \<le> byte c \<and> byte c \<le> 102 then Some (byte c - 87)
      else if 65 \<le> byte c \<and> byte c \<le> 70 then Some (byte c - 55) else None)"

definition hex4 :: "char \<Rightarrow> char \<Rightarrow> char \<Rightarrow> char \<Rightarrow> int option" where
  "hex4 a b c d =
     (case (hex_val a, hex_val b, hex_val c, hex_val d) of
        (Some w, Some x, Some y, Some z) \<Rightarrow> Some (w * 4096 + x * 256 + y * 16 + z)
      | _ \<Rightarrow> None)"

definition simple_escape :: "char \<Rightarrow> char option" where
  "simple_escape e =
     (if e = QUOTE then Some QUOTE else if e = BACKSLASH then Some BACKSLASH
      else if e = CHR ''/'' then Some (CHR ''/'') else if e = CHR ''b'' then Some (CHR 0x08)
      else if e = CHR ''f'' then Some (CHR 0x0C) else if e = CHR ''n'' then Some (CHR 0x0A)
      else if e = CHR ''r'' then Some (CHR 0x0D) else if e = CHR ''t'' then Some (CHR 0x09)
      else None)"

text \<open>A low surrogate escape right after a high one makes one code point.\<close>

definition low_surrogate :: "string \<Rightarrow> int option" where
  "low_surrogate r =
     (case r of b # u # p # q # v # w # _ \<Rightarrow>
        if b = BACKSLASH \<and> u = CHR ''u''
        then (case hex4 p q v w of
                Some l \<Rightarrow> if 0xDC00 \<le> l \<and> l \<le> 0xDFFF then Some l else None | None \<Rightarrow> None)
        else None
      | _ \<Rightarrow> None)"

text \<open>The rest of a string literal after its opening quote.\<close>

fun parse_str :: "nat \<Rightarrow> string \<Rightarrow> (string \<times> string) option" where
  "parse_str 0 s = None"
| "parse_str (Suc n) [] = None"
| "parse_str (Suc n) (c # r) =
     (if c = QUOTE then Some ([], r)
      else if c = BACKSLASH then
        (case r of [] \<Rightarrow> None
         | e # r1 \<Rightarrow>
             if e = CHR ''u'' then
               (case r1 of p # q # v # w # r2 \<Rightarrow>
                  (case hex4 p q v w of None \<Rightarrow> None
                   | Some u \<Rightarrow>
                       (case (if 0xD800 \<le> u \<and> u \<le> 0xDBFF then low_surrogate r2 else None) of
                          Some l \<Rightarrow>
                            map_option (\<lambda>(t, r3).
                              (utf8_encode (0x10000 + (u - 0xD800) * 0x400 + (l - 0xDC00)) @ t, r3))
                              (parse_str n (drop 6 r2))
                        | None \<Rightarrow>
                            map_option (\<lambda>(t, r3). (utf8_encode u @ t, r3)) (parse_str n r2)))
                | _ \<Rightarrow> None)
             else (case simple_escape e of None \<Rightarrow> None
                   | Some x \<Rightarrow> map_option (\<lambda>(t, r3). (x # t, r3)) (parse_str n r1)))
      else if byte c < 32 then None
      else map_option (\<lambda>(t, r3). (c # t, r3)) (parse_str n r))"

text \<open>A number: \<^verbatim>\<open>-?(0|[1-9][0-9]*)(\.[0-9]+)?([eE][-+]?[0-9]+)?\<close>.\<close>

definition int_part :: "string \<Rightarrow> string" where
  "int_part s =
     (case s of [] \<Rightarrow> []
      | c # r \<Rightarrow> if c = CHR ''0'' then [c] else if is_dec c then takeWhile is_dec s else [])"

definition frac_part :: "string \<Rightarrow> string" where
  "frac_part s =
     (case s of c # r \<Rightarrow>
        if c = CHR ''.'' \<and> takeWhile is_dec r \<noteq> [] then c # takeWhile is_dec r else []
      | [] \<Rightarrow> [])"

definition exp_part :: "string \<Rightarrow> string" where
  "exp_part s =
     (case s of c # r \<Rightarrow>
        if c = CHR ''e'' \<or> c = CHR ''E'' then
          (case r of [] \<Rightarrow> []
           | g # q \<Rightarrow>
               if (g = CHR ''+'' \<or> g = CHR ''-'') \<and> takeWhile is_dec q \<noteq> [] then c # g # takeWhile is_dec q
               else if is_dec g then c # takeWhile is_dec r else [])
        else []
      | [] \<Rightarrow> [])"

definition parse_number :: "string \<Rightarrow> (json \<times> string) option" where
  "parse_number s =
     (let neg = (case s of c # _ \<Rightarrow> c = CHR ''-'' | [] \<Rightarrow> False);
          s1 = (if neg then tl s else s);
          i = int_part s1;
          s2 = drop (length i) s1;
          f = frac_part s2;
          s3 = drop (length f) s2;
          e = exp_part s3;
          s4 = drop (length e) s3
      in if i = [] then None
         else if f = [] \<and> e = [] then Some (JInt (if neg then - digits_val i else digits_val i), s4)
         else Some (JFloat ((if neg then ''-'' else []) @ i @ f @ e), s4))"

definition cut_prefix :: "string \<Rightarrow> string \<Rightarrow> string option" where
  "cut_prefix p s = (if startswith s p then Some (drop (length p) s) else None)"

text \<open>\<^verbatim>\<open>object_pairs_hook=_strict_object\<close>: a repeated key raises.\<close>

definition strict_object :: "(string \<times> json) list \<Rightarrow> json option" where
  "strict_object pairs = (if distinct (map fst pairs) then Some (JObj pairs) else None)"

fun parse_value :: "nat \<Rightarrow> string \<Rightarrow> (json \<times> string) option"
  and parse_elems :: "nat \<Rightarrow> string \<Rightarrow> (json list \<times> string) option"
  and parse_members :: "nat \<Rightarrow> string \<Rightarrow> ((string \<times> json) list \<times> string) option"
where
  "parse_value 0 s = None"
| "parse_value (Suc n) s =
     (case s of [] \<Rightarrow> None
      | c # r \<Rightarrow>
          if c = QUOTE then map_option (\<lambda>(t, r1). (JStr t, r1)) (parse_str (length r) r)
          else if c = CHR ''{'' then
            (case skip_ws r of
               [] \<Rightarrow> None
             | d # r1 \<Rightarrow>
                 if d = CHR ''}'' then Some (JObj [], r1)
                 else Option.bind (parse_members n (d # r1)) (\<lambda>(ps, r2).
                      map_option (\<lambda>v. (v, r2)) (strict_object ps)))
          else if c = CHR ''['' then
            (case skip_ws r of
               [] \<Rightarrow> None
             | d # r1 \<Rightarrow>
                 if d = CHR '']'' then Some (JList [], r1)
                 else map_option (\<lambda>(vs, r2). (JList vs, r2)) (parse_elems n (d # r1)))
          else if startswith s ''null'' then Some (JNull, drop 4 s)
          else if startswith s ''true'' then Some (JBool True, drop 4 s)
          else if startswith s ''false'' then Some (JBool False, drop 5 s)
          else parse_number s)"
| "parse_elems 0 s = None"
| "parse_elems (Suc n) s =
     Option.bind (parse_value n s) (\<lambda>(v, r).
       case skip_ws r of [] \<Rightarrow> None
       | c # r1 \<Rightarrow>
           if c = CHR '']'' then Some ([v], r1)
           else if c = CHR '','' then
             map_option (\<lambda>(vs, r2). (v # vs, r2)) (parse_elems n (skip_ws r1))
           else None)"
| "parse_members 0 s = None"
| "parse_members (Suc n) s =
     (case s of [] \<Rightarrow> None
      | q # r0 \<Rightarrow>
          if q \<noteq> QUOTE then None
          else Option.bind (parse_str (length r0) r0) (\<lambda>(k, r).
            case skip_ws r of [] \<Rightarrow> None
            | c # r1 \<Rightarrow>
                if c \<noteq> CHR '':'' then None
                else Option.bind (parse_value n (skip_ws r1)) (\<lambda>(v, r2).
                  case skip_ws r2 of [] \<Rightarrow> None
                  | e # r3 \<Rightarrow>
                      if e = CHR ''}'' then Some ([(k, v)], r3)
                      else if e = CHR '','' then
                        map_option (\<lambda>(ps, r4). ((k, v) # ps, r4)) (parse_members n (skip_ws r3))
                      else None)))"

definition json_loads :: "string \<Rightarrow> json option" where
  "json_loads s =
     (case parse_value (2 * length s + 2) (skip_ws s) of
        None \<Rightarrow> None
      | Some (v, r) \<Rightarrow> if skip_ws r = [] then Some v else None)"

definition parse_json_object_bytes :: "string \<Rightarrow> json result" where
  "parse_json_object_bytes body =
     (if \<not> utf8_valid body then Inl ContractError
      else case json_loads body of None \<Rightarrow> Inl ContractError
        | Some v \<Rightarrow>
            bnd (reject_invalid_json_scalars v) (\<lambda>_.
            if \<not> is_obj v then Inl ContractError else Inr v))"

section \<open>Reading what was written\<close>

lemma byte_char_of [simp]: "byte (char_of (i::int)) = i mod 256"
  by (simp add: byte_def of_char_of)

lemma char_of_byte [simp]: "char_of (byte c) = c"
  by (simp add: byte_def char_of_char)

lemma byte_range: "0 \<le> byte c" "byte c < 256"
proof -
  have "byte c = byte c mod 256" using byte_char_of [of "byte c"] by simp
  then show "0 \<le> byte c" "byte c < 256"
    by (metis pos_mod_sign zero_less_numeral, metis pos_mod_bound zero_less_numeral)
qed

lemma hex_val_digit: "0 \<le> d \<Longrightarrow> d < 16 \<Longrightarrow> hex_val (hex_digit d) = Some d"
  by (auto simp: hex_val_def hex_digit_def)

lemma hex4_control:
  assumes "byte c < 32"
  shows "hex4 (CHR ''0'') (CHR ''0'') (hex_digit (byte c div 16)) (hex_digit (byte c mod 16)) = Some (byte c)"
proof -
  have z: "hex_val (CHR ''0'') = Some 0" by (simp add: hex_val_def byte_def)
  have "hex_val (hex_digit (byte c div 16)) = Some (byte c div 16)"
    using byte_range [of c] assms by (intro hex_val_digit) auto
  moreover have "hex_val (hex_digit (byte c mod 16)) = Some (byte c mod 16)"
    by (intro hex_val_digit) auto
  ultimately show ?thesis by (simp add: hex4_def z)
qed

lemma parse_str_esc:
  "parse_str (Suc n) (esc_char c @ r) = map_option (\<lambda>(t, r3). (c # t, r3)) (parse_str n r)"
proof (cases "c \<in> {QUOTE, BACKSLASH, CHR 0x0A, CHR 0x0D, CHR 0x09, CHR 0x0C, CHR 0x08}")
  case True
  then show ?thesis by (auto simp: esc_char_def simple_escape_def)
next
  case False
  show ?thesis
  proof (cases "byte c < 32")
    case True
    have "utf8_encode (byte c) = [c]" using True by (simp add: utf8_encode_def)
    with False True hex4_control [OF True] show ?thesis by (simp add: esc_char_def)
  next
    case ge: False
    with False show ?thesis by (simp add: esc_char_def)
  qed
qed

lemma parse_str_text:
  "length s < n \<Longrightarrow> parse_str n (concat (map esc_char s) @ QUOTE # r) = Some (s, r)"
proof (induction s arbitrary: n)
  case Nil
  then show ?case by (cases n) auto
next
  case (Cons c s)
  then obtain m where n: "n = Suc m" and m: "length s < m" by (cases n) auto
  show ?case using Cons.IH [OF m] by (simp add: n parse_str_esc del: parse_str.simps)
qed

lemma esc_char_length: "1 \<le> length (esc_char c)"
  by (simp add: esc_char_def)

lemma quote_length: "length s \<le> length (concat (map esc_char s))"
proof (induction s)
  case (Cons c s)
  with esc_char_length [of c] show ?case by simp
qed simp

lemma parse_quoted:
  "parse_str (length (concat (map esc_char s) @ QUOTE # r)) (concat (map esc_char s) @ QUOTE # r) = Some (s, r)"
  by (rule parse_str_text) (simp add: quote_length le_imp_less_Suc trans_le_add1)

text \<open>Numbers.\<close>

definition ends_number :: "string \<Rightarrow> bool" where
  "ends_number r = (case r of [] \<Rightarrow> True
     | c # _ \<Rightarrow> \<not> is_dec c \<and> c \<noteq> CHR ''.'' \<and> c \<noteq> CHR ''e'' \<and> c \<noteq> CHR ''E'')"

lemma nat_digits_hd: "0 < n \<Longrightarrow> hd (nat_digits n) \<noteq> CHR ''0''"
proof (induction n rule: nat_digits.induct)
  case (1 n)
  show ?case
  proof (cases "n < 10")
    case True
    have "byte (dec_char n) \<noteq> byte (CHR ''0'')" using True 1 by (simp add: dec_char_def byte_def of_char_of)
    then have "dec_char n \<noteq> CHR ''0''" by auto
    with True show ?thesis by (subst nat_digits.simps) simp
  next
    case False
    with 1 have "hd (nat_digits (n div 10)) \<noteq> CHR ''0''" by simp
    with False show ?thesis by (subst nat_digits.simps) simp
  qed
qed

lemma nat_digits_0 [simp]: "nat_digits 0 = ''0''"
  by (subst nat_digits.simps) (simp add: dec_char_def char_of_def bit_simps bit_numeral_rec)

lemma takeWhile_dec: "list_all P xs \<Longrightarrow> (r = [] \<or> \<not> P (hd r)) \<Longrightarrow> takeWhile P (xs @ r) = xs"
  by (induction xs) (auto simp: takeWhile_eq_Nil_iff)

lemma int_part_digits:
  assumes "ends_number r"
  shows "int_part (nat_digits n @ r) = nat_digits n"
proof (cases "n = 0")
  case True
  then show ?thesis by (simp add: int_part_def)
next
  case False
  have "takeWhile is_dec (nat_digits n @ r) = nat_digits n"
    using assms by (intro takeWhile_dec nat_digits_dec) (auto simp: ends_number_def split: list.splits)
  moreover have "hd (nat_digits n) \<noteq> CHR ''0''" using False by (simp add: nat_digits_hd)
  moreover have "is_dec (hd (nat_digits n))"
    using nat_digits_dec [of n] by (cases "nat_digits n") auto
  ultimately show ?thesis
    by (cases "nat_digits n") (auto simp: int_part_def)
qed

lemma no_fraction: "ends_number r \<Longrightarrow> frac_part r = [] \<and> exp_part r = []"
  by (auto simp: ends_number_def frac_part_def exp_part_def split: list.splits)

lemma dec_not_minus: "is_dec c \<Longrightarrow> c \<noteq> CHR ''-''"
  by (auto simp: is_dec_def byte_def)

lemma parse_number_int: "ends_number r \<Longrightarrow> parse_number (int_text i @ r) = Some (JInt i, r)"
proof (cases "i < 0")
  case True
  assume "ends_number r"
  with True show ?thesis
    by (simp add: parse_number_def int_text_def int_part_digits no_fraction Let_def)
next
  case False
  assume r: "ends_number r"
  obtain d ds where dd: "nat_digits (nat i) = d # ds" by (cases "nat_digits (nat i)") auto
  with nat_digits_dec [of "nat i"] have "d \<noteq> CHR ''-''" by (auto dest: dec_not_minus)
  with dd have neg: "(case nat_digits (nat i) @ r of [] \<Rightarrow> False | c # _ \<Rightarrow> c = CHR ''-'') = False"
    by simp
  from False r show ?thesis
    by (simp add: parse_number_def int_text_def int_part_digits no_fraction Let_def neg)
qed

text \<open>Values: the fuel a value needs, and the values the theorem is about.\<close>

fun fuel_of :: "json \<Rightarrow> nat"
  and fuel_list :: "json list \<Rightarrow> nat"
  and fuel_dict :: "(string \<times> json) list \<Rightarrow> nat"
where
  "fuel_of (JList xs) = Suc (fuel_list xs)"
| "fuel_of (JObj d) = Suc (fuel_dict d)"
| "fuel_of JNull = 1"
| "fuel_of (JBool b) = 1"
| "fuel_of (JInt i) = 1"
| "fuel_of (JFloat t) = 1"
| "fuel_of (JStr s) = 1"
| "fuel_list [] = 0"
| "fuel_list (x # xs) = Suc (fuel_of x + fuel_list xs)"
| "fuel_dict [] = 0"
| "fuel_dict (p # d) = Suc (fuel_of (snd p) + fuel_dict d)"

fun no_floats :: "json \<Rightarrow> bool"
  and no_floats_list :: "json list \<Rightarrow> bool"
  and no_floats_dict :: "(string \<times> json) list \<Rightarrow> bool"
where
  "no_floats (JFloat t) = False"
| "no_floats (JList xs) = no_floats_list xs"
| "no_floats (JObj d) = no_floats_dict d"
| "no_floats JNull = True"
| "no_floats (JBool b) = True"
| "no_floats (JInt i) = True"
| "no_floats (JStr s) = True"
| "no_floats_list [] = True"
| "no_floats_list (x # xs) = (no_floats x \<and> no_floats_list xs)"
| "no_floats_dict [] = True"
| "no_floats_dict (p # d) = (no_floats (snd p) \<and> no_floats_dict d)"

lemma int_text_hd: "\<exists>c r. int_text i = c # r \<and> (c = CHR ''-'' \<or> is_dec c)"
proof (cases "i < 0")
  case False
  obtain d ds where "nat_digits (nat i) = d # ds" by (cases "nat_digits (nat i)") auto
  with False nat_digits_dec [of "nat i"] show ?thesis by (auto simp: int_text_def)
qed (simp add: int_text_def)

lemma dec_not_special:
  "is_dec c \<Longrightarrow> c \<notin> {QUOTE, CHR ''{'', CHR ''['', CHR ''n'', CHR ''t'', CHR ''f'', CHR '' '', CHR 0x09,
     CHR 0x0A, CHR 0x0D, CHR '']'', CHR ''}''}"
  by (auto simp: is_dec_def byte_def)

lemma print_json_hd:
  assumes "no_floats v"
  shows "\<exists>c r. print_json v = c # r \<and> \<not> is_ws c \<and> c \<noteq> CHR '']'' \<and> c \<noteq> CHR ''}''"
  using assms int_text_hd dec_not_special
  by (cases v) (auto simp: is_ws_def quote_text_def, blast?)

lemma skip_ws_print: "no_floats v \<Longrightarrow> skip_ws (print_json v @ r) = print_json v @ r"
  using print_json_hd [of v] by (auto simp: skip_ws_def)

lemma skip_ws_quote: "skip_ws (quote_text s @ r) = quote_text s @ r"
  by (simp add: skip_ws_def quote_text_def is_ws_def)

lemma skip_ws_Cons [simp]: "\<not> is_ws c \<Longrightarrow> skip_ws (c # r) = c # r"
  by (simp add: skip_ws_def)

lemma not_ws [simp]:
  "\<not> is_ws (CHR '','')" "\<not> is_ws (CHR '':'')" "\<not> is_ws (CHR '']'')" "\<not> is_ws (CHR ''}'')"
  "\<not> is_ws (CHR ''['')" "\<not> is_ws (CHR ''{'')" "\<not> is_ws QUOTE"
  by (simp_all add: is_ws_def)

lemma ends_number_punct [simp]:
  "ends_number (CHR '','' # r)" "ends_number (CHR '']'' # r)" "ends_number (CHR ''}'' # r)"
  "ends_number (NEWLINE # r)" "ends_number []"
  by (simp_all add: ends_number_def is_dec_def byte_def)

lemma parse_value_number:
  assumes "ends_number r"
  shows "parse_value (Suc n) (int_text i @ r) = Some (JInt i, r)"
proof -
  obtain c t where t: "int_text i = c # t" and c: "c = CHR ''-'' \<or> is_dec c"
    using int_text_hd [of i] by blast
  have "c \<notin> {QUOTE, CHR ''{'', CHR ''['', CHR ''n'', CHR ''t'', CHR ''f''}"
    using c dec_not_special by auto
  with parse_number_int [OF assms, of i] show ?thesis
    by (auto simp: t startswith_def)
qed

lemma parse_print:
  "no_floats v \<Longrightarrow> wf_json v \<Longrightarrow> fuel_of v \<le> n \<Longrightarrow> ends_number r \<Longrightarrow>
     parse_value n (print_json v @ r) = Some (v, r)"
  "xs \<noteq> [] \<Longrightarrow> no_floats_list xs \<Longrightarrow> wf_list xs \<Longrightarrow> fuel_list xs \<le> n \<Longrightarrow>
     parse_elems n (print_list xs @ CHR '']'' # r) = Some (xs, r)"
  "d \<noteq> [] \<Longrightarrow> no_floats_dict d \<Longrightarrow> wf_dict d \<Longrightarrow> fuel_dict d \<le> n \<Longrightarrow>
     parse_members n (print_dict d @ CHR ''}'' # r) = Some (d, r)"
proof (induction v and xs and d arbitrary: n r and n r and n r rule: print_json_print_list_print_dict.induct)
  case 1
  then show ?case by (cases n) (auto simp: startswith_def)
next
  case (2 b)
  then show ?case by (cases n; cases b) (auto simp: startswith_def)
next
  case (3 i)
  then show ?case by (cases n) (auto simp: parse_value_number simp del: parse_value.simps)
next
  case (5 s)
  then obtain m where "n = Suc m" by (cases n) auto
  with parse_quoted [of s r] show ?case by (simp add: quote_text_def)
next
  case (6 xs)
  then obtain m where n: "n = Suc m" and m: "fuel_list xs \<le> m" by (cases n) auto
  show ?case
  proof (cases xs)
    case Nil
    then show ?thesis by (simp add: n)
  next
    case (Cons x ys)
    with 6 have "parse_elems m (print_list xs @ CHR '']'' # r) = Some (xs, r)" using m by auto
    moreover obtain c t where "print_list xs @ CHR '']'' # r = c # t" "\<not> is_ws c" "c \<noteq> CHR '']''"
      using Cons 6 print_json_hd [of x] by auto
    ultimately show ?thesis by (simp add: n del: parse_elems.simps)
  qed
next
  case (7 d)
  then obtain m where n: "n = Suc m" and m: "fuel_dict d \<le> m" by (cases n) auto
  show ?case
  proof (cases d)
    case Nil
    then show ?thesis by (simp add: n)
  next
    case (Cons p e)
    with 7 have pm: "parse_members m (print_dict d @ CHR ''}'' # r) = Some (d, r)" using m by auto
    moreover obtain t where "print_dict d @ CHR ''}'' # r = QUOTE # t"
      using Cons by (simp add: quote_text_def)
    ultimately show ?thesis using 7
      by (simp add: n strict_object_def keys_of_def del: parse_members.simps)
  qed
next
  case (9 x xs)
  then obtain m where n: "n = Suc m" and m: "fuel_of x \<le> m" "fuel_list xs \<le> m" by (cases n) auto
  show ?case
  proof (cases xs)
    case Nil
    have "parse_value m (print_json x @ CHR '']'' # r) = Some (x, CHR '']'' # r)"
      using 9 m by auto
    with Nil show ?thesis by (simp add: n)
  next
    case (Cons y ys)
    have "parse_value m (print_json x @ CHR '','' # print_list xs @ CHR '']'' # r)
        = Some (x, CHR '','' # print_list xs @ CHR '']'' # r)"
      using 9 m by auto
    moreover have "parse_elems m (print_list xs @ CHR '']'' # r) = Some (xs, r)"
      using 9 m Cons by auto
    moreover have "skip_ws (print_list xs @ CHR '']'' # r) = print_list xs @ CHR '']'' # r"
      using Cons 9 by (simp add: skip_ws_print)
    ultimately show ?thesis using Cons by (simp add: n)
  qed
next
  case (11 p d)
  then obtain m where n: "n = Suc m" and m: "fuel_of (snd p) \<le> m" "fuel_dict d \<le> m"
    by (cases n) auto
  show ?case
  proof (cases d)
    case Nil
    have "parse_value m (print_json (snd p) @ CHR ''}'' # r) = Some (snd p, CHR ''}'' # r)"
      using 11 m by auto
    moreover have "skip_ws (print_json (snd p) @ CHR ''}'' # r) = print_json (snd p) @ CHR ''}'' # r"
      using 11 by (simp add: skip_ws_print)
    ultimately show ?thesis
      using Nil parse_quoted [of "fst p" "CHR '':'' # print_json (snd p) @ CHR ''}'' # r"]
      by (simp add: n quote_text_def)
  next
    case (Cons q e)
    let ?rest = "CHR '','' # print_dict d @ CHR ''}'' # r"
    have "parse_value m (print_json (snd p) @ ?rest) = Some (snd p, ?rest)"
      using 11 m by auto
    moreover have "parse_members m (print_dict d @ CHR ''}'' # r) = Some (d, r)"
      using 11 m Cons by auto
    moreover have "skip_ws (print_json (snd p) @ ?rest) = print_json (snd p) @ ?rest"
      using 11 by (simp add: skip_ws_print)
    moreover have "skip_ws (print_dict d @ CHR ''}'' # r) = print_dict d @ CHR ''}'' # r"
      using Cons by (simp add: skip_ws_quote)
    ultimately show ?thesis
      using Cons parse_quoted [of "fst p" "CHR '':'' # print_json (snd p) @ ?rest"]
      by (simp add: n quote_text_def)
  qed
qed simp_all

section \<open>Canonical form\<close>

lemma canon_list_map: "canon_list xs = map canon xs"
  by (induction xs) auto

lemma canon_dict_map: "canon_dict d = map (\<lambda>p. (fst p, canon (snd p))) d"
  by (induction d) auto

lemma no_floats_list_iff: "no_floats_list xs \<longleftrightarrow> (\<forall>x\<in>set xs. no_floats x)"
  by (induction xs) auto

lemma no_floats_dict_iff: "no_floats_dict d \<longleftrightarrow> (\<forall>p\<in>set d. no_floats (snd p))"
  by (induction d) auto

lemma finite_floats_dict_iff: "finite_floats_dict d \<longleftrightarrow> (\<forall>p\<in>set d. finite_floats (snd p))"
  by (induction d) auto

lemma finite_floats_list_iff: "finite_floats_list xs \<longleftrightarrow> (\<forall>x\<in>set xs. finite_floats x)"
  by (induction xs) auto

text \<open>All strings of a value, keys included, satisfy \<open>P\<close>.\<close>

fun all_text :: "(string \<Rightarrow> bool) \<Rightarrow> json \<Rightarrow> bool"
  and all_text_list :: "(string \<Rightarrow> bool) \<Rightarrow> json list \<Rightarrow> bool"
  and all_text_dict :: "(string \<Rightarrow> bool) \<Rightarrow> (string \<times> json) list \<Rightarrow> bool"
where
  "all_text P (JStr s) = P s"
| "all_text P (JList xs) = all_text_list P xs"
| "all_text P (JObj d) = all_text_dict P d"
| "all_text P JNull = True"
| "all_text P (JBool b) = True"
| "all_text P (JInt i) = True"
| "all_text P (JFloat t) = True"
| "all_text_list P [] = True"
| "all_text_list P (x # xs) = (all_text P x \<and> all_text_list P xs)"
| "all_text_dict P [] = True"
| "all_text_dict P (p # d) = (P (fst p) \<and> all_text P (snd p) \<and> all_text_dict P d)"

lemma all_text_list_iff: "all_text_list P xs \<longleftrightarrow> (\<forall>x\<in>set xs. all_text P x)"
  by (induction xs) auto

lemma all_text_dict_iff: "all_text_dict P d \<longleftrightarrow> (\<forall>p\<in>set d. P (fst p) \<and> all_text P (snd p))"
  by (induction d) auto

lemma mset_keys_canon: "mset (keys_of (sort_key fst (canon_dict d))) = mset (keys_of d)"
  by (simp add: keys_of_def canon_dict_map image_mset.compositionality comp_def)

lemma distinct_keys_canon:
  "distinct (keys_of (sort_key fst (canon_dict d))) \<longleftrightarrow> distinct (keys_of d)"
  by (rule mset_eq_imp_distinct_iff) (rule mset_keys_canon)

lemma canon_all:
  "(wf_json v \<longrightarrow> wf_json (canon v)) \<and> (no_floats v \<longrightarrow> no_floats (canon v))
   \<and> (all_text P v \<longrightarrow> all_text P (canon v))"
proof (induction v)
  case (JObj d)
  then have IH: "\<And>p. p \<in> set d \<Longrightarrow> (wf_json (snd p) \<longrightarrow> wf_json (canon (snd p)))
      \<and> (no_floats (snd p) \<longrightarrow> no_floats (canon (snd p))) \<and> (all_text P (snd p) \<longrightarrow> all_text P (canon (snd p)))"
    by (metis snds.intros surjective_pairing)
  have "wf_json (JObj d) \<longrightarrow> wf_json (canon (JObj d))"
    using IH by (simp add: distinct_keys_canon wf_dict_iff) (simp add: canon_dict_map)
  moreover have "no_floats (JObj d) \<longrightarrow> no_floats (canon (JObj d))"
    using IH by (simp add: no_floats_dict_iff) (simp add: canon_dict_map)
  moreover have "all_text P (JObj d) \<longrightarrow> all_text P (canon (JObj d))"
    using IH by (simp add: all_text_dict_iff) (simp add: canon_dict_map)
  ultimately show ?case by blast
qed (auto simp: canon_list_map wf_list_iff no_floats_list_iff all_text_list_iff)

lemmas canon_preserves = canon_all [THEN conjunct1, rule_format]
  canon_all [THEN conjunct2, THEN conjunct1, rule_format]
  canon_all [THEN conjunct2, THEN conjunct2, rule_format]

lemma canon_idem: "canon (canon v) = canon v"
proof (induction v)
  case (JObj d)
  then have IH: "\<And>p. p \<in> set d \<Longrightarrow> canon (canon (snd p)) = canon (snd p)"
    by (metis snds.intros surjective_pairing)
  have "map (\<lambda>p. (fst p, canon (snd p))) (sort_key fst (canon_dict d)) = sort_key fst (canon_dict d)"
    using IH by (intro map_idI) (auto simp: canon_dict_map)
  then show ?case by (simp add: canon_dict_map sort_key_id_if_sorted)
qed (auto simp: canon_list_map)

lemma no_floats_finite: "no_floats v \<Longrightarrow> finite_floats v"
proof (induction v)
  case (JObj d)
  then show ?case by (auto simp: no_floats_dict_iff finite_floats_dict_iff)
qed (auto simp: no_floats_list_iff finite_floats_list_iff)

lemma clean_all_text: "clean v \<longleftrightarrow> all_text (\<lambda>s. \<not> has_surrogate s) v"
proof (induction v)
  case (JObj d)
  then show ?case by (auto simp: all_text_dict_iff)
qed (auto simp: all_text_list_iff)

lemma all_text_mono: "all_text P v \<Longrightarrow> (\<And>s. P s \<Longrightarrow> Q s) \<Longrightarrow> all_text Q v"
proof (induction v)
  case (JObj d)
  then show ?case by (auto simp: all_text_dict_iff)
qed (auto simp: all_text_list_iff)

section \<open>The written bytes are UTF-8\<close>

lemma byte_windows:
  "128 \<le> (b::int) \<Longrightarrow> b \<le> 191 \<Longrightarrow> b mod 64 = b - 128"
  "224 \<le> b \<Longrightarrow> b < 240 \<Longrightarrow> b mod 16 = b - 224"
  "240 \<le> b \<Longrightarrow> b < 245 \<Longrightarrow> b mod 8 = b - 240"
  by presburger+

lemma utf8_valid_no_surrogate: "utf8_valid s \<Longrightarrow> \<not> has_surrogate s"
proof (induction s rule: utf8_valid.induct)
  case (2 c cs)
  then show ?case
    by (auto simp: has_surrogate_def cont_in_def cont_def byte_windows split: if_splits list.splits)
qed (simp add: has_surrogate_def)

lemma utf8_valid_append: "utf8_valid a \<Longrightarrow> utf8_valid b \<Longrightarrow> utf8_valid (a @ b)"
  by (induction a rule: utf8_valid.induct) (auto split: if_splits list.splits)

lemma utf8_valid_ascii: "ascii s \<Longrightarrow> utf8_valid s"
  by (induction s) (auto simp: ascii_def)

lemma esc_char_cases:
  "esc_char c = [c] \<or> ascii (esc_char c)"
proof (cases "esc_char c = [c]")
  case False
  have "byte (hex_digit d) < 128" if "0 \<le> d" "d < 16" for d using that by (simp add: hex_digit_def)
  moreover have "0 \<le> byte c div 16" "byte c < 32 \<Longrightarrow> byte c div 16 < 16" using byte_range [of c] by auto
  ultimately show ?thesis using False by (auto simp: esc_char_def ascii_def byte_def split: if_splits)
qed simp

lemma escaped_bytes:
  "byte QUOTE = 34" "byte BACKSLASH = 92" "byte (CHR 0x0A) = 10" "byte (CHR 0x0D) = 13"
  "byte (CHR 0x09) = 9" "byte (CHR 0x0C) = 12" "byte (CHR 0x08) = 8"
  by (simp_all add: byte_def)

lemma esc_high: "128 \<le> byte c \<Longrightarrow> esc_char c = [c]"
proof -
  assume b: "128 \<le> byte c"
  have "x \<noteq> c" if "byte x < 128" for x using that b by auto
  note [simp] = this [symmetric]
  show ?thesis using b by (simp add: esc_char_def escaped_bytes)
qed

lemma ascii_esc: "byte c < 128 \<Longrightarrow> ascii (esc_char c)"
  using esc_char_cases [of c] by (auto simp: ascii_def)

lemma utf8_valid_esc: "utf8_valid s \<Longrightarrow> utf8_valid (concat (map esc_char s))"
proof (induction s rule: utf8_valid.induct)
  case (2 c cs)
  show ?case
  proof (cases "byte c < 128")
    case True
    with 2 have "utf8_valid (concat (map esc_char cs))" by simp
    then show ?thesis using True by (simp add: ascii_esc utf8_valid_append utf8_valid_ascii)
  next
    case False
    with 2 show ?thesis
      by (auto simp: esc_high cont_in_def split: if_splits list.splits)
  qed
qed simp

lemma utf8_valid_Cons: "byte c < 128 \<Longrightarrow> utf8_valid (c # s) = utf8_valid s"
  by simp

lemma utf8_quote: "utf8_valid s \<Longrightarrow> utf8_valid (quote_text s)"
  by (auto simp: quote_text_def byte_def intro!: utf8_valid_append utf8_valid_esc)

lemma ascii_int_text: "ascii (int_text i)"
proof -
  have "ascii (nat_digits n)" for n
    using nat_digits_dec [of n] by (fastforce simp: ascii_def list_all_iff is_dec_def)
  then show ?thesis by (auto simp: int_text_def) (simp add: ascii_def byte_def)
qed

lemma utf8_print:
  "no_floats v \<Longrightarrow> all_text utf8_valid v \<Longrightarrow> utf8_valid (print_json v)"
  "no_floats_list xs \<Longrightarrow> all_text_list utf8_valid xs \<Longrightarrow> utf8_valid (print_list xs)"
  "no_floats_dict d \<Longrightarrow> all_text_dict utf8_valid d \<Longrightarrow> utf8_valid (print_dict d)"
proof (induction v and xs and d rule: print_json_print_list_print_dict.induct)
  case (3 i)
  then show ?case by (simp add: utf8_valid_ascii ascii_int_text)
qed (auto simp: utf8_quote byte_def intro!: utf8_valid_append)

lemma fuel_print:
  "no_floats v \<Longrightarrow> fuel_of v \<le> length (print_json v)"
  "no_floats_list xs \<Longrightarrow> fuel_list xs \<le> length (print_list xs) + 1"
  "no_floats_dict d \<Longrightarrow> fuel_dict d \<le> length (print_dict d) + 1"
proof (induction v and xs and d rule: print_json_print_list_print_dict.induct)
  case (3 i)
  have "int_text i \<noteq> []" by (simp add: int_text_def)
  then show ?case by (cases "int_text i") auto
qed (auto simp: quote_text_def)

lemma canonical_bytes_parse:
  assumes "is_obj v" and "wf_json v" and "no_floats v" and "all_text utf8_valid v"
  shows "\<exists>b. canonical_json_bytes v = Inr b \<and> parse_json_object_bytes b = Inr (canon v)"
proof -
  let ?b = "print_json (canon v) @ [NEWLINE]"
  have cv: "wf_json (canon v)" "no_floats (canon v)" "all_text utf8_valid (canon v)"
    using assms by (simp_all add: canon_preserves)
  have cl: "clean v" "clean (canon v)"
    using assms(4) cv(3) unfolding clean_all_text by (auto elim!: all_text_mono dest: utf8_valid_no_surrogate)
  have w: "canonical_json_bytes v = Inr ?b"
    using assms(3) cl by (simp add: canonical_json_bytes_def no_floats_finite)
  have u: "utf8_valid ?b"
    using cv by (auto intro!: utf8_valid_append utf8_print simp: byte_def)
  have "fuel_of (canon v) \<le> 2 * length ?b + 2" using fuel_print(1) [OF cv(2)] by simp
  with cv have "parse_value (2 * length ?b + 2) ?b = Some (canon v, [NEWLINE])"
    by (intro parse_print) auto
  moreover have "skip_ws ?b = ?b" using cv(2) by (rule skip_ws_print)
  ultimately have "json_loads ?b = Some (canon v)"
    by (simp add: json_loads_def skip_ws_def is_ws_def)
  moreover have "is_obj (canon v)" using assms(1) by (cases v) auto
  ultimately have "parse_json_object_bytes ?b = Inr (canon v)"
    using u cl(2) by (simp add: parse_json_object_bytes_def clean_def)
  with w show ?thesis by blast
qed

text \<open>C33. Durable JSON round-trips: for every object without floating-point numbers whose
  dictionaries have no repeated key and whose strings are well-formed Unicode,
  \<^verbatim>\<open>canonical_json_bytes\<close> succeeds and \<^verbatim>\<open>parse_json_object_bytes\<close> reads back the same value with
  the keys of every object in sorted order.\<close>

theorem canonical_json_roundtrip:
  assumes "is_obj v" and "wf_json v" and "no_floats v" and "all_text utf8_valid v"
  shows "\<exists>b. canonical_json_bytes v = Inr b \<and> parse_json_object_bytes b = Inr (canon v)"
  using assms by (rule canonical_bytes_parse)

theorem canonical_json_roundtrip_witness:
  "\<exists>b. canonical_json_bytes (JObj [(''b'', JInt (-7)), (''a'', JList [JNull, JStr [QUOTE, NEWLINE]])]) = Inr b
    \<and> parse_json_object_bytes b
        = Inr (JObj [(''a'', JList [JNull, JStr [QUOTE, NEWLINE]]), (''b'', JInt (-7))])"
proof -
  let ?v = "JObj [(''b'', JInt (-7)), (''a'', JList [JNull, JStr [QUOTE, NEWLINE]])]"
  have "canon ?v = JObj [(''a'', JList [JNull, JStr [QUOTE, NEWLINE]]), (''b'', JInt (-7))]"
    by code_simp
  moreover have "all_text utf8_valid ?v" by code_simp
  ultimately show ?thesis using canonical_json_roundtrip [of ?v] by simp
qed

end
