(* ===== verification/Config.thy ===== *)
theory Config
  imports Digest JsonText
begin

text \<open>
  \<^verbatim>\<open>config.py\<close>: the project configuration \<^verbatim>\<open>vibe.json\<close>, its checks, the command authorization that
  binds project commands to the exact bytes they were read from, the overrides of the command
  line, and the resolution of command identifiers.
\<close>

section \<open>Constants\<close>

definition ENV_NAME_RE :: "string \<Rightarrow> bool" where
  "ENV_NAME_RE s =
     (case s of [] \<Rightarrow> False
      | c # cs \<Rightarrow> (is_lower c \<or> is_upper c \<or> c = CHR ''_'')
          \<and> list_all (\<lambda>x. is_alnum x \<or> x = CHR ''_'') cs)"

definition COMMAND_ID_RE :: "string \<Rightarrow> bool" where
  "COMMAND_ID_RE s =
     re_ident is_lower (\<lambda>c. is_lower c \<or> is_dec c \<or> c = CHR ''_'' \<or> c = CHR ''-'') 63 s"

definition PROJECT_TOP_FIELDS :: "string list" where
  "PROJECT_TOP_FIELDS = [''provider'', ''scheduler'', ''limits'', ''verification'']"

definition LIMIT_FIELDS :: "string list" where
  "LIMIT_FIELDS =
     [''task_attempts'', ''provider_retries'', ''evidence_rounds'', ''repair_rounds'',
      ''max_plan_tasks'']"

definition EMPTY_COMMAND_AUTHORIZATION :: command_authorization where
  "EMPTY_COMMAND_AUTHORIZATION =
     \<lparr>ca_mode = ''EMPTY'', ca_source_path = None,
      ca_source_sha256 =
        ''sha256:ca3d163bab055381827226140568f3bef7eaac187cebd76878e0b63e9e442356''\<rparr>"

definition DEFAULT_CONFIG :: frozen_run_config where
  "DEFAULT_CONFIG =
     \<lparr>provider_name = ''codex-cli'', max_workers = 4, task_attempts = 3, provider_retries = 3,
      evidence_rounds = 3, repair_rounds = 3, max_plan_tasks = 128, command_catalog = [],
      required_command_ids = [], command_auth = EMPTY_COMMAND_AUTHORIZATION\<rparr>"

section \<open>Parsing\<close>

definition config_object :: "json \<Rightarrow> string list \<Rightarrow> json result" where
  "config_object v allowed =
     (if \<not> is_obj v then Inl ContractError
      else if \<not> set (jkeys v) \<subseteq> set allowed then Inl ContractError else Inr v)"

definition plain_positive_int :: "json \<Rightarrow> int result" where
  "plain_positive_int v =
     (case v of JInt i \<Rightarrow> if i < 1 then Inl ContractError else Inr i | _ \<Rightarrow> Inl ContractError)"

definition parse_command_authorization :: "json \<Rightarrow> command_authorization result" where
  "parse_command_authorization v =
     bnd (config_object v [''mode'', ''source_path'', ''source_sha256'']) (\<lambda>raw.
     let mode = sub raw ''mode''; source_path = sub raw ''source_path''; digest = sub raw ''source_sha256'' in
     if \<not> (is_str digest \<and> DIGEST_RE (str_of digest)) then Inl ContractError
     else if mode = JStr ''EMPTY'' then
       (if source_path \<noteq> JNull \<or> str_of digest \<noteq> ca_source_sha256 EMPTY_COMMAND_AUTHORIZATION
        then Inl ContractError
        else Inr \<lparr>ca_mode = ''EMPTY'', ca_source_path = None, ca_source_sha256 = str_of digest\<rparr>)
     else if mode = JStr ''EXPLICIT_PROJECT_FILE'' then
       (if source_path \<noteq> JStr ''vibe.json'' then Inl ContractError
        else Inr \<lparr>ca_mode = ''EXPLICIT_PROJECT_FILE'', ca_source_path = Some ''vibe.json'',
                  ca_source_sha256 = str_of digest\<rparr>)
     else Inl ContractError)"

text \<open>\<open>path\<close> is the name of the file the bytes were read from.\<close>

definition command_authorization_for_project_source ::
  "string option \<Rightarrow> string \<Rightarrow> bool \<Rightarrow> command_authorization result" where
  "command_authorization_for_project_source path exact_source_bytes commands_present =
     (if \<not> commands_present then Inr EMPTY_COMMAND_AUTHORIZATION
      else if path \<noteq> Some ''vibe.json'' then Inl ContractError
      else Inr \<lparr>ca_mode = ''EXPLICIT_PROJECT_FILE'', ca_source_path = Some ''vibe.json'',
                ca_source_sha256 = digest_of exact_source_bytes\<rparr>)"

definition all_strings :: "json list \<Rightarrow> bool" where
  "all_strings xs = list_all is_str xs"

definition config_command :: "json \<Rightarrow> command_spec result" where
  "config_command v =
     bnd (config_object v
       [''id'', ''purpose'', ''argv'', ''cwd'', ''timeout_seconds'', ''env_allowlist'']) (\<lambda>raw.
     let command_id = sub raw ''id''; purpose = sub raw ''purpose''; argv = sub raw ''argv'' in
     bnd (chk (is_str command_id \<and> COMMAND_ID_RE (str_of command_id))) (\<lambda>_.
     bnd (chk (is_str purpose \<and> \<not> blank (str_of purpose))) (\<lambda>_.
     bnd (chk (is_list argv \<and> elems argv \<noteq> []
            \<and> list_all (\<lambda>x. is_str x \<and> str_of x \<noteq> []) (elems argv))) (\<lambda>_.
     let cwd = get_or raw ''cwd'' (JStr ''.'') in
     bnd (chk (is_str cwd)) (\<lambda>_.
     let c = str_of cwd in
     bnd (chk (\<not> (is_absolute c \<or> ''..'' \<in> set (posix_parts c) \<or> c \<noteq> as_posix c
            \<or> startswith c ''.vibe-coding''))) (\<lambda>_.
     bnd (plain_positive_int (get_or raw ''timeout_seconds'' (JInt 900))) (\<lambda>timeout.
     let env = get_or raw ''env_allowlist'' (JList []) in
     bnd (chk (is_list env \<and> list_all (\<lambda>x. is_str x \<and> ENV_NAME_RE (str_of x)) (elems env)
            \<and> unique (map str_of (elems env)))) (\<lambda>_.
     Inr \<lparr>cs_id = str_of command_id, cs_purpose = str_of purpose,
          cs_argv = map str_of (elems argv), cs_cwd = c, cs_timeout_seconds = timeout,
          cs_env_allowlist = map str_of (elems env)\<rparr>))))))))"

definition parse_limits ::
  "json \<Rightarrow> json \<Rightarrow> command_spec list \<Rightarrow> string list \<Rightarrow> command_authorization \<Rightarrow> frozen_run_config result" where
  "parse_limits scheduler limits catalog required_ids auth =
     bnd (plain_positive_int (get_or scheduler ''max_workers'' (JInt (max_workers DEFAULT_CONFIG)))) (\<lambda>mw.
     bnd (plain_positive_int (get_or limits ''task_attempts'' (JInt (task_attempts DEFAULT_CONFIG)))) (\<lambda>ta.
     bnd (plain_positive_int (get_or limits ''provider_retries'' (JInt (provider_retries DEFAULT_CONFIG)))) (\<lambda>pr.
     bnd (plain_positive_int (get_or limits ''evidence_rounds'' (JInt (evidence_rounds DEFAULT_CONFIG)))) (\<lambda>er.
     bnd (plain_positive_int (get_or limits ''repair_rounds'' (JInt (repair_rounds DEFAULT_CONFIG)))) (\<lambda>rr.
     bnd (plain_positive_int (get_or limits ''max_plan_tasks'' (JInt (max_plan_tasks DEFAULT_CONFIG)))) (\<lambda>mp.
     Inr \<lparr>provider_name = ''codex-cli'', max_workers = mw, task_attempts = ta,
          provider_retries = pr, evidence_rounds = er, repair_rounds = rr, max_plan_tasks = mp,
          command_catalog = catalog, required_command_ids = required_ids, command_auth = auth\<rparr>))))))"

definition parse_config :: "json \<Rightarrow> bool \<Rightarrow> command_authorization option \<Rightarrow> frozen_run_config result" where
  "parse_config v frozen authorization =
     bnd (config_object v PROJECT_TOP_FIELDS) (\<lambda>root.
     bnd (config_object (get_or root ''provider'' (JObj [])) [''name'']) (\<lambda>provider.
     bnd (config_object (get_or root ''scheduler'' (JObj [])) [''max_workers'']) (\<lambda>scheduler.
     bnd (config_object (get_or root ''limits'' (JObj [])) LIMIT_FIELDS) (\<lambda>limits.
     bnd (config_object (get_or root ''verification'' (JObj []))
           ([''command_catalog'', ''required_command_ids''] @ (if frozen then [''authorization''] else [])))
       (\<lambda>verification.
     bnd (chk (get_or provider ''name'' (JStr (provider_name DEFAULT_CONFIG)) = JStr ''codex-cli'')) (\<lambda>_.
     let commands = get_or verification ''command_catalog'' (JList []) in
     bnd (chk (is_list commands)) (\<lambda>_.
     bnd (mapr config_command (elems commands)) (\<lambda>catalog.
     bnd (chk (unique (map cs_id catalog))) (\<lambda>_.
     let required = get_or verification ''required_command_ids'' (JList []);
         required_ids = map str_of (elems required) in
     bnd (chk (is_list required \<and> all_strings (elems required) \<and> unique required_ids)) (\<lambda>_.
     bnd (chk (set required_ids \<subseteq> set (map cs_id catalog))) (\<lambda>_.
     bnd (if frozen then parse_command_authorization (sub verification ''authorization'')
          else case authorization of None \<Rightarrow> Inl ContractError | Some a \<Rightarrow> Inr a) (\<lambda>auth.
     bnd (chk (frozen \<longrightarrow> ca_mode auth =
            (if catalog \<noteq> [] \<or> required_ids \<noteq> [] then ''EXPLICIT_PROJECT_FILE'' else ''EMPTY''))) (\<lambda>_.
     parse_limits scheduler limits catalog required_ids auth)))))))))))))"

definition parse_project_config :: "json \<Rightarrow> command_authorization \<Rightarrow> frozen_run_config result" where
  "parse_project_config v auth = parse_config v False (Some auth)"

definition parse_frozen_config :: "json \<Rightarrow> frozen_run_config result" where
  "parse_frozen_config v = parse_config v True None"

section \<open>Loading\<close>

definition OVERRIDE_MAP :: "(string \<times> string) list" where
  "OVERRIDE_MAP =
     [(''max_workers'', ''scheduler''), (''task_attempts'', ''limits''),
      (''provider_retries'', ''limits''), (''evidence_rounds'', ''limits''),
      (''repair_rounds'', ''limits''), (''max_plan_tasks'', ''limits'')]"

definition apply_override :: "json \<Rightarrow> json \<Rightarrow> string \<times> string \<Rightarrow> json" where
  "apply_override overrides replaced nf =
     (let override = sub overrides (fst nf) in
      if override \<noteq> JNull then upd replaced (snd nf) (\<lambda>sec. put sec (fst nf) override)
      else replaced)"

text \<open>\<open>source\<close> is the content of \<^verbatim>\<open>vibe.json\<close> in the target directory, if it exists.\<close>

definition load_run_config :: "string option \<Rightarrow> json \<Rightarrow> frozen_run_config result" where
  "load_run_config source overrides =
     (let source_path = (if source = None then None else Some ''vibe.json'');
          source_bytes = (case source of Some b \<Rightarrow> b | None \<Rightarrow> ''{}'' @ [NEWLINE]) in
      bnd (case source of Some b \<Rightarrow> parse_json_object_bytes b | None \<Rightarrow> Inr (JObj [])) (\<lambda>v.
      bnd (parse_project_config v (command_auth DEFAULT_CONFIG)) (\<lambda>provisional.
      let commands_present = command_catalog provisional \<noteq> [] \<or> required_command_ids provisional \<noteq> [] in
      bnd (chk (\<not> (commands_present \<and> sub overrides ''allow_project_commands'' \<noteq> JBool True))) (\<lambda>_.
      bnd (command_authorization_for_project_source source_path source_bytes commands_present) (\<lambda>authorization.
      bnd (parse_project_config v authorization) (\<lambda>config.
      bnd (chk (set (jkeys overrides) \<subseteq> set (map fst OVERRIDE_MAP) \<union> {''allow_project_commands''})) (\<lambda>_.
      parse_frozen_config (foldl (apply_override overrides) (config_as_dict config) OVERRIDE_MAP))))))))"

definition frozen_config_bytes :: "frozen_run_config \<Rightarrow> string result" where
  "frozen_config_bytes c = canonical_json_bytes (config_as_dict c)"

section \<open>Command identifiers\<close>

definition catalog_of :: "frozen_run_config \<Rightarrow> string \<Rightarrow> command_spec option" where
  "catalog_of config = map_of (rev (map (\<lambda>c. (cs_id c, c)) (command_catalog config)))"

definition resolve_command_ids :: "frozen_run_config \<Rightarrow> string list \<Rightarrow> command_spec list result" where
  "resolve_command_ids config ids =
     (if \<not> unique ids then Inl ContractError
      else mapr (\<lambda>i. case catalog_of config i of None \<Rightarrow> Inl ContractError | Some c \<Rightarrow> Inr c) ids)"

definition effective_command_ids :: "frozen_run_config \<Rightarrow> string list \<Rightarrow> string list result" where
  "effective_command_ids config additions =
     bnd (resolve_command_ids config additions) (\<lambda>_.
     let combined = dedup (required_command_ids config @ additions) in
     bnd (resolve_command_ids config combined) (\<lambda>_. Inr combined))"

section \<open>Well-formed configurations\<close>

text \<open>What a configuration promises to the rest of the program.\<close>

definition command_ok :: "command_spec \<Rightarrow> bool" where
  "command_ok c \<longleftrightarrow>
     COMMAND_ID_RE (cs_id c) \<and> \<not> blank (cs_purpose c) \<and> cs_argv c \<noteq> [] \<and> list_all (\<lambda>x. x \<noteq> []) (cs_argv c)
     \<and> \<not> is_absolute (cs_cwd c) \<and> ''..'' \<notin> set (posix_parts (cs_cwd c))
     \<and> as_posix (cs_cwd c) = cs_cwd c \<and> \<not> startswith (cs_cwd c) ''.vibe-coding''
     \<and> 1 \<le> cs_timeout_seconds c
     \<and> list_all ENV_NAME_RE (cs_env_allowlist c) \<and> distinct (cs_env_allowlist c)"

definition authorization_ok :: "command_authorization \<Rightarrow> bool" where
  "authorization_ok a \<longleftrightarrow>
     a = EMPTY_COMMAND_AUTHORIZATION
     \<or> ca_mode a = ''EXPLICIT_PROJECT_FILE'' \<and> ca_source_path a = Some ''vibe.json''
        \<and> DIGEST_RE (ca_source_sha256 a)"

definition config_ok :: "frozen_run_config \<Rightarrow> bool" where
  "config_ok c \<longleftrightarrow>
     provider_name c = ''codex-cli'' \<and> 1 \<le> max_workers c \<and> 1 \<le> task_attempts c
     \<and> 1 \<le> provider_retries c \<and> 1 \<le> evidence_rounds c \<and> 1 \<le> repair_rounds c
     \<and> 1 \<le> max_plan_tasks c
     \<and> list_all command_ok (command_catalog c) \<and> distinct (map cs_id (command_catalog c))
     \<and> distinct (required_command_ids c)
     \<and> set (required_command_ids c) \<subseteq> set (map cs_id (command_catalog c))
     \<and> authorization_ok (command_auth c)
     \<and> (command_catalog c = [] \<longleftrightarrow> ca_mode (command_auth c) = ''EMPTY'')"

lemma map_str_of_JStr [simp]: "map (str_of \<circ> JStr) xs = xs"
  by (simp add: comp_def)

lemma plain_positive_int_iff [simp]: "plain_positive_int v = Inr i \<longleftrightarrow> v = JInt i \<and> 1 \<le> i"
  by (cases v) (auto simp: plain_positive_int_def)

lemma config_object_iff [simp]:
  "config_object v allowed = Inr w \<longleftrightarrow> w = v \<and> is_obj v \<and> set (jkeys v) \<subseteq> set allowed"
  by (auto simp: config_object_def)

lemma get_or_Cons [simp]:
  "get_or (JObj []) k w = w"
  "get_or (JObj ((k', u) # d)) k w = (if k = k' then u else get_or (JObj d) k w)"
  by (simp_all add: get_or_def)

lemma config_command_as_dict: "command_ok c \<Longrightarrow> config_command (command_as_dict c) = Inr c"
  by (auto simp: config_command_def command_as_dict_def config_object_def command_ok_def jstrs_def
      list_all_iff bnd_eq_Inr intro!: exI)

lemma config_command_ok: "config_command v = Inr c \<Longrightarrow> command_ok c"
  by (auto simp: config_command_def command_ok_def Let_def list.pred_map comp_def bnd_eq_Inr
      elim!: list.pred_mono_strong)

lemma authorization_as_dict_parse:
  "authorization_ok a \<Longrightarrow> parse_command_authorization (authorization_as_dict a) = Inr a"
  by (auto simp: parse_command_authorization_def authorization_as_dict_def config_object_def
      authorization_ok_def EMPTY_COMMAND_AUTHORIZATION_def jopt_def) code_simp

lemma parse_authorization_ok: "parse_command_authorization v = Inr a \<Longrightarrow> authorization_ok a"
  by (auto simp: parse_command_authorization_def authorization_ok_def bnd_eq_Inr Let_def
      EMPTY_COMMAND_AUTHORIZATION_def split: if_splits)

lemma parse_limits_iff:
  "parse_limits scheduler limits catalog ids auth = Inr c \<longleftrightarrow>
     provider_name c = ''codex-cli'' \<and> command_catalog c = catalog \<and> required_command_ids c = ids
     \<and> command_auth c = auth
     \<and> get_or scheduler ''max_workers'' (JInt (max_workers DEFAULT_CONFIG)) = JInt (max_workers c)
     \<and> get_or limits ''task_attempts'' (JInt (task_attempts DEFAULT_CONFIG)) = JInt (task_attempts c)
     \<and> get_or limits ''provider_retries'' (JInt (provider_retries DEFAULT_CONFIG)) = JInt (provider_retries c)
     \<and> get_or limits ''evidence_rounds'' (JInt (evidence_rounds DEFAULT_CONFIG)) = JInt (evidence_rounds c)
     \<and> get_or limits ''repair_rounds'' (JInt (repair_rounds DEFAULT_CONFIG)) = JInt (repair_rounds c)
     \<and> get_or limits ''max_plan_tasks'' (JInt (max_plan_tasks DEFAULT_CONFIG)) = JInt (max_plan_tasks c)
     \<and> 1 \<le> max_workers c \<and> 1 \<le> task_attempts c \<and> 1 \<le> provider_retries c \<and> 1 \<le> evidence_rounds c
     \<and> 1 \<le> repair_rounds c \<and> 1 \<le> max_plan_tasks c"
  by (cases c) (auto simp: parse_limits_def bnd_eq_Inr)

lemma parse_config_facts:
  assumes "parse_config v frozen auth = Inr c"
  shows "list_all command_ok (command_catalog c)" "distinct (map cs_id (command_catalog c))"
    "distinct (required_command_ids c)"
    "set (required_command_ids c) \<subseteq> set (map cs_id (command_catalog c))"
    "\<not> frozen \<Longrightarrow> auth = Some (command_auth c)"
    "frozen \<Longrightarrow> authorization_ok (command_auth c)
       \<and> ca_mode (command_auth c) = (if command_catalog c \<noteq> [] then ''EXPLICIT_PROJECT_FILE'' else ''EMPTY'')"
    "provider_name c = ''codex-cli''" "1 \<le> max_workers c" "1 \<le> task_attempts c"
    "1 \<le> provider_retries c" "1 \<le> evidence_rounds c" "1 \<le> repair_rounds c" "1 \<le> max_plan_tasks c"
  using assms
  by (auto simp: parse_config_def Let_def bnd_eq_Inr parse_limits_iff mapr_eq_Inr list_all_length
      list_all2_conv_all_nth config_command_ok split: if_splits option.splits
      dest: parse_authorization_ok)

lemma parse_frozen_ok:
  assumes "parse_frozen_config v = Inr c"
  shows "config_ok c"
proof -
  note facts = parse_config_facts [OF assms [unfolded parse_frozen_config_def]]
  show ?thesis using facts by (simp add: config_ok_def)
qed

lemma mapr_config_command:
  "list_all command_ok cs \<Longrightarrow> mapr config_command (map command_as_dict cs) = Inr cs"
  by (induction cs) (auto simp: config_command_as_dict)

lemma expected_mode:
  "config_ok c \<Longrightarrow> ca_mode (command_auth c) =
     (if command_catalog c \<noteq> [] \<or> required_command_ids c \<noteq> [] then ''EXPLICIT_PROJECT_FILE'' else ''EMPTY'')"
  by (auto simp: config_ok_def authorization_ok_def EMPTY_COMMAND_AUTHORIZATION_def)

lemma parse_frozen_as_dict:
  assumes "config_ok c"
  shows "parse_frozen_config (config_as_dict c) = Inr c"
proof -
  have cfg: "mapr config_command (map command_as_dict (command_catalog c)) = Inr (command_catalog c)"
    "parse_command_authorization (authorization_as_dict (command_auth c)) = Inr (command_auth c)"
    using assms by (auto simp: config_ok_def mapr_config_command authorization_as_dict_parse)
  have strs: "all_strings (map JStr xs)" for xs
    by (simp add: all_strings_def list_all_iff)
  show ?thesis
    using assms expected_mode [OF assms]
    unfolding parse_frozen_config_def parse_config_def config_as_dict_def
    by (simp add: config_object_def PROJECT_TOP_FIELDS_def LIMIT_FIELDS_def keys_of_def)
       (simp add: cfg jstrs_def strs image_image Let_def parse_limits_iff bnd_eq_Inr config_ok_def)
qed

section \<open>Reading a canonical document\<close>

lemma canon_type_simps [simp]:
  "is_obj (canon v) = is_obj v" "is_list (canon v) = is_list v" "is_str (canon v) = is_str v"
  "is_int (canon v) = is_int v" "str_of (canon v) = str_of v" "int_of (canon v) = int_of v"
  "elems (canon v) = map canon (elems v)"
  "canon v = JStr s \<longleftrightarrow> v = JStr s" "canon v = JNull \<longleftrightarrow> v = JNull" "canon v = JInt i \<longleftrightarrow> v = JInt i"
  "canon v = JBool b \<longleftrightarrow> v = JBool b"
  by (cases v; simp add: str_of_def int_of_def elems_def canon_list_map)+

lemma set_jkeys_canon [simp]: "set (jkeys (canon v)) = set (jkeys v)"
  by (cases v) (auto simp: jkeys_def items_def keys_of_def canon_dict_map image_image)

lemma map_of_canon_dict: "map_of (canon_dict d) k = map_option canon (map_of d k)"
  by (induction d) auto

lemma jget_canon: "wf_json v \<Longrightarrow> jget (canon v) k = map_option canon (jget v k)"
proof (cases v)
  case (JObj d)
  moreover assume "wf_json v"
  ultimately have "distinct (keys_of d)" and "distinct (keys_of (canon_dict d))"
    by (simp_all add: keys_of_def canon_dict_map comp_def)
  then have "map_of (sort_key fst (canon_dict d)) = map_of (canon_dict d)"
    by (subst map_of_inject_set) (simp_all add: keys_of_def [symmetric] distinct_keys_canon)
  then show ?thesis using JObj by (simp add: map_of_canon_dict)
qed (simp_all add: jget_def items_def)

lemma sub_canon: "wf_json v \<Longrightarrow> sub (canon v) k = canon (sub v k)"
  by (simp add: sub_def jget_canon split: option.split)

lemma get_or_canon: "wf_json v \<Longrightarrow> canon w = w \<Longrightarrow> get_or (canon v) k w = canon (get_or v k w)"
  by (simp add: get_or_def jget_canon split: option.split)

lemma wf_get_or: "wf_json v \<Longrightarrow> wf_json w \<Longrightarrow> wf_json (get_or v k w)"
  using wf_sub [of v k] by (auto simp: get_or_def sub_def split: option.split)

lemma bnd_config_object:
  "bnd (config_object v allowed) f =
     (if is_obj v \<and> set (jkeys v) \<subseteq> set allowed then f v else Inl ContractError)"
  by (simp add: config_object_def)

lemma plain_positive_int_canon [simp]: "plain_positive_int (canon v) = plain_positive_int v"
  by (cases v) (simp_all add: plain_positive_int_def)

lemma comp_canon [simp]: "str_of \<circ> canon = str_of" "is_str \<circ> canon = is_str"
  by (simp_all add: fun_eq_iff)

lemma config_command_canon: "wf_json v \<Longrightarrow> config_command (canon v) = config_command v"
  by (simp add: config_command_def bnd_config_object get_or_canon sub_canon list.pred_map comp_def Let_def)

lemma mapr_map: "mapr f (map g xs) = mapr (\<lambda>x. f (g x)) xs"
  by (induction xs) auto

lemma mapr_cong_set: "(\<And>x. x \<in> set xs \<Longrightarrow> f x = g x) \<Longrightarrow> mapr f xs = mapr g xs"
  by (induction xs) auto

lemma parse_authorization_canon:
  "wf_json v \<Longrightarrow> parse_command_authorization (canon v) = parse_command_authorization v"
  by (simp add: parse_command_authorization_def bnd_config_object sub_canon Let_def)

lemma parse_limits_canon:
  "wf_json a \<Longrightarrow> wf_json b \<Longrightarrow> parse_limits (canon a) (canon b) = parse_limits a b"
  by (simp add: parse_limits_def get_or_canon fun_eq_iff)

lemma parse_catalog_canon:
  "wf_json v \<Longrightarrow> mapr config_command (map canon (elems v)) = mapr config_command (elems v)"
  by (simp add: mapr_map) (rule mapr_cong_set, auto intro: config_command_canon wf_elems)

lemma parse_config_canon: "wf_json v \<Longrightarrow> parse_config (canon v) f a = parse_config v f a"
  by (simp add: parse_config_def bnd_config_object get_or_canon sub_canon wf_get_or parse_catalog_canon
      parse_authorization_canon parse_limits_canon wf_sub all_strings_def list.pred_map Let_def image_image)

text \<open>A configuration as a document: no float, no repeated key.\<close>

lemma config_as_dict_wf [simp]: "wf_json (config_as_dict c)" "no_floats (config_as_dict c)" "is_obj (config_as_dict c)"
  by (auto simp: config_as_dict_def command_as_dict_def authorization_as_dict_def jstrs_def jopt_def
      wf_list_iff no_floats_list_iff split: option.split)

text \<open>The frozen configuration survives its file: whatever configuration the parser accepts,
  \<^verbatim>\<open>frozen_config_bytes\<close> writes it, and reading those bytes back with
  \<^verbatim>\<open>parse_json_object_bytes\<close> and \<^verbatim>\<open>parse_frozen_config\<close> gives exactly the same
  configuration, provided its strings are well-formed Unicode text.\<close>

theorem frozen_config_roundtrip:
  assumes "parse_frozen_config v = Inr c" and "all_text utf8_valid (config_as_dict c)"
  shows "\<exists>b. frozen_config_bytes c = Inr b \<and> bnd (parse_json_object_bytes b) parse_frozen_config = Inr c"
proof -
  obtain b where "canonical_json_bytes (config_as_dict c) = Inr b"
    "parse_json_object_bytes b = Inr (canon (config_as_dict c))"
    using canonical_bytes_parse [of "config_as_dict c"] assms(2) by auto
  moreover have "parse_frozen_config (canon (config_as_dict c)) = Inr c"
    using parse_frozen_as_dict [OF parse_frozen_ok [OF assms(1)]]
    by (simp add: parse_frozen_config_def parse_config_canon)
  ultimately show ?thesis by (simp add: frozen_config_bytes_def)
qed

theorem frozen_config_roundtrip_witness:
  "\<exists>b. frozen_config_bytes DEFAULT_CONFIG = Inr b
     \<and> bnd (parse_json_object_bytes b) parse_frozen_config = Inr DEFAULT_CONFIG"
proof (rule frozen_config_roundtrip)
  show "parse_frozen_config (config_as_dict DEFAULT_CONFIG) = Inr DEFAULT_CONFIG" by code_simp
  show "all_text utf8_valid (config_as_dict DEFAULT_CONFIG)" by code_simp
qed


section \<open>Overrides\<close>

definition pick :: "json \<Rightarrow> string \<Rightarrow> int \<Rightarrow> json" where
  "pick overrides name i = (if sub overrides name \<noteq> JNull then sub overrides name else JInt i)"

text \<open>The document that the overrides of the command line produce.\<close>

definition overridden :: "json \<Rightarrow> frozen_run_config \<Rightarrow> json" where
  "overridden o' c =
     JObj [(''provider'', JObj [(''name'', JStr (provider_name c))]),
           (''scheduler'', JObj [(''max_workers'', pick o' ''max_workers'' (max_workers c))]),
           (''limits'', JObj [(''task_attempts'', pick o' ''task_attempts'' (task_attempts c)),
              (''provider_retries'', pick o' ''provider_retries'' (provider_retries c)),
              (''evidence_rounds'', pick o' ''evidence_rounds'' (evidence_rounds c)),
              (''repair_rounds'', pick o' ''repair_rounds'' (repair_rounds c)),
              (''max_plan_tasks'', pick o' ''max_plan_tasks'' (max_plan_tasks c))]),
           (''verification'', JObj [
              (''command_catalog'', JList (map command_as_dict (command_catalog c))),
              (''required_command_ids'', jstrs (required_command_ids c)),
              (''authorization'', authorization_as_dict (command_auth c))])]"

lemma apply_override_pick:
  assumes "has_key r f" and "has_key (sub r f) n" and "sub (sub r f) n = JInt i"
  shows "apply_override o' r (n, f) = put r f (put (sub r f) n (pick o' n i))"
  using assms by (simp add: apply_override_def pick_def upd_def put_triv Let_def)

lemma apply_overrides: "foldl (apply_override o') (config_as_dict c) OVERRIDE_MAP = overridden o' c"
  by (simp add: OVERRIDE_MAP_def config_as_dict_def overridden_def apply_override_pick has_key_def put_def)

text \<open>The catalog and the authorization of the configuration read from the project file.\<close>

definition commands_ok :: "frozen_run_config \<Rightarrow> bool" where
  "commands_ok c \<longleftrightarrow>
     list_all command_ok (command_catalog c) \<and> distinct (map cs_id (command_catalog c))
     \<and> distinct (required_command_ids c)
     \<and> set (required_command_ids c) \<subseteq> set (map cs_id (command_catalog c))
     \<and> authorization_ok (command_auth c)
     \<and> ca_mode (command_auth c) = (if command_catalog c \<noteq> [] then ''EXPLICIT_PROJECT_FILE'' else ''EMPTY'')"

lemma parse_overridden:
  assumes "commands_ok d" and "parse_frozen_config (overridden o' d) = Inr c"
  shows "provider_name c = ''codex-cli''" "command_catalog c = command_catalog d"
    "required_command_ids c = required_command_ids d" "command_auth c = command_auth d"
    "pick o' ''max_workers'' (max_workers d) = JInt (max_workers c)"
    "pick o' ''task_attempts'' (task_attempts d) = JInt (task_attempts c)"
    "pick o' ''provider_retries'' (provider_retries d) = JInt (provider_retries c)"
    "pick o' ''evidence_rounds'' (evidence_rounds d) = JInt (evidence_rounds c)"
    "pick o' ''repair_rounds'' (repair_rounds d) = JInt (repair_rounds c)"
    "pick o' ''max_plan_tasks'' (max_plan_tasks d) = JInt (max_plan_tasks c)"
proof -
  have d: "mapr config_command (map command_as_dict (command_catalog d)) = Inr (command_catalog d)"
    "parse_command_authorization (authorization_as_dict (command_auth d)) = Inr (command_auth d)"
    using assms(1) by (auto simp: commands_ok_def mapr_config_command authorization_as_dict_parse)
  have "parse_limits (sub (overridden o' d) ''scheduler'') (sub (overridden o' d) ''limits'')
          (command_catalog d) (required_command_ids d) (command_auth d) = Inr c"
    using assms(2) unfolding parse_frozen_config_def parse_config_def overridden_def
    by (simp add: bnd_config_object bnd_eq_Inr Let_def jstrs_def d split: if_splits)
  then show "provider_name c = ''codex-cli''" "command_catalog c = command_catalog d"
    "required_command_ids c = required_command_ids d" "command_auth c = command_auth d"
    "pick o' ''max_workers'' (max_workers d) = JInt (max_workers c)"
    "pick o' ''task_attempts'' (task_attempts d) = JInt (task_attempts c)"
    "pick o' ''provider_retries'' (provider_retries d) = JInt (provider_retries c)"
    "pick o' ''evidence_rounds'' (evidence_rounds d) = JInt (evidence_rounds c)"
    "pick o' ''repair_rounds'' (repair_rounds d) = JInt (repair_rounds c)"
    "pick o' ''max_plan_tasks'' (max_plan_tasks d) = JInt (max_plan_tasks c)"
    by (simp_all add: parse_limits_iff overridden_def)
qed

text \<open>What a successful load went through.\<close>

lemma load_run_config_cases:
  assumes "load_run_config source overrides = Inr c"
  obtains v auth d where
    "(case source of None \<Rightarrow> v = JObj [] | Some b \<Rightarrow> parse_json_object_bytes b = Inr v)"
    "parse_project_config v auth = Inr d"
    "command_catalog d \<noteq> [] \<Longrightarrow> sub overrides ''allow_project_commands'' = JBool True"
    "command_authorization_for_project_source (if source = None then None else Some ''vibe.json'')
       (case source of None \<Rightarrow> ''{}'' @ [NEWLINE] | Some b \<Rightarrow> b) (command_catalog d \<noteq> []) = Inr auth"
    "set (jkeys overrides) \<subseteq> set (map fst OVERRIDE_MAP) \<union> {''allow_project_commands''}"
    "parse_frozen_config (overridden overrides d) = Inr c"
proof -
  let ?P = "if source = None then None else Some ''vibe.json''"
  let ?B = "case source of None \<Rightarrow> ''{}'' @ [NEWLINE] | Some b \<Rightarrow> b"
  obtain v p auth d where v: "(case source of Some b \<Rightarrow> parse_json_object_bytes b | None \<Rightarrow> Inr (JObj [])) = Inr v"
    and p: "parse_project_config v (command_auth DEFAULT_CONFIG) = Inr p"
    and allow: "\<not> ((command_catalog p \<noteq> [] \<or> required_command_ids p \<noteq> [])
        \<and> sub overrides ''allow_project_commands'' \<noteq> JBool True)"
    and auth: "command_authorization_for_project_source ?P ?B
        (command_catalog p \<noteq> [] \<or> required_command_ids p \<noteq> []) = Inr auth"
    and d: "parse_project_config v auth = Inr d"
    and keys: "set (jkeys overrides) \<subseteq> set (map fst OVERRIDE_MAP) \<union> {''allow_project_commands''}"
    and c: "parse_frozen_config (overridden overrides d) = Inr c"
    using assms unfolding load_run_config_def Let_def by (auto simp only: bnd_eq_Inr apply_overrides chk_eq_Inr)
  have same: "command_catalog d = command_catalog p" "required_command_ids d = required_command_ids p"
    using p d unfolding parse_project_config_def parse_config_def
    by (auto simp: bnd_config_object bnd_eq_Inr parse_limits_iff Let_def split: if_splits)
  have "required_command_ids p \<noteq> [] \<Longrightarrow> command_catalog p \<noteq> []"
    using parse_config_facts(4) [OF p [unfolded parse_project_config_def]] by auto
  then have present: "(command_catalog p \<noteq> [] \<or> required_command_ids p \<noteq> []) = (command_catalog d \<noteq> [])"
    by (auto simp: same)
  show thesis
  proof (rule that)
    show "case source of None \<Rightarrow> v = JObj [] | Some b \<Rightarrow> parse_json_object_bytes b = Inr v"
      using v by (auto split: option.splits)
    show "sub overrides ''allow_project_commands'' = JBool True" if "command_catalog d \<noteq> []"
      using allow that unfolding present by blast
  qed (fact d, fact auth [unfolded present], fact keys, fact c)
qed

lemma project_authorization:
  assumes "command_authorization_for_project_source path b present = Inr auth"
  shows "authorization_ok auth" "ca_mode auth = (if present then ''EXPLICIT_PROJECT_FILE'' else ''EMPTY'')"
    "present \<Longrightarrow> ca_source_sha256 auth = digest_of b \<and> path \<noteq> None"
    "\<not> present \<Longrightarrow> auth = EMPTY_COMMAND_AUTHORIZATION"
  using assms by (auto simp: command_authorization_for_project_source_def authorization_ok_def
      EMPTY_COMMAND_AUTHORIZATION_def split: if_splits)

lemma project_commands_ok:
  assumes "parse_project_config v auth = Inr d"
    and "command_authorization_for_project_source path b (command_catalog d \<noteq> []) = Inr auth"
  shows "commands_ok d" "command_auth d = auth"
  using parse_config_facts(1-5) [OF assms(1) [unfolded parse_project_config_def]] project_authorization [OF assms(2)]
  by (auto simp: commands_ok_def)

text \<open>C25. Project commands never run without consent: a configuration that loads with a
  non-empty command catalog comes from a \<^verbatim>\<open>vibe.json\<close> file, the caller passed
  \<^verbatim>\<open>allow_project_commands\<close>, and the authorization it carries is the SHA-256 digest of the exact
  bytes of that file; without commands it carries the empty authorization.  In both cases the
  configuration is well formed.\<close>

theorem load_run_config_authorized:
  assumes "load_run_config source overrides = Inr c"
  shows "config_ok c \<and>
    (if command_catalog c = [] then command_auth c = EMPTY_COMMAND_AUTHORIZATION
     else sub overrides ''allow_project_commands'' = JBool True
       \<and> (\<exists>b. source = Some b \<and> ca_mode (command_auth c) = ''EXPLICIT_PROJECT_FILE''
              \<and> ca_source_sha256 (command_auth c) = digest_of b))"
  using assms
proof (rule load_run_config_cases)
  fix v auth d
  assume d: "parse_project_config v auth = Inr d"
    and allow: "command_catalog d \<noteq> [] \<Longrightarrow> sub overrides ''allow_project_commands'' = JBool True"
    and auth: "command_authorization_for_project_source (if source = None then None else Some ''vibe.json'')
       (case source of None \<Rightarrow> ''{}'' @ [NEWLINE] | Some b \<Rightarrow> b) (command_catalog d \<noteq> []) = Inr auth"
    and c: "parse_frozen_config (overridden overrides d) = Inr c"
  note dok = project_commands_ok [OF d auth]
  note same = parse_overridden(2,4) [OF dok(1) c]
  show ?thesis
    using parse_frozen_ok [OF c] project_authorization [OF auth] allow
    by (auto simp: same dok(2) split: if_splits option.splits)
qed

lemma pick_positive:
  "pick overrides n j = JInt i \<Longrightarrow> 1 \<le> i \<Longrightarrow> sub overrides n = JNull \<or> (\<exists>i\<ge>1. sub overrides n = JInt i)"
  by (auto simp: pick_def split: if_splits)

lemma overrides_positive:
  assumes "commands_ok d" and "parse_frozen_config (overridden overrides d) = Inr c"
    and "n \<in> set (map fst OVERRIDE_MAP)"
  shows "sub overrides n = JNull \<or> (\<exists>i\<ge>1. sub overrides n = JInt i)"
proof -
  note same = parse_overridden(5-10) [OF assms(1,2)]
  have lims: "1 \<le> max_workers c" "1 \<le> task_attempts c" "1 \<le> provider_retries c"
    "1 \<le> evidence_rounds c" "1 \<le> repair_rounds c" "1 \<le> max_plan_tasks c"
    using parse_frozen_ok [OF assms(2)] by (simp_all add: config_ok_def)
  have "n \<in> {''max_workers'', ''task_attempts'', ''provider_retries'', ''evidence_rounds'',
      ''repair_rounds'', ''max_plan_tasks''}"
    using assms(3) by (simp add: OVERRIDE_MAP_def)
  with same [THEN pick_positive] lims show ?thesis by blast
qed

lemma overridden_config:
  assumes "commands_ok d" and "provider_name d = ''codex-cli''"
    and "parse_frozen_config (overridden overrides d) = Inr c"
  shows "c = d\<lparr>max_workers := int_of (pick overrides ''max_workers'' (max_workers d)),
            task_attempts := int_of (pick overrides ''task_attempts'' (task_attempts d)),
            provider_retries := int_of (pick overrides ''provider_retries'' (provider_retries d)),
            evidence_rounds := int_of (pick overrides ''evidence_rounds'' (evidence_rounds d)),
            repair_rounds := int_of (pick overrides ''repair_rounds'' (repair_rounds d)),
            max_plan_tasks := int_of (pick overrides ''max_plan_tasks'' (max_plan_tasks d))\<rparr>"
  using parse_overridden [OF assms(1,3)] assms(2) by (cases c; cases d) simp

text \<open>The overrides of the command line replace exactly the limits they name: the loaded
  configuration is the one of the project file (or the default one) with each overridden limit
  replaced, and an override that is not a positive integer is refused.\<close>

lemma load_run_config_overrides:
  assumes "load_run_config source overrides = Inr c"
  shows "\<exists>v auth d. (case source of None \<Rightarrow> v = JObj [] | Some b \<Rightarrow> parse_json_object_bytes b = Inr v)
    \<and> parse_project_config v auth = Inr d
    \<and> c = d\<lparr>max_workers := int_of (pick overrides ''max_workers'' (max_workers d)),
            task_attempts := int_of (pick overrides ''task_attempts'' (task_attempts d)),
            provider_retries := int_of (pick overrides ''provider_retries'' (provider_retries d)),
            evidence_rounds := int_of (pick overrides ''evidence_rounds'' (evidence_rounds d)),
            repair_rounds := int_of (pick overrides ''repair_rounds'' (repair_rounds d)),
            max_plan_tasks := int_of (pick overrides ''max_plan_tasks'' (max_plan_tasks d))\<rparr>
    \<and> (\<forall>n. has_key overrides n \<longrightarrow> n = ''allow_project_commands'' \<or> sub overrides n = JNull
          \<or> (\<exists>i\<ge>1. sub overrides n = JInt i))"
  using assms
proof (rule load_run_config_cases)
  fix v auth d
  assume v: "case source of None \<Rightarrow> v = JObj [] | Some b \<Rightarrow> parse_json_object_bytes b = Inr v"
    and d: "parse_project_config v auth = Inr d"
    and auth: "command_authorization_for_project_source (if source = None then None else Some ''vibe.json'')
       (case source of None \<Rightarrow> ''{}'' @ [NEWLINE] | Some b \<Rightarrow> b) (command_catalog d \<noteq> []) = Inr auth"
    and keys: "set (jkeys overrides) \<subseteq> set (map fst OVERRIDE_MAP) \<union> {''allow_project_commands''}"
    and c: "parse_frozen_config (overridden overrides d) = Inr c"
  note dok = project_commands_ok(1) [OF d auth]
  have "provider_name d = ''codex-cli''"
    using d [unfolded parse_project_config_def] by (rule parse_config_facts)
  note eq = overridden_config [OF dok this c]
  have "\<forall>n. has_key overrides n \<longrightarrow> n = ''allow_project_commands'' \<or> sub overrides n = JNull
      \<or> (\<exists>i\<ge>1. sub overrides n = JInt i)"
    using overrides_positive [OF dok c] keys unfolding has_key_iff by blast
  with v d eq show ?thesis by blast
qed

section \<open>Command identifiers\<close>

lemma map_of_rev_catalog:
  "distinct (map cs_id cs) \<Longrightarrow> map_of (rev (map (\<lambda>c. (cs_id c, c)) cs)) i = Some c \<longleftrightarrow> c \<in> set cs \<and> cs_id c = i"
  by (auto simp: map_of_eq_Some_iff rev_map [symmetric] comp_def distinct_rev)

lemma catalog_of_iff:
  "config_ok config \<Longrightarrow> catalog_of config i = Some c \<longleftrightarrow> c \<in> set (command_catalog config) \<and> cs_id c = i"
  unfolding catalog_of_def by (rule map_of_rev_catalog) (simp add: config_ok_def)

lemma resolve_command_ids_iff:
  assumes "config_ok config"
  shows "resolve_command_ids config ids = Inr cs \<longleftrightarrow>
     distinct ids \<and> map cs_id cs = ids \<and> set cs \<subseteq> set (command_catalog config)"
proof -
  have "mapr (\<lambda>i. case catalog_of config i of None \<Rightarrow> Inl ContractError | Some c \<Rightarrow> Inr c) ids = Inr cs
      \<longleftrightarrow> map cs_id cs = ids \<and> set cs \<subseteq> set (command_catalog config)"
  proof (induction ids arbitrary: cs)
    case (Cons i ids)
    have look: "(case catalog_of config i of None \<Rightarrow> Inl ContractError | Some c \<Rightarrow> Inr c) = Inr c
        \<longleftrightarrow> c \<in> set (command_catalog config) \<and> cs_id c = i" for c
      unfolding catalog_of_iff [OF assms, symmetric] by (simp split: option.split)
    show ?case by (cases cs) (auto simp: bnd_eq_Inr Cons.IH look)
  qed auto
  then show ?thesis by (auto simp: resolve_command_ids_def)
qed

lemma resolvable:
  assumes "config_ok config"
  shows "ok (resolve_command_ids config ids) \<longleftrightarrow> distinct ids \<and> set ids \<subseteq> set (map cs_id (command_catalog config))"
proof
  assume "distinct ids \<and> set ids \<subseteq> set (map cs_id (command_catalog config))"
  then have "\<exists>cs. map cs_id cs = ids \<and> set cs \<subseteq> set (command_catalog config)"
  proof (induction ids)
    case (Cons i ids)
    then obtain cs c where "map cs_id cs = ids" "set cs \<subseteq> set (command_catalog config)"
      "c \<in> set (command_catalog config)" "cs_id c = i" by auto
    then show ?case by (intro exI [of _ "c # cs"]) simp
  qed simp
  with \<open>distinct ids \<and> _\<close> show "ok (resolve_command_ids config ids)"
    by (auto simp: ok_iff resolve_command_ids_iff [OF assms])
qed (fastforce simp: ok_iff resolve_command_ids_iff [OF assms])

text \<open>The commands a verification runs: \<^verbatim>\<open>effective_command_ids\<close> succeeds exactly when the
  additions are distinct identifiers of the catalog, and then every required command comes first,
  in the configured order, the additions follow, none is repeated, and every one of them resolves.\<close>

theorem effective_command_ids_spec:
  assumes "config_ok config"
  shows "(ok (effective_command_ids config additions) \<longleftrightarrow>
      distinct additions \<and> set additions \<subseteq> set (map cs_id (command_catalog config)))
    \<and> (\<forall>ids. effective_command_ids config additions = Inr ids \<longrightarrow>
      prefix (required_command_ids config) ids \<and> distinct ids
      \<and> set ids = set (required_command_ids config) \<union> set additions
      \<and> ok (resolve_command_ids config ids))"
proof -
  have req: "distinct (required_command_ids config)"
    "set (required_command_ids config) \<subseteq> set (map cs_id (command_catalog config))"
    using assms by (simp_all add: config_ok_def)
  have "prefix (required_command_ids config) (dedup (required_command_ids config @ additions))"
    by (rule dedup_prefix) (rule req)
  moreover have "ok (resolve_command_ids config (dedup (required_command_ids config @ additions)))
      \<longleftrightarrow> set additions \<subseteq> set (map cs_id (command_catalog config))"
    using req(2) by (simp add: resolvable [OF assms])
  ultimately show ?thesis
    using resolvable [OF assms, of additions]
    by (auto simp: effective_command_ids_def ok_iff bnd_eq_Inr Let_def)
qed

section \<open>A concrete project\<close>

definition sample_command :: command_spec where
  "sample_command =
     \<lparr>cs_id = ''unit'', cs_purpose = ''tests'', cs_argv = [''pytest''], cs_cwd = ''.'',
      cs_timeout_seconds = 900, cs_env_allowlist = [''PATH'']\<rparr>"

definition sample_config :: frozen_run_config where
  "sample_config = DEFAULT_CONFIG\<lparr>command_catalog := [sample_command],
     command_auth := \<lparr>ca_mode = ''EXPLICIT_PROJECT_FILE'', ca_source_path = Some ''vibe.json'',
       ca_source_sha256 = ca_source_sha256 EMPTY_COMMAND_AUTHORIZATION\<rparr>\<rparr>"

lemma sample_config_ok: "config_ok sample_config"
proof (rule parse_frozen_ok)
  show "parse_frozen_config (config_as_dict sample_config) = Inr sample_config" by code_simp
qed

theorem effective_command_ids_spec_witness:
  "effective_command_ids sample_config [''unit''] = Inr [''unit'']
   \<and> ok (resolve_command_ids sample_config [''unit''])"
proof -
  have "effective_command_ids sample_config [''unit''] = Inr [''unit'']" by code_simp
  with effective_command_ids_spec [OF sample_config_ok, of "[''unit'']"] show ?thesis by blast
qed

theorem load_run_config_authorized_witness:
  "\<exists>c. load_run_config None (JObj [(''max_workers'', JInt 2)]) = Inr c \<and> config_ok c
     \<and> command_auth c = EMPTY_COMMAND_AUTHORIZATION"
proof -
  have l: "load_run_config None (JObj [(''max_workers'', JInt 2)]) = Inr (DEFAULT_CONFIG\<lparr>max_workers := 2\<rparr>)"
    by code_simp
  from load_run_config_authorized [OF l] l show ?thesis by (auto simp: DEFAULT_CONFIG_def)
qed

theorem load_run_config_overrides_witness:
  "\<exists>c d. load_run_config None (JObj [(''max_workers'', JInt 2)]) = Inr c
     \<and> max_workers c = int_of (pick (JObj [(''max_workers'', JInt 2)]) ''max_workers'' (max_workers d))"
proof -
  have l: "load_run_config None (JObj [(''max_workers'', JInt 2)]) = Inr (DEFAULT_CONFIG\<lparr>max_workers := 2\<rparr>)"
    by code_simp
  from load_run_config_overrides [OF l] l show ?thesis by (auto simp: pick_def)
qed

end
