(* ===== verification/Scopes.thy ===== *)
theory Scopes
  imports PyText
begin

text \<open>
  Path scopes and exclusive resources of \<^verbatim>\<open>scheduler.py\<close>: a scope is the whole repository
  (\<^verbatim>\<open>.\<close>), a directory (a path with a trailing slash) or one file.  Two tasks may run at the
  same time only when neither their scopes nor their resources overlap.
\<close>

section \<open>Operations\<close>

text \<open>\<^verbatim>\<open>path.parts[0]\<close> of a path without components raises \<^verbatim>\<open>IndexError\<close>.\<close>

definition normalize_scope :: "string \<Rightarrow> string result" where
  "normalize_scope v =
     (if v = ''.'' then Inr v
      else if v = [] \<or> startswith v ''/'' \<or> CHR 0x5C \<in> set v then Inl ContractError
      else
        let directory = endswith v ''/'';
            raw = (if directory then butlast v else v) in
        if raw = [] \<or> is_absolute raw \<or> ''..'' \<in> set (posix_parts raw)
           \<or> ''.'' \<in> set (posix_parts raw) \<or> raw \<noteq> as_posix raw then Inl ContractError
        else case posix_parts raw of
            [] \<Rightarrow> Inl IndexError
          | p # _ \<Rightarrow>
              if p = ''.vibe-coding'' \<or> p = ''.git'' then Inl ContractError
              else Inr (as_posix raw @ (if directory then ''/'' else [])))"

definition path_matches_scope :: "string \<Rightarrow> string \<Rightarrow> bool" where
  "path_matches_scope path scope =
     (if scope = ''.'' then True
      else if endswith scope ''/'' then startswith path scope
      else path = scope)"

definition scope_pair_overlaps :: "string \<Rightarrow> string \<Rightarrow> bool" where
  "scope_pair_overlaps first second =
     (first = ''.'' \<or> second = ''.''
      \<or> rstrip_slash first = rstrip_slash second
      \<or> endswith first ''/'' \<and> path_matches_scope (rstrip_slash second) first
      \<or> endswith second ''/'' \<and> path_matches_scope (rstrip_slash first) second)"

definition scopes_overlap :: "string list \<Rightarrow> string list \<Rightarrow> bool result" where
  "scopes_overlap left right =
     bnd (mapr normalize_scope left) (\<lambda>normalized_left.
     bnd (mapr normalize_scope right) (\<lambda>normalized_right.
     Inr (list_ex (\<lambda>first. list_ex (scope_pair_overlaps first) normalized_right) normalized_left)))"

definition resources_overlap :: "string list \<Rightarrow> string list \<Rightarrow> bool" where
  "resources_overlap left right = list_ex (\<lambda>r. r \<in> set right) left"

section \<open>Normalized scopes\<close>

lemma endswith_slash: "endswith s ''/'' \<longleftrightarrow> s \<noteq> [] \<and> last s = CHR ''/''"
  by (auto simp: endswith_def suffix_def) (metis append_butlast_last_id)

lemma join_with_last:
  "ps \<noteq> [] \<Longrightarrow> \<forall>p\<in>set ps. p \<noteq> [] \<Longrightarrow> join_with c ps \<noteq> [] \<and> last (join_with c ps) = last (last ps)"
  by (induction c ps rule: join_with.induct) auto

text \<open>A relative path in normal form does not end in a slash.\<close>

lemma normal_path_last:
  assumes "raw = as_posix raw" and "\<not> is_absolute raw"
  shows "raw \<noteq> [] \<and> last raw \<noteq> CHR ''/''"
proof (cases "posix_rel raw = []")
  case True
  with assms show ?thesis by (auto simp: as_posix_def is_absolute_def)
next
  case False
  have ps: "p \<noteq> [] \<and> CHR ''/'' \<notin> set p" if "p \<in> set (posix_rel raw)" for p
    using that split_on_no_sep by (auto simp: posix_rel_def)
  from assms False have "raw = join_with (CHR ''/'') (posix_rel raw)"
    by (simp add: as_posix_def is_absolute_def)
  with join_with_last [OF False, of "CHR ''/''"] ps
  have "raw \<noteq> []" "last raw = last (last (posix_rel raw))" by (metis, metis)
  moreover from False ps have "last (last (posix_rel raw)) \<noteq> CHR ''/''"
    by (metis last_in_set)
  ultimately show ?thesis by simp
qed

lemma normal_path_split:
  assumes "raw = as_posix raw" and "\<not> is_absolute raw" and "posix_rel raw \<noteq> []"
  shows "split_on (CHR ''/'') raw = posix_rel raw"
proof -
  have "raw = join_with (CHR ''/'') (posix_rel raw)"
    using assms by (simp add: as_posix_def is_absolute_def)
  moreover have "\<forall>p\<in>set (posix_rel raw). CHR ''/'' \<notin> set p"
    using split_on_no_sep by (auto simp: posix_rel_def)
  ultimately show ?thesis using split_join [OF assms(3)] by metis
qed

text \<open>A normalized scope: \<^verbatim>\<open>.\<close>, or a path in normal form, with or without the final slash.\<close>

definition scope_body :: "string \<Rightarrow> string" where
  "scope_body s = (if endswith s ''/'' then butlast s else s)"

lemma normalize_scope_Inr:
  assumes "normalize_scope v = Inr s"
  shows "s = v" and "v = ''.'' \<or> scope_body v \<noteq> [] \<and> last (scope_body v) \<noteq> CHR ''/''"
proof -
  have "s = v \<and> (v = ''.'' \<or> scope_body v \<noteq> [] \<and> last (scope_body v) \<noteq> CHR ''/'')"
  proof (cases "v = ''.''")
    case True
    with assms show ?thesis by (simp add: normalize_scope_def)
  next
    case False
    from assms False have norm: "scope_body v = as_posix (scope_body v)" "\<not> is_absolute (scope_body v)"
      and s: "s = as_posix (scope_body v) @ (if endswith v ''/'' then ''/'' else [])"
      by (auto simp: normalize_scope_def scope_body_def Let_def split: if_splits list.splits)
    have "scope_body v @ (if endswith v ''/'' then ''/'' else []) = v"
      by (auto simp: scope_body_def endswith_slash) (metis append_butlast_last_id)
    with s norm(1) normal_path_last [OF norm] show ?thesis by simp
  qed
  then show "s = v" and "v = ''.'' \<or> scope_body v \<noteq> [] \<and> last (scope_body v) \<noteq> CHR ''/''" by auto
qed

lemma normalize_scope_iff: "normalize_scope v = Inr s \<longleftrightarrow> s = v \<and> ok (normalize_scope v)"
  using normalize_scope_Inr(1) by (auto simp: ok_iff)

lemma mapr_normalize:
  "mapr normalize_scope xs = Inr ys \<longleftrightarrow> ys = xs \<and> (\<forall>s\<in>set xs. ok (normalize_scope s))"
proof (induction xs arbitrary: ys)
  case (Cons x xs)
  have "mapr normalize_scope (x # xs) = Inr ys \<longleftrightarrow>
      (\<exists>y zs. normalize_scope x = Inr y \<and> mapr normalize_scope xs = Inr zs \<and> ys = y # zs)"
    by (auto simp: bnd_eq_Inr)
  also have "\<dots> \<longleftrightarrow> ys = x # xs \<and> (\<forall>s\<in>set (x # xs). ok (normalize_scope s))"
    unfolding Cons.IH normalize_scope_iff by auto
  finally show ?case .
qed auto

lemma rstrip_snoc: "rstrip_slash (xs @ ''/'') = rstrip_slash xs"
  by (simp add: rstrip_slash_def)

lemma rstrip_scope:
  assumes "ok (normalize_scope v)"
  shows "rstrip_slash v = scope_body v"
  using normalize_scope_Inr(2) [of v] assms
proof (cases "v = ''.''")
  case True
  then show ?thesis by (simp add: rstrip_slash_def scope_body_def endswith_slash)
next
  case False
  with assms have body: "scope_body v \<noteq> []" "last (scope_body v) \<noteq> CHR ''/''"
    using normalize_scope_Inr(2) by (auto simp: ok_iff)
  then have strip: "rstrip_slash (scope_body v) = scope_body v"
    by (cases "scope_body v" rule: rev_cases) (auto simp: rstrip_slash_def)
  show ?thesis
  proof (cases "endswith v ''/''")
    case True
    then have "v = scope_body v @ ''/''"
      by (auto simp: scope_body_def endswith_slash) (metis append_butlast_last_id)
    then have "rstrip_slash v = rstrip_slash (scope_body v)" by (metis rstrip_snoc)
    with strip show ?thesis by simp
  qed (use strip in \<open>simp add: scope_body_def\<close>)
qed

section \<open>Overlap\<close>

lemma proper_prefix_dirs:
  assumes "prefix a b" and "a \<noteq> b" and "endswith b ''/''"
  shows "prefix a (scope_body b)"
proof -
  from assms obtain z where z: "b = a @ z" "z \<noteq> []" by (auto simp: prefix_def)
  then have "butlast b = a @ butlast z" by (simp add: butlast_append)
  with assms(3) show ?thesis by (simp add: scope_body_def)
qed

lemma common_path_overlaps:
  assumes "ok (normalize_scope f)" and "ok (normalize_scope s)"
    and pf: "path_matches_scope p f" and ps: "path_matches_scope p s"
  shows "scope_pair_overlaps f s"
proof (cases "f = ''.'' \<or> s = ''.'' \<or> f = s")
  case False
  note strip = rstrip_scope [OF assms(1)] rstrip_scope [OF assms(2)]
  show ?thesis
  proof (cases "endswith f ''/''")
    case df: True
    show ?thesis
    proof (cases "endswith s ''/''")
      case True
      with df pf ps False have "prefix f p" "prefix s p" by (auto simp: path_matches_scope_def startswith_def)
      then have "prefix f s \<or> prefix s f" using prefix_same_cases by blast
      with proper_prefix_dirs [of f s] proper_prefix_dirs [of s f] False df True
      show ?thesis by (auto simp: scope_pair_overlaps_def path_matches_scope_def startswith_def strip)
    qed (use df pf ps False in \<open>auto simp: scope_pair_overlaps_def path_matches_scope_def strip scope_body_def\<close>)
  qed (use pf ps False in \<open>auto simp: scope_pair_overlaps_def path_matches_scope_def strip scope_body_def split: if_splits\<close>)
qed (auto simp: scope_pair_overlaps_def)

lemma scopes_overlap_iff:
  "scopes_overlap left right = Inr b \<longleftrightarrow>
     (\<forall>s\<in>set left \<union> set right. ok (normalize_scope s))
     \<and> b = (\<exists>f\<in>set left. \<exists>s\<in>set right. scope_pair_overlaps f s)"
  unfolding scopes_overlap_def bnd_eq_Inr mapr_normalize by (auto simp: list_ex_iff)

lemma scope_pair_sym: "scope_pair_overlaps f s \<longleftrightarrow> scope_pair_overlaps s f"
  by (auto simp: scope_pair_overlaps_def)

text \<open>Scope separation is sound: when \<^verbatim>\<open>scopes_overlap\<close> answers no, no path of the
  repository matches a scope of the left task and a scope of the right task, and the answer is
  the same with the tasks exchanged.\<close>

theorem scopes_overlap_sound:
  assumes "scopes_overlap left right = Inr False"
  shows "\<not> (\<exists>path f s. f \<in> set left \<and> s \<in> set right \<and> path_matches_scope path f \<and> path_matches_scope path s)
    \<and> scopes_overlap right left = Inr False"
  using assms common_path_overlaps scope_pair_sym unfolding scopes_overlap_iff by (metis Un_iff)

theorem scopes_overlap_sound_witness:
  "\<not> (\<exists>path f s. f \<in> set [''src/a/'', ''README.md''] \<and> s \<in> set [''src/b/'']
        \<and> path_matches_scope path f \<and> path_matches_scope path s)
   \<and> scopes_overlap [''src/b/''] [''src/a/'', ''README.md''] = Inr False"
proof (rule scopes_overlap_sound)
  show "scopes_overlap [''src/a/'', ''README.md''] [''src/b/''] = Inr False" by code_simp
qed

text \<open>Normalization never rewrites a scope: an accepted scope is returned as it is, and a
  scope that names the control directory or the Git directory, that is absolute or that leaves
  the repository is refused.\<close>

lemma normalize_scope_identity:
  assumes "normalize_scope v = Inr s"
  shows "s = v \<and> \<not> startswith v ''/'' \<and> ''..'' \<notin> set (split_on (CHR ''/'') v)
    \<and> hd (split_on (CHR ''/'') v) \<notin> {''.git'', ''.vibe-coding''}"
proof (cases "v = ''.''")
  case True
  with assms show ?thesis by (auto simp: normalize_scope_def startswith_def)
next
  case False
  from assms False have abs: "\<not> startswith v ''/''" "\<not> is_absolute (scope_body v)"
    and raw: "scope_body v = as_posix (scope_body v)" "''..'' \<notin> set (posix_parts (scope_body v))"
      "posix_parts (scope_body v) \<noteq> []" "hd (posix_parts (scope_body v)) \<notin> {''.git'', ''.vibe-coding''}"
    by (auto simp: normalize_scope_def scope_body_def Let_def split: if_splits list.splits)
  have parts: "posix_parts (scope_body v) = posix_rel (scope_body v)"
    using abs by (simp add: posix_parts_def is_absolute_def)
  have split: "split_on (CHR ''/'') (scope_body v) = posix_rel (scope_body v)"
    using normal_path_split [OF raw(1) abs(2)] raw(3) parts by simp
  have "split_on (CHR ''/'') v = posix_rel (scope_body v) @ (if endswith v ''/'' then [[]] else [])"
  proof (cases "endswith v ''/''")
    case True
    then have "v = scope_body v @ CHR ''/'' # []"
      by (auto simp: scope_body_def endswith_slash) (metis append_butlast_last_id)
    then have "split_on (CHR ''/'') v = split_on (CHR ''/'') (scope_body v) @ [[]]"
      by (metis split_on.simps(1) split_on_append_sep)
    with split True show ?thesis by simp
  qed (use split in \<open>simp add: scope_body_def\<close>)
  with raw parts abs(1) normalize_scope_Inr(1) [OF assms] show ?thesis by simp
qed

theorem normalize_scope_identity_witness:
  "normalize_scope ''src/app/'' = Inr ''src/app/'' \<and> ''..'' \<notin> set (split_on (CHR ''/'') ''src/app/'')"
proof -
  have n: "normalize_scope ''src/app/'' = Inr ''src/app/''" by code_simp
  from normalize_scope_identity [OF n] n show ?thesis by blast
qed

end
