(* ===== verification/TopoOrder.thy ===== *)
theory TopoOrder
  imports Models
begin

text \<open>
  \<^verbatim>\<open>Scheduler._topological_order\<close>: Kahn's algorithm over a heap of task identifiers.  The heap
  of \<^verbatim>\<open>heapq\<close> is used through the interface \<open>priority_queue\<close>; the model's heap keeps its
  elements sorted.
\<close>

section \<open>The heap\<close>

locale priority_queue =
  fixes heapify :: "'a::linorder list \<Rightarrow> 'q"
    and push :: "'a \<Rightarrow> 'q \<Rightarrow> 'q"
    and pop :: "'q \<Rightarrow> 'a \<times> 'q"
    and contents :: "'q \<Rightarrow> 'a multiset"
    and heap :: "'q \<Rightarrow> bool"
  assumes heap_heapify: "heap (heapify xs)"
    and contents_heapify: "contents (heapify xs) = mset xs"
    and heap_push: "heap q \<Longrightarrow> heap (push x q)"
    and contents_push: "contents (push x q) = add_mset x (contents q)"
    and pop_laws: "heap q \<Longrightarrow> contents q \<noteq> {#} \<Longrightarrow> pop q = (x, q') \<Longrightarrow>
      x = Min_mset (contents q) \<and> heap q' \<and> contents q = add_mset x (contents q')"
begin

lemma pop_min:
  assumes "heap q" and "contents q \<noteq> {#}" and "pop q = (x, q')"
  shows "x \<in># contents q" and "\<And>y. y \<in># contents q \<Longrightarrow> x \<le> y"
    and "heap q'" and "contents q = add_mset x (contents q')"
proof -
  note laws = pop_laws [OF assms]
  then show "heap q'" and "contents q = add_mset x (contents q')" by blast+
  then show "x \<in># contents q" by simp
  show "x \<le> y" if "y \<in># contents q" for y
    using laws [THEN conjunct1] that by (metis Min_le finite_set_mset)
qed

lemma pop_shrinks:
  "heap q \<Longrightarrow> contents q \<noteq> {#} \<Longrightarrow> pop q = (x, q') \<Longrightarrow> size (contents q') < size (contents q)"
  using pop_min(4) [of q x q'] by simp

lemma foldl_push: "heap q \<Longrightarrow> heap (foldl (\<lambda>q x. push x q) q xs)
    \<and> contents (foldl (\<lambda>q x. push x q) q xs) = contents q + mset xs"
  by (induction xs arbitrary: q) (auto simp: heap_push contents_push)

end

definition heapify :: "'a::linorder list \<Rightarrow> 'a list" where
  "heapify xs = sort xs"

definition heappush :: "'a::linorder \<Rightarrow> 'a list \<Rightarrow> 'a list" where
  "heappush x q = insort x q"

definition heappop :: "'a::linorder list \<Rightarrow> 'a \<times> 'a list" where
  "heappop q = (hd q, tl q)"

interpretation hq: priority_queue "heapify :: 'a::linorder list \<Rightarrow> 'a list" heappush heappop mset sorted
proof unfold_locales
  fix q :: "'a list" and x q'
  assume "sorted q" "mset q \<noteq> {#}" "heappop q = (x, q')"
  then show "x = Min_mset (mset q) \<and> sorted q' \<and> mset q = add_mset x (mset q')"
    by (cases q) (auto simp: heappop_def intro!: Min_eqI [symmetric])
qed (auto simp: heapify_def heappush_def sorted_insort)

section \<open>The algorithm\<close>

text \<open>
  The tables \<^verbatim>\<open>indegree\<close> and \<^verbatim>\<open>followers\<close>.  Both have an entry for every task identifier, so
  the lookups of the algorithm never miss.
\<close>

type_synonym indegrees = "(string, int) dict"
type_synonym follower_lists = "(string, string list) dict"

definition indeg :: "indegrees \<Rightarrow> string \<Rightarrow> int" where
  "indeg d t = (case map_of d t of None \<Rightarrow> 0 | Some n \<Rightarrow> n)"

definition followers_of :: "follower_lists \<Rightarrow> string \<Rightarrow> string list" where
  "followers_of d t = (case map_of d t of None \<Rightarrow> [] | Some fs \<Rightarrow> fs)"

definition add_edge ::
  "string list \<Rightarrow> string \<Rightarrow> indegrees \<times> follower_lists \<Rightarrow> string \<Rightarrow> indegrees \<times> follower_lists" where
  "add_edge ids task_id g dependency =
     (if dependency \<notin> set ids then g
      else (AList.update task_id (indeg (fst g) task_id + 1) (fst g),
            AList.update dependency (followers_of (snd g) dependency @ [task_id]) (snd g)))"

definition dependency_graph :: "task_contract list \<Rightarrow> indegrees \<times> follower_lists" where
  "dependency_graph tasks =
     foldl (\<lambda>g task. foldl (add_edge (map tc_id tasks) (tc_id task)) g (tc_depends_on task))
       (map (\<lambda>task. (tc_id task, 0)) tasks, map (\<lambda>task. (tc_id task, [])) tasks) tasks"

text \<open>\<^verbatim>\<open>for follower in sorted(followers[task_id])\<close>\<close>

fun release :: "string list \<Rightarrow> string list \<times> indegrees \<Rightarrow> string list \<times> indegrees" where
  "release [] s = s"
| "release (f # fs) s =
     (let n = indeg (snd s) f - 1
      in release fs (if n = 0 then heappush f (fst s) else fst s, AList.update f n (snd s)))"

definition positives :: "indegrees \<Rightarrow> nat" where
  "positives d = card {t \<in> set (keys_of d). 0 < indeg d t}"

lemma indeg_update [simp]: "indeg (AList.update f n d) t = (if t = f then n else indeg d t)"
  by (simp add: indeg_def)

lemma indeg_key: "indeg d t \<noteq> 0 \<Longrightarrow> t \<in> set (keys_of d)"
  by (auto simp: indeg_def keys_map_of split: option.splits)

lemma positives_alt: "positives d = card {t. 0 < indeg d t}"
  unfolding positives_def by (rule arg_cong [where f = card]) (auto intro: indeg_key)

lemma finite_positives: "finite {t. 0 < indeg d t}"
  by (rule finite_subset [of _ "set (keys_of d)"]) (auto intro: indeg_key)

lemma release_measure:
  "length (fst (release fs s)) + positives (snd (release fs s)) \<le> length (fst s) + positives (snd s)"
proof (induction fs arbitrary: s)
  case (Cons f fs)
  let ?n = "indeg (snd s) f - 1"
  let ?s = "(if ?n = 0 then heappush f (fst s) else fst s, AList.update f ?n (snd s))"
  have "length (fst ?s) + positives (snd ?s) \<le> length (fst s) + positives (snd s)"
  proof (cases "?n = 0")
    case True
    then have "{t. 0 < indeg (snd ?s) t} = {t. 0 < indeg (snd s) t} - {f}" "f \<in> {t. 0 < indeg (snd s) t}"
      by auto
    then have "positives (snd ?s) = positives (snd s) - 1" "0 < positives (snd s)"
      unfolding positives_alt using finite_positives [of "snd s"] by (auto simp: card_gt_0_iff)
    with True show ?thesis by (simp add: heappush_def)
  next
    case False
    have "{t. 0 < indeg (snd ?s) t} \<subseteq> {t. 0 < indeg (snd s) t}" by (auto split: if_splits)
    then have "positives (snd ?s) \<le> positives (snd s)"
      unfolding positives_alt using finite_positives [of "snd s"] by (rule card_mono [rotated])
    with False show ?thesis by simp
  qed
  with Cons.IH [of ?s] show ?case by (simp only: release.simps Let_def)
qed simp

function kahn :: "follower_lists \<Rightarrow> string list \<Rightarrow> indegrees \<Rightarrow> string list \<Rightarrow> string list" where
  "kahn followers ready indegree ordered =
     (if ready = [] then ordered
      else let (task_id, rest) = heappop ready;
               (ready', indegree') = release (sort (followers_of followers task_id)) (rest, indegree)
           in kahn followers ready' indegree' (ordered @ [task_id]))"
  by auto

termination
proof (relation "measure (\<lambda>(_, ready, indegree, _). length ready + positives indegree)")
  fix followers :: follower_lists and ready indegree ordered x y task_id rest ready' indegree'
  assume ne: "ready \<noteq> []" and pop: "x = heappop ready" "(task_id, rest) = x"
    and rel: "y = release (sort (followers_of followers task_id)) (rest, indegree)" "(ready', indegree') = y"
  from ne pop have "length rest < length ready" by (cases ready) (auto simp: heappop_def)
  moreover have "length ready' + positives indegree' \<le> length rest + positives indegree"
    using release_measure [of "sort (followers_of followers task_id)" "(rest, indegree)"] rel by (metis fst_conv snd_conv)
  ultimately show "((followers, ready', indegree', ordered @ [task_id]), followers, ready, indegree, ordered)
      \<in> measure (\<lambda>(_, ready, indegree, _). length ready + positives indegree)" by simp
qed simp

declare kahn.simps [simp del]

definition topological_order_of :: "task_contract list \<Rightarrow> string list result" where
  "topological_order_of tasks =
     (if \<not> unique (map tc_id tasks) then Inl ContractError
      else let (indegree, followers) = dependency_graph tasks;
               ready = heapify (map fst (filter (\<lambda>p. snd p = 0) indegree));
               ordered = kahn followers ready indegree []
           in if length ordered \<noteq> length tasks then Inl ContractError else Inr ordered)"

section \<open>The tables\<close>

text \<open>The edges of the graph, in the order in which the loops visit them.\<close>

definition edges :: "task_contract list \<Rightarrow> (string \<times> string) list" where
  "edges tasks =
     concat (map (\<lambda>task. map (\<lambda>d. (d, tc_id task))
       (filter (\<lambda>d. d \<in> set (map tc_id tasks)) (tc_depends_on task))) tasks)"

lemma foldl_add_edge:
  "foldl (add_edge ids t) g ds = foldl (add_edge ids t) g (filter (\<lambda>d. d \<in> set ids) ds)"
  by (induction ds arbitrary: g) (auto simp: add_edge_def)

lemma dependency_graph_edges:
  "dependency_graph tasks = foldl (\<lambda>g e. add_edge (map tc_id tasks) (snd e) g (fst e))
     (map (\<lambda>task. (tc_id task, 0)) tasks, map (\<lambda>task. (tc_id task, [])) tasks) (edges tasks)"
proof -
  have "foldl (\<lambda>g task. foldl (add_edge ids (tc_id task)) g (tc_depends_on task)) s ts
      = foldl (\<lambda>g e. add_edge ids (snd e) g (fst e)) s
          (concat (map (\<lambda>task. map (\<lambda>d. (d, tc_id task)) (filter (\<lambda>d. d \<in> set ids) (tc_depends_on task))) ts))"
    for ids s ts
  proof (induction ts arbitrary: s)
    case (Cons t ts)
    have "foldl (\<lambda>g e. add_edge ids (snd e) g (fst e)) s (map (\<lambda>d. (d, tc_id t)) ds)
        = foldl (add_edge ids (tc_id t)) s ds" for s ds
      by (induction ds arbitrary: s) auto
    with Cons show ?case by (simp add: foldl_add_edge [of ids "tc_id t" s "tc_depends_on t"])
  qed simp
  then show ?thesis unfolding dependency_graph_def edges_def .
qed

lemma followers_update [simp]:
  "followers_of (AList.update f n d) t = (if t = f then n else followers_of d t)"
  by (simp add: followers_of_def)

lemma graph_tables:
  assumes "\<forall>e\<in>set es. fst e \<in> set ids \<and> snd e \<in> set (keys_of (fst g))"
  shows "let g' = foldl (\<lambda>g e. add_edge ids (snd e) g (fst e)) g es in
     (\<forall>t. indeg (fst g') t = indeg (fst g) t + int (length (filter (\<lambda>e. snd e = t) es)))
     \<and> (\<forall>d. followers_of (snd g') d = followers_of (snd g) d @ map snd (filter (\<lambda>e. fst e = d) es))
     \<and> keys_of (fst g') = keys_of (fst g)"
  using assms
proof (induction es arbitrary: g)
  case (Cons e es)
  have "keys_of (fst (add_edge ids (snd e) g (fst e))) = keys_of (fst g)"
    using Cons.prems by (simp add: add_edge_def keys_update_present)
  with Cons show ?case by (auto simp: Let_def add_edge_def)
qed simp

lemma edges_ids: "(d, t) \<in> set (edges tasks) \<Longrightarrow> d \<in> tc_id ` set tasks \<and> t \<in> tc_id ` set tasks"
  by (auto simp: edges_def)

lemma dependency_graph_tables:
  "indeg (fst (dependency_graph tasks)) t = int (length (filter (\<lambda>e. snd e = t) (edges tasks)))"
  "followers_of (snd (dependency_graph tasks)) d = map snd (filter (\<lambda>e. fst e = d) (edges tasks))"
  "keys_of (fst (dependency_graph tasks)) = map tc_id tasks"
proof -
  let ?g = "(map (\<lambda>task. (tc_id task, 0)) tasks, map (\<lambda>task. (tc_id task, [])) tasks)
    :: indegrees \<times> follower_lists"
  have k: "keys_of (fst ?g) = map tc_id tasks" by (simp add: keys_of_def comp_def)
  have z: "indeg (fst ?g) t = 0" "followers_of (snd ?g) d = []" for t d
    by (auto simp: indeg_def followers_of_def dest: map_of_SomeD split: option.splits)
  have "\<forall>e\<in>set (edges tasks). fst e \<in> set (map tc_id tasks) \<and> snd e \<in> set (keys_of (fst ?g))"
    unfolding k by (auto dest: edges_ids)
  from graph_tables [OF this] show
    "indeg (fst (dependency_graph tasks)) t = int (length (filter (\<lambda>e. snd e = t) (edges tasks)))"
    "followers_of (snd (dependency_graph tasks)) d = map snd (filter (\<lambda>e. fst e = d) (edges tasks))"
    "keys_of (fst (dependency_graph tasks)) = map tc_id tasks"
    unfolding dependency_graph_edges z k Let_def by auto
qed

section \<open>The loop\<close>

lemma release_indeg: "indeg (snd (release fs s)) t = indeg (snd s) t - int (count_list fs t)"
  by (induction fs arbitrary: s) (auto simp: Let_def)

lemma release_ready:
  assumes "\<forall>t. int (count_list fs t) \<le> indeg (snd s) t" and "sorted (fst s)"
  shows "sorted (fst (release fs s))
    \<and> mset (fst (release fs s)) = mset (fst s) + mset_set {t \<in> set fs. indeg (snd s) t = int (count_list fs t)}"
  using assms
proof (induction fs arbitrary: s)
  case (Cons f fs)
  let ?n = "indeg (snd s) f - 1"
  let ?s = "(if ?n = 0 then heappush f (fst s) else fst s, AList.update f ?n (snd s))"
  have le: "\<forall>t. int (count_list fs t) \<le> indeg (snd ?s) t"
    using Cons.prems(1) by (auto split: if_splits)
  have srt: "sorted (fst ?s)" using Cons.prems(2) by (simp add: hq.heap_push)
  have fin: "finite {t \<in> set fs. indeg (snd ?s) t = int (count_list fs t)}" by simp
  have new: "{t \<in> set (f # fs). indeg (snd s) t = int (count_list (f # fs) t)}
      = (if ?n = 0 then insert f {t \<in> set fs. indeg (snd ?s) t = int (count_list fs t)}
         else {t \<in> set fs. indeg (snd ?s) t = int (count_list fs t)})"
    using Cons.prems(1) [rule_format, of f] by (auto simp: count_list_0_iff split: if_splits)
  have "f \<notin> set fs" if "?n = 0"
    using Cons.prems(1) [rule_format, of f] that by (auto simp: count_list_0_iff)
  then have "mset (fst ?s) + mset_set {t \<in> set fs. indeg (snd ?s) t = int (count_list fs t)}
      = mset (fst s) + mset_set {t \<in> set (f # fs). indeg (snd s) t = int (count_list (f # fs) t)}"
    unfolding new by (auto simp: hq.contents_push)
  with Cons.IH [OF le srt] show ?case by (simp only: release.simps Let_def)
qed simp

text \<open>The tasks that can come next: all their dependencies have been ordered.\<close>

definition enabled :: "(string \<times> string) list \<Rightarrow> string set \<Rightarrow> string list \<Rightarrow> string set" where
  "enabled es ids ordered =
     {t \<in> ids - set ordered. \<forall>d. (d, t) \<in> set es \<longrightarrow> d \<in> set ordered}"

text \<open>Every task of the order was the smallest one that could come next.\<close>

definition greedy :: "(string \<times> string) list \<Rightarrow> string set \<Rightarrow> string list \<Rightarrow> bool" where
  "greedy es ids ordered =
     (\<forall>i<length ordered. ordered ! i \<in> enabled es ids (take i ordered)
        \<and> (\<forall>t\<in>enabled es ids (take i ordered). ordered ! i \<le> t))"

definition loop_inv ::
  "(string \<times> string) list \<Rightarrow> string set \<Rightarrow> string list \<Rightarrow> indegrees \<Rightarrow> string list \<Rightarrow> bool" where
  "loop_inv es ids ready indegree ordered \<longleftrightarrow>
     sorted ready \<and> mset ready = mset_set (enabled es ids ordered)
     \<and> (\<forall>t. indeg indegree t = int (length (filter (\<lambda>e. snd e = t \<and> fst e \<notin> set ordered) es)))
     \<and> distinct ordered \<and> set ordered \<subseteq> ids \<and> greedy es ids ordered"

lemma finite_enabled: "finite ids \<Longrightarrow> finite (enabled es ids ordered)"
  by (rule finite_subset [of _ ids]) (auto simp: enabled_def)

lemma greedy_closed:
  assumes "greedy es ids ordered" and "t \<in> set ordered" and "(d, t) \<in> set es"
  shows "d \<in> set ordered"
proof -
  from assms(2) obtain i where "i < length ordered" "ordered ! i = t" by (auto simp: in_set_conv_nth)
  with assms show ?thesis by (auto simp: greedy_def enabled_def dest: in_set_takeD)
qed

lemma greedy_snoc:
  assumes "greedy es ids ordered" and "x \<in> enabled es ids ordered"
    and "\<And>t. t \<in> enabled es ids ordered \<Longrightarrow> x \<le> t"
  shows "greedy es ids (ordered @ [x])"
  using assms by (auto simp: greedy_def nth_append less_Suc_eq)

lemma count_sorted_followers:
  fixes t :: string
  shows "count_list (sort (map snd (filter (\<lambda>e. fst e = x) es))) t = length (filter (\<lambda>e. e = (x, t)) es)"
proof -
  have "count_list (sort xs) t = count_list xs t" for xs :: "string list"
    by (metis count_mset mset_sort)
  moreover have "count_list (map snd (filter (\<lambda>e. fst e = x) es)) t = length (filter (\<lambda>e. e = (x, t)) es)"
    by (induction es) auto
  ultimately show ?thesis by simp
qed

lemma filter_split_edge:
  "x \<notin> set ordered \<Longrightarrow> length (filter (\<lambda>e. snd e = t \<and> fst e \<notin> set ordered) es) =
     length (filter (\<lambda>e. e = (x, t)) es) + length (filter (\<lambda>e. snd e = t \<and> fst e \<notin> set (ordered @ [x])) es)"
  by (induction es) (auto simp: prod_eq_iff)

text \<open>What becomes enabled when \<open>x\<close> is ordered: its followers without another open
  dependency.\<close>

lemma enabled_snoc:
  assumes "\<forall>e\<in>set es. snd e \<in> ids" and "greedy es ids ordered" and "x \<in> enabled es ids ordered"
  shows "enabled es ids (ordered @ [x]) = (enabled es ids ordered - {x})
     \<union> {t. (x, t) \<in> set es \<and> (\<forall>d. (d, t) \<in> set es \<longrightarrow> d \<in> set ordered \<or> d = x)}"
    and "(enabled es ids ordered - {x}) \<inter>
     {t. (x, t) \<in> set es \<and> (\<forall>d. (d, t) \<in> set es \<longrightarrow> d \<in> set ordered \<or> d = x)} = {}"
proof -
  have x: "x \<notin> set ordered" "(x, x) \<notin> set es" using assms(3) by (auto simp: enabled_def)
  have fresh: "t \<notin> set ordered" if "(x, t) \<in> set es" for t
    using greedy_closed [OF assms(2) _ that] x(1) by blast
  show "enabled es ids (ordered @ [x]) = (enabled es ids ordered - {x})
     \<union> {t. (x, t) \<in> set es \<and> (\<forall>d. (d, t) \<in> set es \<longrightarrow> d \<in> set ordered \<or> d = x)}"
    using x fresh assms(1) by (auto simp: enabled_def)
  show "(enabled es ids ordered - {x}) \<inter>
     {t. (x, t) \<in> set es \<and> (\<forall>d. (d, t) \<in> set es \<longrightarrow> d \<in> set ordered \<or> d = x)} = {}"
    using x(1) by (auto simp: enabled_def)
qed

lemma loop_inv_step:
  assumes inv: "loop_inv es ids ready indegree ordered" and "ready \<noteq> []" and fin: "finite ids"
    and es: "\<forall>e\<in>set es. snd e \<in> ids" and pop: "heappop ready = (x, rest)"
    and rel: "release (sort (map snd (filter (\<lambda>e. fst e = x) es))) (rest, indegree) = (ready', indegree')"
  shows "loop_inv es ids ready' indegree' (ordered @ [x])"
proof -
  let ?fs = "sort (map snd (filter (\<lambda>e. fst e = x) es))"
  let ?new = "{t. (x, t) \<in> set es \<and> (\<forall>d. (d, t) \<in> set es \<longrightarrow> d \<in> set ordered \<or> d = x)}"
  from inv have srt: "sorted ready" and ms: "mset ready = mset_set (enabled es ids ordered)"
    and deg: "\<And>t. indeg indegree t = int (length (filter (\<lambda>e. snd e = t \<and> fst e \<notin> set ordered) es))"
    and ord: "distinct ordered" "set ordered \<subseteq> ids" "greedy es ids ordered" by (auto simp: loop_inv_def)
  from assms(2) have ne: "mset ready \<noteq> {#}" by simp
  note p = hq.pop_min [OF srt ne pop]
  have x: "x \<in> enabled es ids ordered" and least: "\<And>t. t \<in> enabled es ids ordered \<Longrightarrow> x \<le> t"
    using p(1,2) finite_enabled [OF fin] by (simp_all add: ms)
  then have xo: "x \<notin> set ordered" "x \<in> ids" by (auto simp: enabled_def)
  have cnt: "indeg indegree t = int (count_list ?fs t)
      + int (length (filter (\<lambda>e. snd e = t \<and> fst e \<notin> set (ordered @ [x])) es))" for t
    unfolding deg count_sorted_followers filter_split_edge [OF xo(1)] by simp
  have newset: "{t \<in> set ?fs. indeg indegree t = int (count_list ?fs t)} = ?new"
    unfolding cnt by (force simp: filter_empty_conv)
  have r: "sorted ready'" "mset ready' = mset rest + mset_set ?new"
    using release_ready [of ?fs "(rest, indegree)"] rel p(3) newset cnt by auto
  have "mset rest = mset_set (enabled es ids ordered - {x})"
    using p(4) ms x finite_enabled [OF fin] by (simp add: mset_set_Diff)
  moreover have "finite ?new" by (rule finite_subset [of _ "snd ` set es"]) force+
  ultimately have "mset ready' = mset_set (enabled es ids (ordered @ [x]))"
    unfolding enabled_snoc(1) [OF es ord(3) x] r(2)
    using enabled_snoc(2) [OF es ord(3) x] finite_enabled [OF fin]
    by (subst mset_set_Union) auto
  moreover have "indeg indegree' t = int (length (filter (\<lambda>e. snd e = t \<and> fst e \<notin> set (ordered @ [x])) es))" for t
    using release_indeg [of ?fs "(rest, indegree)" t] rel cnt [of t] by simp
  ultimately show ?thesis
    using r(1) ord xo greedy_snoc [OF ord(3) x least] by (simp add: loop_inv_def)
qed

lemma kahn_spec:
  assumes "loop_inv es ids ready indegree ordered" and "finite ids" and "\<forall>e\<in>set es. snd e \<in> ids"
    and "\<And>d. followers_of followers d = map snd (filter (\<lambda>e. fst e = d) es)"
  shows "let ord = kahn followers ready indegree ordered
     in distinct ord \<and> set ord \<subseteq> ids \<and> greedy es ids ord \<and> enabled es ids ord = {}"
  using assms
proof (induction followers ready indegree ordered rule: kahn.induct)
  case (1 followers ready indegree ordered)
  show ?case
  proof (cases "ready = []")
    case True
    with "1.prems"(1,2) show ?thesis
      by (auto simp: loop_inv_def kahn.simps [of _ "[]"] finite_enabled mset_set_empty_iff dest!: sym [of "{#}"])
  next
    case False
    obtain x rest where pop: "heappop ready = (x, rest)" by fastforce
    obtain ready' indegree' where rel:
      "release (sort (followers_of followers x)) (rest, indegree) = (ready', indegree')" by fastforce
    have "loop_inv es ids ready' indegree' (ordered @ [x])"
      using loop_inv_step [OF "1.prems"(1) False "1.prems"(2,3) pop] rel unfolding "1.prems"(4) by blast
    from "1.IH" [OF False pop [symmetric] refl rel [symmetric] refl this "1.prems"(2-4)]
    show ?thesis using False pop rel by (subst kahn.simps) simp
  qed
qed

lemma initial_ready:
  "mset (map fst (filter (\<lambda>p. snd p = 0) d)) = mset_set {t \<in> set (keys_of d). indeg d t = 0}"
  if "distinct (keys_of d)"
proof -
  have "distinct (map fst (filter (\<lambda>p. snd p = 0) d))"
    using that by (simp add: keys_of_def distinct_map_filter)
  moreover have "set (map fst (filter (\<lambda>p. snd p = 0) d)) = {t \<in> set (keys_of d). indeg d t = 0}"
    using that by (force simp: keys_of_def indeg_def)
  ultimately show ?thesis by (metis mset_set_set)
qed

lemma topological_order_of_result:
  assumes "distinct (map tc_id tasks)"
  obtains ord where "distinct ord" "set ord \<subseteq> tc_id ` set tasks" "greedy (edges tasks) (tc_id ` set tasks) ord"
    "enabled (edges tasks) (tc_id ` set tasks) ord = {}"
    "topological_order_of tasks = (if length ord \<noteq> length tasks then Inl ContractError else Inr ord)"
proof -
  let ?d = "fst (dependency_graph tasks)" and ?f = "snd (dependency_graph tasks)"
  let ?ready = "heapify (map fst (filter (\<lambda>p. snd p = 0) ?d))"
  let ?ids = "tc_id ` set tasks" and ?es = "edges tasks"
  note tab = dependency_graph_tables [of tasks]
  have "{t \<in> set (keys_of ?d). indeg ?d t = 0} = enabled ?es ?ids []"
    unfolding tab by (force simp: enabled_def filter_empty_conv)
  then have ms: "mset ?ready = mset_set (enabled ?es ?ids [])"
    using initial_ready [of ?d] assms by (simp add: hq.contents_heapify tab)
  have "sorted ?ready" by (rule hq.heap_heapify)
  then have "loop_inv ?es ?ids ?ready ?d []"
    using ms tab by (simp add: loop_inv_def greedy_def)
  moreover have "\<forall>e\<in>set ?es. snd e \<in> ?ids" by (auto dest: edges_ids)
  ultimately have
    "let ord = kahn ?f ?ready ?d [] in distinct ord \<and> set ord \<subseteq> ?ids \<and> greedy ?es ?ids ord \<and> enabled ?es ?ids ord = {}"
    using tab(2) by (intro kahn_spec) auto
  moreover have "topological_order_of tasks = (if length (kahn ?f ?ready ?d []) \<noteq> length tasks
      then Inl ContractError else Inr (kahn ?f ?ready ?d []))"
    using assms by (simp add: topological_order_of_def case_prod_beta Let_def)
  ultimately show thesis unfolding Let_def by (blast intro: that)
qed

lemma order_covers:
  assumes "distinct (map tc_id tasks)" "distinct ord" "set ord \<subseteq> tc_id ` set tasks"
  shows "length ord = length tasks \<longleftrightarrow> set ord = tc_id ` set tasks"
proof -
  have "card (tc_id ` set tasks) = length tasks" "card (set ord) = length ord"
    using assms distinct_card [of "map tc_id tasks"] distinct_card by auto
  with assms(3) show ?thesis by (metis List.finite_set card_subset_eq finite_imageI)
qed

lemma positions:
  assumes "greedy es ids ord" and "distinct ord" and "\<forall>e\<in>set es. snd e \<in> set ord"
  shows "acyclic (set es)"
proof -
  let ?pos = "inv_into {..<length ord} ((!) ord)"
  have pos: "?pos (ord ! i) = i" if "i < length ord" for i
    using that assms(2) by (intro inv_into_f_f) (auto intro: inj_on_nth)
  have "set es \<subseteq> measure ?pos"
  proof
    fix e assume e: "e \<in> set es"
    obtain d t where dt: "e = (d, t)" by force
    with e assms(3) have "t \<in> set ord" by force
    then obtain i where i: "i < length ord" "ord ! i = t" by (auto simp: in_set_conv_nth)
    with assms(1) e dt have "d \<in> set (take i ord)" by (auto simp: greedy_def enabled_def)
    then obtain j where "j < i" "ord ! j = d" using i(1) by (auto simp: in_set_conv_nth)
    with i dt pos show "e \<in> measure ?pos" by (auto simp: order.strict_trans)
  qed
  then show ?thesis by (rule acyclic_subset [OF wf_acyclic [OF wf_measure]])
qed

lemma stuck_cyclic:
  assumes "acyclic (set es)" and "\<forall>e\<in>set es. fst e \<in> ids" and "finite ids" and "enabled es ids ord = {}"
  shows "ids \<subseteq> set ord"
proof (rule ccontr)
  assume "\<not> ids \<subseteq> set ord"
  then obtain a where a: "a \<in> ids - set ord" by blast
  have "wf (set es)" using assms(1) by (simp add: wf_iff_acyclic_if_finite)
  from this a obtain t where "t \<in> ids - set ord" "\<And>d. (d, t) \<in> set es \<Longrightarrow> d \<notin> ids - set ord"
    by (rule wfE_min) blast
  with assms(2,4) show False by (force simp: enabled_def)
qed

lemma topological_order_of_Inr:
  assumes "topological_order_of tasks = Inr ord"
  shows "mset ord = mset (map tc_id tasks)" "greedy (edges tasks) (tc_id ` set tasks) ord"
    "distinct (map tc_id tasks)" "distinct ord"
proof -
  show d: "distinct (map tc_id tasks)" using assms by (auto simp: topological_order_of_def split: if_splits)
  from topological_order_of_result [OF d] assms obtain
    o: "distinct ord" "set ord \<subseteq> tc_id ` set tasks" "length ord = length tasks"
      "greedy (edges tasks) (tc_id ` set tasks) ord" by (metis Inr_inject sum.distinct(1))
  then show "greedy (edges tasks) (tc_id ` set tasks) ord" "distinct ord" by simp_all
  from order_covers [OF d o(1,2)] o(3) have "set ord = set (map tc_id tasks)" by simp
  then show "mset ord = mset (map tc_id tasks)" using o(1) d by (metis set_eq_iff_mset_eq_distinct)
qed

lemma topological_order_of_ok:
  "ok (topological_order_of tasks) \<longleftrightarrow> distinct (map tc_id tasks) \<and> acyclic (set (edges tasks))"
proof (cases "distinct (map tc_id tasks)")
  case False
  then show ?thesis by (simp add: topological_order_of_def)
next
  case True
  obtain ord where
    o: "distinct ord" "set ord \<subseteq> tc_id ` set tasks" "greedy (edges tasks) (tc_id ` set tasks) ord"
    "enabled (edges tasks) (tc_id ` set tasks) ord = {}"
    "topological_order_of tasks = (if length ord \<noteq> length tasks then Inl ContractError else Inr ord)"
    using topological_order_of_result [OF True] by blast
  have ids: "\<forall>e\<in>set (edges tasks). fst e \<in> tc_id ` set tasks \<and> snd e \<in> tc_id ` set tasks"
    by (auto dest: edges_ids)
  have "acyclic (set (edges tasks))" if "set ord = tc_id ` set tasks"
    by (rule positions [OF o(3,1)]) (use ids that in simp)
  moreover have "set ord = tc_id ` set tasks" if "acyclic (set (edges tasks))"
    using stuck_cyclic [OF that _ _ o(4)] ids o(2) by (simp add: subset_antisym)
  ultimately have "length ord = length tasks \<longleftrightarrow> acyclic (set (edges tasks))"
    unfolding order_covers [OF True o(1,2)] by blast
  with True o(5) show ?thesis by simp
qed

section \<open>Properties\<close>

text \<open>C28. The order of the tasks: \<^verbatim>\<open>_topological_order\<close> succeeds exactly when the identifiers are
  distinct and the dependencies between the tasks have no cycle; otherwise it raises
  \<^verbatim>\<open>ContractError\<close>.\<close>

theorem topological_order_total:
  "ok (topological_order_of tasks) = (distinct (map tc_id tasks) \<and> acyclic (set (edges tasks)))
   \<and> topological_order_of tasks \<in> insert (Inl ContractError) (range Inr)"
  using topological_order_of_ok [of tasks]
  by (auto simp: topological_order_of_def Let_def split: prod.split)

text \<open>C27. Every order that \<^verbatim>\<open>_topological_order\<close> returns holds each task once, puts every
  dependency before its dependents and is deterministic: at each position stands the smallest
  identifier among the tasks whose dependencies all come earlier.\<close>

theorem topological_order_correct:
  assumes "topological_order_of tasks = Inr ord"
  shows "mset ord = mset (map tc_id tasks)
    \<and> (\<forall>i<length ord. \<forall>task\<in>set tasks. tc_id task = ord ! i \<longrightarrow>
         set (tc_depends_on task) \<inter> set ord \<subseteq> set (take i ord))
    \<and> (\<forall>i<length ord. \<forall>task\<in>set tasks. tc_id task \<in> set (drop i ord) \<longrightarrow>
         set (tc_depends_on task) \<inter> set ord \<subseteq> set (take i ord) \<longrightarrow> ord ! i \<le> tc_id task)"
proof -
  note o = topological_order_of_Inr [OF assms]
  have ids: "tc_id ` set tasks = set ord" using o(1) by (metis set_map set_mset_mset)
  have edge: "(d, t) \<in> set (edges tasks) \<longleftrightarrow>
      d \<in> set ord \<and> (\<exists>task\<in>set tasks. tc_id task = t \<and> d \<in> set (tc_depends_on task))" for d t
    by (auto simp: edges_def ids)
  have one: "task = task'" if "task \<in> set tasks" "task' \<in> set tasks" "tc_id task = tc_id task'" for task task'
    using that o(3) by (metis distinct_map inj_onD)
  have late: "t \<in> set ord - set (take i ord)" if "t \<in> set (drop i ord)" for i t
    using that o(4) by (metis DiffI append_take_drop_id disjoint_iff distinct_append in_set_dropD)
  have av: "tc_id task \<in> enabled (edges tasks) (set ord) (take i ord)"
    if "task \<in> set tasks" "tc_id task \<in> set (drop i ord)"
      "set (tc_depends_on task) \<inter> set ord \<subseteq> set (take i ord)" for i task
    using that late [OF that(2)] one [OF _ that(1)] by (auto simp: enabled_def edge)
  have "set (tc_depends_on task) \<inter> set ord \<subseteq> set (take i ord)"
    if "i < length ord" "task \<in> set tasks" "tc_id task = ord ! i" for i task
  proof
    fix d assume "d \<in> set (tc_depends_on task) \<inter> set ord"
    with that(2,3) have "(d, ord ! i) \<in> set (edges tasks)" unfolding edge by blast
    moreover have "ord ! i \<in> enabled (edges tasks) (set ord) (take i ord)"
      using o(2) that(1) unfolding greedy_def ids by blast
    ultimately show "d \<in> set (take i ord)" unfolding enabled_def by blast
  qed
  moreover have "ord ! i \<le> tc_id task"
    if "i < length ord" "task \<in> set tasks" "tc_id task \<in> set (drop i ord)"
      "set (tc_depends_on task) \<inter> set ord \<subseteq> set (take i ord)" for i task
    using av [OF that(2-4)] o(2) that(1) unfolding greedy_def ids by blast
  ultimately show ?thesis using o(1) by blast
qed

text \<open>A diamond of four tasks.\<close>

definition node :: "string \<Rightarrow> string list \<Rightarrow> task_contract" where
  "node t deps =
     \<lparr>tc_id = t, tc_objective = ''work'', tc_worker_type = ''general'', tc_covers = [''AC-001''],
      tc_depends_on = deps, tc_path_scope = [t], tc_exclusive_resources = [],
      tc_acceptance_checks = [], tc_max_attempts = 1\<rparr>"

theorem topological_order_correct_witness:
  "let tasks = [node ''TASK-004'' [''TASK-003'', ''TASK-002''], node ''TASK-003'' [''TASK-001''],
                node ''TASK-002'' [''TASK-001''], node ''TASK-001'' []];
       ord = [''TASK-001'', ''TASK-002'', ''TASK-003'', ''TASK-004'']
   in topological_order_of tasks = Inr ord \<and> mset ord = mset (map tc_id tasks)"
proof -
  let ?tasks = "[node ''TASK-004'' [''TASK-003'', ''TASK-002''], node ''TASK-003'' [''TASK-001''],
                node ''TASK-002'' [''TASK-001''], node ''TASK-001'' []]"
  let ?ord = "[''TASK-001'', ''TASK-002'', ''TASK-003'', ''TASK-004'']"
  have t: "topological_order_of ?tasks = Inr ?ord" by code_simp
  from topological_order_correct [OF t] t show ?thesis by (simp only: Let_def)
qed

end
