(* ===== verification/Scheduler.thy ===== *)
theory Scheduler
  imports Config Scopes TopoOrder RunState
begin

text \<open>
  The class \<^verbatim>\<open>Scheduler\<close> of \<^verbatim>\<open>scheduler.py\<close>: the checks of a plan, the promotion of tasks whose
  dependencies are completed and the selection of the tasks that start next.
\<close>

section \<open>Loops whose test may raise\<close>

text \<open>\<^verbatim>\<open>any(f(x) for x in xs)\<close> and \<^verbatim>\<open>[x for x in xs if f(x)]\<close>.\<close>

fun anyr :: "('a \<Rightarrow> bool result) \<Rightarrow> 'a list \<Rightarrow> bool result" where
  "anyr f [] = Inr False"
| "anyr f (x # xs) = bnd (f x) (\<lambda>b. if b then Inr True else anyr f xs)"

fun filterr :: "('a \<Rightarrow> bool result) \<Rightarrow> 'a list \<Rightarrow> 'a list result" where
  "filterr f [] = Inr []"
| "filterr f (x # xs) = bnd (f x) (\<lambda>b. bnd (filterr f xs) (\<lambda>ys. Inr (if b then x # ys else ys)))"

lemma anyr_False: "anyr f xs = Inr False \<longleftrightarrow> (\<forall>x\<in>set xs. f x = Inr False)"
  by (induction xs) (auto simp: bnd_eq_Inr)

lemma anyr_True: "anyr f xs = Inr True \<Longrightarrow> \<exists>x\<in>set xs. f x = Inr True"
  by (induction xs) (auto simp: bnd_eq_Inr split: if_splits)

lemma filterr_Inr: "filterr f xs = Inr ys \<Longrightarrow> ys = filter (\<lambda>x. f x = Inr True) xs"
  by (induction xs arbitrary: ys) (auto simp: bnd_eq_Inr)

section \<open>Checks of a plan\<close>

definition DEFAULT_WORKER_TYPES :: "string list" where
  "DEFAULT_WORKER_TYPES =
     [''implementation'', ''testing'', ''performance'', ''code-quality'', ''documentation'', ''general'']"

definition RESOURCE_RE :: "string \<Rightarrow> bool" where
  "RESOURCE_RE s =
     re_ident is_alnum (\<lambda>c. is_alnum c \<or> c \<in> set ''._:/-'') 127 s"

definition effective_global_verification ::
  "frozen_run_config \<Rightarrow> plan_document list \<Rightarrow> string list result" where
  "effective_global_verification config plans =
     bnd (foldr_r (\<lambda>command_ids plan.
            bnd (resolve_command_ids config (pd_global_verification plan)) (\<lambda>_.
            Inr (dedup (command_ids @ pd_global_verification plan))))
          (required_command_ids config) (sort_key pd_plan_version plans)) (\<lambda>command_ids.
     bnd (resolve_command_ids config command_ids) (\<lambda>_. Inr command_ids))"

definition validate_versions :: "plan_document \<Rightarrow> plan_document list \<Rightarrow> unit result" where
  "validate_versions document prior_plans =
     checks
       [chk (pd_schema_version document = 1),
        forr (\<lambda>(index, plan). chk (pd_schema_version plan = 1 \<and> pd_plan_version plan = int index))
          (enumerate 1 prior_plans),
        chk (pd_plan_version document = int (length prior_plans) + 1)]"

definition validate_acceptance :: "plan_document \<Rightarrow> plan_document list \<Rightarrow> unit result" where
  "validate_acceptance document prior_plans =
     (let criteria = pd_acceptance_criteria document in
      checks
        [chk (criteria \<noteq> []),
         chk (unique (map ac_id criteria)),
         forr (\<lambda>criterion. checks
           [chk (ACCEPTANCE_ID_RE (ac_id criterion)), chk (\<not> blank (ac_description criterion))]) criteria,
         case prior_plans of
           [] \<Rightarrow> Inr ()
         | first # rest \<Rightarrow>
             checks
               [chk (criteria = pd_acceptance_criteria first),
                forr (\<lambda>plan. chk (pd_acceptance_criteria plan = pd_acceptance_criteria first)) rest]])"

definition validate_task_contract ::
  "string list \<Rightarrow> task_contract \<Rightarrow> frozen_run_config \<Rightarrow> string list \<Rightarrow> string list \<Rightarrow> unit result" where
  "validate_task_contract registered task config criteria_ids all_ids =
     bnd (checks
       [chk (TASK_ID_RE (tc_id task)),
        chk (\<not> blank (tc_objective task)),
        chk (tc_worker_type task \<in> set registered),
        chk (tc_covers task \<noteq> [] \<and> unique (tc_covers task) \<and> set (tc_covers task) \<subseteq> set criteria_ids),
        chk (unique (tc_depends_on task) \<and> tc_id task \<notin> set (tc_depends_on task)
          \<and> set (tc_depends_on task) \<subseteq> set all_ids),
        chk (tc_path_scope task \<noteq> [])]) (\<lambda>_.
     bnd (mapr normalize_scope (tc_path_scope task)) (\<lambda>scopes.
     checks
       [chk (unique scopes),
        chk (\<not> (''.'' \<in> set scopes \<and> length scopes \<noteq> 1)),
        chk (unique (tc_exclusive_resources task)),
        forr (\<lambda>resource. chk (RESOURCE_RE resource)) (tc_exclusive_resources task),
        chk (1 \<le> tc_max_attempts task \<and> tc_max_attempts task \<le> task_attempts config),
        void (resolve_command_ids config (tc_acceptance_checks task))]))"

definition validate_plan ::
  "string list \<Rightarrow> plan_document \<Rightarrow> frozen_run_config \<Rightarrow> plan_document list \<Rightarrow> unit result" where
  "validate_plan registered document config prior_plans =
     (let plans = sort_key pd_plan_version prior_plans in
      bnd (validate_versions document plans) (\<lambda>_.
      bnd (validate_acceptance document plans) (\<lambda>_.
      let prior_tasks = concat (map pd_tasks plans);
          all_tasks = prior_tasks @ pd_tasks document;
          criteria_ids = map ac_id (pd_acceptance_criteria document) in
      checks
        [chk (\<not> int (length prior_tasks + length (pd_tasks document)) > max_plan_tasks config),
         chk (unique (map tc_id prior_tasks)),
         chk (unique (map tc_id (pd_tasks document))),
         chk (set (map tc_id prior_tasks) \<inter> set (map tc_id (pd_tasks document)) = {}),
         forr (\<lambda>task. validate_task_contract registered task config criteria_ids (map tc_id all_tasks))
           (pd_tasks document),
         void (topological_order_of all_tasks),
         chk (set criteria_ids \<subseteq> set (concat (map tc_covers all_tasks))),
         void (resolve_command_ids config (pd_global_verification document)),
         void (effective_global_verification config (plans @ [document]))])))"

definition topological_order :: "plan_document \<Rightarrow> string list result" where
  "topological_order document = topological_order_of (pd_tasks document)"

section \<open>Promotion and dispatch\<close>

text \<open>\<^verbatim>\<open>next(item for item in plan.tasks if item.id == task_id)\<close>; an identifier of the order always
  has its task.\<close>

definition task_of :: "plan_document \<Rightarrow> string \<Rightarrow> task_contract" where
  "task_of plan task_id = hd (filter (\<lambda>task. tc_id task = task_id) (pd_tasks plan))"

definition has_status :: "json \<Rightarrow> string \<Rightarrow> bool" where
  "has_status v status = (is_obj v \<and> sub v ''status'' = JStr status)"

definition promotable :: "plan_document \<Rightarrow> json \<Rightarrow> string \<Rightarrow> bool" where
  "promotable plan tasks_state task_id =
     (has_status (sub tasks_state task_id) ''PENDING''
      \<and> list_all (\<lambda>dependency. has_status (sub tasks_state dependency) ''COMPLETED'')
          (tc_depends_on (task_of plan task_id)))"

definition promote_one ::
  "plan_document \<Rightarrow> json \<times> string list \<Rightarrow> string \<Rightarrow> json \<times> string list" where
  "promote_one plan s task_id =
     (if promotable plan (fst s) task_id
      then (upd (fst s) task_id (\<lambda>current. put current ''status'' (JStr ''READY'')), snd s @ [task_id])
      else s)"

definition promote_ready :: "json \<Rightarrow> plan_document \<Rightarrow> (json \<times> string list) result" where
  "promote_ready state plan =
     bnd (chk (is_obj (sub state ''tasks''))) (\<lambda>_.
     bnd (topological_order plan) (\<lambda>order.
     let (tasks_state, promoted) = foldl (promote_one plan) (sub state ''tasks'', []) order
     in Inr (put state ''tasks'' tasks_state, promoted)))"

definition contract_of :: "plan_document \<Rightarrow> string \<Rightarrow> task_contract option" where
  "contract_of plan = map_of (rev (map (\<lambda>task. (tc_id task, task)) (pd_tasks plan)))"

definition is_active :: "string \<times> json \<Rightarrow> bool result" where
  "is_active p =
     (if is_obj (snd p)
      then in_str_set (sub (snd p) ''status'') [''RUNNING'', ''READY_TO_INTEGRATE'', ''INTEGRATING'']
      else Inr False)"

definition conflicts :: "task_contract \<Rightarrow> task_contract \<Rightarrow> bool result" where
  "conflicts candidate reserved =
     bnd (scopes_overlap (tc_path_scope candidate) (tc_path_scope reserved)) (\<lambda>b.
     Inr (b \<or> resources_overlap (tc_exclusive_resources candidate) (tc_exclusive_resources reserved)))"

fun select_tasks ::
  "plan_document \<Rightarrow> json \<Rightarrow> int \<Rightarrow> task_contract list \<Rightarrow> string list \<Rightarrow> string list \<Rightarrow> string list result" where
  "select_tasks plan tasks_state available reservations selected [] = Inr selected"
| "select_tasks plan tasks_state available reservations selected (task_id # order) =
     (if int (length selected) \<ge> available then Inr selected
      else if \<not> has_status (sub tasks_state task_id) ''READY''
      then select_tasks plan tasks_state available reservations selected order
      else case contract_of plan task_id of
          None \<Rightarrow> Inl KeyError
        | Some candidate \<Rightarrow>
            bnd (anyr (conflicts candidate) reservations) (\<lambda>clash.
            if clash then select_tasks plan tasks_state available reservations selected order
            else select_tasks plan tasks_state available (reservations @ [candidate])
                   (selected @ [task_id]) order))"

definition dispatchable :: "json \<Rightarrow> plan_document \<Rightarrow> string list result" where
  "dispatchable state plan =
     (if sub state ''status'' \<noteq> JStr ''EXECUTING'' then Inr []
      else
        let maximum = sub state ''max_workers''; tasks_state = sub state ''tasks'' in
        if \<not> is_int maximum \<or> int_of maximum < 1 then Inr []
        else
          bnd (chk (is_obj tasks_state)) (\<lambda>_.
          bnd (filterr is_active (items tasks_state)) (\<lambda>active.
          let active_ids = map fst active in
          if \<not> list_all (\<lambda>task_id. contract_of plan task_id \<noteq> None) active_ids then Inr []
          else
            let available = int_of maximum - int (length active_ids) in
            if available \<le> 0 then Inr []
            else bnd (topological_order plan) (\<lambda>order.
              select_tasks plan tasks_state available
                (map (\<lambda>task_id. the (contract_of plan task_id)) active_ids) [] order))))"

section \<open>Dispatch is safe\<close>

text \<open>Two tasks that can run side by side: no path belongs to both, and they share no exclusive
  resource.\<close>

definition separated :: "task_contract \<Rightarrow> task_contract \<Rightarrow> bool" where
  "separated c d \<longleftrightarrow>
     \<not> (\<exists>path f s. f \<in> set (tc_path_scope c) \<and> s \<in> set (tc_path_scope d)
          \<and> path_matches_scope path f \<and> path_matches_scope path s)
     \<and> set (tc_exclusive_resources c) \<inter> set (tc_exclusive_resources d) = {}"

lemma separated_sym: "separated c d \<longleftrightarrow> separated d c"
  by (auto simp: separated_def)

lemma overlap_free:
  assumes "scopes_overlap left right = Inr False" "f \<in> set left" "s \<in> set right"
  shows "\<not> (path_matches_scope path f \<and> path_matches_scope path s)"
  using assms common_path_overlaps unfolding scopes_overlap_iff by (metis Un_iff)

lemma conflicts_False: "conflicts c d = Inr False \<Longrightarrow> separated c d"
  using overlap_free [of "tc_path_scope c" "tc_path_scope d"]
  by (auto simp: conflicts_def bnd_eq_Inr separated_def resources_overlap_def list_ex_iff)

text \<open>What the selection loop keeps: the selected tasks are ready, distinct, within the capacity
  and separated from each other and from the reservations it started with.\<close>

definition selection_ok ::
  "plan_document \<Rightarrow> json \<Rightarrow> int \<Rightarrow> task_contract list \<Rightarrow> string list \<Rightarrow> bool" where
  "selection_ok plan tasks_state available reserved selected \<longleftrightarrow>
     distinct selected \<and> int (length selected) \<le> available
     \<and> (\<forall>t\<in>set selected. has_status (sub tasks_state t) ''READY'' \<and> contract_of plan t \<noteq> None)
     \<and> (\<forall>t\<in>set selected. \<forall>r\<in>set reserved. separated (the (contract_of plan t)) r)
     \<and> (\<forall>t\<in>set selected. \<forall>u\<in>set selected. t \<noteq> u \<longrightarrow>
          separated (the (contract_of plan t)) (the (contract_of plan u)))"

lemma select_tasks_ok:
  assumes "select_tasks plan tasks available (reserved @ map (\<lambda>u. the (contract_of plan u)) selected) selected order = Inr result"
    and "selection_ok plan tasks available reserved selected"
    and "distinct (selected @ order)"
  shows "selection_ok plan tasks available reserved result"
  using assms
proof (induction order arbitrary: selected)
  case (Cons t order)
  show ?case
  proof (cases "int (length selected) \<ge> available \<or> \<not> has_status (sub tasks t) ''READY''")
    case True
    with Cons show ?thesis by (auto split: if_splits)
  next
    case ready: False
    with Cons.prems(1) obtain c clash where c: "contract_of plan t = Some c"
      and clash: "anyr (conflicts c) (reserved @ map (\<lambda>u. the (contract_of plan u)) selected) = Inr clash"
      and rest: "(if clash then select_tasks plan tasks available (reserved @ map (\<lambda>u. the (contract_of plan u)) selected) selected order
        else select_tasks plan tasks available ((reserved @ map (\<lambda>u. the (contract_of plan u)) selected) @ [c]) (selected @ [t]) order) = Inr result"
      by (auto simp: bnd_eq_Inr split: option.splits)
    show ?thesis
    proof (cases clash)
      case True
      with rest Cons.prems show ?thesis by (intro Cons.IH [of selected]) auto
    next
      case False
      with clash have "\<forall>r\<in>set reserved. separated c r" "\<forall>u\<in>set selected. separated c (the (contract_of plan u))"
        by (auto simp: anyr_False dest: conflicts_False)
      with Cons.prems(2,3) ready c have "selection_ok plan tasks available reserved (selected @ [t])"
        by (auto simp: selection_ok_def separated_sym)
      with rest False Cons.prems(3) c show ?thesis by (intro Cons.IH [of "selected @ [t]"]) auto
    qed
  qed
qed simp

lemma select_tasks_prefix:
  "select_tasks plan tasks capacity reserved selected order = Inr result \<Longrightarrow> prefix selected result"
proof (induction order arbitrary: reserved selected)
  case (Cons t order)
  then show ?case
    by (auto simp: bnd_eq_Inr split: if_splits option.splits) (metis append_prefixD)+
qed simp

lemma select_tasks_maximal:
  assumes "select_tasks plan tasks capacity (reserved @ map (\<lambda>u. the (contract_of plan u)) selected) selected order = Inr result"
    and "int (length result) < capacity" and "t \<in> set order" and "has_status (sub tasks t) ''READY''"
  shows "t \<in> set result \<or> (\<exists>r\<in>set (reserved @ map (\<lambda>u. the (contract_of plan u)) result).
      conflicts (the (contract_of plan t)) r = Inr True)"
  using assms
proof (induction order arbitrary: selected)
  case (Cons x order)
  let ?res = "reserved @ map (\<lambda>u. the (contract_of plan u)) selected"
  note pre = select_tasks_prefix [OF Cons.prems(1)]
  have room: "\<not> int (length selected) \<ge> capacity"
    using prefix_length_le [OF pre] Cons.prems(2) by linarith
  show ?case
  proof (cases "has_status (sub tasks x) ''READY''")
    case False
    with Cons room show ?thesis by (intro Cons.IH [of selected]) auto
  next
    case True
    with Cons.prems(1) room obtain c clash where c: "contract_of plan x = Some c"
      and clash: "anyr (conflicts c) ?res = Inr clash"
      and rest: "(if clash then select_tasks plan tasks capacity ?res selected order
        else select_tasks plan tasks capacity (?res @ [c]) (selected @ [x]) order) = Inr result"
      by (auto simp: bnd_eq_Inr split: option.splits)
    show ?thesis
    proof (cases "t = x")
      case tx: True
      show ?thesis
      proof (cases clash)
        case True
        with clash have "anyr (conflicts c) ?res = Inr True" by simp
        then obtain r where r: "r \<in> set ?res" "conflicts c r = Inr True" by (blast dest: anyr_True)
        with set_mono_prefix [OF pre] c tx have "r \<in> set (reserved @ map (\<lambda>u. the (contract_of plan u)) result)"
          by auto
        with r(2) c tx show ?thesis by auto
      next
        case False
        with rest have "prefix (selected @ [x]) result" by (auto dest: select_tasks_prefix)
        with tx show ?thesis by (auto dest: set_mono_prefix)
      qed
    next
      case False
      with Cons.prems(3) have t: "t \<in> set order" by simp
      show ?thesis
      proof (cases clash)
        case True
        with rest Cons.prems t show ?thesis by (intro Cons.IH [of selected]) auto
      next
        case False
        with rest Cons.prems c t show ?thesis by (intro Cons.IH [of "selected @ [x]"]) auto
      qed
    qed
  qed
qed simp

text \<open>The active tasks of a state.\<close>

definition active_tasks :: "json \<Rightarrow> string list" where
  "active_tasks state = map fst (filter (\<lambda>p. is_active p = Inr True) (items (sub state ''tasks'')))"

text \<open>The conditions under which the loop runs; otherwise nothing is dispatched.\<close>

definition can_dispatch :: "json \<Rightarrow> plan_document \<Rightarrow> bool" where
  "can_dispatch state plan \<longleftrightarrow>
     sub state ''status'' = JStr ''EXECUTING'' \<and> is_int (sub state ''max_workers'')
     \<and> int (length (active_tasks state)) < int_of (sub state ''max_workers'')
     \<and> (\<forall>t\<in>set (active_tasks state). contract_of plan t \<noteq> None)"

lemma dispatchable_cases:
  assumes "dispatchable state plan = Inr selected"
  obtains (none) "\<not> can_dispatch state plan" "selected = []"
  | (ran) order where "can_dispatch state plan" "topological_order plan = Inr order"
      "select_tasks plan (sub state ''tasks'') (int_of (sub state ''max_workers'') - int (length (active_tasks state)))
         (map (\<lambda>u. the (contract_of plan u)) (active_tasks state)) [] order = Inr selected"
proof (cases "sub state ''status'' = JStr ''EXECUTING'' \<and> is_int (sub state ''max_workers'') \<and> 1 \<le> int_of (sub state ''max_workers'')")
  case False
  with assms have "selected = []" by (auto simp: dispatchable_def Let_def split: if_splits)
  moreover from False have "\<not> can_dispatch state plan" by (auto simp: can_dispatch_def)
  ultimately show thesis by (rule none [rotated])
next
  case True
  with assms obtain active where act: "filterr is_active (items (sub state ''tasks'')) = Inr active"
    and rest: "(if \<not> list_all (\<lambda>t. contract_of plan t \<noteq> None) (map fst active) then Inr []
      else if int_of (sub state ''max_workers'') - int (length (map fst active)) \<le> 0 then Inr []
      else bnd (topological_order plan) (\<lambda>order.
         select_tasks plan (sub state ''tasks'') (int_of (sub state ''max_workers'') - int (length (map fst active)))
         (map (\<lambda>u. the (contract_of plan u)) (map fst active)) [] order)) = Inr selected"
    unfolding dispatchable_def Let_def by (auto simp: bnd_eq_Inr)
  have ids: "map fst active = active_tasks state" using filterr_Inr [OF act] by (simp add: active_tasks_def)
  show thesis
  proof (cases "can_dispatch state plan")
    case can: True
    then have c: "list_all (\<lambda>t. contract_of plan t \<noteq> None) (active_tasks state)"
      "\<not> int_of (sub state ''max_workers'') - int (length (active_tasks state)) \<le> 0"
      by (simp_all add: can_dispatch_def list_all_iff)
    from rest [unfolded ids] obtain order where "topological_order plan = Inr order"
      "select_tasks plan (sub state ''tasks'') (int_of (sub state ''max_workers'') - int (length (active_tasks state)))
         (map (\<lambda>u. the (contract_of plan u)) (active_tasks state)) [] order = Inr selected"
      by (auto simp only: c not_True_eq_False if_False bnd_eq_Inr)
    with can show thesis by (rule ran)
  next
    case no: False
    with True have "\<not> list_all (\<lambda>t. contract_of plan t \<noteq> None) (active_tasks state)
        \<or> int_of (sub state ''max_workers'') - int (length (active_tasks state)) \<le> 0"
      by (auto simp: can_dispatch_def list_all_iff)
    with rest [unfolded ids] have "selected = []" by (auto split: if_splits)
    with no show thesis by (rule none)
  qed
qed

text \<open>C26. Dispatch is safe: the tasks that \<^verbatim>\<open>dispatchable\<close> selects are distinct, ready tasks of the
  plan; together with the active tasks they fit within \<^verbatim>\<open>max_workers\<close>; and no selected task shares
  a path or an exclusive resource with an active task or with another selected task.\<close>

theorem dispatchable_safe:
  assumes "dispatchable state plan = Inr selected"
  shows "distinct selected
    \<and> (\<forall>t\<in>set selected. has_status (sub (sub state ''tasks'') t) ''READY'' \<and> contract_of plan t \<noteq> None)
    \<and> (selected \<noteq> [] \<longrightarrow> int (length (active_tasks state) + length selected) \<le> int_of (sub state ''max_workers''))
    \<and> (\<forall>t\<in>set selected. \<forall>u\<in>set (active_tasks state @ selected). t \<noteq> u \<longrightarrow>
         separated (the (contract_of plan t)) (the (contract_of plan u)))"
  using assms
proof (cases rule: dispatchable_cases)
  case (ran order)
  let ?cap = "int_of (sub state ''max_workers'') - int (length (active_tasks state))"
  let ?res = "map (\<lambda>u. the (contract_of plan u)) (active_tasks state)"
  have "distinct order" using ran(2) topological_order_of_Inr(4) by (auto simp: topological_order_def)
  moreover have "selection_ok plan (sub state ''tasks'') ?cap ?res []"
    using ran(1) by (simp add: selection_ok_def can_dispatch_def)
  ultimately have "selection_ok plan (sub state ''tasks'') ?cap ?res selected"
    using select_tasks_ok [of plan _ ?cap ?res "[]" order selected] ran(3) by simp
  then have sel: "distinct selected" "int (length selected) \<le> ?cap"
      "\<forall>t\<in>set selected. has_status (sub (sub state ''tasks'') t) ''READY'' \<and> contract_of plan t \<noteq> None"
      "\<forall>t\<in>set selected. \<forall>r\<in>set ?res. separated (the (contract_of plan t)) r"
      "\<forall>t\<in>set selected. \<forall>u\<in>set selected. t \<noteq> u \<longrightarrow> separated (the (contract_of plan t)) (the (contract_of plan u))"
    unfolding selection_ok_def by blast+
  have "int (length (active_tasks state) + length selected) \<le> int_of (sub state ''max_workers'')"
    using sel(2) by simp
  moreover have "separated (the (contract_of plan t)) (the (contract_of plan u))"
    if "t \<in> set selected" "u \<in> set (active_tasks state @ selected)" "t \<noteq> u" for t u
    using that sel(4,5) unfolding set_append set_map by blast
  ultimately show ?thesis using sel(1,3) by blast
qed simp

text \<open>C32. Dispatch is work-conserving: when an executing run has free capacity and its selection does
  not fill it, every ready task of the plan that was left out conflicts with an active or with a
  selected task.\<close>

theorem dispatchable_maximal:
  assumes "dispatchable state plan = Inr selected" and "can_dispatch state plan"
    and "int (length (active_tasks state) + length selected) < int_of (sub state ''max_workers'')"
    and "task \<in> set (pd_tasks plan)" and "has_status (sub (sub state ''tasks'') (tc_id task)) ''READY''"
    and "tc_id task \<notin> set selected"
  shows "\<exists>u\<in>set (active_tasks state @ selected).
    conflicts (the (contract_of plan (tc_id task))) (the (contract_of plan u)) = Inr True"
  using assms(1)
proof (cases rule: dispatchable_cases)
  case (ran order)
  have "tc_id task \<in> set order"
    using topological_order_of_Inr(1) [OF ran(2) [unfolded topological_order_def]] assms(4)
    by (metis image_eqI list.set_map set_mset_mset)
  from select_tasks_maximal [where selected = "[]", OF _ _ this assms(5)] ran(3) assms(3,6)
  show ?thesis by (fastforce simp: image_iff)
qed (use assms(2) in simp)

section \<open>Promotion is exact\<close>

lemma sub_upd_tasks: "is_obj v \<Longrightarrow> sub (upd v k f) k' = (if k' = k then f (sub v k) else sub v k')"
  by simp

lemma has_status_put: "has_status (put v ''status'' (JStr s)) s' \<longleftrightarrow> is_obj v \<and> s' = s"
  by (auto simp: has_status_def)

lemma foldl_promote:
  assumes "is_obj t0" and "distinct (acc @ order)" and "is_obj t"
    and "\<And>k. sub t k = (if k \<in> set acc then put (sub t0 k) ''status'' (JStr ''READY'') else sub t0 k)"
    and "\<forall>k\<in>set acc. has_status (sub t0 k) ''PENDING''"
  shows "let (t', acc') = foldl (promote_one plan) (t, acc) order in
    acc' = acc @ filter (promotable plan t0) order \<and> is_obj t'
    \<and> (\<forall>k. sub t' k = (if k \<in> set acc' then put (sub t0 k) ''status'' (JStr ''READY'') else sub t0 k))"
  using assms(2-5)
proof (induction order arbitrary: t acc)
  case Nil
  then show ?case by simp
next
  case (Cons x order)
  have completed: "has_status (sub t k) ''COMPLETED'' = has_status (sub t0 k) ''COMPLETED''" for k
    using Cons.prems(3,4) by (auto simp: has_status_put) (auto simp: has_status_def)
  have "has_status (sub t x) ''PENDING'' = has_status (sub t0 x) ''PENDING''"
    using Cons.prems(1,3) by simp
  then have same: "promotable plan t x = promotable plan t0 x"
    by (simp add: promotable_def completed)
  show ?case
  proof (cases "promotable plan t0 x")
    case True
    let ?t = "upd t x (\<lambda>current. put current ''status'' (JStr ''READY''))"
    have "let (t', acc') = foldl (promote_one plan) (?t, acc @ [x]) order in
        acc' = (acc @ [x]) @ filter (promotable plan t0) order \<and> is_obj t'
        \<and> (\<forall>k. sub t' k = (if k \<in> set acc' then put (sub t0 k) ''status'' (JStr ''READY'') else sub t0 k))"
      using Cons.prems True
      by (intro Cons.IH) (auto simp: sub_upd_tasks promotable_def)
    moreover have "promote_one plan (t, acc) x = (?t, acc @ [x])" using True same by (simp add: promote_one_def)
    ultimately show ?thesis using True by simp
  next
    case False
    with Cons.prems have "let (t', acc') = foldl (promote_one plan) (t, acc) order in
        acc' = acc @ filter (promotable plan t0) order \<and> is_obj t'
        \<and> (\<forall>k. sub t' k = (if k \<in> set acc' then put (sub t0 k) ''status'' (JStr ''READY'') else sub t0 k))"
      by (intro Cons.IH) auto
    moreover have "promote_one plan (t, acc) x = (t, acc)" using False same by (simp add: promote_one_def)
    ultimately show ?thesis using False by simp
  qed
qed

text \<open>Promotion is exact: \<^verbatim>\<open>promote_ready\<close> promotes precisely the pending tasks whose
  dependencies are all completed, in topological order; it changes the status of those tasks to
  \<^verbatim>\<open>READY\<close> and nothing else of the run state.\<close>

theorem promote_ready_exact:
  assumes "promote_ready state plan = Inr (state', promoted)" and "is_obj state"
  shows "(\<exists>order. topological_order plan = Inr order
      \<and> promoted = filter (promotable plan (sub state ''tasks'')) order)
    \<and> (\<forall>t. sub (sub state' ''tasks'') t =
         (if t \<in> set promoted then put (sub (sub state ''tasks'') t) ''status'' (JStr ''READY'')
          else sub (sub state ''tasks'') t))
    \<and> (\<forall>k. k \<noteq> ''tasks'' \<longrightarrow> sub state' k = sub state k)"
proof -
  let ?t = "sub state ''tasks''"
  from assms(1) obtain order where o: "is_obj ?t" "topological_order plan = Inr order"
    and r: "(let (tasks_state, promoted) = foldl (promote_one plan) (?t, []) order
       in Inr (put state ''tasks'' tasks_state, promoted)) = (Inr (state', promoted) :: (json \<times> string list) result)"
    unfolding promote_ready_def bnd_eq_Inr by auto
  obtain t' acc' where f: "foldl (promote_one plan) (?t, []) order = (t', acc')" by force
  have "distinct order" using o(2) topological_order_of_Inr(4) by (auto simp: topological_order_def)
  with foldl_promote [of ?t "[]" order ?t plan] o(1) f
  have "acc' = filter (promotable plan ?t) order"
    "\<forall>k. sub t' k = (if k \<in> set acc' then put (sub ?t k) ''status'' (JStr ''READY'') else sub ?t k)" by auto
  moreover from r f have "state' = put state ''tasks'' t'" "promoted = acc'" by auto
  ultimately show ?thesis using o(2) assms(2) by auto
qed

section \<open>Accepted plans\<close>

text \<open>C29. An accepted plan can be executed: when \<^verbatim>\<open>validate_plan\<close> accepts a plan, its version is the
  next one, the identifiers of all tasks of all plans are distinct, their number is within
  \<^verbatim>\<open>max_plan_tasks\<close>, every acceptance criterion is covered by a task, every dependency of a new task
  names a task, the dependency graph has no cycle, and a topological order of all tasks exists.\<close>

theorem validate_plan_sound:
  assumes "validate_plan registered document config prior_plans = Inr ()"
  shows "let tasks = concat (map pd_tasks (sort_key pd_plan_version prior_plans)) @ pd_tasks document
    in distinct (map tc_id tasks) \<and> int (length tasks) \<le> max_plan_tasks config
       \<and> pd_plan_version document = int (length prior_plans) + 1
       \<and> (\<forall>criterion\<in>set (pd_acceptance_criteria document). \<exists>task\<in>set tasks. ac_id criterion \<in> set (tc_covers task))
       \<and> (\<forall>task\<in>set (pd_tasks document). set (tc_depends_on task) \<subseteq> set (map tc_id tasks)
            \<and> tc_worker_type task \<in> set registered
            \<and> 1 \<le> tc_max_attempts task \<and> tc_max_attempts task \<le> task_attempts config
            \<and> (\<forall>s\<in>set (tc_path_scope task). ok (normalize_scope s)))
       \<and> acyclic (set (edges tasks)) \<and> ok (topological_order_of tasks)"
proof -
  let ?tasks = "concat (map pd_tasks (sort_key pd_plan_version prior_plans)) @ pd_tasks document"
  have top: "ok (topological_order_of ?tasks)"
    and size: "int (length ?tasks) \<le> max_plan_tasks config"
    and cover: "set (map ac_id (pd_acceptance_criteria document)) \<subseteq> set (concat (map tc_covers ?tasks))"
    and each: "\<forall>task\<in>set (pd_tasks document). validate_task_contract registered task config
        (map ac_id (pd_acceptance_criteria document)) (map tc_id ?tasks) = Inr ()"
    and ver: "pd_plan_version document = int (length (sort_key pd_plan_version prior_plans)) + 1"
    using assms unfolding validate_plan_def Let_def validate_versions_def bnd_eq_Inr
    by (auto simp: forr_eq_Inr)
  have "set (tc_depends_on task) \<subseteq> set (map tc_id ?tasks) \<and> tc_worker_type task \<in> set registered
      \<and> 1 \<le> tc_max_attempts task \<and> tc_max_attempts task \<le> task_attempts config
      \<and> (\<forall>s\<in>set (tc_path_scope task). ok (normalize_scope s))" if "task \<in> set (pd_tasks document)" for task
    using each that unfolding validate_task_contract_def bnd_eq_Inr mapr_normalize by auto
  moreover have "\<forall>criterion\<in>set (pd_acceptance_criteria document). \<exists>task\<in>set ?tasks. ac_id criterion \<in> set (tc_covers task)"
    using cover by (fastforce simp: image_subset_iff)
  ultimately show ?thesis
    using top topological_order_of_ok [of ?tasks] size ver unfolding Let_def length_sort by blast
qed

section \<open>A concrete plan\<close>

text \<open>Three tasks: the second depends on the first, and the third writes where the first one does.\<close>

definition sample_task :: "string \<Rightarrow> string list \<Rightarrow> string \<Rightarrow> task_contract" where
  "sample_task t deps scope =
     \<lparr>tc_id = t, tc_objective = ''work'', tc_worker_type = ''general'', tc_covers = [''AC-001''],
      tc_depends_on = deps, tc_path_scope = [scope], tc_exclusive_resources = [],
      tc_acceptance_checks = [], tc_max_attempts = 2\<rparr>"

definition sample_plan :: plan_document where
  "sample_plan =
     \<lparr>pd_schema_version = 1, pd_plan_version = 1, pd_summary = ''plan'',
      pd_acceptance_criteria = [\<lparr>ac_id = ''AC-001'', ac_description = ''it works''\<rparr>],
      pd_global_verification = [],
      pd_tasks = [sample_task ''TASK-002'' [''TASK-001''] ''docs/'', sample_task ''TASK-001'' [] ''src/'',
                  sample_task ''TASK-003'' [] ''src/a.py'', sample_task ''TASK-004'' [] ''tests/'']\<rparr>"

definition task_entry :: "string \<Rightarrow> json" where
  "task_entry status = JObj [(''status'', JStr status)]"

definition dispatch_state :: json where
  "dispatch_state = JObj
     [(''status'', JStr ''EXECUTING''), (''max_workers'', JInt 4),
      (''tasks'', JObj [(''TASK-001'', task_entry ''READY''), (''TASK-002'', task_entry ''PENDING''),
         (''TASK-003'', task_entry ''READY''), (''TASK-004'', task_entry ''RUNNING'')])]"

lemma dispatch_sample: "dispatchable dispatch_state sample_plan = Inr [''TASK-001'']"
  by code_simp

theorem dispatchable_safe_witness:
  "dispatchable dispatch_state sample_plan = Inr [''TASK-001'']
   \<and> separated (the (contract_of sample_plan ''TASK-001'')) (the (contract_of sample_plan ''TASK-004''))"
proof -
  have "active_tasks dispatch_state = [''TASK-004'']" by code_simp
  with dispatchable_safe [OF dispatch_sample] dispatch_sample show ?thesis by simp
qed

theorem dispatchable_maximal_witness:
  "\<exists>u\<in>set (active_tasks dispatch_state @ [''TASK-001'']).
    conflicts (the (contract_of sample_plan ''TASK-003'')) (the (contract_of sample_plan u)) = Inr True"
proof -
  let ?task = "sample_task ''TASK-003'' [] ''src/a.py''"
  have act: "active_tasks dispatch_state = [''TASK-004'']" by code_simp
  have c: "contract_of sample_plan ''TASK-004'' \<noteq> None" by (simp add: contract_of_def sample_plan_def sample_task_def)
  have "can_dispatch dispatch_state sample_plan"
    using c by (simp add: can_dispatch_def act) (simp add: dispatch_state_def)
  moreover have "int (length (active_tasks dispatch_state) + length [''TASK-001'']) < int_of (sub dispatch_state ''max_workers'')"
    by (simp add: act) (simp add: dispatch_state_def)
  moreover have "?task \<in> set (pd_tasks sample_plan)" by (simp add: sample_plan_def)
  moreover have "has_status (sub (sub dispatch_state ''tasks'') (tc_id ?task)) ''READY''" by code_simp
  moreover have "tc_id ?task \<notin> set [''TASK-001'']" by (simp add: sample_task_def)
  ultimately have "\<exists>u\<in>set (active_tasks dispatch_state @ [''TASK-001'']).
      conflicts (the (contract_of sample_plan (tc_id ?task))) (the (contract_of sample_plan u)) = Inr True"
    by (rule dispatchable_maximal [OF dispatch_sample])
  then show ?thesis by (simp add: sample_task_def)
qed

definition completed_state :: json where
  "completed_state = JObj
     [(''tasks'', JObj [(''TASK-001'', task_entry ''COMPLETED''), (''TASK-002'', task_entry ''PENDING''),
         (''TASK-003'', task_entry ''RUNNING''), (''TASK-004'', task_entry ''READY'')])]"

theorem promote_ready_exact_witness:
  "\<exists>state'. promote_ready completed_state sample_plan = Inr (state', [''TASK-002''])
     \<and> sub (sub state' ''tasks'') ''TASK-001'' = task_entry ''COMPLETED''"
proof -
  have "case promote_ready completed_state sample_plan of Inl _ \<Rightarrow> False | Inr r \<Rightarrow> snd r = [''TASK-002'']"
    by code_simp
  then obtain state' where p: "promote_ready completed_state sample_plan = Inr (state', [''TASK-002''])"
    by (auto split: sum.splits)
  have "is_obj completed_state" by (simp add: completed_state_def)
  from promote_ready_exact [OF p this] p show ?thesis
    by (auto simp: completed_state_def)
qed

theorem validate_plan_sound_witness:
  "validate_plan DEFAULT_WORKER_TYPES sample_plan DEFAULT_CONFIG [] = Inr ()
   \<and> acyclic (set (edges (pd_tasks sample_plan)))"
proof -
  have v: "validate_plan DEFAULT_WORKER_TYPES sample_plan DEFAULT_CONFIG [] = Inr ()" by code_simp
  from validate_plan_sound [OF v] v show ?thesis by (simp add: Let_def)
qed

end
