(* ===== verification/Attempts.thy ===== *)
theory Attempts
  imports RunState
begin

text \<open>
  The attempts of a task in \<^verbatim>\<open>scheduler.py\<close>: the initial task state, the start of an attempt, the
  binding of its preflight evidence and its end, on the dictionary that the run state keeps for
  the task.
\<close>

section \<open>Operations\<close>

text \<open>\<^verbatim>\<open>s.rsplit("/", 1)\<close>: the last element, and the first one.\<close>

definition rsplit_last :: "string \<Rightarrow> string" where
  "rsplit_last s = last (split_on (CHR ''/'') s)"

definition rsplit_first :: "string \<Rightarrow> string" where
  "rsplit_first s =
     (let parts = split_on (CHR ''/'') s
      in if length parts = 1 then s else join_with (CHR ''/'') (butlast parts))"

text \<open>\<^verbatim>\<open>TaskWorktree\<close>; \<open>tw_path\<close> is the text of the absolute path.\<close>

record task_worktree =
  tw_path :: string
  tw_branch :: string
  tw_base_sha :: string

definition control_relative_path :: "string \<Rightarrow> string result" where
  "control_relative_path path =
     (let rest = dropWhile (\<lambda>p. p \<noteq> ''.vibe-coding'') (posix_parts path)
      in if rest = [] then Inl ContractError
         else let relative = as_posix (join_with (CHR ''/'') rest)
              in if \<not> startswith relative ''.vibe-coding/worktrees/'' then Inl ContractError
                 else Inr relative)"

definition new_task_state :: "task_contract \<Rightarrow> json result" where
  "new_task_state contract =
     (if \<not> TASK_ID_RE (tc_id contract) then Inl ContractError
      else if tc_max_attempts contract < 1 then Inl ContractError
      else Inr (JObj
        [(''status'', JStr ''PENDING''), (''attempt_no'', JInt 0), (''failure_count'', JInt 0),
         (''max_attempts'', JInt (tc_max_attempts contract)), (''active_attempt'', JNull),
         (''attempts'', JList []), (''result'', JNull), (''verification'', JNull),
         (''source_commits'', JList []), (''integrated_commits'', JList []),
         (''last_error'', JNull)]))"

definition attempt_suffix :: "int \<Rightarrow> string" where
  "attempt_suffix n = ''-a'' @ int_text n"

definition attempt_result_path :: "string \<Rightarrow> int \<Rightarrow> string" where
  "attempt_result_path branch n =
     (let segment = rsplit_last branch;
          task_id = take (length segment - length (attempt_suffix n)) segment
      in ''tasks/'' @ task_id @ ''/attempts/'' @ pad3 n @ ''/result.json'')"

text \<open>\<open>created_at\<close> is \<^verbatim>\<open>datetime.now(timezone.utc).isoformat(timespec="microseconds")\<close>.\<close>

definition start_attempt ::
  "json \<Rightarrow> string \<Rightarrow> task_worktree \<Rightarrow> string \<Rightarrow> string \<Rightarrow> json result" where
  "start_attempt task_state task_base_sha worktree attempt_token created_at =
     bnd (in_str_set (sub task_state ''status'') [''PENDING'', ''READY'']) (\<lambda>idle.
     bnd (chk (idle \<and> sub task_state ''active_attempt'' = JNull)) (\<lambda>_.
     let attempt_no = sub task_state ''attempt_no''; failures = sub task_state ''failure_count'';
         maximum = sub task_state ''max_attempts'' in
     bnd (chk (is_int attempt_no \<and> is_int failures \<and> is_int maximum
            \<and> \<not> int_of failures \<ge> int_of maximum)) (\<lambda>_.
     bnd (chk (attempt_token \<noteq> [] \<and> CHR ''/'' \<notin> set attempt_token)) (\<lambda>_.
     bnd (chk (task_base_sha = tw_base_sha worktree)) (\<lambda>_.
     let next_attempt = int_of attempt_no + 1 in
     bnd (chk (endswith (tw_branch worktree) (attempt_suffix next_attempt))) (\<lambda>_.
     bnd (control_relative_path (tw_path worktree)) (\<lambda>relative_worktree.
     Inr (put (put (put task_state ''attempt_no'' (JInt next_attempt)) ''status'' (JStr ''RUNNING''))
       ''active_attempt'' (JObj
         [(''attempt_token'', JStr attempt_token), (''status'', JStr ''STARTING''),
          (''created_at'', JStr created_at), (''task_base_sha'', JStr task_base_sha),
          (''branch'', JStr (tw_branch worktree)), (''worktree'', JStr relative_worktree),
          (''preflight'', JNull), (''provider_handle'', JNull),
          (''result_path'', JStr (attempt_result_path (tw_branch worktree) next_attempt))])))))))))"

definition bind_attempt_preflight :: "json \<Rightarrow> string \<Rightarrow> artifact_ref \<Rightarrow> json result" where
  "bind_attempt_preflight task_state attempt_token preflight_ref =
     (let active = sub task_state ''active_attempt'' in
      bnd (chk (\<not> (sub task_state ''status'' \<noteq> JStr ''RUNNING'' \<or> \<not> is_obj active
             \<or> sub active ''status'' \<noteq> JStr ''STARTING''
             \<or> sub active ''attempt_token'' \<noteq> JStr attempt_token))) (\<lambda>_.
      let result_path = sub active ''result_path'' in
      bnd (chk (is_str result_path)) (\<lambda>_.
      let expected = rsplit_first (str_of result_path) @ ''/preflight.json'' in
      bnd (chk (ar_path preflight_ref = expected)) (\<lambda>_.
      let v = artifact_as_dict preflight_ref; existing = sub active ''preflight'' in
      bnd (chk (\<not> (existing \<noteq> JNull \<and> \<not> py_eq existing v))) (\<lambda>_.
      Inr (put task_state ''active_attempt'' (put active ''preflight'' v)))))))"

definition close_attempt :: "json \<Rightarrow> string \<Rightarrow> json \<Rightarrow> bool \<Rightarrow> json result" where
  "close_attempt task_state status error retryable =
     (let active = sub task_state ''active_attempt'' in
      bnd (in_str_set (sub task_state ''status'') [''RUNNING'', ''READY_TO_INTEGRATE'']) (\<lambda>busy.
      bnd (chk (busy \<and> is_obj active)) (\<lambda>_.
      bnd (chk (\<not> (sub active ''preflight'' = JNull \<and> status \<noteq> ''CANCELLED''))) (\<lambda>_.
      bnd (chk (status \<in> {''SUCCEEDED'', ''FAILED'', ''CANCELLED'', ''ABANDONED''})) (\<lambda>_.
      let closed = put (put task_state ''active_attempt'' JNull) ''last_error'' error in
      if status = ''SUCCEEDED'' then Inr (put closed ''status'' (JStr ''INTEGRATING''))
      else if status = ''CANCELLED'' then Inr (put closed ''status'' (JStr ''CANCELLED''))
      else if status = ''ABANDONED'' then Inr (put closed ''status'' (JStr ''FAILED''))
      else if retryable then
        (let failures = sub closed ''failure_count''; maximum = sub closed ''max_attempts'' in
         bnd (chk (is_int failures \<and> is_int maximum)) (\<lambda>_.
         let n = int_of failures + 1 in
         Inr (put (put closed ''failure_count'' (JInt n)) ''status''
           (JStr (if n < int_of maximum then ''READY'' else ''FAILED'')))))
      else Inr (put closed ''status'' (JStr ''FAILED'')))))))"

section \<open>The attempts of one task\<close>

text \<open>What may happen to the attempts of a task; \<open>promote\<close> is the step of
  \<^verbatim>\<open>Scheduler.promote_ready\<close> on one task.\<close>

inductive attempt_step :: "json \<Rightarrow> json \<Rightarrow> bool" where
  promote: "sub t ''status'' = JStr ''PENDING'' \<Longrightarrow> attempt_step t (put t ''status'' (JStr ''READY''))"
| start: "start_attempt t base worktree token now = Inr t' \<Longrightarrow> attempt_step t t'"
| bind: "bind_attempt_preflight t token ref = Inr t' \<Longrightarrow> attempt_step t t'"
| close: "close_attempt t status err retryable = Inr t' \<Longrightarrow> attempt_step t t'"

definition starts :: "json \<Rightarrow> json \<Rightarrow> bool" where
  "starts t t' \<longleftrightarrow> sub t ''active_attempt'' = JNull \<and> sub t' ''active_attempt'' \<noteq> JNull"

text \<open>The counters: an idle task has used one attempt per failure, a running one holds one more,
  and every attempt is within the budget.\<close>

definition budget_ok :: "json \<Rightarrow> bool" where
  "budget_ok t \<longleftrightarrow> is_obj t \<and>
     (\<exists>a f m. sub t ''attempt_no'' = JInt a \<and> sub t ''failure_count'' = JInt f \<and> sub t ''max_attempts'' = JInt m
       \<and> 0 \<le> f \<and> f \<le> m
       \<and> (if sub t ''status'' \<in> {JStr ''PENDING'', JStr ''READY''} then a = f \<and> sub t ''active_attempt'' = JNull
          else if sub t ''status'' \<in> {JStr ''RUNNING'', JStr ''READY_TO_INTEGRATE''} then a = f + 1 \<and> f < m
          else a \<le> m))"

lemma in_str_set_True: "in_str_set v names = Inr True \<longleftrightarrow> (\<exists>s. v = JStr s \<and> s \<in> set names)"
  by (cases v) (auto simp: in_str_set_def)

lemma start_attempt_cases:
  assumes "start_attempt t base worktree token now = Inr t'"
  obtains a f m rel where "sub t ''attempt_no'' = JInt a" "sub t ''failure_count'' = JInt f"
    "sub t ''max_attempts'' = JInt m" "f < m" "sub t ''active_attempt'' = JNull"
    "sub t ''status'' \<in> {JStr ''PENDING'', JStr ''READY''}" "token \<noteq> []" "base = tw_base_sha worktree"
    "control_relative_path (tw_path worktree) = Inr rel"
    "t' = put (put (put t ''attempt_no'' (JInt (a + 1))) ''status'' (JStr ''RUNNING''))
       ''active_attempt'' (JObj
         [(''attempt_token'', JStr token), (''status'', JStr ''STARTING''),
          (''created_at'', JStr now), (''task_base_sha'', JStr base),
          (''branch'', JStr (tw_branch worktree)), (''worktree'', JStr rel),
          (''preflight'', JNull), (''provider_handle'', JNull),
          (''result_path'', JStr (attempt_result_path (tw_branch worktree) (a + 1)))])"
  using assms unfolding start_attempt_def Let_def
  by (auto simp: bnd_eq_Inr in_str_set_True is_int_iff)

lemma budget_start: "budget_ok t \<Longrightarrow> start_attempt t base worktree token now = Inr t' \<Longrightarrow> budget_ok t'"
  by (erule start_attempt_cases) (auto simp: budget_ok_def)

lemma budget_bind: "budget_ok t \<Longrightarrow> bind_attempt_preflight t token ref = Inr t' \<Longrightarrow> budget_ok t'"
  by (auto simp: budget_ok_def bind_attempt_preflight_def bnd_eq_Inr Let_def)

lemma close_attempt_cases:
  assumes "close_attempt t status err retryable = Inr t'"
  obtains (ended) "sub t ''status'' \<in> {JStr ''RUNNING'', JStr ''READY_TO_INTEGRATE''}"
      "is_obj (sub t ''active_attempt'')" "status = ''FAILED'' \<Longrightarrow> \<not> retryable"
      "t' = put (put (put t ''active_attempt'' JNull) ''last_error'' err) ''status''
        (JStr (if status = ''SUCCEEDED'' then ''INTEGRATING''
               else if status = ''CANCELLED'' then ''CANCELLED'' else ''FAILED''))"
  | (retry) f m where "sub t ''status'' \<in> {JStr ''RUNNING'', JStr ''READY_TO_INTEGRATE''}"
      "is_obj (sub t ''active_attempt'')" "status = ''FAILED''" "retryable"
      "sub t ''failure_count'' = JInt f" "sub t ''max_attempts'' = JInt m"
      "t' = put (put (put (put t ''active_attempt'' JNull) ''last_error'' err) ''failure_count'' (JInt (f + 1)))
        ''status'' (JStr (if f + 1 < m then ''READY'' else ''FAILED''))"
proof -
  have busy: "sub t ''status'' \<in> {JStr ''RUNNING'', JStr ''READY_TO_INTEGRATE''}"
    "is_obj (sub t ''active_attempt'')"
    and st: "status \<in> {''SUCCEEDED'', ''FAILED'', ''CANCELLED'', ''ABANDONED''}"
    using assms unfolding close_attempt_def Let_def by (auto simp: bnd_eq_Inr in_str_set_True)
  show thesis
  proof (cases "status = ''FAILED'' \<and> retryable")
    case True
    with assms show thesis unfolding close_attempt_def Let_def
      by (intro retry [OF busy, of "int_of (sub t ''failure_count'')" "int_of (sub t ''max_attempts'')"])
         (auto simp: bnd_eq_Inr is_int_iff)
  next
    case False
    with st assms show thesis unfolding close_attempt_def Let_def
      by (intro ended [OF busy]) (auto simp: bnd_eq_Inr split: if_splits)
  qed
qed

lemma budget_close: "budget_ok t \<Longrightarrow> close_attempt t status err retryable = Inr t' \<Longrightarrow> budget_ok t'"
  by (erule close_attempt_cases) (auto simp: budget_ok_def)

lemma budget_step: "attempt_step t t' \<Longrightarrow> budget_ok t \<Longrightarrow> budget_ok t'"
proof (induction rule: attempt_step.induct)
  case (promote t)
  then show ?case by (auto simp: budget_ok_def)
qed (auto intro: budget_start budget_bind budget_close)

lemma new_task_budget: "new_task_state contract = Inr t \<Longrightarrow> budget_ok t"
  by (auto simp: new_task_state_def budget_ok_def split: if_splits)

lemma max_attempts_kept: "attempt_step t t' \<Longrightarrow> budget_ok t \<Longrightarrow> sub t' ''max_attempts'' = sub t ''max_attempts''"
proof (induction rule: attempt_step.induct)
  case (start t base worktree token now t')
  then show ?case by (auto elim!: start_attempt_cases simp: budget_ok_def)
next
  case (close t status err retryable t')
  then show ?case by (auto elim!: close_attempt_cases simp: budget_ok_def)
qed (auto simp: budget_ok_def bind_attempt_preflight_def bnd_eq_Inr Let_def)


definition sample_worktree :: task_worktree where
  "sample_worktree =
     \<lparr>tw_path = ''/repo/.vibe-coding/worktrees/RUN-20250101-001/TASK-001-a1'',
      tw_branch = ''refs/heads/vibe/RUN-20250101-001/TASK-001-a1'',
      tw_base_sha = ''0123456789abcdef0123456789abcdef01234567''\<rparr>"

definition one_shot :: task_contract where
  "one_shot =
     \<lparr>tc_id = ''TASK-001'', tc_objective = ''work'', tc_worker_type = ''general'', tc_covers = [''AC-001''],
      tc_depends_on = [], tc_path_scope = [''.''], tc_exclusive_resources = [],
      tc_acceptance_checks = [], tc_max_attempts = 1\<rparr>"

text \<open>One attempt that starts, gets its preflight and fails uses up a budget of one.\<close>

definition failed_once :: "json result" where
  "failed_once =
     bnd (new_task_state one_shot) (\<lambda>t.
     bnd (start_attempt t (tw_base_sha sample_worktree) sample_worktree ''token'' ''2025-01-01T00:00:00+00:00'') (\<lambda>t.
     bnd (bind_attempt_preflight t ''token''
       \<lparr>ar_path = ''tasks/TASK-001/attempts/001/preflight.json'', ar_sha256 = ''sha256:''\<rparr>) (\<lambda>t.
     close_attempt t ''FAILED'' JNull True)))"

lemma failed_once_counts:
  "\<exists>t. failed_once = Inr t \<and> sub t ''failure_count'' = JInt 1"
proof -
  have "case failed_once of Inl _ \<Rightarrow> False | Inr t \<Rightarrow> sub t ''failure_count'' = JInt 1" by code_simp
  then show ?thesis by (auto split: sum.splits)
qed


section \<open>Validity\<close>

lemma set_TASK_FIELDS [simp]:
  "''attempt_no'' \<in> set TASK_FIELDS" "''status'' \<in> set TASK_FIELDS" "''active_attempt'' \<in> set TASK_FIELDS"
  by (simp_all add: TASK_FIELDS_def)

lemma validate_task_iff:
  "validate_task task_id v = Inr () \<longleftrightarrow>
     TASK_ID_RE task_id \<and> is_obj v \<and> set (jkeys v) = set TASK_FIELDS \<and> ok (artifact (sub v ''task''))
     \<and> (\<exists>status n f m active attempts result verification.
         TaskStatus (sub v ''status'') = Inr status
         \<and> sub v ''attempt_no'' = JInt n \<and> 0 \<le> n \<and> sub v ''failure_count'' = JInt f \<and> 0 \<le> f
         \<and> sub v ''max_attempts'' = JInt m \<and> 1 \<le> m \<and> f \<le> m
         \<and> validate_active_attempt (sub v ''active_attempt'') = Inr active
         \<and> artifact_list (sub v ''attempts'') = Inr attempts
         \<and> optional_artifact (sub v ''result'') = Inr result
         \<and> optional_artifact (sub v ''verification'') = Inr verification
         \<and> validate_oid_list (sub v ''source_commits'') = Inr ()
         \<and> validate_oid_list (sub v ''integrated_commits'') = Inr ()
         \<and> ok (optional_error (sub v ''last_error''))
         \<and> task_coherent status active attempts result verification v = Inr ()
         \<and> (active = JNull \<or> 1 \<le> n))"
proof -
  have pi: "require_plain_int w k = Inr i \<longleftrightarrow> w = JInt i \<and> k \<le> i" for w k i
    by (cases w) (auto simp: require_plain_int_def)
  show ?thesis
    unfolding validate_task_def require_exact_fields_def
    by (auto simp: bnd_eq_Inr pi ok_iff)
qed

lemma task_status_RUNNING [simp]: "TaskStatus (JStr ''RUNNING'') = Inr T_RUNNING"
  by code_simp

lemma attempt_status_STARTING [simp]: "AttemptStatus (JStr ''STARTING'') = Inr A_STARTING"
  by code_simp

text \<open>A started attempt leaves a valid task: for a valid idle task, when the base commit, the
  branch, the token and the time are well formed and the two recorded paths are relative, the
  task state after \<^verbatim>\<open>start_attempt\<close> passes \<^verbatim>\<open>_validate_task\<close>, is \<^verbatim>\<open>RUNNING\<close>, and its attempt number
  has grown by one.\<close>

theorem start_attempt_valid:
  assumes v: "validate_task task_id t = Inr ()"
    and s: "start_attempt t base worktree token now = Inr t'"
    and "ok (require_string (JStr token))" "ok (require_rfc3339 (JStr now))" "ok (require_oid (JStr base))"
    and "startswith (tw_branch worktree) ''refs/heads/vibe/''" "ok (require_string (JStr (tw_branch worktree)))"
    and "\<forall>rel. control_relative_path (tw_path worktree) = Inr rel \<longrightarrow> ok (require_relative_path (JStr rel))"
    and "ok (require_relative_path (JStr (attempt_result_path (tw_branch worktree) (int_of (sub t ''attempt_no'') + 1))))"
  shows "validate_task task_id t' = Inr () \<and> sub t' ''status'' = JStr ''RUNNING''
    \<and> int_of (sub t' ''attempt_no'') = int_of (sub t ''attempt_no'') + 1"
  using s
proof (rule start_attempt_cases)
  fix a f m rel
  assume t: "sub t ''attempt_no'' = JInt a" "sub t ''failure_count'' = JInt f" "sub t ''max_attempts'' = JInt m"
    "f < m" "sub t ''active_attempt'' = JNull" "sub t ''status'' \<in> {JStr ''PENDING'', JStr ''READY''}"
    "control_relative_path (tw_path worktree) = Inr rel"
  let ?active = "JObj
         [(''attempt_token'', JStr token), (''status'', JStr ''STARTING''),
          (''created_at'', JStr now), (''task_base_sha'', JStr base),
          (''branch'', JStr (tw_branch worktree)), (''worktree'', JStr rel),
          (''preflight'', JNull), (''provider_handle'', JNull),
          (''result_path'', JStr (attempt_result_path (tw_branch worktree) (a + 1)))]"
  assume t': "t' = put (put (put t ''attempt_no'' (JInt (a + 1))) ''status'' (JStr ''RUNNING'')) ''active_attempt'' ?active"
  have act: "validate_active_attempt ?active = Inr ?active"
    using assms(3-9) t(1,7)
    by (simp add: validate_active_attempt_def require_exact_fields_def ACTIVE_ATTEMPT_FIELDS_def keys_of_def
        bnd_eq_Inr ok_iff optional_artifact_def validate_provider_handle_def)
       (fastforce simp: require_string_def split: if_splits)
  have st: "TaskStatus (JStr ''PENDING'') = Inr T_PENDING" "TaskStatus (JStr ''READY'') = Inr T_READY"
    by code_simp+
  from v obtain status active attempts result verification where old:
      "TASK_ID_RE task_id" "is_obj t" "set (jkeys t) = set TASK_FIELDS" "ok (artifact (sub t ''task''))"
      "TaskStatus (sub t ''status'') = Inr status" "0 \<le> a" "0 \<le> f" "1 \<le> m"
      "artifact_list (sub t ''attempts'') = Inr attempts"
      "optional_artifact (sub t ''result'') = Inr result"
      "optional_artifact (sub t ''verification'') = Inr verification"
      "validate_oid_list (sub t ''source_commits'') = Inr ()" "validate_oid_list (sub t ''integrated_commits'') = Inr ()"
      "ok (optional_error (sub t ''last_error''))"
      "task_coherent status active attempts result verification t = Inr ()"
    unfolding validate_task_iff using t(1-3) by auto
  then have idle: "result = None" "verification = None"
    using t(6) st by (auto simp: task_coherent_def)
  have "task_coherent T_RUNNING ?active attempts None None t' = Inr ()"
    by (simp add: task_coherent_def)
  moreover have subs: "sub t' ''status'' = JStr ''RUNNING''" "sub t' ''attempt_no'' = JInt (a + 1)"
    "sub t' ''active_attempt'' = ?active" "sub t' ''task'' = sub t ''task''" "is_obj t'"
    "sub t' ''failure_count'' = JInt f" "sub t' ''max_attempts'' = JInt m"
    "sub t' ''attempts'' = sub t ''attempts''" "sub t' ''result'' = sub t ''result''"
    "sub t' ''verification'' = sub t ''verification''" "sub t' ''source_commits'' = sub t ''source_commits''"
    "sub t' ''integrated_commits'' = sub t ''integrated_commits''" "sub t' ''last_error'' = sub t ''last_error''"
    using old(2) t(2,3) by (simp_all add: t')
  moreover have "set (jkeys t') = set TASK_FIELDS"
    using old(2,3) by (simp add: t' insert_absorb)
  ultimately have "validate_task task_id t' = Inr ()"
    unfolding validate_task_iff using t(4) by (simp add: act old idle)
  with subs(1,2) t(1) show ?thesis by simp
qed

definition idle_task :: json where
  "idle_task = JObj
     [(''status'', JStr ''READY''), (''attempt_no'', JInt 0), (''failure_count'', JInt 0),
      (''max_attempts'', JInt 1), (''active_attempt'', JNull), (''attempts'', JList []),
      (''result'', JNull), (''verification'', JNull), (''source_commits'', JList []),
      (''integrated_commits'', JList []), (''last_error'', JNull),
      (''task'', JObj [(''path'', JStr ''tasks/TASK-001/task.json''),
         (''sha256'', JStr ''sha256:0123456789abcdef0123456789abcdef0123456789abcdef0123456789abcdef'')])]"

lemma idle_task_start:
  "validate_task ''TASK-001'' idle_task = Inr ()"
  "ok (start_attempt idle_task (tw_base_sha sample_worktree) sample_worktree ''token'' ''2025-01-01T00:00:00+00:00'')"
  "ok (require_string (JStr ''token''))" "ok (require_rfc3339 (JStr ''2025-01-01T00:00:00+00:00''))"
  "ok (require_oid (JStr (tw_base_sha sample_worktree)))"
  "startswith (tw_branch sample_worktree) ''refs/heads/vibe/''"
  "ok (require_string (JStr (tw_branch sample_worktree)))"
  "ok (bnd (control_relative_path (tw_path sample_worktree)) (\<lambda>rel. require_relative_path (JStr rel)))"
  "ok (require_relative_path
     (JStr (attempt_result_path (tw_branch sample_worktree) (int_of (sub idle_task ''attempt_no'') + 1))))"
  by code_simp+

theorem start_attempt_valid_witness:
  "\<exists>t'. start_attempt idle_task (tw_base_sha sample_worktree) sample_worktree ''token'' ''2025-01-01T00:00:00+00:00'' = Inr t'
     \<and> validate_task ''TASK-001'' t' = Inr ()"
proof -
  obtain t' where t': "start_attempt idle_task (tw_base_sha sample_worktree) sample_worktree ''token''
      ''2025-01-01T00:00:00+00:00'' = Inr t'"
    using idle_task_start(2) by (auto simp: ok_iff)
  have rel: "\<forall>rel. control_relative_path (tw_path sample_worktree) = Inr rel \<longrightarrow> ok (require_relative_path (JStr rel))"
    using idle_task_start(8) by (auto simp: ok_bnd)
  note v = start_attempt_valid [OF idle_task_start(1) t' idle_task_start(3-7) rel idle_task_start(9)]
  from t' v show ?thesis by blast
qed

end
