(* ===== verification/Manifest.thy ===== *)
theory Manifest
  imports RunState JsonText
begin

text \<open>
  Terminal attempts in \<^verbatim>\<open>models.py\<close>: the manifest that every finished attempt leaves behind, and
  the checks that a loaded run state agrees with the manifests it refers to.
\<close>

section \<open>Manifests\<close>

record attempt_manifest =
  am_role :: string
  am_operation_id :: string
  am_task_id :: "string option"
  am_attempt_no :: int
  am_attempt_token :: string
  am_status :: attempt_status
  am_created_at :: string
  am_completed_at :: string
  am_expected_base :: string
  am_branch :: "string option"
  am_worktree :: string
  am_preflight :: "artifact_ref option"
  am_prompt_versions :: "prompt_ref list"
  am_provider_attempts :: "artifact_ref list"
  am_artifacts :: "(string, artifact_ref option) dict"
  am_last_error :: json

text \<open>\<open>am_artifacts\<close> holds the eight fields \<^verbatim>\<open>request\<close> to \<^verbatim>\<open>verification\<close>.\<close>

definition MANIFEST_ARTIFACTS :: "string list" where
  "MANIFEST_ARTIFACTS =
     [''request'', ''launch'', ''stdout'', ''stderr'', ''exit'', ''result'', ''source_audit'',
      ''verification'']"

definition ATTEMPT_MANIFEST_FIELDS :: "string list" where
  "ATTEMPT_MANIFEST_FIELDS =
     [''schema_version'', ''role'', ''operation_id'', ''task_id'', ''attempt_no'', ''attempt_token'',
      ''status'', ''created_at'', ''completed_at'', ''expected_base'', ''branch'', ''worktree'',
      ''preflight'', ''prompt_versions'', ''provider_attempts'', ''request'', ''launch'', ''stdout'',
      ''stderr'', ''exit'', ''result'', ''source_audit'', ''verification'', ''last_error'']"

definition manifest_artifact :: "attempt_manifest \<Rightarrow> string \<Rightarrow> artifact_ref option" where
  "manifest_artifact m name =
     (case map_of (am_artifacts m) name of None \<Rightarrow> None | Some r \<Rightarrow> r)"

definition parse_artifact_bytes :: "string \<Rightarrow> json result" where
  "parse_artifact_bytes body =
     (if \<not> utf8_valid body then Inl ContractError
      else case json_loads body of None \<Rightarrow> Inl ContractError
        | Some v \<Rightarrow>
            if \<not> is_obj v then Inl ContractError
            else bnd (reject_invalid_json_scalars v) (\<lambda>_. Inr v))"

definition parse_prompt_ref :: "json \<Rightarrow> prompt_ref result" where
  "parse_prompt_ref v =
     bnd (require_exact_fields v [''id'', ''version'', ''sha256'']) (\<lambda>raw.
     bnd (require_string (sub raw ''id'')) (\<lambda>prompt_id.
     bnd (require_plain_int (sub raw ''version'') 1) (\<lambda>version.
     bnd (require_string (sub raw ''sha256'')) (\<lambda>digest.
     if \<not> DIGEST_RE digest then Inl ContractError
     else Inr \<lparr>pr_id = prompt_id, pr_version = version, pr_sha256 = digest\<rparr>))))"

text \<open>The task identifier and the branch: given for a worker, absent for the read-only roles.\<close>

definition manifest_identity :: "string \<Rightarrow> json \<Rightarrow> (string option \<times> string option) result" where
  "manifest_identity role raw =
     (if role = ''worker'' then
        bnd (require_string (sub raw ''task_id'')) (\<lambda>task_id.
        bnd (chk (TASK_ID_RE task_id)) (\<lambda>_.
        bnd (require_string (sub raw ''branch'')) (\<lambda>branch.
        bnd (chk (startswith branch ''refs/heads/vibe/'')) (\<lambda>_.
        Inr (Some task_id, Some branch)))))
      else
        bnd (chk (sub raw ''task_id'' = JNull \<and> sub raw ''branch'' = JNull)) (\<lambda>_. Inr (None, None)))"

definition null_preflight_allowed ::
  "string \<Rightarrow> attempt_status \<Rightarrow> json \<Rightarrow> (string, artifact_ref option) dict \<Rightarrow> bool" where
  "null_preflight_allowed role status last_error artifacts =
     (role = ''worker'' \<and> status = A_CANCELLED \<and> is_obj last_error
      \<and> sub last_error ''code'' = JStr ''CANCELLED_BEFORE_MATERIALIZATION''
      \<and> list_all (\<lambda>p. snd p = None) artifacts)"

definition validate_attempt_manifest :: "json \<Rightarrow> attempt_manifest result" where
  "validate_attempt_manifest v =
     bnd (require_exact_fields v ATTEMPT_MANIFEST_FIELDS) (\<lambda>raw.
     bnd (chk (sub raw ''schema_version'' = JInt 1)) (\<lambda>_.
     bnd (require_string (sub raw ''role'')) (\<lambda>role.
     bnd (chk (role \<in> {''planner'', ''worker'', ''evaluator''})) (\<lambda>_.
     bnd (require_string (sub raw ''operation_id'')) (\<lambda>operation_id.
     bnd (chk (OPERATION_ID_RE operation_id)) (\<lambda>_.
     bnd (manifest_identity role raw) (\<lambda>identity.
     bnd (require_plain_int (sub raw ''attempt_no'') 1) (\<lambda>attempt_no.
     bnd (require_string (sub raw ''attempt_token'')) (\<lambda>attempt_token.
     bnd (AttemptStatus (sub raw ''status'')) (\<lambda>status.
     bnd (chk (status \<in> {A_SUCCEEDED, A_FAILED, A_CANCELLED, A_ABANDONED})) (\<lambda>_.
     bnd (require_rfc3339 (sub raw ''created_at'')) (\<lambda>created_at.
     bnd (require_rfc3339 (sub raw ''completed_at'')) (\<lambda>completed_at.
     bnd (chk (\<not> instant_of completed_at < instant_of created_at)) (\<lambda>_.
     bnd (require_oid (sub raw ''expected_base'')) (\<lambda>expected_base.
     bnd (require_relative_path (sub raw ''worktree'')) (\<lambda>worktree.
     bnd (optional_artifact (sub raw ''preflight'')) (\<lambda>preflight.
     bnd (chk (is_list (sub raw ''prompt_versions''))) (\<lambda>_.
     bnd (mapr parse_prompt_ref (elems (sub raw ''prompt_versions''))) (\<lambda>prompt_versions.
     bnd (artifact_list (sub raw ''provider_attempts'')) (\<lambda>provider_attempts.
     bnd (mapr (\<lambda>name. bnd (optional_artifact (sub raw name)) (\<lambda>r. Inr (name, r))) MANIFEST_ARTIFACTS) (\<lambda>artifacts.
     bnd (optional_error (sub raw ''last_error'')) (\<lambda>last_error.
     bnd (chk (\<not> (preflight = None \<and> \<not> null_preflight_allowed role status last_error artifacts))) (\<lambda>_.
     bnd (if status = A_SUCCEEDED \<and> role = ''worker''
          then forr (\<lambda>name. chk (map_of artifacts name \<noteq> Some None)) [''result'', ''source_audit'', ''verification'']
          else Inr ()) (\<lambda>_.
     Inr \<lparr>am_role = role, am_operation_id = operation_id, am_task_id = fst identity,
          am_attempt_no = attempt_no, am_attempt_token = attempt_token, am_status = status,
          am_created_at = created_at, am_completed_at = completed_at,
          am_expected_base = expected_base, am_branch = snd identity, am_worktree = worktree,
          am_preflight = preflight, am_prompt_versions = prompt_versions,
          am_provider_attempts = provider_attempts, am_artifacts = artifacts,
          am_last_error = last_error\<rparr>))))))))))))))))))))))))"

section \<open>State and manifests agree\<close>

text \<open>\<open>loader\<close> is \<^verbatim>\<open>artifact_loader\<close>: the bytes of a bound artifact.\<close>

definition load_manifest :: "(string \<Rightarrow> string result) \<Rightarrow> json \<Rightarrow> attempt_manifest result" where
  "load_manifest loader reference =
     bnd (loader (str_of (sub reference ''path''))) (\<lambda>body.
     bnd (parse_artifact_bytes body) validate_attempt_manifest)"

definition active_tokens :: "json \<Rightarrow> json list" where
  "active_tokens state =
     map JStr (jkeys (sub state ''pending_dispatches''))
     @ map (\<lambda>task. sub (sub task ''active_attempt'') ''attempt_token'')
         (filter (\<lambda>task. sub task ''active_attempt'' \<noteq> JNull) (map snd (items (sub state ''tasks''))))"

text \<open>One step of the loop over the attempts of a read-only role; \<open>seen\<close> and \<open>previous\<close> are the
  identities and the last number of each operation.\<close>

definition check_role_attempt ::
  "(string \<Rightarrow> string result) \<Rightarrow> json list \<Rightarrow> string
   \<Rightarrow> (string \<times> string \<times> int) list \<times> (string, int) dict \<Rightarrow> json
   \<Rightarrow> ((string \<times> string \<times> int) list \<times> (string, int) dict) result" where
  "check_role_attempt loader tokens role s reference =
     bnd (load_manifest loader reference) (\<lambda>manifest.
     bnd (chk (am_role manifest = role \<and> am_task_id manifest = None)) (\<lambda>_.
     let identity = (role, am_operation_id manifest, am_attempt_no manifest);
         previous = (case map_of (snd s) (am_operation_id manifest) of None \<Rightarrow> 0 | Some n \<Rightarrow> n) in
     bnd (chk (identity \<notin> set (fst s))) (\<lambda>_.
     bnd (chk (\<not> am_attempt_no manifest \<le> previous)) (\<lambda>_.
     bnd (chk (JStr (am_attempt_token manifest) \<notin> set tokens)) (\<lambda>_.
     Inr (identity # fst s, AList.update (am_operation_id manifest) (am_attempt_no manifest) (snd s)))))))"

definition check_role_attempts ::
  "(string \<Rightarrow> string result) \<Rightarrow> json \<Rightarrow> (string \<times> string \<times> int) list \<Rightarrow> string
   \<Rightarrow> (string \<times> string \<times> int) list result" where
  "check_role_attempts loader state seen role =
     bnd (foldr_r (check_role_attempt loader (active_tokens state) role) (seen, [])
            (elems (sub (sub state ''role_attempts'') role))) (\<lambda>s. Inr (fst s))"

definition check_task_attempt ::
  "(string \<Rightarrow> string result) \<Rightarrow> json list \<Rightarrow> string \<Rightarrow> attempt_manifest list \<Rightarrow> json
   \<Rightarrow> attempt_manifest list result" where
  "check_task_attempt loader tokens task_id parsed reference =
     bnd (load_manifest loader reference) (\<lambda>manifest.
     let previous = (if parsed = [] then 0 else am_attempt_no (last parsed)) in
     bnd (chk (am_role manifest = ''worker'' \<and> am_task_id manifest = Some task_id)) (\<lambda>_.
     bnd (chk (\<not> am_attempt_no manifest \<le> previous)) (\<lambda>_.
     bnd (chk (JStr (am_attempt_token manifest) \<notin> set tokens)) (\<lambda>_.
     Inr (parsed @ [manifest])))))"

definition check_task_attempts :: "(string \<Rightarrow> string result) \<Rightarrow> json \<Rightarrow> string \<times> json \<Rightarrow> unit result" where
  "check_task_attempts loader state p =
     (let task = snd p in
      bnd (foldr_r (check_task_attempt loader (active_tokens state) (fst p)) [] (elems (sub task ''attempts'')))
        (\<lambda>parsed.
      if sub task ''status'' \<in> {JStr ''INTEGRATING'', JStr ''COMPLETED''} then
        bnd (chk (parsed \<noteq> [] \<and> am_status (last parsed) = A_SUCCEEDED)) (\<lambda>_.
        let final = last parsed in
        chk (case (manifest_artifact final ''result'', manifest_artifact final ''verification'') of
               (Some r, Some v) \<Rightarrow> py_eq (artifact_as_dict r) (sub task ''result'')
                                  \<and> py_eq (artifact_as_dict v) (sub task ''verification'')
             | _ \<Rightarrow> False))
      else Inr ()))"

definition check_pending_evaluation :: "(string \<Rightarrow> string result) \<Rightarrow> json \<Rightarrow> unit result" where
  "check_pending_evaluation loader pending =
     (if pending = JNull then Inr ()
      else bnd (load_manifest loader (sub pending ''attempt'')) (\<lambda>manifest.
        chk (am_role manifest = ''evaluator''
          \<and> JStr (am_operation_id manifest) = sub pending ''operation_id''
          \<and> JInt (am_attempt_no manifest) = sub pending ''attempt_no''
          \<and> JStr (am_attempt_token manifest) = sub pending ''attempt_token''
          \<and> (case manifest_artifact manifest ''result'' of None \<Rightarrow> False
             | Some r \<Rightarrow> py_eq (artifact_as_dict r) (sub pending ''raw_result'')))))"

definition validate_bound_state_semantics :: "json \<Rightarrow> (string \<Rightarrow> string result) \<Rightarrow> unit result" where
  "validate_bound_state_semantics state loader =
     bnd (foldr_r (check_role_attempts loader state) [] [''planner'', ''evaluator'']) (\<lambda>_.
     bnd (forr (check_task_attempts loader state) (items (sub state ''tasks''))) (\<lambda>_.
     check_pending_evaluation loader (sub state ''pending_evaluation'')))"

section \<open>Properties\<close>

lemma check_task_fold:
  assumes "foldr_r (check_task_attempt loader tokens task_id) parsed refs = Inr result"
    and "sorted_wrt (<) (map am_attempt_no parsed)" and "\<forall>m\<in>set parsed. 0 < am_attempt_no m"
  shows "\<exists>ms. result = parsed @ ms \<and> mapr (load_manifest loader) refs = Inr ms
    \<and> sorted_wrt (<) (map am_attempt_no result) \<and> (\<forall>m\<in>set result. 0 < am_attempt_no m)
    \<and> (\<forall>m\<in>set ms. am_role m = ''worker'' \<and> am_task_id m = Some task_id
         \<and> JStr (am_attempt_token m) \<notin> set tokens)"
  using assms
proof (induction refs arbitrary: parsed)
  case (Cons r refs)
  from Cons.prems(1) obtain next_parsed where step: "check_task_attempt loader tokens task_id parsed r = Inr next_parsed"
    and tail: "foldr_r (check_task_attempt loader tokens task_id) next_parsed refs = Inr result"
    by (auto simp: bnd_eq_Inr)
  from step obtain m where m: "load_manifest loader r = Inr m" "am_role m = ''worker''"
    "am_task_id m = Some task_id" "JStr (am_attempt_token m) \<notin> set tokens"
    "\<not> am_attempt_no m \<le> (if parsed = [] then 0 else am_attempt_no (last parsed))"
    and "next_parsed = parsed @ [m]"
    unfolding check_task_attempt_def Let_def by (auto simp: bnd_eq_Inr)
  with tail have rest: "foldr_r (check_task_attempt loader tokens task_id) (parsed @ [m]) refs = Inr result" by simp
  have last: "am_attempt_no x \<le> am_attempt_no (last parsed)" if "x \<in> set parsed" for x
    using that Cons.prems(2) by (cases parsed rule: rev_cases) (auto simp: sorted_wrt_append)
  have "0 < am_attempt_no m" "\<forall>x\<in>set parsed. am_attempt_no x < am_attempt_no m"
    using m(5) Cons.prems(3) last by (cases parsed rule: rev_cases; force)+
  with Cons.IH [OF rest] Cons.prems(2,3) m(1-4) show ?case
    by (auto simp: sorted_wrt_append)
qed auto

text \<open>C31. The attempt history of a task is consistent: when \<^verbatim>\<open>validate_bound_state_semantics\<close>
  accepts a state, the manifests listed for a task all load, belong to a worker of that task, have
  strictly increasing attempt numbers from one upwards and carry no token that is still active; and
  an integrating or completed task ends with a successful attempt whose result and verification are
  the ones that the task records.\<close>

theorem bound_attempts_consistent:
  assumes "validate_bound_state_semantics state loader = Inr ()"
    and "(task_id, task) \<in> set (items (sub state ''tasks''))"
  shows "\<exists>ms. mapr (load_manifest loader) (elems (sub task ''attempts'')) = Inr ms
    \<and> sorted_wrt (<) (map am_attempt_no ms)
    \<and> (\<forall>m\<in>set ms. am_role m = ''worker'' \<and> am_task_id m = Some task_id \<and> 1 \<le> am_attempt_no m
         \<and> JStr (am_attempt_token m) \<notin> set (active_tokens state))
    \<and> (sub task ''status'' \<in> {JStr ''INTEGRATING'', JStr ''COMPLETED''} \<longrightarrow>
         ms \<noteq> [] \<and> am_status (last ms) = A_SUCCEEDED
         \<and> (\<exists>r v. manifest_artifact (last ms) ''result'' = Some r \<and> manifest_artifact (last ms) ''verification'' = Some v
              \<and> py_eq (artifact_as_dict r) (sub task ''result'') \<and> py_eq (artifact_as_dict v) (sub task ''verification'')))"
proof -
  have "check_task_attempts loader state (task_id, task) = Inr ()"
    using assms by (auto simp: validate_bound_state_semantics_def bnd_eq_Inr forr_eq_Inr)
  then obtain ms where f: "foldr_r (check_task_attempt loader (active_tokens state) task_id) []
        (elems (sub task ''attempts'')) = Inr ms"
    and fin: "sub task ''status'' \<in> {JStr ''INTEGRATING'', JStr ''COMPLETED''} \<Longrightarrow>
        ms \<noteq> [] \<and> am_status (last ms) = A_SUCCEEDED
        \<and> (case (manifest_artifact (last ms) ''result'', manifest_artifact (last ms) ''verification'') of
               (Some r, Some v) \<Rightarrow> py_eq (artifact_as_dict r) (sub task ''result'')
                                  \<and> py_eq (artifact_as_dict v) (sub task ''verification'')
             | _ \<Rightarrow> False)"
    by (auto simp: check_task_attempts_def bnd_eq_Inr Let_def split: if_splits)
  from check_task_fold [OF f] have "mapr (load_manifest loader) (elems (sub task ''attempts'')) = Inr ms"
    "sorted_wrt (<) (map am_attempt_no ms)" "\<forall>m\<in>set ms. 0 < am_attempt_no m"
    "\<forall>m\<in>set ms. am_role m = ''worker'' \<and> am_task_id m = Some task_id
       \<and> JStr (am_attempt_token m) \<notin> set (active_tokens state)" by auto
  with fin show ?thesis by (intro exI [of _ ms]) (force split: option.splits)
qed

section \<open>A concrete history\<close>

lemma reject_error: "reject_invalid_json_scalars v = Inl e \<Longrightarrow> e = ContractError"
  and "reject_list xs = Inl e \<Longrightarrow> e = ContractError"
  and "reject_dict d = Inl e \<Longrightarrow> e = ContractError"
  by (induction v and xs and d rule: reject_invalid_json_scalars_reject_list_reject_dict.induct)
     (auto simp: bnd_eq_Inl)

lemma parse_artifact_bytes_eq: "parse_artifact_bytes body = parse_json_object_bytes body"
proof -
  have "(if \<not> is_obj v then Inl ContractError else bnd (reject_invalid_json_scalars v) (\<lambda>_. Inr v))
      = bnd (reject_invalid_json_scalars v) (\<lambda>_. if \<not> is_obj v then Inl ContractError else Inr v)" for v
    by (cases "reject_invalid_json_scalars v") (auto dest: reject_error)
  then show ?thesis by (simp add: parse_artifact_bytes_def parse_json_object_bytes_def split: option.split)
qed

definition ref_json :: "string \<Rightarrow> json" where
  "ref_json path = JObj [(''path'', JStr path),
     (''sha256'', JStr ''sha256:0123456789abcdef0123456789abcdef0123456789abcdef0123456789abcdef'')]"

definition sample_manifest :: json where
  "sample_manifest = JObj
     [(''schema_version'', JInt 1), (''role'', JStr ''worker''),
      (''operation_id'', JStr ''TASK-001-worker-1''), (''task_id'', JStr ''TASK-001''),
      (''attempt_no'', JInt 1), (''attempt_token'', JStr ''token''), (''status'', JStr ''SUCCEEDED''),
      (''created_at'', JStr ''2025-01-01T00:00:00+00:00''), (''completed_at'', JStr ''2025-01-01T00:00:01+00:00''),
      (''expected_base'', JStr ''0123456789abcdef0123456789abcdef01234567''),
      (''branch'', JStr ''refs/heads/vibe/x''), (''worktree'', JStr ''.vibe-coding/worktrees/x''),
      (''preflight'', ref_json ''p''), (''prompt_versions'', JList []), (''provider_attempts'', JList []),
      (''request'', JNull), (''launch'', JNull), (''stdout'', JNull), (''stderr'', JNull), (''exit'', JNull),
      (''result'', ref_json ''r''), (''source_audit'', ref_json ''a''), (''verification'', ref_json ''v''),
      (''last_error'', JNull)]"

definition manifest_loader :: "string \<Rightarrow> string result" where
  "manifest_loader path = canonical_json_bytes sample_manifest"

definition integrated_task :: json where
  "integrated_task = JObj
     [(''status'', JStr ''COMPLETED''), (''active_attempt'', JNull), (''attempts'', JList [ref_json ''m'']),
      (''result'', ref_json ''r''), (''verification'', ref_json ''v'')]"

definition history_state :: json where
  "history_state = JObj
     [(''pending_dispatches'', JObj []), (''tasks'', JObj [(''TASK-001'', integrated_task)]),
      (''role_attempts'', JObj [(''planner'', JList []), (''evaluator'', JList [])]),
      (''pending_evaluation'', JNull)]"

lemma sample_manifest_loads:
  "\<exists>m. load_manifest manifest_loader (ref_json ''m'') = Inr m \<and> validate_attempt_manifest (canon sample_manifest) = Inr m"
proof -
  have "is_obj sample_manifest" "wf_json sample_manifest" "no_floats sample_manifest"
    "all_text utf8_valid sample_manifest" by code_simp+
  then obtain b where b: "canonical_json_bytes sample_manifest = Inr b"
    "parse_json_object_bytes b = Inr (canon sample_manifest)"
    using canonical_bytes_parse [of sample_manifest] by blast
  have "ok (validate_attempt_manifest (canon sample_manifest))" by code_simp
  with b show ?thesis
    by (auto simp: load_manifest_def manifest_loader_def parse_artifact_bytes_eq ok_iff)
qed

text \<open>The fields of the parsed manifest that the checks read.\<close>

lemma sample_manifest_fields:
  "case validate_attempt_manifest (canon sample_manifest) of Inl _ \<Rightarrow> False
   | Inr m \<Rightarrow> am_role m = ''worker'' \<and> am_task_id m = Some ''TASK-001'' \<and> am_attempt_no m = 1
       \<and> am_status m = A_SUCCEEDED
       \<and> map_option artifact_as_dict (manifest_artifact m ''result'') = Some (ref_json ''r'')
       \<and> map_option artifact_as_dict (manifest_artifact m ''verification'') = Some (ref_json ''v'')"
  by code_simp

theorem bound_attempts_consistent_witness:
  "\<exists>m. mapr (load_manifest manifest_loader) (elems (sub integrated_task ''attempts'')) = Inr [m]
     \<and> am_status m = A_SUCCEEDED"
proof -
  obtain m where m: "load_manifest manifest_loader (ref_json ''m'') = Inr m" "am_role m = ''worker''"
    "am_task_id m = Some ''TASK-001''" "am_attempt_no m = 1" "am_status m = A_SUCCEEDED"
    "map_option artifact_as_dict (manifest_artifact m ''result'') = Some (ref_json ''r'')"
    "map_option artifact_as_dict (manifest_artifact m ''verification'') = Some (ref_json ''v'')"
    using sample_manifest_loads sample_manifest_fields by auto
  have tok: "active_tokens history_state = []"
    by (simp add: active_tokens_def history_state_def integrated_task_def)
  have st: "sub history_state ''tasks'' = JObj [(''TASK-001'', integrated_task)]"
    "sub (sub history_state ''role_attempts'') ''planner'' = JList []"
    "sub (sub history_state ''role_attempts'') ''evaluator'' = JList []"
    "sub history_state ''pending_evaluation'' = JNull" by (simp_all add: history_state_def)
  have ref: "py_eq (ref_json p) (ref_json p)" for p
    by (rule py_eq_refl) (simp add: ref_json_def)
  have "validate_bound_state_semantics history_state manifest_loader = Inr ()"
    using m ref [of "''r''"] ref [of "''v''"]
    by (auto simp: validate_bound_state_semantics_def check_role_attempts_def check_task_attempts_def
        check_task_attempt_def check_pending_evaluation_def tok st integrated_task_def Let_def
        split: option.splits)
  moreover have "(''TASK-001'', integrated_task) \<in> set (items (sub history_state ''tasks''))"
    by (simp add: history_state_def)
  ultimately have "\<exists>ms. mapr (load_manifest manifest_loader) (elems (sub integrated_task ''attempts'')) = Inr ms
      \<and> (sub integrated_task ''status'' \<in> {JStr ''INTEGRATING'', JStr ''COMPLETED''} \<longrightarrow> am_status (last ms) = A_SUCCEEDED)"
    using bound_attempts_consistent [of history_state manifest_loader "''TASK-001''" integrated_task] by blast
  then show ?thesis using m(1) by (auto simp: integrated_task_def)
qed

end
