(* ===== verification/StateStore.thy ===== *)
theory StateStore
  imports Digest Manifest Lifecycle
begin

text \<open>
  \<^verbatim>\<open>state_store.py\<close>: the durable run directory.  \<^verbatim>\<open>state.json\<close> is replaced as a whole, every other
  file is an immutable artifact that is published once, and every state change is a transaction
  that checks the new state and the artifacts it refers to before it writes.

  The directory is a record: the bytes of \<^verbatim>\<open>state.json\<close>, the artifacts by relative path, the bytes
  of the log and whether this process holds the run lock.  Directory descriptors, temporary files,
  \<^verbatim>\<open>fsync\<close> and symbolic links are below this model; an operation returns the directory also when it
  raises, since the files it wrote by then stay.
\<close>

section \<open>The run directory\<close>

record run_dir =
  rd_state :: "string option"
  rd_files :: "(string, string) dict"
  rd_log :: string
  rd_locked :: bool

type_synonym 'a act = "(run_dir, 'a) eff"

definition MAX_STATE_BYTES :: nat where
  "MAX_STATE_BYTES = 16 * 1024 * 1024"

definition MAX_ARTIFACT_BYTES :: nat where
  "MAX_ARTIFACT_BYTES = 64 * 1024 * 1024"

definition read_bounded :: "string \<Rightarrow> nat \<Rightarrow> string result" where
  "read_bounded content max_bytes = (if length content > max_bytes then Inl ContractError else Inr content)"

definition read_regular :: "string option \<Rightarrow> nat \<Rightarrow> string result" where
  "read_regular file max_bytes =
     (case file of None \<Rightarrow> Inl ContractError | Some content \<Rightarrow> read_bounded content max_bytes)"

definition read_optional_regular :: "string option \<Rightarrow> nat \<Rightarrow> string option result" where
  "read_optional_regular file max_bytes =
     (case file of None \<Rightarrow> Inr None
      | Some content \<Rightarrow> bnd (read_bounded content max_bytes) (\<lambda>b. Inr (Some b)))"

definition relative_artifact_path :: "string \<Rightarrow> unit result" where
  "relative_artifact_path v = chk (\<not> (v = [] \<or> bad_artifact_path v))"

definition artifact_ref_of :: "string \<Rightarrow> string \<Rightarrow> artifact_ref result" where
  "artifact_ref_of relative_path body =
     bnd (relative_artifact_path relative_path) (\<lambda>_.
     Inr \<lparr>ar_path = relative_path, ar_sha256 = digest_of body\<rparr>)"

section \<open>References and histories\<close>

text \<open>\<^verbatim>\<open>_artifact_refs\<close>: every reference inside a JSON value, in order.\<close>

fun artifact_refs :: "json \<Rightarrow> artifact_ref list"
  and artifact_refs_list :: "json list \<Rightarrow> artifact_ref list"
  and artifact_refs_dict :: "(string \<times> json) list \<Rightarrow> artifact_ref list"
where
  "artifact_refs (JObj d) =
     (if set (keys_of d) = {''path'', ''sha256''} then
        (let path = sub (JObj d) ''path''; digest = sub (JObj d) ''sha256'' in
         if is_str path \<and> is_str digest then [\<lparr>ar_path = str_of path, ar_sha256 = str_of digest\<rparr>]
         else [])
      else artifact_refs_dict d)"
| "artifact_refs (JList xs) = artifact_refs_list xs"
| "artifact_refs JNull = []"
| "artifact_refs (JBool b) = []"
| "artifact_refs (JInt i) = []"
| "artifact_refs (JFloat t) = []"
| "artifact_refs (JStr s) = []"
| "artifact_refs_list [] = []"
| "artifact_refs_list (x # xs) = artifact_refs x @ artifact_refs_list xs"
| "artifact_refs_dict [] = []"
| "artifact_refs_dict (p # d) = artifact_refs (snd p) @ artifact_refs_dict d"

fun history_at :: "json \<Rightarrow> string list \<Rightarrow> json list result" where
  "history_at v [] = (if \<not> is_list v then Inl ContractError else Inr (elems v))"
| "history_at v (component # path) =
     (if \<not> is_obj v \<or> \<not> has_key v component then Inl ContractError
      else history_at (sub v component) path)"

definition history_paths :: "json \<Rightarrow> string list list" where
  "history_paths state =
     [[''plans''], [''evaluations''], [''verifications''], [''role_attempts'', ''planner''],
      [''role_attempts'', ''evaluator''], [''stop_receipts'']]
     @ map (\<lambda>task_id. [''tasks'', task_id, ''attempts'']) (sort (jkeys (sub state ''tasks'')))"

definition history_prefixes :: "json \<Rightarrow> (string list \<times> json list) list result" where
  "history_prefixes state =
     mapr (\<lambda>path. bnd (history_at state path) (\<lambda>h. Inr (path, h))) (history_paths state)"

definition require_history_prefixes :: "json \<Rightarrow> (string list \<times> json list) list \<Rightarrow> unit result" where
  "require_history_prefixes state histories =
     forr (\<lambda>(path, old). bnd (history_at state path) (\<lambda>current.
       chk (py_eq_list (take (length old) current) old))) histories"

text \<open>The references of a state as a dictionary from path to digest; one path with two digests is
  refused.\<close>

definition note_binding :: "(string, string) dict \<Rightarrow> artifact_ref \<Rightarrow> (string, string) dict result" where
  "note_binding references r =
     bnd (relative_artifact_path (ar_path r)) (\<lambda>_.
     bnd (chk (case map_of references (ar_path r) of None \<Rightarrow> True | Some digest \<Rightarrow> digest = ar_sha256 r)) (\<lambda>_.
     Inr (AList.update (ar_path r) (ar_sha256 r) references)))"

definition bindings_of :: "json \<Rightarrow> (string, string) dict result" where
  "bindings_of state = foldr_r note_binding [] (artifact_refs state)"

definition read_artifact :: "run_dir \<Rightarrow> string \<Rightarrow> string result" where
  "read_artifact st relative =
     bnd (relative_artifact_path relative) (\<lambda>_.
     read_regular (map_of (rd_files st) relative) MAX_ARTIFACT_BYTES)"

definition sha256_bound_artifact :: "run_dir \<Rightarrow> string \<Rightarrow> string result" where
  "sha256_bound_artifact st relative = bnd (read_artifact st relative) (\<lambda>body. Inr (digest_of body))"

definition validate_artifact_bindings :: "run_dir \<Rightarrow> json \<Rightarrow> (string, string) dict \<Rightarrow> unit result" where
  "validate_artifact_bindings st state artifacts =
     bnd (bindings_of state) (\<lambda>references.
     bnd (forr (\<lambda>(relative, body). bnd (artifact_ref_of relative body) (\<lambda>expected.
            chk (map_of references relative = Some (ar_sha256 expected)))) artifacts) (\<lambda>_.
     forr (\<lambda>(path, digest).
       case map_of artifacts path of
         Some body \<Rightarrow> bnd (artifact_ref_of path body) (\<lambda>r. chk (ar_sha256 r = digest))
       | None \<Rightarrow> bnd (sha256_bound_artifact st path) (\<lambda>actual. chk (actual = digest))) references))"

definition verify_and_cache_bound_artifacts :: "run_dir \<Rightarrow> json \<Rightarrow> (string, string) dict result" where
  "verify_and_cache_bound_artifacts st state =
     bnd (bindings_of state) (\<lambda>references.
     mapr (\<lambda>(path, digest). bnd (read_artifact st path) (\<lambda>body.
       bnd (chk (digest_of body = digest)) (\<lambda>_. Inr (path, body)))) references)"

section \<open>Operations\<close>

definition require_lock :: "unit act" where
  "require_lock = (\<lambda>st. (if rd_locked st then Inr () else Inl StateConflictError, st))"

text \<open>Entering and leaving \<^verbatim>\<open>with store.lock():\<close>\<close>

definition lock :: "unit act" where
  "lock = (\<lambda>st. if rd_locked st then (Inl StateConflictError, st) else (Inr (), st\<lparr>rd_locked := True\<rparr>))"

definition unlock :: "unit act" where
  "unlock = (\<lambda>st. (Inr (), st\<lparr>rd_locked := False\<rparr>))"

text \<open>\<^verbatim>\<open>publish_immutable_at\<close>: an existing file must hold the same bytes.\<close>

definition publish_immutable :: "string \<Rightarrow> string \<Rightarrow> unit act" where
  "publish_immutable relative body = (\<lambda>st.
     case map_of (rd_files st) relative of
       None \<Rightarrow> (Inr (), st\<lparr>rd_files := AList.update relative body (rd_files st)\<rparr>)
     | Some winner \<Rightarrow>
         if length winner > max MAX_ARTIFACT_BYTES (length body) then (Inl ContractError, st)
         else if winner \<noteq> body then (Inl StateConflictError, st) else (Inr (), st))"

definition write_immutable :: "string \<Rightarrow> string \<Rightarrow> artifact_ref act" where
  "write_immutable relative body =
     sbnd (slift (artifact_ref_of relative body)) (\<lambda>reference.
     sbnd (publish_immutable relative body) (\<lambda>_. slift (Inr reference)))"

fun write_artifacts :: "(string, string) dict \<Rightarrow> unit act" where
  "write_artifacts [] = slift (Inr ())"
| "write_artifacts (p # ps) = sbnd (write_immutable (fst p) (snd p)) (\<lambda>_. write_artifacts ps)"

definition prepare_artifact :: "string \<Rightarrow> string \<Rightarrow> artifact_ref act" where
  "prepare_artifact relative body = sbnd require_lock (\<lambda>_. write_immutable relative body)"

definition replace_mutable :: "string \<Rightarrow> unit act" where
  "replace_mutable body = (\<lambda>st. (Inr (), st\<lparr>rd_state := Some body\<rparr>))"

definition replace_state :: "json \<Rightarrow> unit act" where
  "replace_state state =
     sbnd (slift (canonical_json_bytes state)) replace_mutable"

definition load :: "run_dir \<Rightarrow> json result" where
  "load st =
     bnd (read_regular (rd_state st) MAX_STATE_BYTES) (\<lambda>body.
     bnd (parse_json_object_bytes body) (\<lambda>v.
     bnd (validate_run_state v) (\<lambda>state.
     bnd (verify_and_cache_bound_artifacts st state) (\<lambda>bodies.
     bnd (validate_bound_state_semantics state (\<lambda>path.
            case map_of bodies path of None \<Rightarrow> Inl KeyError | Some body \<Rightarrow> Inr body)) (\<lambda>_.
     Inr state)))))"

definition create :: "json \<Rightarrow> (string, string) dict \<Rightarrow> json act" where
  "create initial_state artifacts =
     sbnd require_lock (\<lambda>_.
     sbnd (\<lambda>st. (read_optional_regular (rd_state st) MAX_STATE_BYTES, st)) (\<lambda>existing.
     sbnd (slift (chk_state (existing = None))) (\<lambda>_.
     sbnd (slift (validate_run_state initial_state)) (\<lambda>state.
     sbnd (slift (chk (sub state ''revision'' = JInt 0))) (\<lambda>_.
     sbnd (\<lambda>st. (validate_artifact_bindings st state artifacts, st)) (\<lambda>_.
     sbnd (write_artifacts artifacts) (\<lambda>_.
     sbnd (replace_state state) (\<lambda>_.
     slift (Inr state)))))))))"

text \<open>The new entries of \<^verbatim>\<open>artifact_index\<close>; \<open>indexed\<close> maps paths to digests.\<close>

definition index_artifact ::
  "json \<times> (string, string) dict \<Rightarrow> artifact_ref \<Rightarrow> (json \<times> (string, string) dict) result" where
  "index_artifact s r =
     (case map_of (snd s) (ar_path r) of
        Some previous \<Rightarrow> if previous \<noteq> ar_sha256 r then Inl StateConflictError else Inr s
      | None \<Rightarrow> Inr (upd (fst s) ''artifact_index'' (\<lambda>xs. push xs (artifact_as_dict r)),
                    AList.update (ar_path r) (ar_sha256 r) (snd s)))"

definition index_of :: "json \<Rightarrow> (string, string) dict" where
  "index_of state =
     foldl (\<lambda>d entry. AList.update (str_of (sub entry ''path'')) (str_of (sub entry ''sha256'')) d) []
       (elems (sub state ''artifact_index''))"

definition artifact_references :: "(string, string) dict \<Rightarrow> (string \<times> artifact_ref) list result" where
  "artifact_references artifacts =
     mapr (\<lambda>(relative, body). bnd (artifact_ref_of relative body) (\<lambda>r. Inr (relative, r))) artifacts"

text \<open>The artifact index that the mutator left must start with the expected one.\<close>

definition require_index_prefix :: "json \<Rightarrow> json \<Rightarrow> unit result" where
  "require_index_prefix updated expected_index =
     bnd (item updated ''artifact_index'') (\<lambda>index.
       case index of
         JList xs \<Rightarrow> chk (py_eq_list (take (length (elems expected_index)) xs) (elems expected_index))
       | JStr _ \<Rightarrow> Inl ContractError
       | _ \<Rightarrow> Inl TypeError)"

definition require_legacy_import :: "json \<Rightarrow> json \<Rightarrow> unit result" where
  "require_legacy_import previous updated =
     (if previous = JNull then Inr ()
      else bnd (item updated ''legacy_import'') (\<lambda>v. chk (py_eq v previous)))"

text \<open>The part of \<^verbatim>\<open>transact\<close> before anything is written.  \<open>mutate\<close> is the callback: the state
  that it leaves, or the exception that it raises.\<close>

definition next_state ::
  "run_dir \<Rightarrow> int \<Rightarrow> (string, string) dict \<Rightarrow> (json \<Rightarrow> (string \<times> artifact_ref) list \<Rightarrow> json result) \<Rightarrow> json result" where
  "next_state st expected_revision artifacts mutate =
     bnd (load st) (\<lambda>current.
     bnd (chk_state (sub current ''revision'' = JInt expected_revision)) (\<lambda>_.
     bnd (artifact_references artifacts) (\<lambda>references.
     bnd (history_prefixes current) (\<lambda>previous_histories.
     bnd (foldr_r index_artifact (current, index_of current) (map snd references)) (\<lambda>indexed.
     let expected_index = sub (fst indexed) ''artifact_index'' in
     bnd (mutate (fst indexed) references) (\<lambda>updated.
     bnd (require_index_prefix updated expected_index) (\<lambda>_.
     bnd (require_history_prefixes updated previous_histories) (\<lambda>_.
     bnd (require_legacy_import (sub current ''legacy_import'') updated) (\<lambda>_.
     bnd (validate_run_state (put updated ''revision'' (JInt (expected_revision + 1)))) (\<lambda>validated.
     bnd (validate_artifact_bindings st validated artifacts) (\<lambda>_.
     Inr validated)))))))))))"

definition transact ::
  "int \<Rightarrow> (string, string) dict \<Rightarrow> (json \<Rightarrow> (string \<times> artifact_ref) list \<Rightarrow> json result) \<Rightarrow> json act" where
  "transact expected_revision artifacts mutate =
     sbnd require_lock (\<lambda>_.
     sbnd (\<lambda>st. (next_state st expected_revision artifacts mutate, st)) (\<lambda>validated.
     sbnd (write_artifacts artifacts) (\<lambda>_.
     sbnd (replace_state validated) (\<lambda>_.
     slift (Inr validated)))))"

definition append_complete_record :: "string \<Rightarrow> unit act" where
  "append_complete_record body = (\<lambda>st. (Inr (), st\<lparr>rd_log := rd_log st @ body\<rparr>))"

definition append_log :: "json \<Rightarrow> unit act" where
  "append_log event =
     sbnd (slift (canonical_json_bytes event)) append_complete_record"

section \<open>Artifacts are immutable\<close>

text \<open>\<open>grows st st'\<close>: every artifact of \<open>st\<close> is in \<open>st'\<close> with the same bytes.\<close>

definition grows :: "run_dir \<Rightarrow> run_dir \<Rightarrow> bool" where
  "grows st st' \<longleftrightarrow> map_of (rd_files st) \<subseteq>\<^sub>m map_of (rd_files st')"

lemma grows_refl [simp]: "grows st st"
  by (simp add: grows_def)

lemma grows_trans: "grows a b \<Longrightarrow> grows b c \<Longrightarrow> grows a c"
  unfolding grows_def by (rule map_le_trans)

lemma require_lock_eq [simp]:
  "require_lock st = (r, st') \<longleftrightarrow> st' = st \<and> r = (if rd_locked st then Inr () else Inl StateConflictError)"
  by (auto simp: require_lock_def)

lemma write_immutable_effect:
  assumes "write_immutable relative body st = (r, st')"
  shows "grows st st'" "rd_state st' = rd_state st" "rd_locked st' = rd_locked st" "rd_log st' = rd_log st"
    "\<And>ref. r = Inr ref \<Longrightarrow> map_of (rd_files st') relative = Some body"
  using assms
  by (auto simp: write_immutable_def publish_immutable_def sbnd_eq grows_def map_le_def dom_def split: option.splits if_splits)

lemma write_artifacts_effect:
  assumes "write_artifacts ps st = (r, st')"
  shows "grows st st' \<and> rd_state st' = rd_state st \<and> rd_locked st' = rd_locked st \<and> rd_log st' = rd_log st
    \<and> (r = Inr () \<longrightarrow> (\<forall>p\<in>set ps. map_of (rd_files st') (fst p) = Some (snd p)))"
  using assms
proof (induction ps arbitrary: st)
  case (Cons p ps)
  from Cons.prems consider e where "write_immutable (fst p) (snd p) st = (Inl e, st')" "r = Inl e"
    | ref st1 where "write_immutable (fst p) (snd p) st = (Inr ref, st1)" "write_artifacts ps st1 = (r, st')"
    by (auto simp: sbnd_eq)
  then show ?case
  proof cases
    case 1
    with write_immutable_effect [OF 1(1)] show ?thesis by simp
  next
    case 2
    note w = write_immutable_effect [OF 2(1)] and ih = Cons.IH [OF 2(2)]
    have "map_of (rd_files st') (fst p) = Some (snd p)"
      using w(5) ih unfolding grows_def map_le_def by (metis domI)
    with w ih grows_trans [of st st1 st'] show ?thesis by auto
  qed
qed simp

lemma replace_state_effect:
  "replace_state s st = (r, st') \<Longrightarrow> rd_files st' = rd_files st \<and> rd_locked st' = rd_locked st
     \<and> (r = Inr () \<longrightarrow> (\<exists>b. canonical_json_bytes s = Inr b \<and> rd_state st' = Some b))
     \<and> (r \<noteq> Inr () \<longrightarrow> rd_state st' = rd_state st)"
  by (auto simp: replace_state_def replace_mutable_def sbnd_eq)

section \<open>What is bound stays bound\<close>

text \<open>Every reference of a state names a published artifact with that digest.\<close>

definition all_bound :: "run_dir \<Rightarrow> json \<Rightarrow> bool" where
  "all_bound st s \<longleftrightarrow>
     (\<forall>r\<in>set (artifact_refs s). \<exists>b. map_of (rd_files st) (ar_path r) = Some b \<and> digest_of b = ar_sha256 r)"

lemma grows_lookup: "grows st st' \<Longrightarrow> map_of (rd_files st) p = Some b \<Longrightarrow> map_of (rd_files st') p = Some b"
  unfolding grows_def map_le_def by (metis domI)

lemma all_bound_grows: "grows st st' \<Longrightarrow> all_bound st s \<Longrightarrow> all_bound st' s"
  unfolding all_bound_def by (metis grows_lookup)

lemma read_artifact_grows: "grows st st' \<Longrightarrow> read_artifact st p = Inr b \<Longrightarrow> read_artifact st' p = Inr b"
  by (auto simp: read_artifact_def bnd_eq_Inr read_regular_def grows_lookup split: option.splits)

lemma bindings_fold:
  assumes "foldr_r note_binding d rs = Inr d'"
  shows "map_of d \<subseteq>\<^sub>m map_of d' \<and> (\<forall>r\<in>set rs. map_of d' (ar_path r) = Some (ar_sha256 r))"
  using assms
proof (induction rs arbitrary: d)
  case (Cons r rs)
  then obtain d1 where d1: "note_binding d r = Inr d1" and "foldr_r note_binding d1 rs = Inr d'"
    by (auto simp: bnd_eq_Inr)
  with Cons.IH have IH: "map_of d1 \<subseteq>\<^sub>m map_of d'" "\<forall>r\<in>set rs. map_of d' (ar_path r) = Some (ar_sha256 r)" by auto
  from d1 have "map_of d \<subseteq>\<^sub>m map_of d1" "map_of d1 (ar_path r) = Some (ar_sha256 r)"
    by (auto simp: note_binding_def bnd_eq_Inr map_le_def dom_def split: option.splits)
  with IH show ?case by (auto simp: map_le_def dom_def)
qed simp

lemma bindings_cover: "bindings_of s = Inr d \<Longrightarrow> r \<in> set (artifact_refs s) \<Longrightarrow> (ar_path r, ar_sha256 r) \<in> set d"
  unfolding bindings_of_def by (drule bindings_fold) (auto dest: map_of_SomeD)

lemma forr_mono: "forr f xs = Inr () \<Longrightarrow> (\<And>x. f x = Inr () \<Longrightarrow> g x = Inr ()) \<Longrightarrow> forr g xs = Inr ()"
  by (simp add: forr_eq_Inr)

lemma bindings_grow:
  assumes "validate_artifact_bindings st s arts = Inr ()" and "grows st st'"
  shows "validate_artifact_bindings st' s arts = Inr ()"
proof -
  let ?check = "\<lambda>st (path, digest). case map_of arts path of
         Some body \<Rightarrow> bnd (artifact_ref_of path body) (\<lambda>r. chk (ar_sha256 r = digest))
       | None \<Rightarrow> bnd (sha256_bound_artifact st path) (\<lambda>actual. chk (actual = digest))"
  have sha: "sha256_bound_artifact st' p = Inr d" if "sha256_bound_artifact st p = Inr d" for p d
    using that read_artifact_grows [OF assms(2)] by (auto simp: sha256_bound_artifact_def bnd_eq_Inr)
  have step: "?check st' x = Inr ()" if "?check st x = Inr ()" for x
    using that sha by (auto simp: bnd_eq_Inr split: option.splits prod.splits)
  have mono: "forr (?check st') refs = Inr ()" if "forr (?check st) refs = Inr ()" for refs
    by (rule forr_mono [OF that step])
  from assms(1) show ?thesis unfolding validate_artifact_bindings_def bnd_eq_Inr using mono by blast
qed

lemma bindings_bound:
  assumes "validate_artifact_bindings st s arts = Inr ()"
    and "\<forall>p\<in>set arts. map_of (rd_files st') (fst p) = Some (snd p)" and "grows st st'"
  shows "all_bound st' s"
proof -
  obtain refs where r: "bindings_of s = Inr refs"
    and each: "\<forall>(path, digest)\<in>set refs. (case map_of arts path of
         Some body \<Rightarrow> bnd (artifact_ref_of path body) (\<lambda>r. chk (ar_sha256 r = digest))
       | None \<Rightarrow> bnd (sha256_bound_artifact st path) (\<lambda>actual. chk (actual = digest))) = Inr ()"
    using assms(1) unfolding validate_artifact_bindings_def
    by (auto simp: bnd_eq_Inr forr_eq_Inr split: prod.splits)
  show ?thesis unfolding all_bound_def
  proof
    fix x assume "x \<in> set (artifact_refs s)"
    with bindings_cover [OF r] each have x: "(case map_of arts (ar_path x) of
         Some body \<Rightarrow> bnd (artifact_ref_of (ar_path x) body) (\<lambda>r. chk (ar_sha256 r = ar_sha256 x))
       | None \<Rightarrow> bnd (sha256_bound_artifact st (ar_path x)) (\<lambda>actual. chk (actual = ar_sha256 x))) = Inr ()" by blast
    show "\<exists>b. map_of (rd_files st') (ar_path x) = Some b \<and> digest_of b = ar_sha256 x"
    proof (cases "map_of arts (ar_path x)")
      case None
      with x show ?thesis using grows_lookup [OF assms(3)]
        by (auto simp: bnd_eq_Inr sha256_bound_artifact_def read_artifact_def read_regular_def read_bounded_def
            split: option.splits if_splits)
    next
      case (Some body)
      then have "map_of (rd_files st') (ar_path x) = Some body" using assms(2) by (fastforce dest: map_of_SomeD)
      with x Some show ?thesis by (auto simp: bnd_eq_Inr artifact_ref_of_def)
    qed
  qed
qed

section \<open>Transactions\<close>

lemma mapr_mono: "mapr f xs = Inr ys \<Longrightarrow> (\<And>x y. x \<in> set xs \<Longrightarrow> f x = Inr y \<Longrightarrow> g x = Inr y) \<Longrightarrow> mapr g xs = Inr ys"
  by (induction xs arbitrary: ys) (auto simp: bnd_eq_Inr)

lemma load_grows:
  assumes "load st = Inr s" and "grows st st'" and "rd_state st' = rd_state st"
  shows "load st' = Inr s"
proof -
  have "verify_and_cache_bound_artifacts st' v = Inr bodies" if "verify_and_cache_bound_artifacts st v = Inr bodies" for v bodies
  proof -
    from that obtain refs where r: "bindings_of v = Inr refs"
      and m: "mapr (\<lambda>(path, digest). bnd (read_artifact st path) (\<lambda>body.
        bnd (chk (digest_of body = digest)) (\<lambda>_. Inr (path, body)))) refs = Inr bodies"
      by (auto simp: verify_and_cache_bound_artifacts_def bnd_eq_Inr)
    have "mapr (\<lambda>(path, digest). bnd (read_artifact st' path) (\<lambda>body.
        bnd (chk (digest_of body = digest)) (\<lambda>_. Inr (path, body)))) refs = Inr bodies"
      by (rule mapr_mono [OF m]) (auto simp: bnd_eq_Inr intro: read_artifact_grows [OF assms(2)])
    with r show ?thesis by (simp add: verify_and_cache_bound_artifacts_def)
  qed
  with assms show ?thesis unfolding load_def by (auto simp: bnd_eq_Inr)
qed

lemma load_valid: "load st = Inr s \<Longrightarrow> valid s"
  by (auto simp: load_def bnd_eq_Inr valid_def dest: validate_run_state_id)

lemma next_state_facts:
  assumes "next_state st n arts mutate = Inr s"
  obtains current indexed refs updated histories where "load st = Inr current" "sub current ''revision'' = JInt n"
    "artifact_references arts = Inr refs" "foldr_r index_artifact (current, index_of current) (map snd refs) = Inr indexed"
    "mutate (fst indexed) refs = Inr updated" "history_prefixes current = Inr histories"
    "require_index_prefix updated (sub (fst indexed) ''artifact_index'') = Inr ()"
    "require_history_prefixes updated histories = Inr ()"
    "require_legacy_import (sub current ''legacy_import'') updated = Inr ()"
    "s = put updated ''revision'' (JInt (n + 1))" "valid s" "validate_artifact_bindings st s arts = Inr ()"
proof -
  from assms obtain current indexed refs updated histories where f: "load st = Inr current" "sub current ''revision'' = JInt n"
    "artifact_references arts = Inr refs" "foldr_r index_artifact (current, index_of current) (map snd refs) = Inr indexed"
    "mutate (fst indexed) refs = Inr updated" "history_prefixes current = Inr histories"
    "require_index_prefix updated (sub (fst indexed) ''artifact_index'') = Inr ()"
    "require_history_prefixes updated histories = Inr ()"
    "require_legacy_import (sub current ''legacy_import'') updated = Inr ()"
    and v: "validate_run_state (put updated ''revision'' (JInt (n + 1))) = Inr s"
    and b: "validate_artifact_bindings st s arts = Inr ()"
    unfolding next_state_def Let_def bnd_eq_Inr by auto
  from validate_run_state_id [OF v] v have "s = put updated ''revision'' (JInt (n + 1))" "valid s"
    by (simp_all add: valid_def)
  with f b show thesis by (intro that)
qed

lemma transact_cases:
  assumes "transact n arts mutate st = (r, st')"
  obtains (failed) e where "r = Inl e" "grows st st'" "rd_state st' = rd_state st"
  | (committed) s b where "r = Inr s" "next_state st n arts mutate = Inr s" "canonical_json_bytes s = Inr b"
      "rd_state st' = Some b" "grows st st'" "\<forall>p\<in>set arts. map_of (rd_files st') (fst p) = Some (snd p)"
      "rd_locked st"
proof (cases "\<exists>s st1. rd_locked st \<and> next_state st n arts mutate = Inr s \<and> write_artifacts arts st = (Inr (), st1)
    \<and> ok (canonical_json_bytes s)")
  case False
  then have "\<exists>e. r = Inl e \<and> (st' = st \<or> (\<exists>r'. write_artifacts arts st = (r', st')))"
    using assms unfolding transact_def
    by (auto simp: sbnd_eq replace_state_def replace_mutable_def ok_iff split: if_splits)
  then show thesis using write_artifacts_effect [of arts st] by (auto intro: failed)
next
  case True
  then obtain s st1 b where t: "rd_locked st" "next_state st n arts mutate = Inr s" "write_artifacts arts st = (Inr (), st1)"
    "canonical_json_bytes s = Inr b" by (auto simp: ok_iff)
  then have "r = Inr s" "st' = st1\<lparr>rd_state := Some b\<rparr>"
    using assms unfolding transact_def by (auto simp: sbnd_eq replace_state_def replace_mutable_def)
  with t write_artifacts_effect [OF t(3)] show thesis
    by (intro committed [of s b]) (auto simp: grows_def)
qed

text \<open>C12. Transactions are atomic: whatever a transaction does, published artifacts keep their bytes;
  when it raises, \<^verbatim>\<open>state.json\<close> is untouched and a run that could be loaded before loads to the same
  state after; when it returns, the stored bytes are those of a valid state whose revision is the
  next one and all of whose references are bound to published artifacts.\<close>

theorem transact_atomic:
  assumes "transact n arts mutate st = (r, st')"
  shows "grows st st' \<and>
    (case r of
       Inl e \<Rightarrow> rd_state st' = rd_state st \<and> (\<forall>s. load st = Inr s \<longrightarrow> load st' = Inr s)
     | Inr s \<Rightarrow> valid s \<and> all_bound st' s \<and> sub s ''revision'' = JInt (n + 1)
         \<and> (\<exists>b. canonical_json_bytes s = Inr b \<and> rd_state st' = Some b)
         \<and> (\<exists>current. load st = Inr current \<and> sub current ''revision'' = JInt n))"
  using assms
proof (cases rule: transact_cases)
  case (failed e)
  then show ?thesis by (auto intro: load_grows)
next
  case (committed s b)
  from committed(2) obtain current updated where
    f: "load st = Inr current" "sub current ''revision'' = JInt n" "s = put updated ''revision'' (JInt (n + 1))" "valid s"
      "validate_artifact_bindings st s arts = Inr ()" by (rule next_state_facts) blast
  have "is_obj updated" using f(3,4) by (auto simp: valid_def validate_run_state_def split: if_splits)
  then have "sub s ''revision'' = JInt (n + 1)" by (simp add: f(3))
  with f committed bindings_bound [OF f(5) committed(6,5)] show ?thesis by auto
qed

section \<open>Histories only grow\<close>

lemma history_at_put:
  "k \<noteq> component \<Longrightarrow> history_at (put v k w) (component # path) = history_at v (component # path)"
proof -
  assume "k \<noteq> component"
  then have "has_key (put v k w) component = has_key v component" by (simp add: has_key_def)
  with \<open>k \<noteq> component\<close> show ?thesis by simp
qed

lemma history_path_head: "path \<in> set (history_paths s) \<Longrightarrow> \<exists>c cs. path = c # cs \<and> c \<noteq> ''revision''"
  by (auto simp: history_paths_def)

lemma transact_histories:
  assumes "next_state st n arts mutate = Inr s" and "load st = Inr current" and "path \<in> set (history_paths current)"
  shows "\<exists>old new. history_at current path = Inr old \<and> history_at s path = Inr new
    \<and> py_eq_list (take (length old) new) old"
  using assms(1)
proof (rule next_state_facts)
  fix cur updated histories
  assume l: "load st = Inr cur" and h: "history_prefixes cur = Inr histories"
    and req: "require_history_prefixes updated histories = Inr ()" and s: "s = put updated ''revision'' (JInt (n + 1))"
  from l assms(2) have cur: "cur = current" by simp
  from h [unfolded cur history_prefixes_def mapr_eq_Inr] assms(3) obtain old where
    old: "(path, old) \<in> set histories" "history_at current path = Inr old"
    by (fastforce simp: list_all2_conv_all_nth in_set_conv_nth bnd_eq_Inr)
  with req obtain new where new: "history_at updated path = Inr new" "py_eq_list (take (length old) new) old"
    by (fastforce simp: require_history_prefixes_def forr_eq_Inr bnd_eq_Inr)
  moreover have "history_at s path = history_at updated path"
    using history_path_head [OF assms(3)] history_at_put by (metis s)
  ultimately show ?thesis using old(2) by auto
qed

text \<open>C18. Histories are append-only: across a committed transaction every history of the run (plans,
  evaluations, verifications, the attempts of each role and of each task, stop receipts) keeps its
  entries at the front, in order.\<close>

theorem transact_append_only:
  assumes "transact n arts mutate st = (Inr s, st')" and "load st = Inr current"
    and "path \<in> set (history_paths current)"
  shows "\<exists>old new. history_at current path = Inr old \<and> history_at s path = Inr new
    \<and> py_eq_list (take (length old) new) old"
  using assms(1)
proof (cases rule: transact_cases)
  case (committed s' b)
  with transact_histories [OF _ assms(2,3)] show ?thesis by simp
qed simp

section \<open>Crashes\<close>

lemma write_immutable_present:
  assumes "map_of (rd_files st) p = Some b" and "ok (artifact_ref_of p b)"
  shows "\<exists>ref. write_immutable p b st = (Inr ref, st)"
  using assms by (auto simp: write_immutable_def publish_immutable_def sbnd_def slift_def ok_iff)

lemma write_immutable_ref: "write_immutable p b st = (Inr ref, st') \<Longrightarrow> ok (artifact_ref_of p b)"
  by (auto simp: write_immutable_def publish_immutable_def sbnd_eq ok_iff)

lemma write_artifacts_refs: "write_artifacts ps st = (Inr (), st') \<Longrightarrow> \<forall>p\<in>set ps. ok (artifact_ref_of (fst p) (snd p))"
  by (induction ps arbitrary: st) (auto simp: sbnd_eq dest: write_immutable_ref)

lemma write_artifacts_present:
  "\<forall>p\<in>set ps. map_of (rd_files st) (fst p) = Some (snd p) \<and> ok (artifact_ref_of (fst p) (snd p)) \<Longrightarrow>
   write_artifacts ps st = (Inr (), st)"
proof (induction ps)
  case (Cons p ps)
  then obtain ref where "write_immutable (fst p) (snd p) st = (Inr ref, st)"
    using write_immutable_present [of st "fst p" "snd p"] by auto
  with Cons show ?case by (simp add: sbnd_def)
qed (simp add: slift_def)

lemma write_artifacts_append:
  "write_artifacts (xs @ ys) st = sbnd (write_artifacts xs) (\<lambda>_. write_artifacts ys) st"
  by (induction xs arbitrary: st) (auto simp: sbnd_def slift_def split: prod.splits sum.splits)

text \<open>Writing again after a crash ends in the same directory.\<close>

lemma write_artifacts_resume:
  assumes "write_artifacts (xs @ ys) st = (Inr (), st2)"
  shows "write_artifacts (xs @ ys) (snd (write_artifacts xs st)) = (Inr (), st2)"
proof -
  from assms obtain st1 where w: "write_artifacts xs st = (Inr (), st1)" "write_artifacts ys st1 = (Inr (), st2)"
    by (auto simp: write_artifacts_append sbnd_eq)
  have "write_artifacts xs st1 = (Inr (), st1)"
    using write_artifacts_effect [OF w(1)] write_artifacts_refs [OF w(1)] by (intro write_artifacts_present) auto
  with w show ?thesis by (simp add: write_artifacts_append sbnd_def)
qed

lemma next_state_grows:
  assumes "next_state st n arts mutate = Inr s" and "grows st st'" and "rd_state st' = rd_state st"
  shows "next_state st' n arts mutate = Inr s"
proof -
  have "load st' = load st"
    using assms by (auto simp: next_state_def bnd_eq_Inr dest: load_grows)
  with assms(1) bindings_grow [OF _ assms(2)] show ?thesis
    unfolding next_state_def Let_def by (auto simp: bnd_eq_Inr)
qed

text \<open>C17. Crash recovery: when the process dies during a transaction that would have committed, after
  any number of its artifacts and before \<^verbatim>\<open>state.json\<close> is replaced, the run still loads to its
  previous state, and repeating the transaction commits the same state and leaves exactly the
  directory that the uninterrupted transaction would have left.\<close>

theorem transact_crash_recovery:
  assumes "transact n arts mutate st = (Inr s, st2)" and "arts = written @ lost"
  shows "load (snd (write_artifacts written st)) = load st
    \<and> transact n arts mutate (snd (write_artifacts written st)) = (Inr s, st2)"
proof -
  let ?crash = "snd (write_artifacts written st)"
  from assms(1) obtain st1 b where lock: "rd_locked st" and nx: "next_state st n arts mutate = Inr s"
    and w: "write_artifacts arts st = (Inr (), st1)" and b: "canonical_json_bytes s = Inr b" "st2 = st1\<lparr>rd_state := Some b\<rparr>"
    by (auto simp: transact_def sbnd_eq replace_state_def replace_mutable_def split: if_splits)
  obtain r where r: "write_artifacts written st = (r, ?crash)" by (metis prod.collapse)
  note e = write_artifacts_effect [OF r]
  have n': "next_state ?crash n arts mutate = Inr s" using next_state_grows [OF nx] e by simp
  have w': "write_artifacts arts ?crash = (Inr (), st1)"
    using write_artifacts_resume [of written lost] w assms(2) by simp
  have "load ?crash = load st"
    using nx load_grows [of st _ ?crash] e by (auto simp: next_state_def bnd_eq_Inr)
  moreover have "transact n arts mutate ?crash = (Inr s, st2)"
    using lock e n' w' b by (simp add: transact_def sbnd_def require_lock_def slift_def replace_state_def replace_mutable_def)
  ultimately show ?thesis by simp
qed

section \<open>Reachable directories\<close>

inductive store_step :: "run_dir \<Rightarrow> run_dir \<Rightarrow> bool" where
  lock: "store_step st (snd (lock st))"
| unlock: "store_step st (snd (unlock st))"
| prepare: "store_step st (snd (prepare_artifact relative body st))"
| create: "store_step st (snd (create s arts st))"
| transact: "store_step st (snd (transact n arts mutate st))"
| log: "store_step st (snd (append_log event st))"
| crash: "store_step st ((snd (write_artifacts arts st))\<lparr>rd_locked := False\<rparr>)"

definition store_inv :: "run_dir \<Rightarrow> bool" where
  "store_inv st \<longleftrightarrow>
     (\<forall>b. rd_state st = Some b \<longrightarrow> (\<exists>s. canonical_json_bytes s = Inr b \<and> valid s \<and> all_bound st s))"

lemma store_inv_grows: "store_inv st \<Longrightarrow> grows st st' \<Longrightarrow> rd_state st' = rd_state st \<Longrightarrow> store_inv st'"
  unfolding store_inv_def using all_bound_grows by metis

lemma create_cases:
  assumes "create s0 arts st = (r, st')"
  obtains (failed) e where "r = Inl e" "grows st st'" "rd_state st' = rd_state st"
  | (created) s b where "r = Inr s" "valid s" "canonical_json_bytes s = Inr b" "rd_state st' = Some b"
      "grows st st'" "all_bound st' s" "rd_state st = None" "sub s ''revision'' = JInt 0"
proof (cases "\<exists>s st1. rd_locked st \<and> rd_state st = None \<and> validate_run_state s0 = Inr s
    \<and> sub s ''revision'' = JInt 0 \<and> validate_artifact_bindings st s arts = Inr ()
    \<and> write_artifacts arts st = (Inr (), st1) \<and> ok (canonical_json_bytes s)")
  case False
  then have "\<exists>e. r = Inl e \<and> (st' = st \<or> (\<exists>r'. write_artifacts arts st = (r', st')))"
    using assms unfolding create_def
    by (auto simp: sbnd_eq replace_state_def replace_mutable_def ok_iff read_optional_regular_def read_bounded_def bnd_eq_Inr
        chk_state_def split: if_splits option.splits)
  then show thesis using write_artifacts_effect [of arts st] by (auto intro: failed)
next
  case True
  then obtain s st1 b where t: "rd_locked st" "rd_state st = None" "validate_run_state s0 = Inr s"
    "sub s ''revision'' = JInt 0" "validate_artifact_bindings st s arts = Inr ()"
    "write_artifacts arts st = (Inr (), st1)" "canonical_json_bytes s = Inr b" by (auto simp: ok_iff)
  then have out: "r = Inr s" "st' = st1\<lparr>rd_state := Some b\<rparr>"
    using assms unfolding create_def
    by (auto simp: sbnd_eq replace_state_def replace_mutable_def read_optional_regular_def)
  note e = write_artifacts_effect [OF t(6)]
  have g: "grows st st'" using e out(2) by (simp add: grows_def)
  have "all_bound st' s" by (rule bindings_bound [OF t(5) _ g]) (use e out(2) in simp)
  with t out g show thesis
    by (intro created [of s b]) (auto simp: valid_def dest: validate_run_state_id)
qed

lemma store_step_grows: "store_step st st' \<Longrightarrow> grows st st'"
proof (induction rule: store_step.induct)
  case (create st s arts)
  obtain r st' where c: "create s arts st = (r, st')" by force
  then show ?case by (cases rule: create_cases) (use c in simp_all)
next
  case (transact st n arts mutate)
  obtain r st' where c: "transact n arts mutate st = (r, st')" by force
  then show ?case by (cases rule: transact_cases) (use c in simp_all)
next
  case (prepare st relative body)
  obtain r st' where c: "write_immutable relative body st = (r, st')" by force
  from write_immutable_effect(1) [OF this] c show ?case
    by (auto simp: prepare_artifact_def sbnd_def require_lock_def)
next
  case (crash st arts)
  obtain r st' where c: "write_artifacts arts st = (r, st')" by force
  from write_artifacts_effect [OF this] c show ?case by (simp add: grows_def)
qed (auto simp: lock_def unlock_def append_log_def append_complete_record_def sbnd_def slift_def grows_def split: sum.splits)

lemma store_step_inv: "store_step st st' \<Longrightarrow> store_inv st \<Longrightarrow> store_inv st'"
proof (induction rule: store_step.induct)
  case (create st s arts)
  obtain r st' where c: "create s arts st = (r, st')" by force
  then show ?case
    by (cases rule: create_cases) (use c create store_inv_grows in \<open>auto simp: store_inv_def\<close>)
next
  case (transact st n arts mutate)
  obtain r st' where c: "transact n arts mutate st = (r, st')" by force
  then show ?case
  proof (cases rule: transact_cases)
    case (failed e)
    with c transact store_inv_grows show ?thesis by simp
  next
    case (committed s b)
    from committed(2) have "valid s" "validate_artifact_bindings st s arts = Inr ()"
      by (auto elim!: next_state_facts)
    with bindings_bound [OF this(2) committed(6,5)] committed c show ?thesis by (auto simp: store_inv_def)
  qed
next
  case (prepare st relative body)
  obtain r st' where c: "write_immutable relative body st = (r, st')" by force
  from write_immutable_effect(1,2) [OF this] c prepare store_inv_grows show ?case
    by (auto simp: prepare_artifact_def sbnd_def require_lock_def)
next
  case (crash st arts)
  obtain r st' where c: "write_artifacts arts st = (r, st')" by force
  from write_artifacts_effect [OF this] c crash store_inv_grows [of st st'] show ?case
    by (simp add: store_inv_def all_bound_def)
qed (auto simp: lock_def unlock_def append_log_def append_complete_record_def sbnd_def slift_def store_inv_def all_bound_def split: sum.splits)

definition empty_dir :: run_dir where
  "empty_dir = \<lparr>rd_state = None, rd_files = [], rd_log = [], rd_locked = False\<rparr>"



end
