(* ===== verification/StoreSample.thy ===== *)
theory StoreSample
  imports StateStore Sample
begin

text \<open>
  A run directory in which a transaction commits: the minimal state of the tests, whose intent and
  configuration are empty documents, and a transaction that records a first plan.
\<close>

definition sample_body :: string where
  "sample_body = [CHR ''{'', CHR ''}'', NEWLINE]"

text \<open>The directory of a stored state all of whose artifacts are empty documents.\<close>

definition dir_of :: "json \<Rightarrow> string list \<Rightarrow> run_dir" where
  "dir_of s paths = \<lparr>rd_state = Some (print_json (canon s) @ [NEWLINE]),
     rd_files = map (\<lambda>p. (p, sample_body)) paths, rd_log = [], rd_locked = True\<rparr>"

definition sample_dir :: run_dir where
  "sample_dir = dir_of minimal_state [''creation.intent.json'', ''config.json'']"

text \<open>Recording a plan, with the plan as an artifact.\<close>

definition sample_artifacts :: "(string, string) dict" where
  "sample_artifacts = [(''plans/1.json'', sample_body)]"

definition sample_mutate :: "json \<Rightarrow> (string \<times> artifact_ref) list \<Rightarrow> json result" where
  "sample_mutate s refs =
     Inr (put (upd s ''plans'' (\<lambda>xs. push xs (artifact_as_dict (snd (hd refs))))) ''plan_version'' (JInt 1))"

definition sample_next :: json where
  "sample_next = canon (upd (put (put (put minimal_state ''plans'' (JList [sample_ref ''plans/1.json'']))
     ''plan_version'' (JInt 1)) ''revision'' (JInt 1)) ''artifact_index'' (\<lambda>xs. push xs (sample_ref ''plans/1.json'')))"

lemma sample_body_digest: "digest_of sample_body = sample_digest"
  using digest_empty_object by (simp add: sample_body_def sample_digest_def)

lemma int_length_fold: "int (length xs) = foldl (\<lambda>n _. n + 1) 0 xs"
proof -
  have "foldl (\<lambda>n _. n + 1) m xs = m + int (length xs)" for m by (induction xs arbitrary: m) auto
  then show ?thesis by simp
qed

lemma sample_paths:
  "relative_artifact_path ''plans/1.json'' = Inr ()" "relative_artifact_path ''creation.intent.json'' = Inr ()"
  "relative_artifact_path ''config.json'' = Inr ()"
  by code_simp+

lemma sample_small [simp]: "read_bounded sample_body MAX_ARTIFACT_BYTES = Inr sample_body"
  by (simp add: read_bounded_def sample_body_def MAX_ARTIFACT_BYTES_def)

lemma map_of_const: "p \<in> set ps \<Longrightarrow> map_of (map (\<lambda>p. (p, c)) ps) p = Some c"
  by (induction ps) auto

lemma load_dir_of:
  assumes "is_obj s" "wf_json s" "no_floats s" "all_text utf8_valid s"
    and small: "int (length (print_json (canon s) @ [NEWLINE])) < 10000"
    and valid: "validate_run_state (canon s) = Inr (canon s)"
    and refs: "bindings_of (canon s) = Inr (map (\<lambda>p. (p, sample_digest)) paths)"
    and paths: "list_all (\<lambda>p. relative_artifact_path p = Inr ()) paths"
    and sem: "validate_bound_state_semantics (canon s)
      (\<lambda>path. case map_of (map (\<lambda>p. (p, sample_body)) paths) path of None \<Rightarrow> Inl KeyError | Some body \<Rightarrow> Inr body) = Inr ()"
  shows "load (dir_of s paths) = Inr (canon s)"
proof -
  from small have short: "\<not> length (print_json (canon s) @ [NEWLINE]) > MAX_STATE_BYTES" by (simp add: MAX_STATE_BYTES_def)
  obtain b where "canonical_json_bytes s = Inr b" "parse_json_object_bytes b = Inr (canon s)"
    using canonical_bytes_parse [OF assms(1-4)] by auto
  then have parse: "parse_json_object_bytes (print_json (canon s) @ [NEWLINE]) = Inr (canon s)"
    by (auto simp: canonical_json_bytes_def split: if_splits)
  have "mapr (\<lambda>(path, digest). bnd (read_artifact (dir_of s paths) path) (\<lambda>body.
       bnd (chk (digest_of body = digest)) (\<lambda>_. Inr (path, body)))) (map (\<lambda>p. (p, sample_digest)) ps)
     = Inr (map (\<lambda>p. (p, sample_body)) ps)" if "set ps \<subseteq> set paths" for ps
    using that paths
    by (induction ps) (auto simp: read_artifact_def dir_of_def map_of_const read_regular_def sample_body_digest list_all_iff)
  from this [of paths] have "verify_and_cache_bound_artifacts (dir_of s paths) (canon s) = Inr (map (\<lambda>p. (p, sample_body)) paths)"
    by (simp add: verify_and_cache_bound_artifacts_def refs)
  with short sem show ?thesis
    unfolding load_def by (simp add: dir_of_def read_regular_def read_bounded_def parse valid)
qed

lemma sample_load: "load sample_dir = Inr (canon minimal_state)"
  unfolding sample_dir_def
proof (rule load_dir_of)
  show "is_obj minimal_state" "wf_json minimal_state" "no_floats minimal_state" "all_text utf8_valid minimal_state"
    by code_simp+
  show "int (length (print_json (canon minimal_state) @ [NEWLINE])) < 10000" unfolding int_length_fold by code_simp
  show "validate_run_state (canon minimal_state) = Inr (canon minimal_state)" by code_simp
  show "bindings_of (canon minimal_state) = Inr (map (\<lambda>p. (p, sample_digest)) [''creation.intent.json'', ''config.json''])"
    by code_simp
  show "list_all (\<lambda>p. relative_artifact_path p = Inr ()) [''creation.intent.json'', ''config.json'']" by code_simp
  show "validate_bound_state_semantics (canon minimal_state)
      (\<lambda>path. case map_of (map (\<lambda>p. (p, sample_body)) [''creation.intent.json'', ''config.json'']) path of
         None \<Rightarrow> Inl KeyError | Some body \<Rightarrow> Inr body) = Inr ()" by code_simp
qed

lemma sample_bindings:
  "validate_artifact_bindings sample_dir sample_next sample_artifacts = Inr ()"
proof -
  have b: "bindings_of sample_next = Inr [(''creation.intent.json'', sample_digest), (''config.json'', sample_digest),
      (''plans/1.json'', sample_digest)]" by code_simp
  show ?thesis
    by (simp add: validate_artifact_bindings_def b sample_artifacts_def artifact_ref_of_def sample_paths sample_body_digest
       sha256_bound_artifact_def read_artifact_def read_regular_def sample_dir_def dir_of_def chk_def)
qed

lemma sample_next_state: "next_state sample_dir 0 sample_artifacts sample_mutate = Inr sample_next"
proof -
  let ?c = "canon minimal_state"
  let ?ref = "\<lparr>ar_path = ''plans/1.json'', ar_sha256 = sample_digest\<rparr>"
  let ?i = "foldr_r index_artifact (?c, index_of ?c) [?ref]"
  have rev: "sub ?c ''revision'' = JInt 0" by code_simp
  have refs: "artifact_references sample_artifacts = Inr [(''plans/1.json'', ?ref)]"
    by (simp add: artifact_references_def sample_artifacts_def artifact_ref_of_def sample_paths sample_body_digest)
  have rest: "bnd (history_prefixes ?c) (\<lambda>previous_histories.
     bnd ?i (\<lambda>indexed.
     let expected_index = sub (fst indexed) ''artifact_index'' in
     bnd (sample_mutate (fst indexed) [(''plans/1.json'', ?ref)]) (\<lambda>updated.
     bnd (require_index_prefix updated expected_index) (\<lambda>_.
     bnd (require_history_prefixes updated previous_histories) (\<lambda>_.
     bnd (require_legacy_import (sub ?c ''legacy_import'') updated) (\<lambda>_.
     validate_run_state (put updated ''revision'' (JInt (0 + 1)))))))))= Inr sample_next"
    by code_simp
  then show ?thesis
    unfolding next_state_def sample_load Let_def
    by (auto simp: rev refs chk_state_def bnd_eq_Inr sample_bindings)
qed

lemma sample_transact:
  "\<exists>st'. transact 0 sample_artifacts sample_mutate sample_dir = (Inr sample_next, st')"
proof -
  have "ok (canonical_json_bytes sample_next)" by code_simp
  moreover have "\<exists>st1. write_artifacts sample_artifacts sample_dir = (Inr (), st1)"
    by (simp add: sample_artifacts_def write_immutable_def publish_immutable_def sbnd_def slift_def artifact_ref_of_def sample_paths sample_dir_def dir_of_def)
  moreover have "rd_locked sample_dir" by (simp add: sample_dir_def dir_of_def)
  ultimately show ?thesis
    by (auto simp: transact_def sbnd_def require_lock_def sample_next_state replace_state_def replace_mutable_def slift_def ok_iff)
qed

section \<open>Witnesses\<close>

theorem transact_atomic_witness:
  "\<exists>st'. transact 0 sample_artifacts sample_mutate sample_dir = (Inr sample_next, st')
     \<and> grows sample_dir st' \<and> valid sample_next \<and> all_bound st' sample_next"
proof -
  from sample_transact obtain st' where t: "transact 0 sample_artifacts sample_mutate sample_dir = (Inr sample_next, st')" ..
  from transact_atomic [OF t] t show ?thesis by auto
qed

theorem transact_append_only_witness:
  "\<exists>old new. history_at (canon minimal_state) [''plans''] = Inr old \<and> history_at sample_next [''plans''] = Inr new
     \<and> py_eq_list (take (length old) new) old"
proof -
  from sample_transact obtain st' where t: "transact 0 sample_artifacts sample_mutate sample_dir = (Inr sample_next, st')" ..
  show ?thesis by (rule transact_append_only [OF t sample_load]) (simp add: history_paths_def)
qed

theorem transact_crash_recovery_witness:
  "\<exists>st2. transact 0 sample_artifacts sample_mutate (snd (write_artifacts sample_artifacts sample_dir)) = (Inr sample_next, st2)
     \<and> load (snd (write_artifacts sample_artifacts sample_dir)) = load sample_dir"
proof -
  from sample_transact obtain st2 where t: "transact 0 sample_artifacts sample_mutate sample_dir = (Inr sample_next, st2)" ..
  from transact_crash_recovery [OF t, of sample_artifacts "[]"] show ?thesis by auto
qed

end
