(* ===== verification/GitRunner.thy ===== *)
theory GitRunner
  imports PyTime Models JsonText
begin

text \<open>
  \<^verbatim>\<open>git_runner.py\<close>: the only place that starts Git.  Git itself and the file system are outside the
  repository, so they are the fields of a record of functions over an abstract host state
  \<open>'g\<close>; everything \<^verbatim>\<open>GitRunner\<close> decides before and after the call is modelled.
\<close>

section \<open>The host\<close>

text \<open>\<open>h_git args env g\<close> runs the Git binary with the arguments and the environment: its exit code, its
  standard output and the host afterwards.  The other fields are the calls of \<^verbatim>\<open>pathlib\<close> and \<^verbatim>\<open>os\<close> that
  the callers make: \<open>h_read\<close> and \<open>h_lstat\<close> (the mode of a file) give \<^term>\<open>Inr None\<close> for
  \<^verbatim>\<open>FileNotFoundError\<close> and \<^term>\<open>Inl OSError\<close> for another failure, \<open>h_nonempty\<close> is
  \<^verbatim>\<open>any(path.iterdir())\<close>, and \<open>h_repr\<close> is Python's text for a list or a dictionary.\<close>

record 'g host =
  repository_root :: string
  h_git :: "string list \<Rightarrow> (string, string) dict \<Rightarrow> 'g \<Rightarrow> (int \<times> string) \<times> 'g"
  h_resolve :: "'g \<Rightarrow> string \<Rightarrow> string"
  h_exists :: "'g \<Rightarrow> string \<Rightarrow> bool"
  h_is_dir :: "'g \<Rightarrow> string \<Rightarrow> bool"
  h_is_symlink :: "'g \<Rightarrow> string \<Rightarrow> bool"
  h_mkdir :: "string \<Rightarrow> ('g, unit) eff"
  h_makedirs :: "string \<Rightarrow> ('g, unit) eff"
  h_unlink :: "string \<Rightarrow> ('g, unit) eff"
  h_read :: "'g \<Rightarrow> string \<Rightarrow> string option result"
  h_lstat :: "'g \<Rightarrow> string \<Rightarrow> int option result"
  h_readlink :: "'g \<Rightarrow> string \<Rightarrow> string result"
  h_nonempty :: "'g \<Rightarrow> string \<Rightarrow> bool result"
  h_repr :: "json \<Rightarrow> string"

section \<open>Text\<close>

text \<open>\<^verbatim>\<open>str.strip\<close>, \<^verbatim>\<open>str.split\<close> without arguments, \<^verbatim>\<open>str.lower\<close> as far as a comparison with ASCII
  text can tell, and \<^verbatim>\<open>bytes.partition\<close>.\<close>

function chars_of :: "string \<Rightarrow> string list" where
  "chars_of [] = []"
| "chars_of (c # cs) = (c # take (char_width c - 1) cs) # chars_of (drop (char_width c - 1) cs)"
  by pat_completeness auto
termination by (relation "measure length") auto

definition space_char :: "string \<Rightarrow> bool" where
  "space_char c = list_all py_space (codepoints c)"

definition strip_text :: "string \<Rightarrow> string" where
  "strip_text s = concat (rev (dropWhile space_char (rev (dropWhile space_char (chars_of s)))))"

fun words_from :: "string \<Rightarrow> string list \<Rightarrow> string list" where
  "words_from word [] = (if word = [] then [] else [word])"
| "words_from word (c # cs) =
     (if space_char c then (if word = [] then [] else [word]) @ words_from [] cs
      else words_from (word @ c) cs)"

definition words_of :: "string \<Rightarrow> string list" where
  "words_of s = words_from [] (chars_of s)"

definition lower_char :: "char \<Rightarrow> char" where
  "lower_char c = (if is_upper c then char_of (of_char c + (32::nat)) else c)"

definition lower_text :: "string \<Rightarrow> string" where
  "lower_text s = map lower_char s"

definition partition_at :: "char \<Rightarrow> string \<Rightarrow> string \<times> string" where
  "partition_at c s = (takeWhile (\<lambda>x. x \<noteq> c) s, tl (dropWhile (\<lambda>x. x \<noteq> c) s))"

definition rsplit_dot :: "string \<Rightarrow> string" where
  "rsplit_dot s = last (split_on (CHR ''.'') s)"

definition NUL :: char where
  "NUL = CHR 0x00"

text \<open>\<^verbatim>\<open>path / part\<close>, the paths on the way down from a directory, and \<^verbatim>\<open>path.relative_to(root)\<close>.\<close>

definition path_join :: "string \<Rightarrow> string \<Rightarrow> string" where
  "path_join base part =
     (if is_absolute part then part else if endswith base ''/'' then base @ part else base @ ''/'' @ part)"

fun path_steps :: "string \<Rightarrow> string list \<Rightarrow> string list" where
  "path_steps current [] = []"
| "path_steps current (part # parts) = path_join current part # path_steps (path_join current part) parts"

definition path_below :: "string \<Rightarrow> string \<Rightarrow> bool" where
  "path_below path root = prefix (posix_parts root) (posix_parts path)"

definition relative_parts :: "string \<Rightarrow> string \<Rightarrow> string list" where
  "relative_parts path root = drop (length (posix_parts root)) (posix_parts path)"

section \<open>The commands\<close>

definition REMOTE_COMMANDS :: "string list" where
  "REMOTE_COMMANDS =
     [''clone'', ''fetch'', ''ls-remote'', ''pull'', ''push'', ''send-email'', ''submodule--helper'']"

definition LOCAL_COMMANDS :: "string list" where
  "LOCAL_COMMANDS =
     [''add'', ''cat-file'', ''check-ignore'', ''cherry-pick'', ''commit-tree'', ''config'', ''diff'',
      ''for-each-ref'', ''hash-object'', ''ls-files'', ''ls-tree'', ''merge-base'', ''read-tree'', ''remote'',
      ''rev-list'', ''rev-parse'', ''show'', ''show-ref'', ''status'', ''symbolic-ref'', ''update-ref'',
      ''worktree'', ''write-tree'']"

definition INDEX_COMMANDS :: "string list" where
  "INDEX_COMMANDS = [''add'', ''diff'', ''ls-files'', ''read-tree'', ''write-tree'']"

definition FIXED_PREFIX :: "string list" where
  "FIXED_PREFIX =
     [''--no-pager'', ''-c'', ''core.hooksPath=/dev/null'', ''-c'', ''core.fsmonitor=false'',
      ''-c'', ''commit.gpgSign=false'', ''-c'', ''tag.gpgSign=false'', ''-c'', ''credential.helper='',
      ''-c'', ''user.name=Vibe Controller'', ''-c'', ''user.email=vibe-controller@localhost'']"

definition git_environment :: "(string, string) dict" where
  "git_environment =
     [(''PATH'', ''/bin:/usr/bin''), (''HOME'', ''/nonexistent''), (''LANG'', ''C''), (''LC_ALL'', ''C''),
      (''GIT_CONFIG_NOSYSTEM'', ''1''), (''GIT_CONFIG_GLOBAL'', ''/dev/null''), (''GIT_TERMINAL_PROMPT'', ''0''),
      (''GIT_ASKPASS'', ''/bin/false''), (''GIT_PAGER'', ''cat'')]"

record git_internal_options =
  index_file :: "string option"
  commit_timestamp :: "string option"

definition no_internal :: git_internal_options where
  "no_internal = \<lparr>index_file = None, commit_timestamp = None\<rparr>"

definition index_root :: "'g host \<Rightarrow> string" where
  "index_root h = repository_root h @ ''/.vibe-coding/tmp/indexes''"

definition validate_index_file :: "'g host \<Rightarrow> 'g \<Rightarrow> string \<Rightarrow> string result" where
  "validate_index_file h g candidate =
     bnd (chk (path_below candidate (index_root h))) (\<lambda>_.
     bnd (forr (\<lambda>current. chk (\<not> h_is_symlink h g current))
            (path_steps (repository_root h) (butlast (relative_parts candidate (repository_root h))))) (\<lambda>_.
     Inr candidate))"

definition validate_local_shape :: "string \<Rightarrow> string list \<Rightarrow> unit result" where
  "validate_local_shape command arguments =
     (if command = ''remote'' then
        chk (arguments = [] \<or> arguments = [''-v'']
             \<or> take 1 arguments = [''get-url''] \<and> (length arguments = 2 \<or> length arguments = 3))
      else if command = ''config'' then
        chk (arguments = [''--local'', ''--null'', ''--list'']
             \<or> arguments = [''--local'', ''--null'', ''--get-regexp'', ''^remote'' @ [CHR 0x5C] @ ''..*'' @ [CHR 0x5C] @ ''.url$''])
      else if command = ''worktree'' then
        chk (take 1 arguments \<in> {[''add''], [''list''], [''remove''], [''prune'']})
      else Inr ())"

definition commit_identity :: "string \<Rightarrow> (string, string) dict" where
  "commit_identity timestamp =
     [(''GIT_AUTHOR_NAME'', ''Vibe Controller''), (''GIT_AUTHOR_EMAIL'', ''vibe-controller@localhost''),
      (''GIT_AUTHOR_DATE'', timestamp), (''GIT_COMMITTER_NAME'', ''Vibe Controller''),
      (''GIT_COMMITTER_EMAIL'', ''vibe-controller@localhost''), (''GIT_COMMITTER_DATE'', timestamp)]"

definition dict_update :: "('k, 'v) dict \<Rightarrow> ('k, 'v) dict \<Rightarrow> ('k, 'v) dict" where
  "dict_update d e = foldl (\<lambda>d (k, v). AList.update k v d) d e"

definition apply_internal_options ::
  "'g host \<Rightarrow> 'g \<Rightarrow> string \<Rightarrow> git_internal_options \<Rightarrow> (string, string) dict \<Rightarrow> (string, string) dict result" where
  "apply_internal_options h g command internal environment =
     bnd (case index_file internal of
            None \<Rightarrow> Inr environment
          | Some f \<Rightarrow>
              bnd (chk (command \<in> set INDEX_COMMANDS)) (\<lambda>_.
              bnd (validate_index_file h g f) (\<lambda>f'.
              Inr (AList.update ''GIT_INDEX_FILE'' f' environment)))) (\<lambda>environment.
     case commit_timestamp internal of
       Some timestamp \<Rightarrow>
         bnd (chk (command = ''commit-tree'')) (\<lambda>_.
         bnd (chk (is_aware timestamp)) (\<lambda>_.
         Inr (dict_update environment (commit_identity timestamp))))
     | None \<Rightarrow> if command = ''commit-tree'' then Inl ContractError else Inr environment)"

definition run_local ::
  "'g host \<Rightarrow> string \<Rightarrow> string list \<Rightarrow> git_internal_options \<Rightarrow> ('g, string) eff" where
  "run_local h cwd argv internal =
     sbnd (slift (chk (argv \<noteq> []))) (\<lambda>_.
     let command = hd argv in
     sbnd (slift (chk (\<not> (startswith command ''-'' \<or> command = ''-c'' \<or> ''-c'' \<in> set argv)))) (\<lambda>_.
     sbnd (slift (chk (command \<notin> set REMOTE_COMMANDS))) (\<lambda>_.
     sbnd (slift (chk (command \<in> set LOCAL_COMMANDS))) (\<lambda>_.
     sbnd (slift (validate_local_shape command (tl argv))) (\<lambda>_.
     sbnd (sget (\<lambda>g. apply_internal_options h g command internal git_environment)) (\<lambda>environment g.
       case h_git h (FIXED_PREFIX @ [''-C'', h_resolve h g cwd] @ argv) environment g of
         ((returncode, stdout), g') \<Rightarrow>
           if returncode \<noteq> 0 then (Inl ContractError, g') else (Inr stdout, g')))))))"

text \<open>The entries of \<^verbatim>\<open>git config --list\<close> that would make Git start a program.\<close>

definition forbidden_config :: "string \<Rightarrow> bool" where
  "forbidden_config entry =
     (let key = lower_text (fst (partition_at NEWLINE entry));
          v = strip_text (snd (partition_at NEWLINE entry)) in
      if startswith key ''alias.'' \<or> startswith key ''include.'' \<or> startswith key ''includeif.'' then True
      else if startswith key ''filter.'' \<and> rsplit_dot key \<in> {''clean'', ''smudge'', ''process''} then True
      else if startswith key ''merge.'' \<and> endswith key ''.driver'' then True
      else if startswith key ''diff.'' \<and> rsplit_dot key \<in> {''command'', ''textconv''} then True
      else key = ''core.fsmonitor'' \<and> lower_text v \<notin> {[], ''false'', ''no'', ''0''})"

definition assert_no_executable_integrations :: "'g host \<Rightarrow> string \<Rightarrow> ('g, unit) eff" where
  "assert_no_executable_integrations h cwd =
     sbnd (run_local h cwd [''config'', ''--local'', ''--null'', ''--list''] no_internal) (\<lambda>stdout.
     slift (chk (filter forbidden_config (filter (\<lambda>entry. entry \<noteq> []) (split_on NUL stdout)) = [])))"

section \<open>Confinement\<close>

text \<open>What may reach Git: a local command behind the fixed options, with the closed environment.\<close>

definition confined_call :: "string list \<Rightarrow> (string, string) dict \<Rightarrow> bool" where
  "confined_call args env \<longleftrightarrow>
     (\<exists>cwd command arguments. args = FIXED_PREFIX @ [''-C'', cwd] @ command # arguments
        \<and> command \<in> set LOCAL_COMMANDS \<and> ''-c'' \<notin> set arguments
        \<and> validate_local_shape command arguments = Inr ())
     \<and> (\<forall>k v. map_of git_environment k = Some v \<longrightarrow> map_of env k = Some v)
     \<and> set (keys_of env) \<subseteq> set (keys_of git_environment) \<union> {''GIT_INDEX_FILE''} \<union> set (keys_of (commit_identity []))"

lemma dict_update_simps [simp]:
  "dict_update d [] = d" "dict_update d ((k, v) # e) = dict_update (AList.update k v d) e"
  by (simp_all add: dict_update_def)

lemma keys_dict_update: "set (keys_of (dict_update d e)) = set (keys_of d) \<union> set (keys_of e)"
  by (induction e arbitrary: d) auto

lemma map_of_dict_update: "k \<notin> set (keys_of e) \<Longrightarrow> map_of (dict_update d e) k = map_of d k"
  by (induction e arbitrary: d) auto

lemma commit_identity_keys:
  "keys_of (commit_identity t) =
     [''GIT_AUTHOR_NAME'', ''GIT_AUTHOR_EMAIL'', ''GIT_AUTHOR_DATE'', ''GIT_COMMITTER_NAME'',
      ''GIT_COMMITTER_EMAIL'', ''GIT_COMMITTER_DATE'']"
  by (simp add: commit_identity_def)

lemma environment_disjoint:
  "map_of git_environment k = Some v \<Longrightarrow> k \<notin> set (keys_of (commit_identity t)) \<and> k \<noteq> ''GIT_INDEX_FILE''"
  by (auto simp: git_environment_def commit_identity_def split: if_splits)

lemma apply_internal_environment:
  assumes "apply_internal_options h g command internal git_environment = Inr env"
  shows "(\<forall>k v. map_of git_environment k = Some v \<longrightarrow> map_of env k = Some v)
     \<and> set (keys_of env) \<subseteq> set (keys_of git_environment) \<union> {''GIT_INDEX_FILE''} \<union> set (keys_of (commit_identity []))"
proof -
  from assms obtain mid where mid: "mid = git_environment \<or> (\<exists>f. mid = AList.update ''GIT_INDEX_FILE'' f git_environment)"
    and env: "env = mid \<or> (\<exists>t. env = dict_update mid (commit_identity t))"
    by (auto simp: apply_internal_options_def bnd_eq_Inr split: option.splits if_splits) blast
  have "map_of env k = Some v" if "map_of git_environment k = Some v" for k v
    using mid env that environment_disjoint [OF that] by (auto simp: map_of_dict_update)
  moreover have "set (keys_of env) \<subseteq> set (keys_of git_environment) \<union> {''GIT_INDEX_FILE''} \<union> set (keys_of (commit_identity []))"
    using mid env by (auto simp: keys_dict_update commit_identity_keys)
  ultimately show ?thesis by blast
qed

lemma run_local_cases:
  assumes "run_local h cwd argv internal g = (r, g')"
  obtains (refused) "g' = g" "r = Inl ContractError"
  | (called) env code out where "confined_call (FIXED_PREFIX @ [''-C'', h_resolve h g cwd] @ argv) env"
      "h_git h (FIXED_PREFIX @ [''-C'', h_resolve h g cwd] @ argv) env g = ((code, out), g')"
      "r = (if code \<noteq> 0 then Inl ContractError else Inr out)"
      "apply_internal_options h g (hd argv) internal git_environment = Inr env"
proof (cases "\<exists>env. argv \<noteq> [] \<and> ''-c'' \<notin> set argv \<and> hd argv \<in> set LOCAL_COMMANDS
    \<and> \<not> startswith (hd argv) ''-'' \<and> hd argv \<notin> set REMOTE_COMMANDS
    \<and> validate_local_shape (hd argv) (tl argv) = Inr ()
    \<and> apply_internal_options h g (hd argv) internal git_environment = Inr env")
  case True
  then obtain env command arguments where c: "argv = command # arguments" "''-c'' \<notin> set argv"
    "command \<in> set LOCAL_COMMANDS" "\<not> startswith command ''-''" "command \<notin> set REMOTE_COMMANDS"
    "validate_local_shape command arguments = Inr ()"
    "apply_internal_options h g command internal git_environment = Inr env"
    by (cases argv) auto
  obtain code out g1 where g1: "h_git h (FIXED_PREFIX @ [''-C'', h_resolve h g cwd] @ argv) env g = ((code, out), g1)"
    by (metis prod.collapse)
  have "confined_call (FIXED_PREFIX @ [''-C'', h_resolve h g cwd] @ argv) env"
    using c(1-3,6) apply_internal_environment [OF c(7)] unfolding confined_call_def by (intro conjI exI) auto
  moreover have "(r, g') = (if code \<noteq> 0 then Inl ContractError else Inr out, g1)"
    using assms c g1 by (auto simp: run_local_def sbnd_def slift_def sget_def Let_def split: if_splits)
  ultimately show thesis using g1 c by (intro called) auto
next
  case False
  have "apply_internal_options h g c internal e = Inl x \<Longrightarrow> x = ContractError" for c e x
    by (auto simp: apply_internal_options_def validate_index_file_def bnd_eq_Inl bnd_eq_Inr split: option.splits if_splits
        dest: forr_eq_Inl)
  moreover have "validate_local_shape c a = Inl x \<Longrightarrow> x = ContractError" for c a x
    by (auto simp: validate_local_shape_def split: if_splits)
  ultimately show thesis using assms False
    by (auto simp: run_local_def sbnd_eq Let_def intro!: refused)
qed

text \<open>A property of the host that confined calls and changes of the directory tree keep.\<close>

definition confined :: "'g host \<Rightarrow> ('g \<Rightarrow> bool) \<Rightarrow> bool" where
  "confined h I \<longleftrightarrow>
     (\<forall>args env g. confined_call args env \<longrightarrow> I g \<longrightarrow> I (snd (h_git h args env g)))
     \<and> (\<forall>path. keeps I (h_mkdir h path) \<and> keeps I (h_makedirs h path) \<and> keeps I (h_unlink h path))"

lemma keeps_run_local [keeps_intros]: "confined h I \<Longrightarrow> keeps I (run_local h cwd argv internal)"
  unfolding keeps_def
proof (intro allI impI)
  fix g assume "confined h I" "I g"
  obtain r g' where run: "run_local h cwd argv internal g = (r, g')" by force
  then have "I g'"
  proof (cases rule: run_local_cases)
    case (called env code out)
    with \<open>I g\<close> \<open>confined h I\<close> show ?thesis unfolding confined_def by (metis snd_conv)
  qed (simp add: \<open>I g\<close>)
  with run show "I (snd (run_local h cwd argv internal g))" by simp
qed

lemma keeps_directories [keeps_intros]:
  assumes "confined h I"
  shows "keeps I (h_mkdir h path)" "keeps I (h_makedirs h path)" "keeps I (h_unlink h path)"
  using assms by (simp_all add: confined_def)

end
