(* ===== verification/Fingerprint.thy ===== *)
theory Fingerprint
  imports GitRunner Digest
begin

text \<open>
  The first part of \<^verbatim>\<open>worktrees.py\<close>: reading Git's answers and the fingerprint of a repository, a
  digest over length-prefixed parts that covers the status, both diffs, the untracked and tracked
  files and, recursively, the submodules.
\<close>

section \<open>Reading Git's answers\<close>

definition git_bytes :: "'g host \<Rightarrow> string \<Rightarrow> string list \<Rightarrow> git_internal_options \<Rightarrow> ('g, string) eff" where
  "git_bytes h target arguments internal = run_local h target arguments internal"

definition git_text :: "'g host \<Rightarrow> string \<Rightarrow> string list \<Rightarrow> git_internal_options \<Rightarrow> ('g, string) eff" where
  "git_text h target arguments internal =
     sbnd (git_bytes h target arguments internal) (\<lambda>stdout.
     slift (if utf8_valid stdout then Inr (strip_text stdout) else Inl ValueError))"

definition revision :: "'g host \<Rightarrow> string \<Rightarrow> ('g, string) eff" where
  "revision h target =
     sbnd (git_text h target [''rev-parse'', ''HEAD''] no_internal) (\<lambda>r.
     sbnd (slift (chk (OID_RE r))) (\<lambda>_. slift (Inr r)))"

definition resolve_revision :: "'g host \<Rightarrow> string \<Rightarrow> string \<Rightarrow> ('g, string) eff" where
  "resolve_revision h target rev_name =
     sbnd (git_text h target [''rev-parse'', ''--verify'', rev_name @ ''^{commit}''] no_internal) (\<lambda>resolved.
     sbnd (slift (chk (OID_RE resolved))) (\<lambda>_. slift (Inr resolved)))"

definition PRODUCT_PATHSPEC :: "string list" where
  "PRODUCT_PATHSPEC = [''--'', ''.'', '':(exclude).vibe-coding'', '':(exclude).vibe-coding/**'']"

text \<open>\<^verbatim>\<open>os.fsdecode\<close>: bytes that are not UTF-8 become lone surrogates; \<^verbatim>\<open>str.encode("utf-8")\<close> refuses
  them.\<close>

function fsdecode :: "string \<Rightarrow> string" where
  "fsdecode [] = []"
| "fsdecode (c # cs) =
     (let n = char_width c in
      if length (c # cs) \<ge> n \<and> utf8_valid (take n (c # cs)) then c # take (n - 1) cs @ fsdecode (drop (n - 1) cs)
      else utf8_encode (0xDC00 + byte c) @ fsdecode cs)"
  by pat_completeness auto
termination by (relation "measure length") auto

definition encode_utf8 :: "string \<Rightarrow> string result" where
  "encode_utf8 s = (if has_surrogate s then Inl ValueError else Inr s)"

text \<open>\<^verbatim>\<open>bytes.split()\<close>.\<close>

definition byte_words :: "string \<Rightarrow> string list" where
  "byte_words s = words_from [] (map (\<lambda>c. if byte c \<in> {9, 10, 11, 12, 13, 32} then '' '' else [c]) s)"

section \<open>Fingerprints\<close>

definition big_endian :: "nat \<Rightarrow> nat \<Rightarrow> string" where
  "big_endian n x = map (\<lambda>i. char_of (x div 256 ^ i mod 256)) (rev [0..<n])"

definition hash_part :: "string \<Rightarrow> string \<Rightarrow> string" where
  "hash_part label v = big_endian 4 (length label) @ label @ big_endian 8 (length v) @ v"

text \<open>\<^verbatim>\<open>digest.digest()\<close> after a sequence of \<^verbatim>\<open>_hash_part\<close> calls.\<close>

fun unhex :: "string \<Rightarrow> string" where
  "unhex (a # b # r) =
     (case (hex_val a, hex_val b) of (Some x, Some y) \<Rightarrow> char_of (16 * x + y) # unhex r | _ \<Rightarrow> [])"
| "unhex _ = []"

definition hash_stream :: "(string \<times> string) list \<Rightarrow> string" where
  "hash_stream parts = concat (map (\<lambda>(label, v). hash_part label v) parts)"

definition hash_parts :: "(string \<times> string) list \<Rightarrow> string" where
  "hash_parts parts = unhex (sha256 (hash_stream parts))"

fun oct_digits :: "nat \<Rightarrow> nat \<Rightarrow> string" where
  "oct_digits 0 n = []"
| "oct_digits (Suc fuel) n = (if n < 8 then [dec_char n] else oct_digits fuel (n div 8) @ [dec_char (n mod 8)])"

definition oct_text :: "int \<Rightarrow> string" where
  "oct_text m = oct_digits (Suc (nat m)) (nat m)"

definition S_IFMT :: "int \<Rightarrow> int" where
  "S_IFMT m = m div 4096 mod 16 * 4096"

definition S_IMODE :: "int \<Rightarrow> int" where
  "S_IMODE m = m mod 4096"

definition execute_bits :: "int \<Rightarrow> int" where
  "execute_bits m = m mod 2 + m div 8 mod 2 * 8 + m div 64 mod 2 * 64"

definition S_ISLNK :: "int \<Rightarrow> bool" where
  "S_ISLNK m = (S_IFMT m = 40960)"

definition S_ISREG :: "int \<Rightarrow> bool" where
  "S_ISREG m = (S_IFMT m = 32768)"

definition S_ISDIR :: "int \<Rightarrow> bool" where
  "S_ISDIR m = (S_IFMT m = 16384)"

definition read_bytes :: "'g host \<Rightarrow> 'g \<Rightarrow> string \<Rightarrow> string result" where
  "read_bytes h g path = (case h_read h g path of Inr (Some body) \<Rightarrow> Inr body | _ \<Rightarrow> Inl ContractError)"

definition untracked_parts :: "'g host \<Rightarrow> 'g \<Rightarrow> string \<Rightarrow> string \<Rightarrow> (string \<times> string) list result" where
  "untracked_parts h g target raw_path =
     (let path = path_join target (fsdecode raw_path) in
      bnd (case h_lstat h g path of Inr (Some m) \<Rightarrow> Inr m | _ \<Rightarrow> Inl ContractError) (\<lambda>m.
      let mode = oct_text (S_IFMT m) @ '':'' @ oct_text (execute_bits m) in
      bnd (if S_ISLNK m then bnd (h_readlink h g path) (\<lambda>content. Inr (content, ''symlink''))
           else if S_ISREG m then bnd (read_bytes h g path) (\<lambda>content. Inr (content, ''file''))
           else Inr ([], ''special'')) (\<lambda>(content, kind).
      Inr [(''path'', raw_path), (''kind'', kind), (''mode'', mode), (''content'', content)])))"

definition untracked_fingerprint_stream :: "'g host \<Rightarrow> string \<Rightarrow> ('g, string) eff" where
  "untracked_fingerprint_stream h target =
     sbnd (git_bytes h target
       ([''ls-files'', ''--others'', ''--exclude-standard'', ''-z''] @ PRODUCT_PATHSPEC) no_internal) (\<lambda>output.
     let paths = sort (filter (\<lambda>p. p \<noteq> []) (split_on NUL output)) in
     sbnd (sget (\<lambda>g. mapr (untracked_parts h g target) paths)) (\<lambda>parts.
     slift (Inr (hash_parts (concat parts)))))"

text \<open>\<open>modes\<close>: the modes of each path of the index.\<close>

definition note_mode :: "(string, string list) dict \<Rightarrow> string \<Rightarrow> (string, string list) dict" where
  "note_mode modes entry =
     (let header = fst (partition_at (CHR 0x09) entry); raw_path = snd (partition_at (CHR 0x09) entry);
          fields = byte_words header in
      if CHR 0x09 \<in> set entry \<and> length fields = 3 then
        AList.update raw_path (List.insert (hd fields) (case map_of modes raw_path of None \<Rightarrow> [] | Some ms \<Rightarrow> ms)) modes
      else modes)"

definition modes_of_output :: "string \<Rightarrow> (string, string list) dict" where
  "modes_of_output output = foldl note_mode [] (filter (\<lambda>e. e \<noteq> []) (split_on NUL output))"

definition index_modes :: "'g host \<Rightarrow> string \<Rightarrow> ('g, (string, string list) dict) eff" where
  "index_modes h target =
     sbnd (git_bytes h target ([''ls-files'', ''--stage'', ''-z''] @ PRODUCT_PATHSPEC) no_internal) (\<lambda>output.
     slift (Inr (modes_of_output output)))"

definition is_gitlink :: "(string, string list) dict \<Rightarrow> string \<Rightarrow> bool" where
  "is_gitlink modes raw_path =
     (case map_of modes raw_path of None \<Rightarrow> False | Some ms \<Rightarrow> ''160000'' \<in> set ms)"

definition tracked_parts :: "'g host \<Rightarrow> 'g \<Rightarrow> string \<Rightarrow> string \<Rightarrow> (string \<times> string) list result" where
  "tracked_parts h g target raw_path =
     (let path = path_join target (fsdecode raw_path) in
      case h_lstat h g path of
        Inl e \<Rightarrow> Inl ContractError
      | Inr None \<Rightarrow> Inr [(''path'', raw_path), (''state'', ''absent'')]
      | Inr (Some m) \<Rightarrow>
          let mode = oct_text (S_IFMT m) @ '':'' @ oct_text (S_IMODE m) in
          bnd (if S_ISLNK m then bnd (h_readlink h g path) (\<lambda>content. Inr (content, ''symlink''))
               else if S_ISREG m then bnd (read_bytes h g path) (\<lambda>content. Inr (content, ''file''))
               else Inr ([], if S_ISDIR m then ''directory'' else ''special'')) (\<lambda>(content, kind).
          Inr [(''path'', raw_path), (''state'', ''present''), (''kind'', kind), (''mode'', mode), (''content'', content)]))"

definition tracked_worktree_fingerprint_stream ::
  "'g host \<Rightarrow> 'g \<Rightarrow> string \<Rightarrow> (string, string list) dict \<Rightarrow> string result" where
  "tracked_worktree_fingerprint_stream h g target modes =
     bnd (mapr (tracked_parts h g target)
            (filter (\<lambda>p. \<not> is_gitlink modes p) (sort (keys_of modes)))) (\<lambda>parts.
     Inr (hash_parts (concat parts)))"

record repo_snapshot =
  rs_revision :: string
  rs_workspace_fingerprint :: string

definition snapshot_as_dict :: "repo_snapshot \<Rightarrow> json" where
  "snapshot_as_dict s =
     JObj [(''revision'', JStr (rs_revision s)), (''workspace_fingerprint'', JStr (rs_workspace_fingerprint s))]"

text \<open>One submodule; \<open>nested\<close> takes the snapshot of its worktree.\<close>

definition submodule_parts ::
  "('g, repo_snapshot) eff \<Rightarrow> 'g host \<Rightarrow> string \<Rightarrow> string \<Rightarrow> ('g, (string \<times> string) list) eff" where
  "submodule_parts nested h path raw_path =
     sbnd (sget (\<lambda>g. chk (\<not> h_is_symlink h g path))) (\<lambda>_.
     sbnd (sget (\<lambda>g. Inr (h_exists h g path))) (\<lambda>exists.
     if \<not> exists then slift (Inr [(''path'', raw_path), (''state'', ''absent'')])
     else
       sbnd (sget (\<lambda>g. chk (h_is_dir h g path))) (\<lambda>_.
       sbnd (stry (sbnd (git_text h path [''rev-parse'', ''--show-toplevel''] no_internal) (\<lambda>top.
                   sget (\<lambda>g. Inr (Some (h_resolve h g top))))) (slift (Inr None))) (\<lambda>root.
       sbnd (sget (\<lambda>g. Inr (h_resolve h g path))) (\<lambda>resolved_path.
       if root \<noteq> Some resolved_path then
         sbnd (sget (\<lambda>g. case h_nonempty h g path of Inl e \<Rightarrow> Inl ContractError | Inr b \<Rightarrow> chk (\<not> b))) (\<lambda>_.
         slift (Inr [(''path'', raw_path), (''state'', ''uninitialized'')]))
       else
         sbnd nested (\<lambda>s.
         slift (Inr [(''path'', raw_path), (''state'', ''initialized''), (''revision'', rs_revision s),
                     (''workspace-fingerprint'', rs_workspace_fingerprint s)])))))))"

text \<open>\<open>depth\<close> stands for the recursion limit of the interpreter.\<close>

fun repository_snapshot :: "nat \<Rightarrow> 'g host \<Rightarrow> string \<Rightarrow> string list \<Rightarrow> ('g, repo_snapshot) eff" where
  "repository_snapshot 0 h target ancestry = slift (Inl RecursionError)"
| "repository_snapshot (Suc depth) h target0 ancestry =
     sbnd (sget (\<lambda>g. Inr (h_resolve h g target0))) (\<lambda>target.
     sbnd (slift (chk (target \<notin> set ancestry))) (\<lambda>_.
     sbnd (git_bytes h target ([''status'', ''--porcelain=v2'', ''-z'', ''--untracked-files=all'',
       ''--ignore-submodules=none''] @ PRODUCT_PATHSPEC) no_internal) (\<lambda>status.
     sbnd (git_bytes h target ([''diff'', ''--cached'', ''--binary'', ''--no-ext-diff'', ''--no-textconv'',
       ''--no-color'', ''--ignore-submodules=none''] @ PRODUCT_PATHSPEC) no_internal) (\<lambda>staged.
     sbnd (git_bytes h target ([''diff'', ''--binary'', ''--no-ext-diff'', ''--no-textconv'',
       ''--no-color'', ''--ignore-submodules=none''] @ PRODUCT_PATHSPEC) no_internal) (\<lambda>unstaged.
     sbnd (untracked_fingerprint_stream h target) (\<lambda>untracked.
     sbnd (index_modes h target) (\<lambda>modes.
     sbnd (sget (\<lambda>g. tracked_worktree_fingerprint_stream h g target modes)) (\<lambda>tracked_worktree.
     sbnd (smap (\<lambda>raw_path.
             let path = path_join target (fsdecode raw_path) in
             submodule_parts (\<lambda>g. repository_snapshot depth h (h_resolve h g path) (target # ancestry) g) h path raw_path)
           (sort (filter (is_gitlink modes) (keys_of modes)))) (\<lambda>submodules.
     sbnd (revision h target) (\<lambda>r.
     slift (Inr \<lparr>rs_revision = r, rs_workspace_fingerprint = digest_of (hash_stream
       [(''status-v2'', status), (''staged-diff'', staged), (''unstaged-diff'', unstaged), (''untracked'', untracked),
        (''tracked-worktree'', tracked_worktree), (''submodules'', hash_parts (concat submodules))])\<rparr>)))))))))))"

definition canonical_repository_identity :: "'g host \<Rightarrow> string \<Rightarrow> ('g, string) eff" where
  "canonical_repository_identity h target0 =
     sbnd (sget (\<lambda>g. Inr (h_resolve h g target0))) (\<lambda>target.
     sbnd (git_text h target [''rev-parse'', ''--show-toplevel''] no_internal) (\<lambda>top.
     sbnd (sget (\<lambda>g. Inr (h_resolve h g top))) (\<lambda>root.
     sbnd (git_text h target [''rev-parse'', ''--path-format=absolute'', ''--git-common-dir''] no_internal) (\<lambda>dir.
     sbnd (sget (\<lambda>g. Inr (h_resolve h g dir))) (\<lambda>common.
     sbnd (slift (chk (\<not> has_surrogate root \<and> \<not> has_surrogate common))) (\<lambda>_.
     slift (Inr (digest_of (root @ [NUL] @ common)))))))))"

section \<open>Fingerprints determine their parts\<close>

lemma big_endian_length [simp]: "length (big_endian n x) = n"
  by (simp add: big_endian_def)

lemma big_endian_Suc: "big_endian (Suc n) x = char_of (x div 256 ^ n mod 256) # big_endian n x"
  by (simp add: big_endian_def)

lemma char_of_mod_eq: "(char_of (x mod 256) :: char) = char_of (y mod 256) \<Longrightarrow> x mod 256 = (y mod 256 :: nat)"
  by (metis mod_mod_trivial of_char_of)

lemma big_endian_inj: "x < 256 ^ n \<Longrightarrow> y < 256 ^ n \<Longrightarrow> big_endian n x = big_endian n y \<Longrightarrow> x = y"
proof (induction n arbitrary: x y)
  case (Suc n)
  have d: "x div 256 ^ n < 256" "y div 256 ^ n < 256"
    using Suc.prems(1,2) by (simp_all add: less_mult_imp_div_less)
  from Suc.prems(3) have q: "x div 256 ^ n mod 256 = y div 256 ^ n mod 256" "big_endian n x = big_endian n y"
    by (auto simp: big_endian_Suc dest: char_of_mod_eq)
  have low: "big_endian n (z mod 256 ^ n) = big_endian n z" for z
  proof -
    have "z mod 256 ^ n div 256 ^ i mod 256 = z div 256 ^ i mod (256::nat)" if "i < n" for i
    proof -
      from that have "256 ^ n = 256 ^ i * (256 ^ (n - i) :: nat)" by (simp flip: power_add)
      then have "z mod 256 ^ n div 256 ^ i = z div 256 ^ i mod 256 ^ (n - i)" by (simp add: mod_mult2_eq)
      moreover have "(256::nat) dvd 256 ^ (n - i)" using that by simp
      ultimately show ?thesis by (simp add: mod_mod_cancel)
    qed
    then show ?thesis by (simp add: big_endian_def)
  qed
  have "x mod 256 ^ n = y mod 256 ^ n"
    by (rule Suc.IH) (use q(2) low in simp_all)
  moreover from q(1) d have "x div 256 ^ n = y div 256 ^ n" by simp
  ultimately show ?case by (metis div_mult_mod_eq)
qed simp

definition part_fits :: "string \<times> string \<Rightarrow> bool" where
  "part_fits p \<longleftrightarrow> length (fst p) < 256 ^ 4 \<and> length (snd p) < 256 ^ 8"

lemma hash_part_inj:
  assumes "hash_part l v @ r = hash_part l' v' @ r'" and "part_fits (l, v)" and "part_fits (l', v')"
  shows "l = l' \<and> v = v' \<and> r = r'"
proof -
  from assms(1) have "big_endian 4 (length l) = big_endian 4 (length l')"
    and t: "l @ big_endian 8 (length v) @ v @ r = l' @ big_endian 8 (length v') @ v' @ r'"
    by (auto simp: hash_part_def append_eq_append_conv)
  with assms(2,3) have "length l = length l'" using big_endian_inj [of "length l" 4 "length l'"] by (simp add: part_fits_def)
  with t have l: "l = l'" and "big_endian 8 (length v) = big_endian 8 (length v')" and t2: "v @ r = v' @ r'"
    by (auto simp: append_eq_append_conv)
  with assms(2,3) have "length v = length v'" using big_endian_inj [of "length v" 8 "length v'"] by (simp add: part_fits_def)
  with t2 l show ?thesis by simp
qed

lemma hash_part_ne [simp]: "hash_part l v \<noteq> []"
  by (auto simp: hash_part_def big_endian_def)

lemma hash_stream_inj:
  "list_all part_fits ps \<Longrightarrow> list_all part_fits qs \<Longrightarrow> hash_stream ps = hash_stream qs \<Longrightarrow> ps = qs"
proof (induction ps arbitrary: qs)
  case Nil
  then show ?case by (cases qs) (auto simp: hash_stream_def split: prod.splits)
next
  case (Cons p ps)
  from Cons.prems obtain q qs' where qs: "qs = q # qs'"
    by (cases qs) (auto simp: hash_stream_def split: prod.splits)
  have e: "hash_part (fst p) (snd p) @ hash_stream ps = hash_part (fst q) (snd q) @ hash_stream qs'"
    using Cons.prems(3) qs by (auto simp: hash_stream_def split: prod.splits)
  have "fst p = fst q \<and> snd p = snd q \<and> hash_stream ps = hash_stream qs'"
    by (rule hash_part_inj [OF e]) (use Cons.prems qs in auto)
  with Cons qs show ?case by (auto intro: prod_eqI)
qed

text \<open>The workspace fingerprint hashes an unambiguous text: two sequences of labelled parts (of
  any length a file can have) that give the same bytes to the digest are the same sequence, so
  equal fingerprints mean the same status, diffs and files unless SHA-256 collides.\<close>

theorem hash_stream_injective:
  assumes "list_all part_fits ps" and "list_all part_fits qs"
  shows "hash_stream ps = hash_stream qs \<longleftrightarrow> ps = qs"
  using hash_stream_inj [OF assms] by auto

theorem hash_stream_injective_witness:
  "hash_stream [(''path'', ''ab''), (''kind'', ''file'')] \<noteq> hash_stream [(''path'', ''a''), (''bkind'', ''file'')]"
  using hash_stream_injective [of "[(''path'', ''ab''), (''kind'', ''file'')]" "[(''path'', ''a''), (''bkind'', ''file'')]"]
  by (simp add: part_fits_def)

section \<open>Confinement\<close>

lemma keeps_git [keeps_intros]:
  assumes "confined h I"
  shows "keeps I (git_bytes h target args internal)" "keeps I (git_text h target args internal)"
    "keeps I (revision h target)" "keeps I (resolve_revision h target r)"
  unfolding git_bytes_def git_text_def revision_def resolve_revision_def
  by (intro keeps_intros assms)+

lemma keeps_submodule_parts [keeps_intros]:
  "confined h I \<Longrightarrow> keeps I nested \<Longrightarrow> keeps I (submodule_parts nested h path raw)"
  unfolding submodule_parts_def by (auto intro!: keeps_intros)

lemma keeps_fun: "(\<And>g. keeps I (m g)) \<Longrightarrow> keeps I (\<lambda>g. m g g)"
  by (simp add: keeps_def)

lemma keeps_repository_snapshot [keeps_intros]:
  "confined h I \<Longrightarrow> keeps I (repository_snapshot depth h target ancestry)"
proof (induction depth arbitrary: target ancestry)
  case (Suc depth)
  have "keeps I (\<lambda>g. repository_snapshot depth h (h_resolve h g path) a g)" for path a
    by (rule keeps_fun [of I "\<lambda>g. repository_snapshot depth h (h_resolve h g path) a"]) (use Suc in simp)
  with Suc.prems show ?case
    by (auto simp: untracked_fingerprint_stream_def index_modes_def Let_def intro!: keeps_intros)
qed (auto intro: keeps_intros)

end
