(* ===== verification/Worktrees.thy ===== *)
theory Worktrees
  imports Fingerprint Attempts "HOL-Library.Product_Lexorder"
begin

text \<open>
  \<^verbatim>\<open>WorktreeManager\<close> of \<^verbatim>\<open>worktrees.py\<close>: the refs and worktrees of a run, the protected state of the
  user's repository, and the source commit that the Controller makes of a Worker's changes.
\<close>

section \<open>Data\<close>

definition ZERO_OID :: string where
  "ZERO_OID = replicate 40 (CHR ''0'')"

record repository_baseline =
  rb_identity :: string
  rb_base_ref :: string
  rb_base_sha :: string

record protected_git_snapshot =
  pg_user_head :: string
  pg_index_tree :: string
  pg_status_digest :: string
  pg_refs :: "(string \<times> string) list"
  pg_packed_refs_digest :: string
  pg_config_digest :: string
  pg_remote_urls :: "(string \<times> string) list"

record attempt_preflight =
  ap_role :: string
  ap_task_id :: "string option"
  ap_attempt_created_at :: string
  ap_expected_base :: string
  ap_branch :: "string option"
  ap_worktree :: string
  ap_snapshot :: json

definition opt_str :: "string option \<Rightarrow> json" where
  "opt_str v = (case v of None \<Rightarrow> JNull | Some s \<Rightarrow> JStr s)"

definition preflight_as_dict :: "attempt_preflight \<Rightarrow> json" where
  "preflight_as_dict p =
     JObj [(''schema_version'', JInt 1), (''role'', JStr (ap_role p)), (''task_id'', opt_str (ap_task_id p)),
       (''attempt_created_at'', JStr (ap_attempt_created_at p)), (''expected_base'', JStr (ap_expected_base p)),
       (''branch'', opt_str (ap_branch p)), (''worktree'', JStr (ap_worktree p)), (''snapshot'', ap_snapshot p)]"

record source_commit_metadata =
  sm_run_id :: string
  sm_task_id :: string
  sm_attempt_no :: int
  sm_attempt_created_at :: string

definition commit_message :: "source_commit_metadata \<Rightarrow> string" where
  "commit_message m =
     ''vibe('' @ sm_run_id m @ ''): '' @ sm_task_id m @ '' attempt '' @ int_text (sm_attempt_no m)"

record source_audit =
  sa_task_base_sha :: string
  sa_source_head :: string
  sa_source_commits :: "string list"
  sa_changed_paths :: "string list"
  sa_gitlinks_changed :: bool
  sa_protected_before :: protected_git_snapshot
  sa_protected_after :: protected_git_snapshot

record prepared_source_commit =
  ps_tree_oid :: string
  ps_candidate_commit :: string
  ps_source_audit :: source_audit
  ps_source_audit_body :: string

section \<open>Names and paths\<close>

definition validate_id :: "string \<Rightarrow> unit result" where
  "validate_id v =
     chk (\<not> (v = [] \<or> CHR ''/'' \<in> set v \<or> startswith v ''.''
              \<or> \<not> list_all (\<lambda>c. is_alnum c \<or> c = CHR ''_'' \<or> c = CHR ''-'') v))"

definition normalize_product_path :: "string \<Rightarrow> string result" where
  "normalize_product_path path =
     bnd (chk (\<not> (NUL \<in> set path \<or> BACKSLASH \<in> set path))) (\<lambda>_.
     bnd (chk (\<not> (is_absolute path \<or> posix_parts path = [] \<or> ''..'' \<in> set (posix_parts path)))) (\<lambda>_.
     bnd (chk (as_posix path \<noteq> [] \<and> as_posix path \<noteq> ''.'')) (\<lambda>_.
     Inr (as_posix path))))"

definition is_control_path :: "string \<Rightarrow> bool" where
  "is_control_path path = (path = ''.vibe-coding'' \<or> startswith path ''.vibe-coding/'')"

definition scope_contains :: "string \<Rightarrow> string \<Rightarrow> bool" where
  "scope_contains scope path = (scope = ''.'' \<or> path = scope \<or> endswith scope ''/'' \<and> startswith path scope)"

definition control_root :: "'g host \<Rightarrow> string" where
  "control_root h = repository_root h @ ''/.vibe-coding''"

definition worktree_root :: "'g host \<Rightarrow> string" where
  "worktree_root h = control_root h @ ''/worktrees''"

definition require_below :: "string \<Rightarrow> string \<Rightarrow> unit result" where
  "require_below path root = chk (path_below path root)"

fun make_steps :: "'g host \<Rightarrow> string list \<Rightarrow> ('g, unit) eff" where
  "make_steps h [] = slift (Inr ())"
| "make_steps h (current # rest) =
     sbnd (sget (\<lambda>g. chk (\<not> h_is_symlink h g current))) (\<lambda>_.
     sbnd (sget (\<lambda>g. Inr (h_exists h g current))) (\<lambda>exists.
     sbnd (if exists then sget (\<lambda>g. chk (h_is_dir h g current)) else h_mkdir h current) (\<lambda>_.
     make_steps h rest)))"

definition ensure_safe_directory :: "'g host \<Rightarrow> string \<Rightarrow> ('g, unit) eff" where
  "ensure_safe_directory h directory =
     sbnd (slift (require_below directory (control_root h))) (\<lambda>_.
     make_steps h (path_steps (repository_root h) (relative_parts directory (repository_root h))))"

definition assert_safe_ancestors :: "'g host \<Rightarrow> 'g \<Rightarrow> string \<Rightarrow> string \<Rightarrow> unit result" where
  "assert_safe_ancestors h g worktree path =
     (let parts = posix_parts path in
      forr (\<lambda>current.
        bnd (chk (\<not> h_is_symlink h g current)) (\<lambda>_.
        chk (h_exists h g current \<longrightarrow> path_below (h_resolve h g current) (h_resolve h g worktree))))
        (path_steps worktree (if length parts > 1 then butlast parts else parts)))"

section \<open>Refs and worktrees\<close>

definition resolve_ref :: "'g host \<Rightarrow> string \<Rightarrow> ('g, string) eff" where
  "resolve_ref h ref = resolve_revision h (repository_root h) ref"

definition update_ref :: "'g host \<Rightarrow> string \<Rightarrow> string \<Rightarrow> string \<Rightarrow> ('g, unit) eff" where
  "update_ref h ref new_oid expected_oid =
     sbnd (resolve_revision h (repository_root h) new_oid) (\<lambda>new.
     sbnd (resolve_revision h (repository_root h) expected_oid) (\<lambda>expected.
     sbnd (run_local h (repository_root h) [''update-ref'', ref, new, expected] no_internal) (\<lambda>_.
     slift (Inr ()))))"

definition create_ref :: "'g host \<Rightarrow> string \<Rightarrow> string \<Rightarrow> ('g, unit) eff" where
  "create_ref h ref base_sha =
     sbnd (stry (resolve_revision h (repository_root h) ref) (slift (Inr []))) (\<lambda>current.
     if current \<noteq> [] then slift (chk (current = base_sha))
     else sbnd (run_local h (repository_root h) [''update-ref'', ref, base_sha, ZERO_OID] no_internal) (\<lambda>_.
          slift (Inr ())))"

definition create_run_ref :: "'g host \<Rightarrow> string \<Rightarrow> string \<Rightarrow> ('g, string) eff" where
  "create_run_ref h run_id base_sha =
     sbnd (slift (validate_id run_id)) (\<lambda>_.
     sbnd (resolve_revision h (repository_root h) base_sha) (\<lambda>base.
     let ref = ''refs/heads/vibe/run-'' @ run_id in
     sbnd (create_ref h ref base) (\<lambda>_. slift (Inr ref))))"

definition create_task_worktree ::
  "'g host \<Rightarrow> string \<Rightarrow> string \<Rightarrow> int \<Rightarrow> string \<Rightarrow> ('g, task_worktree) eff" where
  "create_task_worktree h run_id task_id attempt_no base_sha =
     sbnd (slift (validate_id run_id)) (\<lambda>_.
     sbnd (slift (validate_id task_id)) (\<lambda>_.
     sbnd (slift (chk (attempt_no \<ge> 1))) (\<lambda>_.
     sbnd (resolve_revision h (repository_root h) base_sha) (\<lambda>base.
     let branch = ''refs/heads/vibe/'' @ run_id @ ''/'' @ task_id @ ''-a'' @ int_text attempt_no;
         run_root = path_join (worktree_root h) run_id;
         path = path_join run_root (task_id @ ''-a'' @ int_text attempt_no) in
     sbnd (create_ref h branch base) (\<lambda>_.
     sbnd (slift (require_below path run_root)) (\<lambda>_.
     sbnd (sget (\<lambda>g. Inr (h_exists h g path))) (\<lambda>exists.
     sbnd (if exists then sbnd (revision h path) (\<lambda>r. slift (chk (r = base)))
           else sbnd (h_makedirs h run_root) (\<lambda>_.
                sbnd (run_local h (repository_root h) [''worktree'', ''add'', ''--detach'', path, base] no_internal) (\<lambda>_.
                slift (Inr ())))) (\<lambda>_.
     sget (\<lambda>g. Inr \<lparr>tw_path = h_resolve h g path, tw_branch = branch, tw_base_sha = base\<rparr>)))))))))"

definition create_disposable_worktree ::
  "'g host \<Rightarrow> string \<Rightarrow> string \<Rightarrow> string \<Rightarrow> string \<Rightarrow> ('g, string) eff" where
  "create_disposable_worktree h run_id category operation_id base_sha =
     sbnd (slift (validate_id run_id)) (\<lambda>_.
     sbnd (slift (validate_id operation_id)) (\<lambda>_.
     sbnd (slift (chk (category = ''candidates'' \<or> category = ''read-only''))) (\<lambda>_.
     sbnd (resolve_revision h (repository_root h) base_sha) (\<lambda>base.
     let run_root = path_join (worktree_root h) run_id;
         parent = path_join run_root category; path = path_join parent operation_id in
     sbnd (slift (require_below path run_root)) (\<lambda>_.
     sbnd (sget (\<lambda>g. Inr (h_exists h g path))) (\<lambda>exists.
     sbnd (if exists then sbnd (revision h path) (\<lambda>r. slift (chk (r = base)))
           else sbnd (ensure_safe_directory h parent) (\<lambda>_.
                sbnd (run_local h (repository_root h) [''worktree'', ''add'', ''--detach'', path, base] no_internal) (\<lambda>_.
                slift (Inr ())))) (\<lambda>_.
     sget (\<lambda>g. Inr (h_resolve h g path)))))))))"

definition symbolic_head :: "'g host \<Rightarrow> ('g, string) eff" where
  "symbolic_head h =
     stry (git_text h (repository_root h) [''symbolic-ref'', ''-q'', ''HEAD''] no_internal) (slift (Inr ''HEAD''))"

definition STATUS_V2 :: "string list" where
  "STATUS_V2 =
     [''status'', ''--porcelain=v2'', ''-z'', ''--untracked-files=all'', ''--ignore-submodules=none''] @ PRODUCT_PATHSPEC"

definition assert_clean_baseline :: "nat \<Rightarrow> 'g host \<Rightarrow> string \<Rightarrow> ('g, repository_baseline) eff" where
  "assert_clean_baseline depth h identity =
     sbnd (repository_snapshot depth h (repository_root h) []) (\<lambda>snapshot.
     sbnd (git_bytes h (repository_root h) STATUS_V2 no_internal) (\<lambda>status.
     sbnd (slift (chk (status = []))) (\<lambda>_.
     sbnd (resolve_revision h (repository_root h) ''HEAD'') (\<lambda>base_sha.
     sbnd (symbolic_head h) (\<lambda>base_ref.
     sbnd (slift (chk (rs_revision snapshot = base_sha))) (\<lambda>_.
     slift (Inr \<lparr>rb_identity = identity, rb_base_ref = base_ref, rb_base_sha = base_sha\<rparr>)))))))"

section \<open>The protected state of the repository\<close>

definition lstrip_newline :: "string \<Rightarrow> string" where
  "lstrip_newline s = dropWhile (\<lambda>c. c = NEWLINE) s"

fun ref_pairs :: "string option \<Rightarrow> string list \<Rightarrow> (string \<times> string) list" where
  "ref_pairs excluded (ref # oid # rest) =
     (let r = lstrip_newline ref in
      if r \<noteq> [] \<and> Some r \<noteq> excluded \<and> \<not> startswith r ''refs/heads/vibe/'' then
        (r, lstrip_newline oid) # ref_pairs excluded rest
      else ref_pairs excluded rest)"
| "ref_pairs excluded _ = []"

definition decode_utf8 :: "string \<Rightarrow> string result" where
  "decode_utf8 b = (if utf8_valid b then Inr b else Inl ValueError)"

definition read_optional :: "'g host \<Rightarrow> 'g \<Rightarrow> string \<Rightarrow> string result" where
  "read_optional h g path =
     (case h_read h g path of Inr (Some b) \<Rightarrow> Inr b | Inr None \<Rightarrow> Inr [] | Inl _ \<Rightarrow> Inl ContractError)"

definition remote_urls :: "string \<Rightarrow> (string \<times> string) list" where
  "remote_urls config =
     map (\<lambda>entry. (fsdecode (fst (partition_at NEWLINE entry)), fsdecode (snd (partition_at NEWLINE entry))))
       (filter (\<lambda>entry. entry \<noteq> []
            \<and> startswith (fsdecode (fst (partition_at NEWLINE entry))) ''remote.''
            \<and> endswith (fsdecode (fst (partition_at NEWLINE entry))) ''.url'')
          (split_on NUL config))"

definition common_git_dir :: "'g host \<Rightarrow> ('g, string) eff" where
  "common_git_dir h =
     sbnd (git_text h (repository_root h) [''rev-parse'', ''--path-format=absolute'', ''--git-common-dir''] no_internal) (\<lambda>dir.
     sget (\<lambda>g. Inr (h_resolve h g dir)))"

definition snapshot_protected_git :: "'g host \<Rightarrow> string option \<Rightarrow> ('g, protected_git_snapshot) eff" where
  "snapshot_protected_git h excluded_ref =
     sbnd (resolve_revision h (repository_root h) ''HEAD'') (\<lambda>head_oid.
     sbnd (symbolic_head h) (\<lambda>selector.
     sbnd (git_text h (repository_root h) [''write-tree''] no_internal) (\<lambda>index_tree.
     sbnd (git_bytes h (repository_root h) STATUS_V2 no_internal) (\<lambda>status.
     sbnd (git_bytes h (repository_root h) [''for-each-ref'', ''--format=%(refname)%00%(objectname)%00''] no_internal) (\<lambda>refs_raw.
     sbnd (slift (mapr decode_utf8 (filter (\<lambda>f. f \<noteq> []) (split_on NUL refs_raw)))) (\<lambda>fields.
     sbnd (common_git_dir h) (\<lambda>common_dir.
     sbnd (sget (\<lambda>g. read_optional h g (path_join common_dir ''packed-refs''))) (\<lambda>packed_refs.
     sbnd (git_bytes h (repository_root h) [''config'', ''--local'', ''--null'', ''--list''] no_internal) (\<lambda>config.
     slift (Inr \<lparr>pg_user_head = selector @ ''@'' @ head_oid, pg_index_tree = index_tree,
       pg_status_digest = digest_of status, pg_refs = sort (ref_pairs excluded_ref fields),
       pg_packed_refs_digest = digest_of packed_refs, pg_config_digest = digest_of config,
       pg_remote_urls = sort (remote_urls config)\<rparr>))))))))))"

definition pairs_json :: "(string \<times> string) list \<Rightarrow> json" where
  "pairs_json ps = JList (map (\<lambda>(a, b). JList [JStr a, JStr b]) ps)"

definition protected_as_dict :: "protected_git_snapshot \<Rightarrow> json" where
  "protected_as_dict s =
     JObj [(''user_head'', JStr (pg_user_head s)), (''index_tree'', JStr (pg_index_tree s)),
       (''status_digest'', JStr (pg_status_digest s)), (''refs'', pairs_json (pg_refs s)),
       (''packed_refs_digest'', JStr (pg_packed_refs_digest s)), (''config_digest'', JStr (pg_config_digest s)),
       (''remote_urls'', pairs_json (pg_remote_urls s))]"

text \<open>\<^verbatim>\<open>str(v)\<close>, iteration over a value, and \<^verbatim>\<open>v[i]\<close>; \<open>None\<close> is a raise that the caller catches.\<close>

definition py_str :: "'g host \<Rightarrow> json \<Rightarrow> string" where
  "py_str h v =
     (case v of JStr s \<Rightarrow> s | JNull \<Rightarrow> ''None'' | JBool b \<Rightarrow> (if b then ''True'' else ''False'')
      | JInt i \<Rightarrow> int_text i | JFloat t \<Rightarrow> t | _ \<Rightarrow> h_repr h v)"

definition py_iter :: "json \<Rightarrow> json list option" where
  "py_iter v =
     (case v of JList xs \<Rightarrow> Some xs | JStr s \<Rightarrow> Some (map JStr (chars_of s)) | JObj d \<Rightarrow> Some (map JStr (keys_of d))
      | _ \<Rightarrow> None)"

definition py_index :: "json \<Rightarrow> nat \<Rightarrow> json option" where
  "py_index v i =
     (case v of JList xs \<Rightarrow> if i < length xs then Some (xs ! i) else None
      | JStr s \<Rightarrow> if i < length (chars_of s) then Some (JStr (chars_of s ! i)) else None
      | _ \<Rightarrow> None)"

definition some_or_contract :: "'a option \<Rightarrow> 'a result" where
  "some_or_contract v = (case v of None \<Rightarrow> Inl ContractError | Some x \<Rightarrow> Inr x)"

definition str_pairs :: "'g host \<Rightarrow> json \<Rightarrow> string \<Rightarrow> (string \<times> string) list result" where
  "str_pairs h v key =
     bnd (some_or_contract (jget v key)) (\<lambda>value.
     bnd (some_or_contract (py_iter value)) (\<lambda>xs.
     mapr (\<lambda>x. bnd (some_or_contract (py_index x 0)) (\<lambda>a. bnd (some_or_contract (py_index x 1)) (\<lambda>b.
       Inr (py_str h a, py_str h b)))) xs))"

definition str_field :: "'g host \<Rightarrow> json \<Rightarrow> string \<Rightarrow> string result" where
  "str_field h v key = bnd (some_or_contract (jget v key)) (\<lambda>x. Inr (py_str h x))"

definition protected_from_preflight :: "'g host \<Rightarrow> attempt_preflight \<Rightarrow> protected_git_snapshot result" where
  "protected_from_preflight h preflight =
     (let value = sub (ap_snapshot preflight) ''protected_git'' in
      bnd (chk (is_obj value)) (\<lambda>_.
      bnd (str_field h value ''user_head'') (\<lambda>user_head.
      bnd (str_field h value ''index_tree'') (\<lambda>index_tree.
      bnd (str_field h value ''status_digest'') (\<lambda>status_digest.
      bnd (str_pairs h value ''refs'') (\<lambda>refs.
      bnd (str_field h value ''packed_refs_digest'') (\<lambda>packed_refs_digest.
      bnd (str_field h value ''config_digest'') (\<lambda>config_digest.
      bnd (str_pairs h value ''remote_urls'') (\<lambda>urls.
      Inr \<lparr>pg_user_head = user_head, pg_index_tree = index_tree, pg_status_digest = status_digest, pg_refs = refs,
        pg_packed_refs_digest = packed_refs_digest, pg_config_digest = config_digest,
        pg_remote_urls = urls\<rparr>)))))))))"

fun contains_text :: "string \<Rightarrow> string \<Rightarrow> bool" where
  "contains_text [] t = (t = [])"
| "contains_text (c # s) t = (startswith (c # s) t \<or> contains_text s t)"

definition capture_worker_preflight ::
  "nat \<Rightarrow> 'g host \<Rightarrow> task_worktree \<Rightarrow> string \<Rightarrow> string \<Rightarrow> protected_git_snapshot \<Rightarrow> ('g, attempt_preflight) eff" where
  "capture_worker_preflight depth h task task_id attempt_created_at protected =
     sbnd (slift (chk (contains_text (tw_branch task) task_id))) (\<lambda>_.
     sbnd (repository_snapshot depth h (tw_path task) []) (\<lambda>s.
     slift (Inr \<lparr>ap_role = ''worker'', ap_task_id = Some task_id, ap_attempt_created_at = attempt_created_at,
       ap_expected_base = tw_base_sha task, ap_branch = Some (tw_branch task), ap_worktree = tw_path task,
       ap_snapshot = JObj [(''protected_git'', protected_as_dict protected), (''worktree'', snapshot_as_dict s)]\<rparr>)))"

definition capture_read_only_audit :: "nat \<Rightarrow> 'g host \<Rightarrow> string \<Rightarrow> ('g, json) eff" where
  "capture_read_only_audit depth h worktree =
     sbnd (snapshot_protected_git h None) (\<lambda>protected.
     sbnd (\<lambda>g. repository_snapshot depth h (h_resolve h g worktree) [] g) (\<lambda>s.
     slift (Inr (JObj [(''protected_git'', protected_as_dict protected), (''worktree'', snapshot_as_dict s)]))))"

definition assert_unchanged :: "json \<Rightarrow> json \<Rightarrow> unit result" where
  "assert_unchanged before after = chk (py_eq after before)"

section \<open>Git as a store of refs\<close>

text \<open>
  What the Controller relies on of \<^verbatim>\<open>git rev-parse --verify name^{commit}\<close> and
  \<^verbatim>\<open>git update-ref ref new old\<close>, as documented: the first prints the object name and changes
  nothing; the second compares and swaps in one step, where the null object name as \<open>old\<close> asks
  that the ref be new.  \<open>oid_of g name\<close> is what a name resolves to; object names that resolve keep
  doing so, and the commit that a name stands for stands for itself.
\<close>

definition git_cas :: "'g host \<Rightarrow> ('g \<Rightarrow> string \<Rightarrow> string option) \<Rightarrow> bool" where
  "git_cas h oid_of \<longleftrightarrow>
     (\<forall>g cwd command args env. command = ''rev-parse'' \<or> command = ''rev-list'' \<longrightarrow>
        oid_of (snd (h_git h (FIXED_PREFIX @ [''-C'', cwd] @ command # args) env g)) = oid_of g)
     \<and> (\<forall>g cwd name env code out g'.
        h_git h (FIXED_PREFIX @ [''-C'', cwd] @ [''rev-parse'', ''--verify'', name @ ''^{commit}'']) env g = ((code, out), g') \<longrightarrow>
        (case oid_of g name of Some oid \<Rightarrow> code = 0 \<and> out = oid @ [NEWLINE] | None \<Rightarrow> code \<noteq> 0))
     \<and> (\<forall>g cwd ref new old env code out g'. startswith ref ''refs/'' \<longrightarrow>
        h_git h (FIXED_PREFIX @ [''-C'', cwd] @ [''update-ref'', ref, new, old]) env g = ((code, out), g') \<longrightarrow>
        (if oid_of g ref = (if old = ZERO_OID then None else Some old) \<and> oid_of g new = Some new
         then code = 0 \<and> oid_of g' ref = Some new \<and> (\<forall>oid. OID_RE oid \<longrightarrow> oid_of g' oid = oid_of g oid)
         else code \<noteq> 0 \<and> oid_of g' = oid_of g))
     \<and> (\<forall>g name oid. oid_of g name = Some oid \<longrightarrow> OID_RE oid \<and> oid \<noteq> ZERO_OID \<and> oid_of g oid = Some oid)"

lemma chars_ascii: "ascii s \<Longrightarrow> chars_of s = map (\<lambda>c. [c]) s"
  by (induction s) (auto simp: ascii_def char_width_def)

lemma hex_not_space: "is_hex c \<Longrightarrow> \<not> space_char [c]"
  by (auto simp: space_char_def is_hex_def is_dec_def byte_def py_space_def)

lemma strip_oid:
  assumes "OID_RE s"
  shows "strip_text (s @ [NEWLINE]) = s" and "utf8_valid (s @ [NEWLINE])"
proof -
  from assms have hex: "list_all is_hex s" by (simp add: OID_RE_def)
  then have a: "ascii (s @ [NEWLINE])" using hex_ascii [OF hex] by (simp add: ascii_def byte_def)
  then show "utf8_valid (s @ [NEWLINE])" by (rule utf8_valid_ascii)
  have nl: "space_char [NEWLINE]" by (simp add: space_char_def byte_def py_space_def)
  have keep: "dropWhile space_char (map (\<lambda>c. [c]) t @ r) = map (\<lambda>c. [c]) t @ r"
    if "list_all is_hex t" "t \<noteq> []" for t r using that hex_not_space by (cases t) auto
  have ne: "s \<noteq> []" using assms by (auto simp: OID_RE_def)
  have r: "dropWhile space_char (rev (map (\<lambda>c. [c]) s)) = rev (map (\<lambda>c. [c]) s)"
    using keep [of "rev s" "[]"] hex ne by (simp add: rev_map)
  have "strip_text (s @ [NEWLINE]) = concat (map (\<lambda>c. [c]) s)"
    unfolding strip_text_def chars_ascii [OF a] using keep [OF hex ne, of "[[NEWLINE]]"] nl r by simp
  then show "strip_text (s @ [NEWLINE]) = s" by simp
qed

lemma git_cas_reads:
  assumes "git_cas h oid_of" and "command = ''rev-parse'' \<or> command = ''rev-list''"
    and "h_git h (FIXED_PREFIX @ [''-C'', cwd] @ command # args) env g = (out, g')"
  shows "oid_of g' = oid_of g"
  using assms(1) [unfolded git_cas_def, THEN conjunct1, rule_format, of command cwd args env g] assms(2,3) by simp

lemmas git_cas_resolve = git_cas_def [THEN iffD1, THEN conjunct2, THEN conjunct1, rule_format]
  and git_cas_update = git_cas_def [THEN iffD1, THEN conjunct2, THEN conjunct2, THEN conjunct1, rule_format]
  and git_cas_oid = git_cas_def [THEN iffD1, THEN conjunct2, THEN conjunct2, THEN conjunct2, rule_format]

lemma run_local_reads:
  assumes "git_cas h oid_of" and "command = ''rev-parse'' \<or> command = ''rev-list''"
    and "run_local h target (command # args) internal g = (r, g')"
  shows "oid_of g' = oid_of g"
  using assms(3)
proof (cases rule: run_local_cases)
  case (called env code stdout)
  from git_cas_reads [OF assms(1,2) called(2)] show ?thesis .
qed simp

lemma git_text_rev_parse:
  assumes "git_cas h oid_of" and "git_text h target (''rev-parse'' # args) internal g = (r, g')"
  shows "oid_of g' = oid_of g"
  using assms run_local_reads [OF assms(1), of "''rev-parse''" target args internal g]
  by (auto simp: git_text_def git_bytes_def sbnd_eq)

lemma resolve_revision_cas:
  assumes cas: "git_cas h oid_of" and run: "resolve_revision h target name g = (r, g')"
  shows "oid_of g' = oid_of g \<and> (\<forall>oid. r = Inr oid \<longrightarrow> oid_of g name = Some oid)
    \<and> (\<forall>e. r = Inl e \<longrightarrow> e = ContractError)"
proof -
  let ?argv = "[''rev-parse'', ''--verify'', name @ ''^{commit}'']"
  obtain r1 g1 where r1: "run_local h target ?argv no_internal g = (r1, g1)" by force
  then show ?thesis
  proof (cases rule: run_local_cases)
    case refused
    with r1 run show ?thesis
      by (auto simp: resolve_revision_def git_text_def git_bytes_def sbnd_eq)
  next
    case (called env code out)
    note git = git_cas_resolve [OF cas called(2)] and same = git_cas_reads [OF cas disjI1 [OF refl] called(2)]
    show ?thesis
    proof (cases "oid_of g name")
      case None
      with git same called r1 run show ?thesis
        by (auto simp: resolve_revision_def git_text_def git_bytes_def sbnd_eq)
    next
      case (Some oid)
      with git same have o: "code = 0" "out = oid @ [NEWLINE]" "oid_of g1 = oid_of g" by auto
      moreover have "OID_RE oid" using git_cas_oid [OF cas Some] by simp
      ultimately
      show ?thesis using called r1 run Some
        by (auto simp: resolve_revision_def git_text_def git_bytes_def sbnd_eq strip_oid)
    qed
  qed
qed

lemma update_ref_cas:
  assumes cas: "git_cas h oid_of" and run: "update_ref h ref new expected g = (r, g')" and ref: "startswith ref ''refs/''"
  shows "(r = Inr () \<and> oid_of g ref = oid_of g expected \<and> oid_of g ref \<noteq> None
           \<and> oid_of g' ref = oid_of g new \<and> oid_of g new \<noteq> None
           \<and> (\<forall>oid. OID_RE oid \<longrightarrow> oid_of g' oid = oid_of g oid))
       \<or> (r = Inl ContractError \<and> oid_of g' = oid_of g)"
proof -
  let ?root = "repository_root h"
  obtain r1 g1 where r1: "resolve_revision h ?root new g = (r1, g1)" by force
  note s1 = resolve_revision_cas [OF cas r1]
  show ?thesis
  proof (cases r1)
    case (Inl e)
    with s1 r1 run show ?thesis by (auto simp: update_ref_def sbnd_eq)
  next
    case (Inr a)
    obtain r2 g2 where r2: "resolve_revision h ?root expected g1 = (r2, g2)" by force
    note s2 = resolve_revision_cas [OF cas r2]
    show ?thesis
    proof (cases r2)
      case (Inl e)
      with s1 s2 r1 r2 run Inr show ?thesis by (auto simp: update_ref_def sbnd_eq)
    next
      case (Inr b)
      with s1 s2 \<open>r1 = Inr a\<close> have ab: "oid_of g new = Some a" "oid_of g expected = Some b" "oid_of g2 = oid_of g" by auto
      note oids = git_cas_oid [OF cas ab(1)] git_cas_oid [OF cas ab(2)]
      obtain r3 g3 where r3: "run_local h ?root [''update-ref'', ref, a, b] no_internal g2 = (r3, g3)" by force
      have out: "r = (case r3 of Inl e \<Rightarrow> Inl e | Inr _ \<Rightarrow> Inr ())" "g' = g3"
        using run r1 r2 r3 \<open>r1 = Inr a\<close> Inr by (auto simp: update_ref_def sbnd_eq)
      show ?thesis using r3
      proof (cases rule: run_local_cases)
        case refused
        with out ab show ?thesis by simp
      next
        case (called env code stdout)
        with git_cas_update [OF cas ref called(2)] out ab oids show ?thesis
          by (auto split: if_splits)
      qed
    qed
  qed
qed

section \<open>Confinement\<close>

lemma keeps_make_steps [keeps_intros]: "confined h I \<Longrightarrow> keeps I (make_steps h steps)"
  by (induction steps) (auto intro!: keeps_intros)

lemma keeps_resolved: "(\<And>p. keeps I (m p)) \<Longrightarrow> keeps I (\<lambda>g. m (f g) g)"
  by (simp add: keeps_def)

lemma keeps_worktrees [keeps_intros]:
  assumes "confined h I"
  shows "keeps I (ensure_safe_directory h dir)" "keeps I (resolve_ref h ref)" "keeps I (update_ref h ref new old)"
    "keeps I (create_ref h ref base)" "keeps I (create_run_ref h run_id base)"
    "keeps I (create_task_worktree h run_id task_id n base)"
    "keeps I (create_disposable_worktree h run_id category operation base)"
    "keeps I (symbolic_head h)" "keeps I (assert_clean_baseline depth h identity)" "keeps I (common_git_dir h)"
    "keeps I (snapshot_protected_git h excluded)" "keeps I (capture_worker_preflight depth h task task_id at protected)"
    "keeps I (capture_read_only_audit depth h worktree)"
proof -
  note defs = ensure_safe_directory_def resolve_ref_def update_ref_def create_ref_def create_run_ref_def
    symbolic_head_def common_git_dir_def Let_def
  show e: "keeps I (ensure_safe_directory h dir)" for dir
    unfolding defs by (intro keeps_intros assms)
  show "keeps I (resolve_ref h ref)" "keeps I (update_ref h ref new old)"
    unfolding defs by (intro keeps_intros assms)+
  show c: "keeps I (create_ref h ref base)" for ref base
    unfolding defs using assms by (auto intro!: keeps_intros)
  show "keeps I (create_run_ref h run_id base)"
    unfolding create_run_ref_def Let_def using assms c by (auto intro!: keeps_intros)
  show "keeps I (create_task_worktree h run_id task_id n base)"
    unfolding create_task_worktree_def Let_def using assms c by (auto intro!: keeps_intros)
  show "keeps I (create_disposable_worktree h run_id category operation base)"
    unfolding create_disposable_worktree_def Let_def using assms e by (auto intro!: keeps_intros)
  show sh: "keeps I (symbolic_head h)" and cg: "keeps I (common_git_dir h)"
    unfolding defs by (intro keeps_intros assms)+
  show "keeps I (assert_clean_baseline depth h identity)"
    unfolding assert_clean_baseline_def by (intro keeps_intros assms sh)
  show sp: "keeps I (snapshot_protected_git h excluded)" for excluded
    unfolding snapshot_protected_git_def by (intro keeps_intros assms sh cg)
  show "keeps I (capture_worker_preflight depth h task task_id at protected)"
    unfolding capture_worker_preflight_def by (intro keeps_intros assms)
  have "keeps I (\<lambda>g. repository_snapshot depth h (h_resolve h g worktree) [] g)"
    by (rule keeps_resolved [of I "\<lambda>p. repository_snapshot depth h p []"]) (intro keeps_intros assms)
  then show "keeps I (capture_read_only_audit depth h worktree)"
    unfolding capture_read_only_audit_def by (intro keeps_intros sp)
qed

end
