(* ===== verification/SourceCommit.thy ===== *)
theory SourceCommit
  imports Worktrees Scopes
begin

text \<open>
  The second half of \<^verbatim>\<open>WorktreeManager\<close>: how the Controller turns the changes of a Worker into one
  commit.  The raw status of the worktree is audited, staged in an index of the Controller's own,
  committed with a fixed identity, and the reserved task ref is moved by compare-and-swap.
\<close>

section \<open>The changes of a Worker\<close>

text \<open>The entries of \<^verbatim>\<open>git status --porcelain=v1 -z\<close>.\<close>

fun raw_delta :: "string list \<Rightarrow> string list result" where
  "raw_delta [] = Inr []"
| "raw_delta (entry # rest) =
     (if entry = [] then raw_delta rest
      else
        bnd (chk (\<not> (length entry < 4 \<or> entry ! 2 \<noteq> CHR '' ''))) (\<lambda>_.
        let state = take 2 entry in
        bnd (if ascii state then Inr () else Inl ValueError) (\<lambda>_.
        bnd (chk (\<not> (CHR ''U'' \<in> set state \<or> state = ''AA'' \<or> state = ''DD''))) (\<lambda>_.
        bnd (chk (state ! 0 = CHR '' '' \<or> state ! 0 = CHR ''?'')) (\<lambda>_.
        bnd (normalize_product_path (fsdecode (drop 3 entry))) (\<lambda>path.
        if state ! 1 = CHR ''R'' \<or> state ! 1 = CHR ''C'' then
          (case rest of
             [] \<Rightarrow> Inl ContractError
           | origin # rest' \<Rightarrow>
               bnd (chk (origin \<noteq> [])) (\<lambda>_.
               bnd (normalize_product_path (fsdecode origin)) (\<lambda>path2.
               bnd (raw_delta rest') (\<lambda>paths. Inr (path # path2 # paths)))))
        else bnd (raw_delta rest) (\<lambda>paths. Inr (path # paths))))))))"

text \<open>\<open>any(...)\<close> over the changed paths; the paths of the set are visited in sorted order.\<close>

fun any_gitlink :: "(string, string list) dict \<Rightarrow> string list \<Rightarrow> bool result" where
  "any_gitlink modes [] = Inr False"
| "any_gitlink modes (path # paths) =
     bnd (encode_utf8 path) (\<lambda>raw. if is_gitlink modes raw then Inr True else any_gitlink modes paths)"

definition gitlinks_of :: "(string, string list) dict \<Rightarrow> string list \<Rightarrow> bool result" where
  "gitlinks_of modes paths =
     bnd (any_gitlink modes paths) (\<lambda>b. Inr (b \<or> ''.gitmodules'' \<in> set paths))"

definition audit_raw_delta :: "'g host \<Rightarrow> string \<Rightarrow> ('g, string list \<times> bool) eff" where
  "audit_raw_delta h worktree =
     sbnd (git_bytes h worktree [''status'', ''--porcelain=v1'', ''-z'', ''--untracked-files=all'',
       ''--ignore-submodules=none'', ''--'', ''.''] no_internal) (\<lambda>raw.
     sbnd (slift (raw_delta (split_on NUL raw))) (\<lambda>found.
     let paths = sort (remdups found) in
     sbnd (slift (chk (paths \<noteq> []))) (\<lambda>_.
     sbnd (slift (forr (\<lambda>path. chk (\<not> is_control_path path)) paths)) (\<lambda>_.
     sbnd (index_modes h worktree) (\<lambda>modes.
     sbnd (slift (gitlinks_of modes paths)) (\<lambda>gitlinks.
     slift (Inr (paths, gitlinks))))))))"

text \<open>The records of \<^verbatim>\<open>git diff --name-status -z\<close>; \<open>each\<close> checks one path.\<close>

function name_status :: "error \<Rightarrow> (string \<Rightarrow> string result) \<Rightarrow> string list \<Rightarrow> string list result" where
  "name_status malformed each [] = Inr []"
| "name_status malformed each (state # rest) =
     bnd (if ascii state then Inr () else Inl ValueError) (\<lambda>_.
     let count = (if startswith state ''R'' \<or> startswith state ''C'' then 2 else 1) in
     bnd (if count > length rest then Inl malformed else Inr ()) (\<lambda>_.
     bnd (mapr each (take count rest)) (\<lambda>paths.
     bnd (name_status malformed each (drop count rest)) (\<lambda>more. Inr (paths @ more)))))"
  by pat_completeness auto
termination by (relation "measure (\<lambda>(_, _, fields). length fields)") auto

definition index_modes_from_internal ::
  "'g host \<Rightarrow> string \<Rightarrow> git_internal_options \<Rightarrow> ('g, (string, string list) dict) eff" where
  "index_modes_from_internal h worktree internal =
     sbnd (git_bytes h worktree [''ls-files'', ''--stage'', ''-z'', ''--'', ''.''] internal) (\<lambda>output.
     slift (Inr (modes_of_output output)))"

definition cached_delta ::
  "'g host \<Rightarrow> string \<Rightarrow> string \<Rightarrow> git_internal_options \<Rightarrow> ('g, string list \<times> bool) eff" where
  "cached_delta h worktree base_sha internal =
     sbnd (git_bytes h worktree [''diff'', ''--cached'', ''--name-status'', ''-z'', ''--find-renames'', base_sha,
       ''--'', ''.''] internal) (\<lambda>raw.
     sbnd (slift (name_status ContractError (\<lambda>raw_path. normalize_product_path (fsdecode raw_path))
       (filter (\<lambda>f. f \<noteq> []) (split_on NUL raw)))) (\<lambda>found.
     let paths = sort (remdups found) in
     sbnd (index_modes_from_internal h worktree internal) (\<lambda>modes.
     sbnd (slift (gitlinks_of modes paths)) (\<lambda>gitlinks.
     slift (Inr (paths, gitlinks))))))"

definition normalized_scope ::
  "'g host \<Rightarrow> 'g \<Rightarrow> string list \<Rightarrow> string \<Rightarrow> string \<Rightarrow> string result" where
  "normalized_scope h g scopes worktree scope =
     (if scope = ''.'' then bnd (chk (length scopes = 1)) (\<lambda>_. Inr scope)
      else
        bnd (normalize_product_path (rstrip_slash scope)) (\<lambda>normalized.
        bnd (assert_safe_ancestors h g worktree normalized) (\<lambda>_.
        Inr (if endswith scope ''/'' then normalized @ ''/'' else normalized))))"

definition validate_scope :: "'g host \<Rightarrow> 'g \<Rightarrow> string list \<Rightarrow> string list \<Rightarrow> string \<Rightarrow> unit result" where
  "validate_scope h g scopes changed_paths worktree =
     bnd (chk (scopes \<noteq> [])) (\<lambda>_.
     bnd (mapr (normalized_scope h g scopes worktree) scopes) (\<lambda>normalized_scopes.
     forr (\<lambda>path.
       bnd (assert_safe_ancestors h g worktree path) (\<lambda>_.
       chk (list_ex (\<lambda>scope. scope_contains scope path) normalized_scopes))) changed_paths))"

section \<open>The commit\<close>

definition verify_source_commit ::
  "'g host \<Rightarrow> string \<Rightarrow> string \<Rightarrow> string \<Rightarrow> source_commit_metadata \<Rightarrow> ('g, unit) eff" where
  "verify_source_commit h candidate tree_oid base_sha metadata =
     sbnd (git_text h (repository_root h) [''rev-parse'', candidate @ ''^{tree}''] no_internal) (\<lambda>commit_tree.
     sbnd (git_text h (repository_root h) [''rev-list'', ''--parents'', ''-n'', ''1'', candidate] no_internal) (\<lambda>line.
     sbnd (slift (chk (commit_tree = tree_oid \<and> words_of line = [candidate, base_sha]))) (\<lambda>_.
     sbnd (git_text h (repository_root h)
       [''show'', ''-s'', ''--format=%an%x00%ae%x00%cn%x00%ce%x00%B'', candidate] no_internal) (\<lambda>shown.
     let body = split_on NUL shown in
     slift (if take 4 body \<noteq> [''Vibe Controller'', ''vibe-controller@localhost'', ''Vibe Controller'',
                 ''vibe-controller@localhost''] then Inl ContractError
            else case drop 4 body of
                [] \<Rightarrow> Inl IndexError
              | text # _ \<Rightarrow> chk (strip_text text = commit_message metadata))))))"

definition source_audit_body ::
  "task_contract \<Rightarrow> source_commit_metadata \<Rightarrow> string \<Rightarrow> string \<Rightarrow> source_audit \<Rightarrow> string result" where
  "source_audit_body contract metadata tree_oid candidate audit =
     (let body = JObj [(''schema_version'', JInt 1), (''verdict'', JStr ''PASS''),
        (''task'', JObj [(''run_id'', JStr (sm_run_id metadata)), (''task_id'', JStr (sm_task_id metadata)),
           (''attempt_no'', JInt (sm_attempt_no metadata)),
           (''attempt_created_at'', JStr (sm_attempt_created_at metadata)),
           (''path_scope'', JList (map JStr (tc_path_scope contract)))]),
        (''base_sha'', JStr (sa_task_base_sha audit)), (''tree_oid'', JStr tree_oid),
        (''candidate_commit'', JStr candidate), (''source_commits'', JList (map JStr (sa_source_commits audit))),
        (''changed_paths'', JList (map JStr (sa_changed_paths audit))),
        (''gitlinks_changed'', JBool (sa_gitlinks_changed audit)),
        (''protected_before'', protected_as_dict (sa_protected_before audit)),
        (''protected_after'', protected_as_dict (sa_protected_after audit))] in
      if clean body then Inr (print_json (canon body) @ [NEWLINE]) else Inl ValueError)"

definition validate_preparation_identity ::
  "'g host \<Rightarrow> 'g \<Rightarrow> task_contract \<Rightarrow> task_worktree \<Rightarrow> attempt_preflight \<Rightarrow> source_commit_metadata \<Rightarrow> unit result" where
  "validate_preparation_identity h g contract worktree preflight metadata =
     chk (ap_role preflight = ''worker''
          \<and> ap_task_id preflight = Some (tc_id contract) \<and> tc_id contract = sm_task_id metadata
          \<and> ap_expected_base preflight = tw_base_sha worktree
          \<and> ap_branch preflight = Some (tw_branch worktree)
          \<and> h_resolve h g (ap_worktree preflight) = tw_path worktree
          \<and> ap_attempt_created_at preflight = sm_attempt_created_at metadata)"

text \<open>The checks of \<^verbatim>\<open>prepare_source_commit\<close> before anything is staged: the audited paths and whether a
  submodule changed, with the protected state before and after the Worker.\<close>

definition audit_worker ::
  "'g host \<Rightarrow> task_contract \<Rightarrow> task_worktree \<Rightarrow> attempt_preflight \<Rightarrow> source_commit_metadata \<Rightarrow>
   ('g, (string list \<times> bool) \<times> protected_git_snapshot \<times> protected_git_snapshot) eff" where
  "audit_worker h contract worktree preflight metadata =
     sbnd (sget (\<lambda>g. validate_preparation_identity h g contract worktree preflight metadata)) (\<lambda>_.
     sbnd (assert_no_executable_integrations h (repository_root h)) (\<lambda>_.
     sbnd (git_text h (tw_path worktree) [''rev-parse'', ''--abbrev-ref'', ''HEAD''] no_internal) (\<lambda>head.
     sbnd (slift (chk (head = ''HEAD''))) (\<lambda>_.
     sbnd (revision h (tw_path worktree)) (\<lambda>r.
     sbnd (slift (chk (r = tw_base_sha worktree))) (\<lambda>_.
     sbnd (resolve_revision h (repository_root h) (tw_branch worktree)) (\<lambda>reserved.
     sbnd (slift (chk (reserved = tw_base_sha worktree))) (\<lambda>_.
     sbnd (git_text h (repository_root h) [''rev-parse'', tw_base_sha worktree @ ''^{tree}''] no_internal) (\<lambda>base_tree.
     sbnd (git_text h (tw_path worktree) [''write-tree''] no_internal) (\<lambda>index_tree.
     sbnd (slift (chk (index_tree = base_tree))) (\<lambda>_.
     sbnd (slift (protected_from_preflight h preflight)) (\<lambda>protected_before.
     sbnd (snapshot_protected_git h (Some (tw_branch worktree))) (\<lambda>protected_after.
     sbnd (slift (chk (protected_after = protected_before))) (\<lambda>_.
     sbnd (audit_raw_delta h (tw_path worktree)) (\<lambda>delta.
     sbnd (sget (\<lambda>g. validate_scope h g (tc_path_scope contract) (fst delta) (tw_path worktree))) (\<lambda>_.
     slift (Inr (delta, protected_before, protected_after))))))))))))))))))"

definition literal_path :: "string \<Rightarrow> string" where
  "literal_path path = '':(literal)'' @ path"

text \<open>The rest of \<^verbatim>\<open>prepare_source_commit\<close>: stage the audited paths, compare, write the tree and the
  commit.\<close>

definition stage_and_commit ::
  "'g host \<Rightarrow> task_worktree \<Rightarrow> attempt_preflight \<Rightarrow> source_commit_metadata \<Rightarrow> string list \<times> bool \<Rightarrow>
   ('g, string \<times> string) eff" where
  "stage_and_commit h worktree preflight metadata delta =
     (let operation = sm_run_id metadata @ ''-'' @ sm_task_id metadata @ ''-a'' @ int_text (sm_attempt_no metadata);
          directory = path_join (index_root h) operation; index = path_join directory ''index'';
          internal = \<lparr>index_file = Some index, commit_timestamp = None\<rparr> in
      sbnd (ensure_safe_directory h directory) (\<lambda>_.
      sbnd (sget (\<lambda>g. Inr (h_exists h g index))) (\<lambda>exists.
      sbnd (if exists then h_unlink h index else slift (Inr ())) (\<lambda>_.
      sbnd (run_local h (tw_path worktree) [''read-tree'', tw_base_sha worktree] internal) (\<lambda>_.
      sbnd (run_local h (tw_path worktree) ([''add'', ''-A'', ''--''] @ map literal_path (fst delta)) internal) (\<lambda>_.
      sbnd (cached_delta h (tw_path worktree) (tw_base_sha worktree) internal) (\<lambda>staged.
      sbnd (slift (chk (staged = delta))) (\<lambda>_.
      sbnd (git_text h (tw_path worktree) [''write-tree''] internal) (\<lambda>tree_oid.
      sbnd (git_text h (tw_path worktree) [''commit-tree'', tree_oid, ''-p'', tw_base_sha worktree, ''-m'',
          commit_message metadata]
        \<lparr>index_file = None, commit_timestamp = Some (ap_attempt_created_at preflight)\<rparr>) (\<lambda>candidate.
      sbnd (verify_source_commit h candidate tree_oid (tw_base_sha worktree) metadata) (\<lambda>_.
      slift (Inr (tree_oid, candidate)))))))))))))"

definition prepare_source_commit ::
  "'g host \<Rightarrow> task_contract \<Rightarrow> task_worktree \<Rightarrow> attempt_preflight \<Rightarrow> source_commit_metadata \<Rightarrow>
   ('g, prepared_source_commit) eff" where
  "prepare_source_commit h contract worktree preflight metadata =
     sbnd (audit_worker h contract worktree preflight metadata) (\<lambda>(delta, protected_before, protected_after).
     sbnd (stage_and_commit h worktree preflight metadata delta) (\<lambda>(tree_oid, candidate).
     let audit = \<lparr>sa_task_base_sha = tw_base_sha worktree, sa_source_head = candidate,
           sa_source_commits = [candidate], sa_changed_paths = fst delta, sa_gitlinks_changed = snd delta,
           sa_protected_before = protected_before, sa_protected_after = protected_after\<rparr> in
     sbnd (slift (source_audit_body contract metadata tree_oid candidate audit)) (\<lambda>body.
     slift (Inr \<lparr>ps_tree_oid = tree_oid, ps_candidate_commit = candidate, ps_source_audit = audit,
       ps_source_audit_body = body\<rparr>))))"

definition verify_prepared :: "'g host \<Rightarrow> task_worktree \<Rightarrow> prepared_source_commit \<Rightarrow> ('g, unit) eff" where
  "verify_prepared h worktree prepared =
     (let audit = ps_source_audit prepared in
      sbnd (slift (chk (\<not> (sa_task_base_sha audit \<noteq> tw_base_sha worktree
          \<or> sa_source_head audit \<noteq> ps_candidate_commit prepared
          \<or> sa_source_commits audit \<noteq> [ps_candidate_commit prepared])))) (\<lambda>_.
      sbnd (git_text h (repository_root h) [''rev-parse'', ps_candidate_commit prepared @ ''^{tree}''] no_internal) (\<lambda>tree.
      slift (chk (tree = ps_tree_oid prepared)))))"

definition apply_source_commit_cas :: "'g host \<Rightarrow> task_worktree \<Rightarrow> prepared_source_commit \<Rightarrow> ('g, unit) eff" where
  "apply_source_commit_cas h worktree prepared =
     sbnd (verify_prepared h worktree prepared) (\<lambda>_.
     sbnd (run_local h (repository_root h)
       [''update-ref'', tw_branch worktree, ps_candidate_commit prepared, tw_base_sha worktree] no_internal) (\<lambda>_.
     slift (Inr ())))"

definition classify_source_cas :: "'g host \<Rightarrow> task_worktree \<Rightarrow> prepared_source_commit \<Rightarrow> ('g, string) eff" where
  "classify_source_cas h worktree prepared =
     sbnd (resolve_revision h (repository_root h) (tw_branch worktree)) (\<lambda>current.
     if current = tw_base_sha worktree then slift (Inr ''RETRY_CAS'')
     else if current = ps_candidate_commit prepared then
       sbnd (verify_prepared h worktree prepared) (\<lambda>_. slift (Inr ''COMPLETE_STATE''))
     else slift (Inr ''PAUSE''))"

section \<open>The audited commit stays in scope\<close>

lemma scope_contains_matches: "scope_contains scope path = path_matches_scope path scope"
  by (auto simp: scope_contains_def path_matches_scope_def startswith_def)

lemma normalized_scope_same:
  assumes "ok (normalize_scope scope)" and "normalized_scope h g scopes worktree scope = Inr t"
  shows "t = scope"
proof (cases "scope = ''.''")
  case True
  with assms(2) show ?thesis by (auto simp: normalized_scope_def bnd_eq_Inr)
next
  case False
  with assms(1) have norm: "scope_body scope = as_posix (scope_body scope)"
    by (auto simp: normalize_scope_def scope_body_def Let_def ok_iff split: if_splits list.splits)
  have split: "scope = scope_body scope @ (if endswith scope ''/'' then ''/'' else [])"
    by (auto simp: scope_body_def endswith_slash) (metis append_butlast_last_id)
  from False assms(2) have "t = as_posix (rstrip_slash scope) @ (if endswith scope ''/'' then ''/'' else [])"
    by (auto simp: normalized_scope_def normalize_product_path_def bnd_eq_Inr)
  with norm split rstrip_scope [OF assms(1)] show ?thesis by simp
qed

lemma validate_scope_matches:
  assumes "validate_scope h g scopes paths worktree = Inr ()" and "list_all (\<lambda>s. ok (normalize_scope s)) scopes"
  shows "list_all (\<lambda>p. list_ex (path_matches_scope p) scopes) paths"
proof -
  from assms(1) obtain ns where ns: "list_all2 (\<lambda>s n. normalized_scope h g scopes worktree s = Inr n) scopes ns"
    and p: "\<forall>p\<in>set paths. list_ex (\<lambda>scope. scope_contains scope p) ns"
    by (auto simp: validate_scope_def bnd_eq_Inr mapr_eq_Inr forr_eq_Inr)
  have "ns = scopes"
    using ns assms(2) by (induction rule: list_all2_induct) (auto simp: normalized_scope_same)
  with p show ?thesis by (simp add: list_all_iff scope_contains_matches)
qed

lemma audit_raw_delta_facts:
  assumes "audit_raw_delta h worktree g = (Inr (paths, gitlinks), g')"
  shows "paths \<noteq> [] \<and> sorted paths \<and> distinct paths \<and> list_all (\<lambda>p. \<not> is_control_path p) paths"
  using assms by (auto simp: audit_raw_delta_def sbnd_Inr Let_def forr_eq_Inr list_all_iff)

lemma audit_worker_facts:
  assumes "audit_worker h contract worktree preflight metadata g = (Inr (delta, before, after), g')"
  obtains g1 g2 g3 g4 where "audit_raw_delta h (tw_path worktree) g1 = (Inr delta, g2)"
    "validate_scope h g2 (tc_path_scope contract) (fst delta) (tw_path worktree) = Inr ()" "after = before"
    "validate_preparation_identity h g contract worktree preflight metadata = Inr ()"
    "protected_from_preflight h preflight = Inr before"
    "resolve_revision h (repository_root h) (tw_branch worktree) g3 = (Inr (tw_base_sha worktree), g4)"
proof -
  from assms have "\<exists>g1 g2 g3 g4. audit_raw_delta h (tw_path worktree) g1 = (Inr delta, g2)
    \<and> validate_scope h g2 (tc_path_scope contract) (fst delta) (tw_path worktree) = Inr () \<and> after = before
    \<and> validate_preparation_identity h g contract worktree preflight metadata = Inr ()
    \<and> protected_from_preflight h preflight = Inr before
    \<and> resolve_revision h (repository_root h) (tw_branch worktree) g3 = (Inr (tw_base_sha worktree), g4)"
    unfolding audit_worker_def sbnd_Inr slift_eq sget_eq by (elim exE conjE) (simp, blast)
  then show thesis using that by blast
qed


section \<open>The compare-and-swap of the source commit\<close>

lemma verify_prepared_cas:
  assumes "git_cas h oid_of" and "verify_prepared h worktree prepared g = (r, g')"
  shows "oid_of g' = oid_of g"
  using assms by (auto simp: verify_prepared_def sbnd_eq Let_def dest: git_text_rev_parse)


section \<open>Confinement\<close>

lemma keeps_source_commit [keeps_intros]:
  assumes "confined h I"
  shows "keeps I (prepare_source_commit h contract worktree preflight metadata)"
    and "keeps I (apply_source_commit_cas h worktree prepared)"
    and "keeps I (classify_source_cas h worktree prepared)"
proof -
  have audit: "keeps I (audit_worker h contract worktree preflight metadata)"
    unfolding audit_worker_def audit_raw_delta_def assert_no_executable_integrations_def index_modes_def Let_def
    by (intro keeps_intros assms)
  have stage: "keeps I (stage_and_commit h worktree preflight metadata delta)" for delta
    unfolding stage_and_commit_def cached_delta_def index_modes_from_internal_def verify_source_commit_def Let_def
    using assms by (auto intro!: keeps_intros)
  show "keeps I (prepare_source_commit h contract worktree preflight metadata)"
    unfolding prepare_source_commit_def Let_def by (auto intro!: keeps_intros audit stage)
  have v: "keeps I (verify_prepared h worktree prepared)"
    unfolding verify_prepared_def Let_def by (intro keeps_intros assms)
  show "keeps I (apply_source_commit_cas h worktree prepared)"
    unfolding apply_source_commit_cas_def by (intro keeps_intros assms v)
  show "keeps I (classify_source_cas h worktree prepared)"
    unfolding classify_source_cas_def using assms v by (auto intro!: keeps_intros)
qed

text \<open>C23. Git is confined: whatever the operations on refs, worktrees and source commits do, and
  however they end, they only start Git with an allowlisted local command behind the fixed options
  and with the closed environment, so every property of the host that such calls (and the creation
  of directories) keep is kept.\<close>

theorem git_confined:
  assumes "confined h I"
  shows "keeps I (create_run_ref h run_id base) \<and> keeps I (create_task_worktree h run_id task_id n base)
    \<and> keeps I (create_disposable_worktree h run_id category operation base) \<and> keeps I (update_ref h ref new old)
    \<and> keeps I (capture_worker_preflight depth h task task_id at protected)
    \<and> keeps I (capture_read_only_audit depth h path) \<and> keeps I (assert_clean_baseline depth h identity)
    \<and> keeps I (prepare_source_commit h contract worktree preflight metadata)
    \<and> keeps I (apply_source_commit_cas h worktree prepared) \<and> keeps I (classify_source_cas h worktree prepared)"
  by (intro conjI keeps_intros assms)

end
