(* ===== verification/Gate.thy ===== *)
theory Gate
  imports StateStore Config SourceCommit
begin

text \<open>
  \<^verbatim>\<open>verification.py\<close>: the verification gate runs the authorized commands of the frozen configuration
  in a worktree at a fixed commit, stores their output and a manifest as artifacts, and refuses a
  run that changed the commit, the product or the protected Git state.
\<close>

section \<open>The run directory and the host together\<close>

record 'g world =
  wd :: run_dir
  wg :: 'g

definition on_dir :: "'a act \<Rightarrow> ('g world, 'a) eff" where
  "on_dir m = (\<lambda>w. case m (wd w) of (r, d) \<Rightarrow> (r, w\<lparr>wd := d\<rparr>))"

definition on_host :: "('g, 'a) eff \<Rightarrow> ('g world, 'a) eff" where
  "on_host m = (\<lambda>w. case m (wg w) of (r, g) \<Rightarrow> (r, w\<lparr>wg := g\<rparr>))"

text \<open>
  A started process exits with its output and code, or overruns its time limit: then it is
  terminated, and either its output follows within two seconds or it is killed.
\<close>

datatype process_outcome =
    Exited string string int
  | Overran "(string \<times> string) option" "string \<times> string"

record 'g machine =
  m_which :: "'g \<Rightarrow> string \<Rightarrow> string option"
  m_environ :: "'g \<Rightarrow> (string, string) dict"
  m_process :: "string list \<Rightarrow> string \<Rightarrow> (string, string) dict \<Rightarrow> int \<Rightarrow> ('g, process_outcome) eff"
  m_now :: "'g \<Rightarrow> string \<times> 'g"
  m_uuid4 :: "'g \<Rightarrow> string \<times> 'g"

definition now :: "'g machine \<Rightarrow> ('g world, string) eff" where
  "now m = on_host (\<lambda>g. case m_now m g of (t, g') \<Rightarrow> (Inr t, g'))"

definition uuid4 :: "'g machine \<Rightarrow> ('g world, string) eff" where
  "uuid4 m = on_host (\<lambda>g. case m_uuid4 m g of (t, g') \<Rightarrow> (Inr t, g'))"

section \<open>Evidence\<close>

record command_evidence =
  ce_commit_sha :: string
  ce_command_id :: string
  ce_argv :: "string list"
  ce_resolved_executable :: string
  ce_cwd :: string
  ce_env_names :: "string list"
  ce_started_at :: string
  ce_finished_at :: string
  ce_timeout_seconds :: int
  ce_timed_out :: bool
  ce_exit_code :: "int option"
  ce_stdout :: artifact_ref
  ce_stderr :: artifact_ref

definition evidence_as_dict :: "command_evidence \<Rightarrow> json" where
  "evidence_as_dict e =
     JObj [(''commit_sha'', JStr (ce_commit_sha e)), (''command_id'', JStr (ce_command_id e)),
       (''argv'', jstrs (ce_argv e)), (''resolved_executable'', JStr (ce_resolved_executable e)),
       (''cwd'', JStr (ce_cwd e)), (''env_names'', jstrs (ce_env_names e)),
       (''started_at'', JStr (ce_started_at e)), (''finished_at'', JStr (ce_finished_at e)),
       (''timeout_seconds'', JInt (ce_timeout_seconds e)), (''timed_out'', JBool (ce_timed_out e)),
       (''exit_code'', case ce_exit_code e of None \<Rightarrow> JNull | Some c \<Rightarrow> JInt c),
       (''stdout'', artifact_as_dict (ce_stdout e)), (''stderr'', artifact_as_dict (ce_stderr e))]"

record verification_result =
  vr_commit_sha :: string
  vr_passed :: bool
  vr_commands :: "command_evidence list"
  vr_manifest_ref :: artifact_ref

record prepared_command =
  pc_spec :: command_spec
  pc_executable :: string
  pc_argv :: "string list"
  pc_cwd :: string
  pc_environment :: "(string, string) dict"

section \<open>Running commands\<close>

definition is_verify_hex :: "nat \<Rightarrow> string \<Rightarrow> bool" where
  "is_verify_hex n s = (length s = n \<and> list_all is_hex s)"

text \<open>\<^verbatim>\<open>VERIFY_RE\<close>: \<^verbatim>\<open>VERIFY-\<close> and a version 4 UUID in lower case.\<close>

definition VERIFY_RE :: "string \<Rightarrow> bool" where
  "VERIFY_RE s =
     (startswith s ''VERIFY-'' \<and>
      (case split_on (CHR ''-'') (drop 7 s) of
         [a, b, c, d, e] \<Rightarrow> is_verify_hex 8 a \<and> is_verify_hex 4 b \<and> is_verify_hex 4 c \<and> hd c = CHR ''4''
           \<and> is_verify_hex 4 d \<and> hd d \<in> {CHR ''8'', CHR ''9'', CHR ''a'', CHR ''b''} \<and> is_verify_hex 12 e
       | _ \<Rightarrow> False))"

text \<open>\<^verbatim>\<open>uuid.UUID(text).version\<close>, defined for the RFC 4122 variant.\<close>

definition uuid_version :: "string \<Rightarrow> int option" where
  "uuid_version u =
     (let digits = filter (\<lambda>c. c \<noteq> CHR ''-'') u in
      if length digits = 32 \<and> digits ! 16 \<in> {CHR ''8'', CHR ''9'', CHR ''a'', CHR ''b''} then hex_val (digits ! 12)
      else None)"

text \<open>\<^verbatim>\<open>TASK-\d{3}-a[1-9]\d*\<close>\<close>

definition task_attempt_re :: "string \<Rightarrow> bool" where
  "task_attempt_re s =
     (let cs = codepoints s in
      length cs \<ge> 11 \<and> take 5 cs = map byte ''TASK-'' \<and> list_all py_digit (take 3 (drop 5 cs))
      \<and> take 2 (drop 8 cs) = map byte ''-a'' \<and> 49 \<le> cs ! 10 \<and> cs ! 10 \<le> 57 \<and> list_all py_digit (drop 11 cs))"

definition prefix_in_use :: "run_dir \<Rightarrow> string \<Rightarrow> bool" where
  "prefix_in_use d p = list_ex (\<lambda>f. f = p \<or> startswith f (p @ ''/'')) (keys_of (rd_files d))"

definition validate_prefix :: "run_dir \<Rightarrow> string \<Rightarrow> string result" where
  "validate_prefix d v =
     (let parts = posix_parts v in
      bnd (chk (\<not> (is_absolute v \<or> v \<noteq> as_posix v \<or> ''..'' \<in> set parts \<or> ''.'' \<in> set parts))) (\<lambda>_.
      let valid_shape =
        (length parts = 3 \<and> (take 2 parts = [''verification'', ''global''] \<or> take 2 parts = [''verification'', ''supplemental''])
         \<or> length parts = 4 \<and> take 2 parts = [''verification'', ''tasks''] \<and> task_attempt_re (parts ! 2)) in
      bnd (chk (valid_shape \<and> VERIFY_RE (last parts))) (\<lambda>_.
      bnd (chk (uuid_version (drop 7 (last parts)) = Some 4)) (\<lambda>_.
      bnd (chk (\<not> prefix_in_use d v)) (\<lambda>_.
      Inr v)))))"

definition chk_environment :: "bool \<Rightarrow> unit result" where
  "chk_environment b = (if b then Inr () else Inl VerificationEnvironmentError)"

definition prepare_command ::
  "'g machine \<Rightarrow> 'g host \<Rightarrow> 'g \<Rightarrow> string \<Rightarrow> command_spec \<Rightarrow> prepared_command result" where
  "prepare_command m h g worktree command =
     bnd (case cs_argv command of [] \<Rightarrow> Inl IndexError | name # _ \<Rightarrow>
            (case m_which m g name of None \<Rightarrow> Inl VerificationEnvironmentError | Some executable \<Rightarrow> Inr executable)) (\<lambda>executable.
     let resolved_executable = h_resolve h g executable; parts = posix_parts (cs_cwd command) in
     bnd (chk_environment (\<not> (is_absolute (cs_cwd command) \<or> ''..'' \<in> set parts \<or> cs_cwd command \<noteq> as_posix (cs_cwd command)))) (\<lambda>_.
     let resolved_cwd = h_resolve h g (foldl path_join worktree parts) in
     bnd (chk_environment (path_below resolved_cwd worktree)) (\<lambda>_.
     bnd (chk_environment (h_is_dir h g resolved_cwd)) (\<lambda>_.
     Inr \<lparr>pc_spec = command, pc_executable = resolved_executable,
       pc_argv = resolved_executable # tl (cs_argv command), pc_cwd = resolved_cwd,
       pc_environment = concat (map (\<lambda>name. case map_of (m_environ m g) name of None \<Rightarrow> [] | Some v \<Rightarrow> [(name, v)])
         (dedup (cs_env_allowlist command)))\<rparr>))))"

definition start_process :: "'g machine \<Rightarrow> prepared_command \<Rightarrow> ('g, process_outcome) eff" where
  "start_process m command = (\<lambda>g.
     case m_process m (pc_argv command) (pc_cwd command) (pc_environment command)
            (cs_timeout_seconds (pc_spec command)) g of
       (Inl e, g') \<Rightarrow> (Inl (if e = OSError then VerificationEnvironmentError else e), g')
     | (Inr outcome, g') \<Rightarrow> (Inr outcome, g'))"

text \<open>\<^verbatim>\<open>stdout, stderr, timed_out, exit_code\<close> after the two \<^verbatim>\<open>communicate\<close> calls.\<close>

fun outcome_fields :: "process_outcome \<Rightarrow> string \<times> string \<times> bool \<times> int option" where
  "outcome_fields (Exited stdout stderr code) = (stdout, stderr, False, Some code)"
| "outcome_fields (Overran (Some (stdout, stderr)) _) = (stdout, stderr, True, None)"
| "outcome_fields (Overran None (stdout, stderr)) = (stdout, stderr, True, None)"

definition run_command ::
  "'g machine \<Rightarrow> string \<Rightarrow> string \<Rightarrow> nat \<times> prepared_command \<Rightarrow> ('g world, command_evidence) eff" where
  "run_command m commit_sha artifact_prefix numbered =
     (let index = fst numbered; command = snd numbered;
          stem = artifact_prefix @ ''/command-'' @ pad3 (int index) in
      sbnd (now m) (\<lambda>started_at.
      sbnd (on_host (start_process m command)) (\<lambda>outcome.
      sbnd (now m) (\<lambda>finished_at.
      let stdout = fst (outcome_fields outcome); stderr = fst (snd (outcome_fields outcome));
          timed_out = fst (snd (snd (outcome_fields outcome))); exit_code = snd (snd (snd (outcome_fields outcome))) in
      sbnd (on_dir (prepare_artifact (stem @ ''.stdout'') stdout)) (\<lambda>stdout_ref.
      sbnd (on_dir (prepare_artifact (stem @ ''.stderr'') stderr)) (\<lambda>stderr_ref.
      slift (Inr \<lparr>ce_commit_sha = commit_sha, ce_command_id = cs_id (pc_spec command), ce_argv = cs_argv (pc_spec command),
        ce_resolved_executable = pc_executable command, ce_cwd = cs_cwd (pc_spec command),
        ce_env_names = filter (\<lambda>name. name \<in> set (keys_of (pc_environment command))) (cs_env_allowlist (pc_spec command)),
        ce_started_at = started_at, ce_finished_at = finished_at,
        ce_timeout_seconds = cs_timeout_seconds (pc_spec command), ce_timed_out = timed_out,
        ce_exit_code = exit_code, ce_stdout = stdout_ref, ce_stderr = stderr_ref\<rparr>)))))))"

text \<open>\<^verbatim>\<open>rev-parse HEAD\<close>, decoded as ASCII.\<close>

definition ascii_text :: "string \<Rightarrow> string result" where
  "ascii_text b = (if ascii b then Inr (strip_text b) else Inl ValueError)"

definition head_of :: "'g host \<Rightarrow> string \<Rightarrow> ('g, string) eff" where
  "head_of h worktree =
     sbnd (run_local h worktree [''rev-parse'', ''HEAD''] no_internal) (\<lambda>stdout. slift (ascii_text stdout))"

definition evidence_passed :: "command_evidence \<Rightarrow> bool" where
  "evidence_passed e = (\<not> ce_timed_out e \<and> ce_exit_code e = Some 0)"

definition verification_manifest :: "string \<Rightarrow> bool \<Rightarrow> command_evidence list \<Rightarrow> json" where
  "verification_manifest commit_sha passed evidence =
     JObj [(''schema_version'', JInt 1), (''commit_sha'', JStr commit_sha), (''passed'', JBool passed),
           (''commands'', JList (map evidence_as_dict evidence))]"

definition run_gate ::
  "'g machine \<Rightarrow> 'g host \<Rightarrow> nat \<Rightarrow> frozen_run_config \<Rightarrow> string \<Rightarrow> string \<Rightarrow> string list \<Rightarrow> string \<Rightarrow>
   ('g world, verification_result) eff" where
  "run_gate m h depth config commit_sha worktree command_ids artifact_prefix =
     sbnd (slift (resolve_command_ids config command_ids)) (\<lambda>commands.
     sbnd (sget (\<lambda>w. validate_prefix (wd w) artifact_prefix)) (\<lambda>_.
     sbnd (sget (\<lambda>w. Inr (h_resolve h (wg w) worktree))) (\<lambda>resolved_worktree.
     sbnd (sget (\<lambda>w. mapr (prepare_command m h (wg w) resolved_worktree) commands)) (\<lambda>prepared.
     sbnd (on_host (head_of h resolved_worktree)) (\<lambda>actual_before.
     sbnd (slift (chk (actual_before = commit_sha))) (\<lambda>_.
     sbnd (on_host (capture_read_only_audit depth h resolved_worktree)) (\<lambda>before.
     sbnd (smap (run_command m commit_sha artifact_prefix) (enumerate 1 prepared)) (\<lambda>evidence.
     sbnd (on_host (head_of h resolved_worktree)) (\<lambda>actual_after.
     sbnd (on_host (capture_read_only_audit depth h resolved_worktree)) (\<lambda>after.
     sbnd (slift (chk (\<not> (actual_after \<noteq> commit_sha \<or> \<not> py_eq after before)))) (\<lambda>_.
     let passed = list_all evidence_passed evidence in
     sbnd (slift (canonical_json_bytes (verification_manifest commit_sha passed evidence))) (\<lambda>body.
     sbnd (on_dir (prepare_artifact (artifact_prefix @ ''/manifest.json'') body)) (\<lambda>manifest_ref.
     slift (Inr \<lparr>vr_commit_sha = commit_sha, vr_passed = passed, vr_commands = evidence,
       vr_manifest_ref = manifest_ref\<rparr>))))))))))))))"

section \<open>The gate only adds artifacts\<close>

lemma on_dir_eq: "on_dir m w = (r, w') \<longleftrightarrow> (\<exists>d. m (wd w) = (r, d) \<and> w' = w\<lparr>wd := d\<rparr>)"
  by (auto simp: on_dir_def split: prod.splits)

lemma on_host_eq: "on_host m w = (r, w') \<longleftrightarrow> (\<exists>g. m (wg w) = (r, g) \<and> w' = w\<lparr>wg := g\<rparr>)"
  by (auto simp: on_host_def split: prod.splits)

lemma keeps_on_dir [keeps_intros]: "keeps I m \<Longrightarrow> keeps (\<lambda>w. I (wd w)) (on_dir m)"
  by (fastforce simp: keeps_def on_dir_def split: prod.splits)

lemma keeps_on_host_dir [keeps_intros]: "keeps (\<lambda>w. I (wd w)) (on_host m)"
  by (auto simp: keeps_def on_host_def split: prod.splits)

text \<open>From \<open>d0\<close> on, only artifacts below \<open>p\<close> were added.\<close>

definition adds_below :: "string \<Rightarrow> run_dir \<Rightarrow> run_dir \<Rightarrow> bool" where
  "adds_below p d0 d \<longleftrightarrow>
     grows d0 d \<and> rd_state d = rd_state d0 \<and> rd_log d = rd_log d0 \<and> rd_locked d = rd_locked d0
     \<and> (\<forall>f. \<not> startswith f (p @ ''/'') \<longrightarrow> map_of (rd_files d) f = map_of (rd_files d0) f)"

lemma adds_below_refl [simp]: "adds_below p d d"
  by (simp add: adds_below_def)

lemma prepare_artifact_eq: "prepare_artifact f body d = (r, d') \<longleftrightarrow>
    (if rd_locked d then write_immutable f body d = (r, d') else r = Inl StateConflictError \<and> d' = d)"
  by (auto simp: prepare_artifact_def sbnd_eq)

lemma prepare_artifact_Inr:
  assumes "prepare_artifact f body d = (Inr ref, d')"
  shows "ref = \<lparr>ar_path = f, ar_sha256 = digest_of body\<rparr> \<and> map_of (rd_files d') f = Some body"
proof -
  from assms have w: "write_immutable f body d = (Inr ref, d')" by (auto simp: prepare_artifact_eq split: if_splits)
  then have "ref = \<lparr>ar_path = f, ar_sha256 = digest_of body\<rparr>"
    by (auto simp: write_immutable_def sbnd_Inr artifact_ref_of_def bnd_eq_Inr)
  with write_immutable_effect(5) [OF w] show ?thesis by simp
qed

lemma keeps_adds_below: "startswith f (p @ ''/'') \<Longrightarrow> keeps (adds_below p d0) (prepare_artifact f body)"
  unfolding keeps_def
proof (intro allI impI)
  fix d assume f: "startswith f (p @ ''/'')" and I: "adds_below p d0 d"
  obtain r d' where w: "write_immutable f body d = (r, d')" by force
  note e = write_immutable_effect [OF w]
  have "map_of (rd_files d') k = map_of (rd_files d) k" if "k \<noteq> f" for k
    using w that by (auto simp: write_immutable_def publish_immutable_def sbnd_eq split: option.splits if_splits)
  then have "map_of (rd_files d') k = map_of (rd_files d0) k" if "\<not> startswith k (p @ ''/'')" for k
    using that f I unfolding adds_below_def by metis
  with I e have "adds_below p d0 d'" by (auto simp: adds_below_def intro: grows_trans)
  with w I show "adds_below p d0 (snd (prepare_artifact f body d))"
    by (cases "rd_locked d") (auto simp: prepare_artifact_def sbnd_def require_lock_def)
qed

lemma keeps_run_command [keeps_intros]:
  "keeps (\<lambda>w. adds_below p d0 (wd w)) (run_command m commit_sha p numbered)"
  unfolding run_command_def Let_def now_def
  by (auto intro!: keeps_intros keeps_adds_below simp: startswith_def)

lemma keeps_run_gate:
  "keeps (\<lambda>w. adds_below p d0 (wd w)) (run_gate m h depth config commit_sha worktree ids p)"
  unfolding run_gate_def Let_def
  by (intro keeps_intros keeps_adds_below) (simp add: startswith_def)

section \<open>What a passed verification proves\<close>

lemma run_command_id:
  "run_command m commit_sha p numbered w = (Inr e, w') \<Longrightarrow>
   ce_command_id e = cs_id (pc_spec (snd numbered)) \<and> ce_commit_sha e = commit_sha"
  by (auto simp: run_command_def Let_def sbnd_Inr)

lemma prepare_command_spec: "prepare_command m h g worktree command = Inr pc \<Longrightarrow> pc_spec pc = command"
  by (auto simp: prepare_command_def bnd_eq_Inr Let_def split: list.splits option.splits)

lemma run_gate_facts:
  assumes "run_gate m h depth config commit_sha worktree ids p w = (Inr res, w')"
  obtains commands prepared evidence body w1 w2 d0 d where
    "resolve_command_ids config ids = Inr commands" "validate_prefix (wd w) p = Inr p"
    "list_all2 (\<lambda>c pc. pc_spec pc = c) commands prepared"
    "smap (run_command m commit_sha p) (enumerate 1 prepared) w1 = (Inr evidence, w2)"
    "canonical_json_bytes (verification_manifest commit_sha (list_all evidence_passed evidence) evidence) = Inr body"
    "prepare_artifact (p @ ''/manifest.json'') body d0 = (Inr (vr_manifest_ref res), d)" "wd w' = d"
    "vr_commit_sha res = commit_sha" "vr_passed res = list_all evidence_passed evidence" "vr_commands res = evidence"
proof -
  have vp: "validate_prefix d q = Inr q' \<Longrightarrow> q' = q" for d q q' by (auto simp: validate_prefix_def Let_def bnd_eq_Inr)
  have pc: "mapr (prepare_command m h g wt) cs = Inr ps \<Longrightarrow> list_all2 (\<lambda>c pc. pc_spec pc = c) cs ps" for g wt cs ps
    by (auto simp: mapr_eq_Inr prepare_command_spec elim!: list_all2_mono)
  note elims = sbnd_InrE slift_InrE sget_InrE
  from assms show thesis unfolding run_gate_def Let_def
  proof (elim elims)
    fix commands x prepared evidence body ref wt s1 s3 w1 w2 w3 w4
    assume c: "resolve_command_ids config ids = Inr commands" "s1 = w" and x: "validate_prefix (wd s1) p = Inr x"
      and prep: "mapr (prepare_command m h (wg s3) wt) commands = Inr prepared"
      and ev: "smap (run_command m commit_sha p) (enumerate 1 prepared) w1 = (Inr evidence, w2)"
      and b: "canonical_json_bytes (verification_manifest commit_sha (list_all evidence_passed evidence) evidence) = Inr body"
      and art: "on_dir (prepare_artifact (p @ ''/manifest.json'') body) w3 = (Inr ref, w4)" "w' = w4"
      and res: "Inr \<lparr>vr_commit_sha = commit_sha, vr_passed = list_all evidence_passed evidence, vr_commands = evidence,
        vr_manifest_ref = ref\<rparr> = Inr res"
    from art obtain d where "prepare_artifact (p @ ''/manifest.json'') body (wd w3) = (Inr ref, d)" "wd w' = d"
      by (auto simp: on_dir_eq)
    moreover from res have "res = \<lparr>vr_commit_sha = commit_sha, vr_passed = list_all evidence_passed evidence,
        vr_commands = evidence, vr_manifest_ref = ref\<rparr>" by simp
    ultimately show thesis using c x prep ev b vp [OF x] pc [OF prep]
      by (intro that [of commands prepared w1 evidence w2 body "wd w3" d]) simp_all
  qed
qed

lemma run_gate_result:
  assumes "run_gate m h depth config commit_sha worktree ids p w = (Inr res, w')"
  shows "(\<exists>commands. resolve_command_ids config ids = Inr commands
           \<and> map ce_command_id (vr_commands res) = map cs_id commands)
    \<and> vr_commit_sha res = commit_sha \<and> list_all (\<lambda>e. ce_commit_sha e = commit_sha) (vr_commands res)
    \<and> vr_passed res = list_all evidence_passed (vr_commands res)
    \<and> (\<exists>body. canonical_json_bytes (verification_manifest commit_sha (vr_passed res) (vr_commands res)) = Inr body
         \<and> map_of (rd_files (wd w')) (p @ ''/manifest.json'') = Some body
         \<and> ar_path (vr_manifest_ref res) = p @ ''/manifest.json'' \<and> ar_sha256 (vr_manifest_ref res) = digest_of body)
    \<and> \<not> prefix_in_use (wd w) p \<and> adds_below p (wd w) (wd w')"
proof -
  have frame: "adds_below p (wd w) (wd w')"
    using keeps_run_gate [of p "wd w" m h depth config commit_sha worktree ids] assms
    by (auto simp: keeps_def dest: spec [of _ w])
  from assms show ?thesis
  proof (rule run_gate_facts)
    fix commands prepared evidence body w1 w2 d0 d
    assume c: "resolve_command_ids config ids = Inr commands" "validate_prefix (wd w) p = Inr p"
      "list_all2 (\<lambda>c pc. pc_spec pc = c) commands prepared"
      "smap (run_command m commit_sha p) (enumerate 1 prepared) w1 = (Inr evidence, w2)"
      and body: "canonical_json_bytes (verification_manifest commit_sha (list_all evidence_passed evidence) evidence) = Inr body"
      and art: "prepare_artifact (p @ ''/manifest.json'') body d0 = (Inr (vr_manifest_ref res), d)" "wd w' = d"
      and res: "vr_commit_sha res = commit_sha" "vr_passed res = list_all evidence_passed evidence" "vr_commands res = evidence"
    from smap_Inr [OF c(4)] have ev: "list_all2 (\<lambda>np e. ce_command_id e = cs_id (pc_spec (snd np)) \<and> ce_commit_sha e = commit_sha)
        (enumerate 1 prepared) evidence"
      by (rule list_all2_mono) (auto dest: run_command_id)
    have "map (\<lambda>np. cs_id (pc_spec (snd np))) (enumerate 1 prepared) = map ce_command_id evidence"
      by (rule map_eq_list_all2 [OF ev]) simp
    then have "map ce_command_id evidence = map (\<lambda>pc. cs_id (pc_spec pc)) prepared"
      by (metis (no_types, lifting) map_map map_snd_enumerate comp_apply map_cong)
    moreover have "map cs_id commands = map (\<lambda>pc. cs_id (pc_spec pc)) prepared"
      by (rule map_eq_list_all2 [OF c(3)]) simp
    moreover have "list_all (\<lambda>e. ce_commit_sha e = commit_sha) evidence"
      using ev by (auto simp: list_all_length list_all2_conv_all_nth)
    moreover have "map_of (rd_files d) (p @ ''/manifest.json'') = Some body"
      "ar_path (vr_manifest_ref res) = p @ ''/manifest.json''" "ar_sha256 (vr_manifest_ref res) = digest_of body"
      using prepare_artifact_Inr [OF art(1)] by simp_all
    moreover have "\<not> prefix_in_use (wd w) p" using c(2) by (auto simp: validate_prefix_def Let_def bnd_eq_Inr)
    ultimately show ?thesis using c(1) body art(2) res frame by auto
  qed
qed


end
