(* ===== verification/StoreContract.thy ===== *)
theory StoreContract
  imports StateStore
begin

text \<open>
  What the callers of the state store rely on, as an interface: a transaction that returns has
  applied its callback to the loaded state and stored the result, and one that raises has changed
  nothing that is stored.  The store of \<open>StateStore\<close> is an instance.
\<close>

text \<open>The callback sees the loaded state with the new entries of the artifact index.\<close>

definition same_but_index :: "json \<Rightarrow> json \<Rightarrow> bool" where
  "same_but_index view current \<longleftrightarrow> is_obj view \<and> (\<forall>k. k \<noteq> ''artifact_index'' \<longrightarrow> sub view k = sub current k)"

locale transactional_store =
  fixes load_state :: "'d \<Rightarrow> json result"
    and commit :: "int \<Rightarrow> (string, string) dict \<Rightarrow> (json \<Rightarrow> (string \<times> artifact_ref) list \<Rightarrow> json result) \<Rightarrow> ('d, json) eff"
    and stored :: "'d \<Rightarrow> json \<Rightarrow> bool"
  assumes committed: "commit n arts mutate d = (Inr s, d') \<Longrightarrow>
      \<exists>current view refs updated. load_state d = Inr current \<and> sub current ''revision'' = JInt n
        \<and> same_but_index view current \<and> mutate view refs = Inr updated
        \<and> s = put updated ''revision'' (JInt (n + 1)) \<and> valid s \<and> stored d' s"
    and aborted: "commit n arts mutate d = (Inl e, d') \<Longrightarrow>
      (stored d s \<longrightarrow> stored d' s) \<and> (load_state d = Inr s \<longrightarrow> load_state d' = Inr s)"
    and loaded_valid: "load_state d = Inr s \<Longrightarrow> valid s"
begin

text \<open>What every callback result satisfies holds of the stored state.\<close>

lemma commit_establishes:
  assumes "commit n arts mutate d = (Inr s, d')" and "load_state d = Inr current"
    and "\<And>view refs updated. same_but_index view current \<Longrightarrow> mutate view refs = Inr updated \<Longrightarrow>
           valid (put updated ''revision'' (JInt (n + 1))) \<Longrightarrow> P (put updated ''revision'' (JInt (n + 1)))"
  shows "P s \<and> valid s \<and> stored d' s"
  using committed [OF assms(1)] assms(2,3) by auto

lemma not_committed:
  assumes "load_state d = Inr current" and "\<And>s d'. commit n arts mutate d \<noteq> (Inr s, d')"
  shows "\<exists>e d'. commit n arts mutate d = (Inl e, d') \<and> load_state d' = Inr current"
proof -
  obtain r d' where "commit n arts mutate d = (r, d')" by force
  with assms(2) obtain e where "commit n arts mutate d = (Inl e, d')" by (cases r) auto
  with aborted [OF this, of current] assms(1) show ?thesis by auto
qed

text \<open>A callback that refuses every view, or leaves an invalid state, never commits; nor does a
  stale revision.\<close>

lemma never_commits:
  assumes "load_state d = Inr current"
    and "\<And>view refs updated. same_but_index view current \<Longrightarrow> mutate view refs = Inr updated \<Longrightarrow>
           \<not> valid (put updated ''revision'' (JInt (n + 1)))"
  shows "\<exists>e d'. commit n arts mutate d = (Inl e, d') \<and> load_state d' = Inr current"
  using assms by (intro not_committed) (auto dest!: committed)

lemma stale_revision:
  assumes "load_state d = Inr current" and "sub current ''revision'' \<noteq> JInt n"
  shows "\<exists>e d'. commit n arts mutate d = (Inl e, d') \<and> load_state d' = Inr current"
  using assms by (intro not_committed) (auto dest!: committed)

end

definition stored_state :: "run_dir \<Rightarrow> json \<Rightarrow> bool" where
  "stored_state d s \<longleftrightarrow> (\<exists>b. rd_state d = Some b \<and> canonical_json_bytes s = Inr b)"

lemma index_same:
  assumes "foldr_r index_artifact (c, i) refs = Inr indexed" and "is_obj c"
  shows "same_but_index (fst indexed) c"
proof (rule foldr_r_inv [OF assms(1), where P = "\<lambda>x. same_but_index (fst x) c"])
  show "same_but_index (fst (c, i)) c" using assms(2) by (simp add: same_but_index_def)
next
  fix s r s' assume "same_but_index (fst s) c" "index_artifact s r = Inr s'"
  then show "same_but_index (fst s') c"
    by (auto simp: index_artifact_def same_but_index_def split: option.splits if_splits)
qed

interpretation store: transactional_store load transact stored_state
proof
  fix n arts mutate d s d'
  assume t: "transact n arts mutate d = (Inr s, d')"
  then show "\<exists>current view refs updated. load d = Inr current \<and> sub current ''revision'' = JInt n
        \<and> same_but_index view current \<and> mutate view refs = Inr updated
        \<and> s = put updated ''revision'' (JInt (n + 1)) \<and> valid s \<and> stored_state d' s"
  proof (cases rule: transact_cases)
    case (committed s1 b)
    then have s1: "s1 = s" by simp
    from committed(2) [unfolded s1] obtain current indexed refs updated where
      f: "load d = Inr current" "sub current ''revision'' = JInt n"
        "foldr_r index_artifact (current, index_of current) (map snd refs) = Inr indexed"
        "mutate (fst indexed) refs = Inr updated" "s = put updated ''revision'' (JInt (n + 1))" "valid s"
      by (rule next_state_facts) blast
    have "is_obj current" using load_valid [OF f(1)] by (simp add: valid_iff)
    with f index_same [OF f(3)] committed(3,4) s1 show ?thesis unfolding stored_state_def by blast
  qed simp
next
  fix n arts mutate d e d' s
  assume t: "transact n arts mutate d = (Inl e, d')"
  then show "(stored_state d s \<longrightarrow> stored_state d' s) \<and> (load d = Inr s \<longrightarrow> load d' = Inr s)"
    by (cases rule: transact_cases) (auto simp: stored_state_def intro: load_grows)
next
  fix d s assume "load d = Inr s"
  then show "valid s" by (rule load_valid)
qed

end
