(* ===== verification/Integrator.thy ===== *)
theory Integrator
  imports Gate StoreContract
begin

text \<open>
  \<^verbatim>\<open>integrator.py\<close>: the last step of a task.  The source commit is cherry-picked onto the integration
  head in a disposable worktree and verified there; then a marker is stored, the integration ref is
  moved by compare-and-swap, and the marker is replaced by the completed task.  A crash between
  these steps is repaired by \<open>recover\<close>, which decides by the position of the ref.

  The clock is read just before a transaction instead of inside its callback.
\<close>

section \<open>Data\<close>

datatype integration_recovery = RETRY_CAS | COMPLETE_STATE | PAUSE

record candidate_integration =
  ci_operation_id :: string
  ci_path :: string
  ci_expected_head :: string
  ci_candidate_head :: string
  ci_source_audit :: source_audit
  ci_source_audit_ref :: artifact_ref
  ci_verification :: verification_result

definition chk_reject :: "bool \<Rightarrow> unit result" where
  "chk_reject b = (if b then Inr () else Inl IntegrationRejected)"

section \<open>Checks of a candidate\<close>

definition read_bound_artifact :: "run_dir \<Rightarrow> artifact_ref \<Rightarrow> string result" where
  "read_bound_artifact d reference =
     bnd (read_regular (map_of (rd_files d) (ar_path reference)) MAX_ARTIFACT_BYTES) (\<lambda>body.
     bnd (chk (digest_of body = ar_sha256 reference)) (\<lambda>_. Inr body))"

definition attempt_dir :: "string \<Rightarrow> int \<Rightarrow> string" where
  "attempt_dir task_id attempt_no = ''tasks/'' @ task_id @ ''/attempts/'' @ pad3 attempt_no"

definition source_audit_ref :: "json \<Rightarrow> string \<Rightarrow> int \<Rightarrow> artifact_ref result" where
  "source_audit_ref state task_id attempt_no =
     (let expected = attempt_dir task_id attempt_no @ ''/source-audit.json'';
          matches = filter (\<lambda>x. sub x ''path'' = JStr expected) (elems (sub state ''artifact_index'')) in
      bnd (chk_reject (length matches = 1)) (\<lambda>_.
      Inr \<lparr>ar_path = str_of (sub (hd matches) ''path''), ar_sha256 = str_of (sub (hd matches) ''sha256'')\<rparr>))"

definition commit_parents :: "'g host \<Rightarrow> string \<Rightarrow> ('g, string list) eff" where
  "commit_parents h commit =
     sbnd (run_local h (repository_root h) [''rev-list'', ''--parents'', ''-n'', ''1'', commit] no_internal) (\<lambda>stdout.
     sbnd (slift (ascii_text stdout)) (\<lambda>value. slift (Inr (words_of value))))"

definition verify_candidate_structure :: "'g host \<Rightarrow> string \<Rightarrow> string \<Rightarrow> ('g, unit) eff" where
  "verify_candidate_structure h candidate expected_parent =
     sbnd (commit_parents h candidate) (\<lambda>parents.
     slift (chk_reject (parents = [candidate, expected_parent])))"

definition candidate_path :: "string \<Rightarrow> string result" where
  "candidate_path raw_path =
     (let path = fsdecode raw_path in
      bnd (chk_reject (\<not> (as_posix path \<noteq> path \<or> path = ''.vibe-coding'' \<or> startswith path ''.vibe-coding/''))) (\<lambda>_.
      Inr path))"

definition changed_paths :: "'g host \<Rightarrow> string \<Rightarrow> string \<Rightarrow> string \<Rightarrow> ('g, string list) eff" where
  "changed_paths h worktree base candidate =
     sbnd (run_local h worktree [''diff'', ''--name-status'', ''-z'', ''--find-renames'', base, candidate, ''--'', ''.'']
       no_internal) (\<lambda>raw.
     sbnd (slift (name_status IntegrationRejected candidate_path (filter (\<lambda>f. f \<noteq> []) (split_on NUL raw)))) (\<lambda>paths.
     slift (Inr (sort (remdups paths)))))"

definition require_paths_in_scope :: "string list \<Rightarrow> string list \<Rightarrow> unit result" where
  "require_paths_in_scope paths scopes =
     bnd (mapr normalize_scope scopes) (\<lambda>normalized.
     forr (\<lambda>path. chk_reject (list_ex (path_matches_scope path) normalized)) paths)"

text \<open>\<^verbatim>\<open>tuple(body.get(key, ()))\<close>\<close>

definition tuple_field :: "json \<Rightarrow> string \<Rightarrow> json list result" where
  "tuple_field body key =
     (case jget body key of None \<Rightarrow> Inr []
      | Some v \<Rightarrow> (case py_iter v of None \<Rightarrow> Inl TypeError | Some xs \<Rightarrow> Inr xs))"

definition verify_source_audit ::
  "'g host \<Rightarrow> task_contract \<Rightarrow> json \<Rightarrow> json \<Rightarrow> artifact_ref \<Rightarrow> source_audit \<Rightarrow> ('g world, unit) eff" where
  "verify_source_audit h contract task active source_ref audit =
     sbnd (sget (\<lambda>w. bnd (read_bound_artifact (wd w) source_ref) parse_json_object_bytes)) (\<lambda>body.
     sbnd (slift (chk_reject (sub body ''candidate_commit'' = JStr (sa_source_head audit)
       \<and> sub body ''base_sha'' = JStr (sa_task_base_sha audit)))) (\<lambda>_.
     sbnd (slift (tuple_field body ''source_commits'')) (\<lambda>commits.
     sbnd (slift (chk_reject (commits = map JStr (sa_source_commits audit)))) (\<lambda>_.
     sbnd (slift (tuple_field body ''changed_paths'')) (\<lambda>paths.
     sbnd (slift (chk_reject (paths = map JStr (sa_changed_paths audit)
       \<and> py_eq (sub body ''gitlinks_changed'') (JBool (sa_gitlinks_changed audit))))) (\<lambda>_.
     sbnd (slift (chk_reject (sub task ''source_commits'' = JList [JStr (sa_source_head audit)]
       \<and> sub active ''task_base_sha'' = JStr (sa_task_base_sha audit)))) (\<lambda>_.
     sbnd (on_host (resolve_ref h (str_of (sub active ''branch'')))) (\<lambda>tip.
     sbnd (slift (chk_reject (tip = sa_source_head audit))) (\<lambda>_.
     sbnd (on_host (commit_parents h (sa_source_head audit))) (\<lambda>parents.
     sbnd (slift (chk_reject (parents = [sa_source_head audit, sa_task_base_sha audit]))) (\<lambda>_.
     slift (require_paths_in_scope (sa_changed_paths audit) (tc_path_scope contract)))))))))))))"

text \<open>The guards of \<^verbatim>\<open>prepare\<close> on the state: the task and its active attempt.\<close>

definition ready_task :: "json \<Rightarrow> string \<Rightarrow> (json \<times> json) result" where
  "ready_task state task_id =
     bnd (chk_reject (sub state ''pending_integration'' = JNull)) (\<lambda>_.
     let task = sub (sub state ''tasks'') task_id; active = sub task ''active_attempt'' in
     bnd (chk_reject (is_obj task \<and> sub task ''status'' = JStr ''READY_TO_INTEGRATE'')) (\<lambda>_.
     bnd (chk_reject (is_obj active \<and> sub active ''status'' = JStr ''VERIFYING'')) (\<lambda>_.
     Inr (task, active))))"

text \<open>The second half of \<^verbatim>\<open>prepare\<close>, on the cherry-picked commit in \<open>path\<close>.\<close>

definition check_candidate ::
  "'g machine \<Rightarrow> 'g host \<Rightarrow> nat \<Rightarrow> frozen_run_config \<Rightarrow> task_contract \<Rightarrow> source_audit \<Rightarrow> json \<Rightarrow> string \<Rightarrow>
   string \<Rightarrow> string \<Rightarrow> artifact_ref \<Rightarrow> ('g world, candidate_integration) eff" where
  "check_candidate m h depth config contract audit task expected_head operation_id path source_ref =
     sbnd (on_host (head_of h path)) (\<lambda>candidate_head.
     sbnd (on_host (verify_candidate_structure h candidate_head expected_head)) (\<lambda>_.
     sbnd (on_host (changed_paths h path expected_head candidate_head)) (\<lambda>candidate_paths.
     sbnd (slift (chk_reject (candidate_paths = sa_changed_paths audit))) (\<lambda>_.
     sbnd (slift (require_paths_in_scope candidate_paths (tc_path_scope contract))) (\<lambda>_.
     sbnd (slift (effective_command_ids config (tc_acceptance_checks contract))) (\<lambda>command_ids.
     sbnd (uuid4 m) (\<lambda>v.
     sbnd (run_gate m h depth config candidate_head path command_ids
       (''verification/tasks/'' @ tc_id contract @ ''-a'' @ int_text (int_of (sub task ''attempt_no''))
          @ ''/VERIFY-'' @ v)) (\<lambda>verification.
     sbnd (slift (chk_reject (vr_passed verification))) (\<lambda>_.
     sbnd (slift (chk_reject (vr_commit_sha verification = candidate_head))) (\<lambda>_.
     slift (Inr \<lparr>ci_operation_id = operation_id, ci_path = path, ci_expected_head = expected_head,
       ci_candidate_head = candidate_head, ci_source_audit = audit, ci_source_audit_ref = source_ref,
       ci_verification = verification\<rparr>)))))))))))"

definition prepare ::
  "'g machine \<Rightarrow> 'g host \<Rightarrow> nat \<Rightarrow> frozen_run_config \<Rightarrow> json \<Rightarrow> task_contract \<Rightarrow> source_audit \<Rightarrow>
   ('g world, candidate_integration) eff" where
  "prepare m h depth config state contract audit =
     sbnd (slift (ready_task state (tc_id contract))) (\<lambda>ready.
     let task = fst ready; active = snd ready;
         attempt_no = int_of (sub task ''attempt_no''); repository = sub state ''repository'';
         expected_head = str_of (sub repository ''integration_head'') in
     sbnd (slift (source_audit_ref state (tc_id contract) attempt_no)) (\<lambda>source_ref.
     sbnd (verify_source_audit h contract task active source_ref audit) (\<lambda>_.
     sbnd (on_host (resolve_ref h (str_of (sub repository ''integration_ref'')))) (\<lambda>actual.
     sbnd (slift (chk_reject (actual = expected_head))) (\<lambda>_.
     sbnd (uuid4 m) (\<lambda>u.
     let operation_id = ''INT-'' @ u in
     sbnd (on_host (create_disposable_worktree h (str_of (sub state ''run_id'')) ''candidates'' operation_id expected_head)) (\<lambda>path.
     sbnd (on_host (stry (sbnd (run_local h path [''cherry-pick'', sa_source_head audit] no_internal) (\<lambda>_. slift (Inr ())))
       (slift (Inl IntegrationRejected)))) (\<lambda>_.
     check_candidate m h depth config contract audit task expected_head operation_id path source_ref))))))))"

section \<open>The three steps\<close>

definition bind_pending ::
  "string \<Rightarrow> json \<Rightarrow> pending_integration \<Rightarrow> artifact_ref \<Rightarrow> string \<Rightarrow> string \<Rightarrow> json \<Rightarrow>
   (string \<times> artifact_ref) list \<Rightarrow> json result" where
  "bind_pending task_id active pending verification_ref manifest_path completed_at current refs =
     bnd (chk (sub current ''pending_integration'' = JNull)) (\<lambda>_.
     bnd (item (sub current ''tasks'') task_id) (\<lambda>current_task.
     bnd (chk (\<not> (sub current_task ''status'' \<noteq> JStr ''READY_TO_INTEGRATE''
               \<or> \<not> py_eq (sub current_task ''active_attempt'') active
               \<or> sub (sub current ''repository'') ''integration_head'' \<noteq> JStr (pi_expected_head pending)))) (\<lambda>_.
     bnd (case map_of refs manifest_path of None \<Rightarrow> Inl KeyError | Some r \<Rightarrow> Inr (artifact_as_dict r)) (\<lambda>attempt_ref.
     let task = put (put (put (upd current_task ''attempts'' (\<lambda>xs. push xs attempt_ref))
           ''active_attempt'' JNull) ''verification'' (artifact_as_dict verification_ref)) ''status'' (JStr ''INTEGRATING'') in
     Inr (put (put (upd (upd current ''tasks'' (\<lambda>tasks. put tasks task_id task))
           ''verifications'' (\<lambda>xs. push xs (artifact_as_dict verification_ref)))
           ''pending_integration'' (pending_as_dict pending)) ''updated_at'' (JStr completed_at))))))"

definition worker_manifest :: "string \<Rightarrow> json \<Rightarrow> json \<Rightarrow> candidate_integration \<Rightarrow> string \<Rightarrow> json" where
  "worker_manifest task_id task active candidate completed_at =
     JObj [(''schema_version'', JInt 1), (''role'', JStr ''worker''),
       (''operation_id'', JStr (''WORK-'' @ task_id @ ''-A'' @ int_text (int_of (sub task ''attempt_no'')))),
       (''task_id'', JStr task_id), (''attempt_no'', sub task ''attempt_no''),
       (''attempt_token'', sub active ''attempt_token''), (''status'', JStr ''SUCCEEDED''),
       (''created_at'', sub active ''created_at''), (''completed_at'', JStr completed_at),
       (''expected_base'', sub active ''task_base_sha''), (''branch'', sub active ''branch''),
       (''worktree'', sub active ''worktree''), (''preflight'', sub active ''preflight''),
       (''prompt_versions'', JList []), (''provider_attempts'', JList []), (''request'', JNull), (''launch'', JNull),
       (''stdout'', JNull), (''stderr'', JNull), (''exit'', JNull), (''result'', sub task ''result''),
       (''source_audit'', artifact_as_dict (ci_source_audit_ref candidate)),
       (''verification'', artifact_as_dict (vr_manifest_ref (ci_verification candidate))), (''last_error'', JNull)]"

definition persist_pending ::
  "'g machine \<Rightarrow> json \<Rightarrow> task_contract \<Rightarrow> candidate_integration \<Rightarrow> pending_integration \<Rightarrow> ('g world, json) eff" where
  "persist_pending m state contract candidate pending =
     (let task = sub (sub state ''tasks'') (tc_id contract); active = sub task ''active_attempt'';
          manifest_path = attempt_dir (tc_id contract) (int_of (sub task ''attempt_no'')) @ ''/attempt.json'' in
      sbnd (now m) (\<lambda>completed_at.
      sbnd (slift (canonical_json_bytes (worker_manifest (tc_id contract) task active candidate completed_at))) (\<lambda>manifest_body.
      on_dir (transact (int_of (sub state ''revision'')) [(manifest_path, manifest_body)]
        (bind_pending (tc_id contract) active pending (vr_manifest_ref (ci_verification candidate)) manifest_path completed_at)))))"

definition apply_cas :: "'g host \<Rightarrow> pending_integration \<Rightarrow> ('g world, unit) eff" where
  "apply_cas h pending =
     sbnd (sget (\<lambda>w. load (wd w))) (\<lambda>state.
     sbnd (slift (chk (py_eq (sub state ''pending_integration'') (pending_as_dict pending)))) (\<lambda>_.
     on_host (update_ref h (str_of (sub (sub state ''repository'') ''integration_ref''))
       (pi_candidate_head pending) (pi_expected_head pending))))"

definition complete ::
  "pending_integration \<Rightarrow> string \<Rightarrow> json \<Rightarrow> (string \<times> artifact_ref) list \<Rightarrow> json result" where
  "complete pending at current refs =
     bnd (chk (py_eq (sub current ''pending_integration'') (pending_as_dict pending))) (\<lambda>_.
     bnd (item (sub current ''tasks'') (pi_task_id pending)) (\<lambda>task.
     bnd (chk (sub task ''status'' = JStr ''INTEGRATING'')) (\<lambda>_.
     let task' = put (put task ''status'' (JStr ''COMPLETED''))
           ''integrated_commits'' (JList [JStr (pi_candidate_head pending)]) in
     Inr (put (put (put (upd (upd current
             ''repository'' (\<lambda>r. put r ''integration_head'' (JStr (pi_candidate_head pending))))
             ''tasks'' (\<lambda>tasks. put tasks (pi_task_id pending) task'))
           ''pending_integration'' JNull) ''last_error'' JNull) ''updated_at'' (JStr at)))))"

definition complete_state :: "'g machine \<Rightarrow> pending_integration \<Rightarrow> ('g world, json) eff" where
  "complete_state m pending =
     sbnd (sget (\<lambda>w. load (wd w))) (\<lambda>state.
     sbnd (now m) (\<lambda>at.
     on_dir (transact (int_of (sub state ''revision'')) [] (complete pending at))))"

definition pending_of :: "json \<Rightarrow> task_contract \<Rightarrow> source_audit \<Rightarrow> candidate_integration \<Rightarrow> pending_integration" where
  "pending_of state contract audit candidate =
     \<lparr>pi_operation_id = ci_operation_id candidate, pi_task_id = tc_id contract,
      pi_attempt_no = int_of (sub (sub (sub state ''tasks'') (tc_id contract)) ''attempt_no''),
      pi_expected_head = ci_expected_head candidate, pi_candidate_head = ci_candidate_head candidate,
      pi_source_base = sa_task_base_sha audit, pi_source_head = sa_source_head audit,
      pi_verification = vr_manifest_ref (ci_verification candidate)\<rparr>"

text \<open>\<open>hook\<close> is \<^verbatim>\<open>fault_hook\<close>, which the tests use to stop at a step.\<close>

definition integrate ::
  "(string \<Rightarrow> ('g world, unit) eff) \<Rightarrow> 'g machine \<Rightarrow> 'g host \<Rightarrow> nat \<Rightarrow> frozen_run_config \<Rightarrow> task_contract \<Rightarrow>
   source_audit \<Rightarrow> ('g world, candidate_integration) eff" where
  "integrate hook m h depth config contract audit =
     sbnd (sget (\<lambda>w. load (wd w))) (\<lambda>state.
     sbnd (prepare m h depth config state contract audit) (\<lambda>candidate.
     sbnd (hook ''after_candidate_verification_before_pending_integration'') (\<lambda>_.
     let pending = pending_of state contract audit candidate in
     sbnd (persist_pending m state contract candidate pending) (\<lambda>_.
     sbnd (hook ''after_pending_integration_before_update_ref'') (\<lambda>_.
     sbnd (apply_cas h pending) (\<lambda>_.
     sbnd (hook ''after_update_ref_before_state_completion'') (\<lambda>_.
     sbnd (complete_state m pending) (\<lambda>_.
     slift (Inr candidate)))))))))"

section \<open>Recovery\<close>

definition classify_recovery :: "'g host \<Rightarrow> pending_integration \<Rightarrow> ('g world, integration_recovery) eff" where
  "classify_recovery h pending =
     sbnd (sget (\<lambda>w. load (wd w))) (\<lambda>state.
     sbnd (on_host (resolve_ref h (str_of (sub (sub state ''repository'') ''integration_ref'')))) (\<lambda>actual.
     slift (Inr (if actual = pi_expected_head pending then RETRY_CAS
                 else if actual = pi_candidate_head pending then COMPLETE_STATE else PAUSE))))"

definition pending_from_state :: "json \<Rightarrow> pending_integration" where
  "pending_from_state v =
     \<lparr>pi_operation_id = str_of (sub v ''operation_id''), pi_task_id = str_of (sub v ''task_id''),
      pi_attempt_no = int_of (sub v ''attempt_no''), pi_expected_head = str_of (sub v ''expected_head''),
      pi_candidate_head = str_of (sub v ''candidate_head''), pi_source_base = str_of (sub v ''source_base''),
      pi_source_head = str_of (sub v ''source_head''),
      pi_verification = \<lparr>ar_path = str_of (sub (sub v ''verification'') ''path''),
        ar_sha256 = str_of (sub (sub v ''verification'') ''sha256'')\<rparr>\<rparr>"

definition verify_pending :: "'g host \<Rightarrow> json \<Rightarrow> pending_integration \<Rightarrow> ('g world, unit) eff" where
  "verify_pending h state pending =
     sbnd (on_host (verify_candidate_structure h (pi_candidate_head pending) (pi_expected_head pending))) (\<lambda>_.
     sbnd (sget (\<lambda>w. bnd (read_bound_artifact (wd w) (pi_verification pending)) parse_json_object_bytes)) (\<lambda>manifest.
     sbnd (slift (chk (sub manifest ''commit_sha'' = JStr (pi_candidate_head pending)
       \<and> sub manifest ''passed'' = JBool True))) (\<lambda>_.
     let task = sub (sub state ''tasks'') (pi_task_id pending) in
     slift (chk (is_obj task \<and> sub task ''status'' = JStr ''INTEGRATING''
       \<and> py_eq (sub task ''verification'') (artifact_as_dict (pi_verification pending)))))))"

definition pause ::
  "pending_integration \<Rightarrow> string \<Rightarrow> string \<Rightarrow> json \<Rightarrow> (string \<times> artifact_ref) list \<Rightarrow> json result" where
  "pause pending evidence_path at current refs =
     bnd (chk (py_eq (sub current ''pending_integration'') (pending_as_dict pending))) (\<lambda>_.
     bnd (case map_of refs evidence_path of None \<Rightarrow> Inl KeyError | Some r \<Rightarrow> Inr (artifact_as_dict r)) (\<lambda>evidence.
     Inr (put (put (put (put current ''resume_status'' (sub current ''status'')) ''status'' (JStr ''PAUSED''))
       ''last_error'' (JObj [(''code'', JStr ''INTEGRATION_REF_MOVED''),
          (''message'', JStr ''integration ref moved outside the Controller''), (''retryable'', JBool False),
          (''evidence'', evidence)])) ''updated_at'' (JStr at))))"

definition pause_for_ref_movement ::
  "'g machine \<Rightarrow> 'g host \<Rightarrow> json \<Rightarrow> pending_integration \<Rightarrow> ('g world, json) eff" where
  "pause_for_ref_movement m h state pending =
     sbnd (on_host (resolve_ref h (str_of (sub (sub state ''repository'') ''integration_ref'')))) (\<lambda>actual.
     let evidence_path = ''recovery/'' @ pi_operation_id pending @ ''-ref-moved.json'' in
     sbnd (slift (canonical_json_bytes (JObj [(''operation_id'', JStr (pi_operation_id pending)),
       (''expected_head'', JStr (pi_expected_head pending)), (''candidate_head'', JStr (pi_candidate_head pending)),
       (''actual_head'', JStr actual)]))) (\<lambda>evidence_body.
     sbnd (now m) (\<lambda>at.
     on_dir (transact (int_of (sub state ''revision'')) [(evidence_path, evidence_body)]
       (pause pending evidence_path at)))))"

definition finish_recovery ::
  "'g machine \<Rightarrow> 'g host \<Rightarrow> json \<Rightarrow> pending_integration \<Rightarrow> integration_recovery \<Rightarrow> ('g world, json) eff" where
  "finish_recovery m h state pending outcome =
     (case outcome of
        RETRY_CAS \<Rightarrow>
          sbnd (verify_pending h state pending) (\<lambda>_.
          sbnd (apply_cas h pending) (\<lambda>_. complete_state m pending))
      | COMPLETE_STATE \<Rightarrow> sbnd (verify_pending h state pending) (\<lambda>_. complete_state m pending)
      | PAUSE \<Rightarrow> pause_for_ref_movement m h state pending)"

definition recover :: "'g machine \<Rightarrow> 'g host \<Rightarrow> ('g world, integration_recovery) eff" where
  "recover m h =
     sbnd (sget (\<lambda>w. load (wd w))) (\<lambda>state.
     let raw = sub state ''pending_integration'' in
     sbnd (slift (chk (is_obj raw))) (\<lambda>_.
     let pending = pending_from_state raw in
     sbnd (classify_recovery h pending) (\<lambda>outcome.
     sbnd (finish_recovery m h state pending outcome) (\<lambda>_.
     slift (Inr outcome)))))"

section \<open>What completion stores\<close>

text \<open>The task of \<open>p\<close> is done and the recorded head is its candidate.\<close>

definition integrated :: "pending_integration \<Rightarrow> json \<Rightarrow> bool" where
  "integrated p s \<longleftrightarrow>
     sub (sub s ''repository'') ''integration_head'' = JStr (pi_candidate_head p)
     \<and> sub s ''pending_integration'' = JNull
     \<and> sub (sub (sub s ''tasks'') (pi_task_id p)) ''status'' = JStr ''COMPLETED''
     \<and> sub (sub (sub s ''tasks'') (pi_task_id p)) ''integrated_commits'' = JList [JStr (pi_candidate_head p)]"

definition ref_of :: "json \<Rightarrow> string" where
  "ref_of s = str_of (sub (sub s ''repository'') ''integration_ref'')"

lemma valid_repository: "valid s \<Longrightarrow> is_obj (sub s ''repository'')"
  by (auto simp: valid_iff scalar_part_def validate_repository_def require_exact_fields_def bnd_eq_Inr split: if_splits)

lemma sub_is_obj: "sub v k \<noteq> JNull \<Longrightarrow> is_obj v"
  by (cases v) (auto simp: sub_def jget_def items_def)

lemma item_is_obj: "item v k = Inr w \<Longrightarrow> is_obj v \<and> sub v k = w"
  by (cases v) (auto simp: item_def sub_def jget_def items_def split: option.splits)

lemma complete_result:
  assumes "complete p at view refs = Inr updated" and "is_obj view"
    and "valid (put updated ''revision'' (JInt k))"
  shows "integrated p (put updated ''revision'' (JInt k))
    \<and> ref_of (put updated ''revision'' (JInt k)) = ref_of view"
proof -
  let ?s = "put updated ''revision'' (JInt k)"
  from assms(1) obtain task where t: "item (sub view ''tasks'') (pi_task_id p) = Inr task"
    "sub task ''status'' = JStr ''INTEGRATING''"
    and u: "updated = put (put (put (upd (upd view
             ''repository'' (\<lambda>r. put r ''integration_head'' (JStr (pi_candidate_head p))))
             ''tasks'' (\<lambda>tasks. put tasks (pi_task_id p) (put (put task ''status'' (JStr ''COMPLETED''))
           ''integrated_commits'' (JList [JStr (pi_candidate_head p)]))))
           ''pending_integration'' JNull) ''last_error'' JNull) ''updated_at'' (JStr at)"
    by (auto simp: complete_def bnd_eq_Inr Let_def)
  have objs: "is_obj (sub view ''tasks'')" "is_obj task"
    using item_is_obj [OF t(1)] sub_is_obj [of task "''status''"] t(2) by auto
  have repo: "sub ?s ''repository'' = put (sub view ''repository'') ''integration_head'' (JStr (pi_candidate_head p))"
    and tasks: "sub ?s ''tasks'' = put (sub view ''tasks'') (pi_task_id p) (put (put task ''status'' (JStr ''COMPLETED''))
           ''integrated_commits'' (JList [JStr (pi_candidate_head p)]))"
    and pend: "sub ?s ''pending_integration'' = JNull"
    using assms(2) by (simp_all add: u)
  from valid_repository [OF assms(3)] repo have "is_obj (sub view ''repository'')" by simp
  with objs repo tasks pend show ?thesis by (simp add: integrated_def ref_of_def)
qed

lemma now_eq: "now m w = (r, w') \<longleftrightarrow> r = Inr (fst (m_now m (wg w))) \<and> w' = w\<lparr>wg := snd (m_now m (wg w))\<rparr>"
  by (auto simp: now_def on_host_def split: prod.splits)

lemma complete_state_result:
  assumes "complete_state m p w = (Inr s, w')" and "load (wd w) = Inr current"
  shows "integrated p s \<and> ref_of s = ref_of current \<and> valid s \<and> stored_state (wd w') s
    \<and> wg w' = snd (m_now m (wg w))"
proof -
  from assms obtain at d where t: "transact (int_of (sub current ''revision'')) [] (complete p at) (wd w) = (Inr s, d)"
    and w': "wd w' = d" "wg w' = snd (m_now m (wg w))"
    by (auto simp: complete_state_def sbnd_Inr now_eq on_dir_eq)
  have "(integrated p s \<and> ref_of s = ref_of current) \<and> valid s \<and> stored_state d s"
  proof (rule store.commit_establishes [OF t assms(2)])
    fix view refs updated
    assume v: "same_but_index view current" and c: "complete p at view refs = Inr updated"
      and ok: "valid (put updated ''revision'' (JInt (int_of (sub current ''revision'') + 1)))"
    from v have "is_obj view" "ref_of view = ref_of current" by (auto simp: same_but_index_def ref_of_def)
    with complete_result [OF c _ ok] show "integrated p (put updated ''revision'' (JInt (int_of (sub current ''revision'') + 1)))
      \<and> ref_of (put updated ''revision'' (JInt (int_of (sub current ''revision'') + 1))) = ref_of current" by simp
  qed
  with w' show ?thesis by simp
qed

section \<open>The compare-and-swap of the integration ref\<close>

lemma on_host_reads:
  assumes "on_host f w = (r, w')" and "\<And>g r g'. f g = (r, g') \<Longrightarrow> oid_of g' = oid_of g"
  shows "wd w' = wd w \<and> oid_of (wg w') = oid_of (wg w)"
  using assms by (auto simp: on_host_eq)

lemma ref_of_valid:
  assumes "valid s"
  shows "startswith (ref_of s) ''refs/''"
proof -
  from assms obtain r where "validate_repository (sub s ''repository'') r = Inr ()"
    by (auto simp: valid_iff scalar_part_def)
  then have "sub (sub s ''repository'') ''integration_ref'' = JStr (''refs/heads/vibe/run-'' @ r)"
    by (auto simp: validate_repository_def require_exact_fields_def bnd_eq_Inr split: if_splits)
  then show ?thesis by (simp add: ref_of_def startswith_def)
qed

lemma apply_cas_result:
  assumes cas: "git_cas h oid_of" and "apply_cas h p w = (Inr (), w')" and "load (wd w) = Inr s"
  shows "wd w' = wd w \<and> py_eq (sub s ''pending_integration'') (pending_as_dict p)
    \<and> oid_of (wg w') (ref_of s) = oid_of (wg w) (pi_candidate_head p) \<and> oid_of (wg w) (pi_candidate_head p) \<noteq> None
    \<and> oid_of (wg w) (ref_of s) = oid_of (wg w) (pi_expected_head p)
    \<and> (\<forall>oid. OID_RE oid \<longrightarrow> oid_of (wg w') oid = oid_of (wg w) oid)"
proof -
  from assms(2,3) obtain g' where
    u: "update_ref h (ref_of s) (pi_candidate_head p) (pi_expected_head p) (wg w) = (Inr (), g')" and
    w': "w' = w\<lparr>wg := g'\<rparr>" "py_eq (sub s ''pending_integration'') (pending_as_dict p)"
    by (auto simp: apply_cas_def sbnd_Inr on_host_eq ref_of_def)
  from update_ref_cas [OF cas u ref_of_valid [OF load_valid [OF assms(3)]]] w' show ?thesis by auto
qed

lemma py_eq_sub:
  assumes "py_eq v w" and "is_obj w" and "has_key v k"
  shows "py_eq (sub v k) (sub w k)"
proof -
  from assms(1,2) obtain d e where v: "v = JObj d" "w = JObj e" "py_eq_dict d e"
    by (cases v; cases w) auto
  have "\<forall>q\<in>set d. \<exists>x. map_of e (fst q) = Some x \<and> py_eq (snd q) x" if "py_eq_dict d e" for d
    using that by (induction d) (auto split: option.splits)
  from this [OF v(3)] v assms(3) show ?thesis
    by (fastforce simp: has_key_def sub_def jget_def dest: map_of_SomeD split: option.splits)
qed

lemma pending_oids:
  assumes "valid s" and "py_eq (sub s ''pending_integration'') (pending_as_dict p)"
  shows "OID_RE (pi_candidate_head p) \<and> OID_RE (pi_expected_head p)"
proof -
  let ?raw = "sub s ''pending_integration''"
  have "?raw \<noteq> JNull" using assms(2) by (auto simp: pending_as_dict_def)
  with assms(1) have m: "validate_integration_marker ?raw s = Inr ()"
    by (auto simp: valid_iff body_part_def validate_work_def validate_prepared_markers_def bnd_eq_Inr Let_def split: if_splits)
  from m have keys: "has_key ?raw ''candidate_head''" "has_key ?raw ''expected_head''"
    by (auto simp: validate_integration_marker_def require_exact_fields_def bnd_eq_Inr has_key_iff split: if_splits)
  have "sub ?raw ''candidate_head'' = JStr (pi_candidate_head p)" "sub ?raw ''expected_head'' = JStr (pi_expected_head p)"
    using py_eq_sub [OF assms(2) _ keys(1)] py_eq_sub [OF assms(2) _ keys(2)] by (simp_all add: pending_as_dict_def)
  moreover from m have "ok (require_oid (sub ?raw ''candidate_head''))" "ok (require_oid (sub ?raw ''expected_head''))"
    by (auto simp: validate_integration_marker_def bnd_eq_Inr require_exact_fields_def split: if_splits)
  ultimately show ?thesis by (auto simp: require_oid_def require_string_def bnd_eq_Inr ok_iff split: if_splits)
qed

text \<open>Reading the clock does not move a ref.\<close>

definition clock_keeps :: "'g machine \<Rightarrow> ('g \<Rightarrow> string \<Rightarrow> string option) \<Rightarrow> bool" where
  "clock_keeps m oid_of \<longleftrightarrow> (\<forall>g. oid_of (snd (m_now m g)) = oid_of g)"

text \<open>The swap followed by completion.\<close>

lemma cas_and_complete:
  assumes cas: "git_cas h oid_of" and clock: "clock_keeps m oid_of"
    and a: "apply_cas h p w = (Inr (), w1)" and c: "complete_state m p w1 = (Inr s, w2)" and l: "load (wd w) = Inr s0"
  shows "integrated p s \<and> stored_state (wd w2) s \<and> valid s \<and> ref_of s = ref_of s0
    \<and> oid_of (wg w2) (ref_of s0) = oid_of (wg w2) (pi_candidate_head p) \<and> oid_of (wg w2) (pi_candidate_head p) \<noteq> None
    \<and> oid_of (wg w) (ref_of s0) = oid_of (wg w) (pi_expected_head p)"
proof -
  note r = apply_cas_result [OF cas a l]
  from r l have "load (wd w1) = Inr s0" by simp
  note d = complete_state_result [OF c this]
  have "OID_RE (pi_candidate_head p)" using pending_oids [OF load_valid [OF l]] r by simp
  with r d clock show ?thesis by (auto simp: clock_keeps_def)
qed

lemma chk_reject_Inr [simp]: "chk_reject b = Inr u \<longleftrightarrow> b"
  by (simp add: chk_reject_def)

lemma check_candidate_facts:
  assumes "check_candidate m h depth config contract audit task expected_head operation_id path source_ref w = (Inr c, w')"
  obtains ids v w1 where "effective_command_ids config (tc_acceptance_checks contract) = Inr ids"
    "run_gate m h depth config (ci_candidate_head c) path ids
       (''verification/tasks/'' @ tc_id contract @ ''-a'' @ int_text (int_of (sub task ''attempt_no'')) @ ''/VERIFY-'' @ v) w1
     = (Inr (ci_verification c), w')"
    "require_paths_in_scope (sa_changed_paths audit) (tc_path_scope contract) = Inr ()"
    "vr_passed (ci_verification c)" "vr_commit_sha (ci_verification c) = ci_candidate_head c"
    "ci_expected_head c = expected_head"
  using assms unfolding check_candidate_def
  by (elim sbnd_InrE slift_InrE sget_InrE) auto

lemma prepare_facts:
  assumes "prepare m h depth config state contract audit w = (Inr c, w')"
  obtains task operation_id path source_ref w1 where
    "check_candidate m h depth config contract audit task (str_of (sub (sub state ''repository'') ''integration_head''))
       operation_id path source_ref w1 = (Inr c, w')"
  using assms unfolding prepare_def Let_def
  by (elim sbnd_InrE slift_InrE sget_InrE) auto

section \<open>Failed steps\<close>

lemma apply_cas_error:
  assumes cas: "git_cas h oid_of" and "apply_cas h p w = (Inl e, w')" and l: "load (wd w) = Inr s"
  shows "wd w' = wd w \<and> oid_of (wg w') = oid_of (wg w)"
  using assms(2) l update_ref_cas [OF cas _ ref_of_valid [OF load_valid [OF l]], of "pi_candidate_head p" "pi_expected_head p" "wg w"]
  by (auto simp: apply_cas_def sbnd_eq on_host_eq ref_of_def)

lemma complete_state_error:
  assumes "clock_keeps m oid_of" and "complete_state m p w = (Inl e, w')" and "load (wd w) = Inr s"
  shows "load (wd w') = Inr s \<and> oid_of (wg w') = oid_of (wg w)"
proof -
  from assms(2,3) have t: "transact (int_of (sub s ''revision'')) [] (complete p (fst (m_now m (wg w)))) (wd w) = (Inl e, wd w')"
    and g: "wg w' = snd (m_now m (wg w))"
    by (auto simp: complete_state_def sbnd_eq now_eq on_dir_eq)
  from store.aborted [OF t] assms(3) have "load (wd w') = Inr s" by blast
  with g assms(1) show ?thesis by (simp add: clock_keeps_def)
qed

lemma pause_error:
  assumes "git_cas h oid_of" and "clock_keeps m oid_of" and "pause_for_ref_movement m h s p w = (Inl e, w')"
    and "load (wd w) = Inr s"
  shows "load (wd w') = Inr s \<and> oid_of (wg w') = oid_of (wg w)"
proof -
  let ?ref = "str_of (sub (sub s ''repository'') ''integration_ref'')"
  obtain r1 g1 where r1: "resolve_revision h (repository_root h) ?ref (wg w) = (r1, g1)" by force
  from assms(3) r1 have
    d: "wd w' = wd w \<or> (\<exists>n arts f. transact n arts f (wd w) = (Inl e, wd w'))"
    and g: "wg w' = g1 \<or> wg w' = snd (m_now m g1)"
    by (auto simp: pause_for_ref_movement_def sbnd_eq now_eq on_dir_eq on_host_eq resolve_ref_def Let_def)
  have "oid_of g1 = oid_of (wg w)" using resolve_revision_cas [OF assms(1) r1] by simp
  with g have "oid_of (wg w') = oid_of (wg w)" using assms(2) by (auto simp: clock_keeps_def)
  moreover from d assms(4) have "load (wd w') = Inr s" using store.aborted by metis
  ultimately show ?thesis by simp
qed

text \<open>Nothing that is stored changes before the marker.\<close>

definition keeps_run :: "run_dir \<Rightarrow> run_dir \<Rightarrow> bool" where
  "keeps_run d0 d \<longleftrightarrow> grows d0 d \<and> rd_state d = rd_state d0"

lemma keeps_run_gate_run [keeps_intros]:
  "keeps (\<lambda>w. keeps_run d0 (wd w)) (run_gate m h depth config commit worktree ids p)"
proof -
  have "adds_below p (wd w) (wd (snd (run_gate m h depth config commit worktree ids p w)))" for w
    using keeps_run_gate [of p "wd w" m h depth config commit worktree ids] by (simp add: keeps_def)
  then show ?thesis unfolding keeps_def keeps_run_def adds_below_def by (metis grows_trans)
qed

lemma keeps_prepare: "keeps (\<lambda>w. keeps_run d0 (wd w)) (prepare m h depth config state contract audit)"
  unfolding prepare_def check_candidate_def verify_source_audit_def uuid4_def Let_def
  by (intro keeps_intros)

lemma prepare_load:
  assumes "prepare m h depth config s contract audit w = (r, w')" and "load (wd w) = Inr s"
  shows "load (wd w') = Inr s"
proof -
  have "keeps_run (wd w) (wd (snd (prepare m h depth config s contract audit w)))"
    using keeps_prepare [of "wd w" m h depth config s contract audit] by (simp add: keeps_def keeps_run_def)
  then have "grows (wd w) (wd w')" "rd_state (wd w') = rd_state (wd w)"
    using assms(1) by (simp_all add: keeps_run_def)
  with assms(2) show ?thesis by (rule load_grows)
qed

lemma persist_result:
  assumes "persist_pending m state contract c p w = (Inr s, w')"
  shows "stored_state (wd w') s \<and> valid s \<and> sub s ''pending_integration'' = pending_as_dict p"
proof -
  from assms obtain n arts task active vref path at d where
    t: "transact n arts (bind_pending task active p vref path at) (wd w) = (Inr s, d)" "wd w' = d"
    by (auto simp: persist_pending_def sbnd_Inr on_dir_eq now_eq Let_def)
  from store.committed [OF t(1)] t(2) show ?thesis
    by (auto simp: bind_pending_def bnd_eq_Inr same_but_index_def Let_def)
qed

section \<open>Integration\<close>

lemma integrate_returned:
  assumes "git_cas h oid_of" and "clock_keeps m oid_of"
    and "integrate (\<lambda>_. slift (Inr ())) m h depth config contract audit w = (Inr c, w')"
  shows "vr_passed (ci_verification c) \<and> vr_commit_sha (ci_verification c) = ci_candidate_head c
    \<and> (\<exists>p s. stored_state (wd w') s \<and> valid s \<and> integrated p s
         \<and> pi_task_id p = tc_id contract \<and> pi_candidate_head p = ci_candidate_head c
         \<and> oid_of (wg w') (ref_of s) = oid_of (wg w') (ci_candidate_head c)
         \<and> oid_of (wg w') (ci_candidate_head c) \<noteq> None)"
proof -
  from assms(3) obtain state w1 w2 w3 s where
    prep: "prepare m h depth config state contract audit w = (Inr c, w1)"
    and a: "apply_cas h (pending_of state contract audit c) w2 = (Inr (), w3)"
    and d: "complete_state m (pending_of state contract audit c) w3 = (Inr s, w')"
    by (auto simp: integrate_def sbnd_Inr Let_def)
  from a obtain s0 where l: "load (wd w2) = Inr s0" by (auto simp: apply_cas_def sbnd_Inr)
  have "vr_passed (ci_verification c) \<and> vr_commit_sha (ci_verification c) = ci_candidate_head c"
    using prep by (elim prepare_facts check_candidate_facts) simp
  moreover have "pi_candidate_head (pending_of state contract audit c) = ci_candidate_head c"
    "pi_task_id (pending_of state contract audit c) = tc_id contract" by (simp_all add: pending_of_def)
  moreover note r = cas_and_complete [OF assms(1,2) a d l]
  ultimately show ?thesis by metis
qed

lemma integrate_raised:
  assumes "integrate (\<lambda>_. slift (Inr ())) m h depth config contract audit w = (Inl e, w')" and l: "load (wd w) = Inr s0"
  shows "load (wd w') = Inr s0 \<or> (\<exists>p s. stored_state (wd w') s \<and> valid s \<and> pi_task_id p = tc_id contract
      \<and> sub s ''pending_integration'' = pending_as_dict p)"
proof -
  obtain r1 w1 where prep: "prepare m h depth config s0 contract audit w = (r1, w1)" by force
  note l1 = prepare_load [OF prep l]
  show ?thesis
  proof (cases r1)
    case (Inl e1)
    with assms prep l1 show ?thesis by (auto simp: integrate_def sbnd_eq)
  next
    case (Inr c)
    let ?p = "pending_of s0 contract audit c"
    obtain r2 w2 where per: "persist_pending m s0 contract c ?p w1 = (r2, w2)" by force
    show ?thesis
    proof (cases r2)
      case (Inl e2)
      with per have "load (wd w2) = Inr s0" using l1
        by (auto simp: persist_pending_def sbnd_eq on_dir_eq now_eq Let_def dest: store.aborted)
      with assms prep per Inl \<open>r1 = Inr c\<close> show ?thesis by (auto simp: integrate_def sbnd_eq Let_def)
    next
      case (Inr s)
      note ps = persist_result [OF per [unfolded Inr]]
      have rest: "sbnd (apply_cas h ?p) (\<lambda>_. sbnd (complete_state m ?p) (\<lambda>_. slift (Inr c))) w2 = (Inl e, w')"
        using assms prep per Inr \<open>r1 = Inr c\<close> by (auto simp: integrate_def sbnd_eq Let_def)
      have "stored_state (wd w') s"
        using rest ps by (auto simp: sbnd_eq apply_cas_def complete_state_def on_host_eq on_dir_eq now_eq dest: store.aborted)
      moreover have "pi_task_id ?p = tc_id contract" by (simp add: pending_of_def)
      ultimately show ?thesis using ps by auto
    qed
  qed
qed


lemma manifest_plain:
  "is_obj (verification_manifest commit passed evidence)" "wf_json (verification_manifest commit passed evidence)"
  "no_floats (verification_manifest commit passed evidence)"
  by (auto simp: verification_manifest_def evidence_as_dict_def artifact_as_dict_def jstrs_def wf_list_iff
      no_floats_list_iff split: option.splits)

text \<open>The evidence of a prepared candidate survives a restart: after \<^verbatim>\<open>prepare\<close> the verification
  manifest that the marker will name can be read back from the run directory with its digest (unless
  it exceeds the bound of an artifact), and it says that this very candidate passed, which is what recovery asks of it.\<close>

theorem prepared_evidence_rechecks:
  assumes "prepare m h depth config state contract audit w = (Inr c, w')"
    and "all_text utf8_valid (verification_manifest (ci_candidate_head c) True (vr_commands (ci_verification c)))"
  shows "\<exists>body manifest. read_bound_artifact (wd w') (vr_manifest_ref (ci_verification c))
        = (if length body > MAX_ARTIFACT_BYTES then Inl ContractError else Inr body)
    \<and> parse_json_object_bytes body = Inr manifest
    \<and> sub manifest ''commit_sha'' = JStr (ci_candidate_head c) \<and> sub manifest ''passed'' = JBool True"
  using assms(1)
proof (elim prepare_facts check_candidate_facts)
  fix task ids v w1
  let ?prefix = "''verification/tasks/'' @ tc_id contract @ ''-a'' @ int_text (int_of (sub task ''attempt_no'')) @ ''/VERIFY-'' @ v"
  let ?v = "verification_manifest (ci_candidate_head c) True (vr_commands (ci_verification c))"
  fix path
  assume g: "run_gate m h depth config (ci_candidate_head c) path ids ?prefix w1 = (Inr (ci_verification c), w')"
    and passed: "vr_passed (ci_verification c)"
  obtain body where b: "canonical_json_bytes ?v = Inr body" "map_of (rd_files (wd w')) (ar_path (vr_manifest_ref (ci_verification c))) = Some body"
    "ar_sha256 (vr_manifest_ref (ci_verification c)) = digest_of body"
    using run_gate_result [OF g] passed by auto
  have "parse_json_object_bytes body = Inr (canon ?v)"
    using canonical_bytes_parse [OF manifest_plain(1,2,3) assms(2)] b(1) by simp
  moreover have "read_bound_artifact (wd w') (vr_manifest_ref (ci_verification c))
      = (if length body > MAX_ARTIFACT_BYTES then Inl ContractError else Inr body)"
    using b(2,3) by (simp add: read_bound_artifact_def read_regular_def read_bounded_def)
  moreover have "sub (canon ?v) ''commit_sha'' = JStr (ci_candidate_head c)" "sub (canon ?v) ''passed'' = JBool True"
    by (simp_all add: sub_canon [OF manifest_plain(2)]) (simp_all add: verification_manifest_def)
  ultimately show ?thesis by auto
qed

lemma verify_pending_reads:
  assumes "git_cas h oid_of" and "verify_pending h state p w = (r, w')"
  shows "wd w' = wd w \<and> oid_of (wg w') = oid_of (wg w)"
proof -
  obtain r1 w1 where v: "on_host (verify_candidate_structure h (pi_candidate_head p) (pi_expected_head p)) w = (r1, w1)" by force
  have "wd w1 = wd w \<and> oid_of (wg w1) = oid_of (wg w)"
    using v run_local_reads [OF assms(1), of "''rev-list''"]
    by (intro on_host_reads) (auto simp: verify_candidate_structure_def commit_parents_def sbnd_eq)
  with v assms(2) show ?thesis by (auto simp: verify_pending_def sbnd_eq Let_def)
qed

lemma classify_recovery_result:
  assumes "git_cas h oid_of" and "classify_recovery h p w = (Inr out, w')" and "load (wd w) = Inr s"
  shows "wd w' = wd w \<and> oid_of (wg w') = oid_of (wg w)
    \<and> out = (if oid_of (wg w) (ref_of s) = Some (pi_expected_head p) then RETRY_CAS
        else if oid_of (wg w) (ref_of s) = Some (pi_candidate_head p) then COMPLETE_STATE else PAUSE)"
proof -
  from assms(2,3) obtain actual g' where
    r: "resolve_revision h (repository_root h) (ref_of s) (wg w) = (Inr actual, g')" "w' = w\<lparr>wg := g'\<rparr>"
    and out: "out = (if actual = pi_expected_head p then RETRY_CAS
        else if actual = pi_candidate_head p then COMPLETE_STATE else PAUSE)"
    by (auto simp: classify_recovery_def sbnd_Inr on_host_eq ref_of_def resolve_ref_def)
  from resolve_revision_cas [OF assms(1) r(1)] r(2) out show ?thesis by auto
qed

text \<open>The pause keeps the marker and records the status to resume.\<close>

lemma pause_result:
  assumes "pause_for_ref_movement m h s0 p w = (Inr s, w')" and "load (wd w) = Inr s0"
    and cas: "git_cas h oid_of" and clock: "clock_keeps m oid_of"
  shows "stored_state (wd w') s \<and> valid s \<and> sub s ''status'' = JStr ''PAUSED'' \<and> sub s ''resume_status'' = sub s0 ''status''
    \<and> sub s ''pending_integration'' = sub s0 ''pending_integration'' \<and> oid_of (wg w') = oid_of (wg w)"
proof -
  from assms(1) obtain actual g1 path body at d where
    r: "resolve_ref h (str_of (sub (sub s0 ''repository'') ''integration_ref'')) (wg w) = (Inr actual, g1)"
    and t: "transact (int_of (sub s0 ''revision'')) [(path, body)] (pause p path at) (wd w) = (Inr s, d)"
    and w': "wd w' = d" "wg w' = snd (m_now m g1)"
    by (auto simp: pause_for_ref_movement_def sbnd_Inr on_host_eq now_eq on_dir_eq Let_def)
  let ?rev = "JInt (int_of (sub s0 ''revision'') + 1)"
  have "(sub s ''status'' = JStr ''PAUSED'' \<and> sub s ''resume_status'' = sub s0 ''status''
      \<and> sub s ''pending_integration'' = sub s0 ''pending_integration'') \<and> valid s \<and> stored_state d s"
  proof (rule store.commit_establishes [OF t assms(2)])
    fix view refs updated
    assume "same_but_index view s0" and "pause p path at view refs = Inr updated"
    then show "sub (put updated ''revision'' ?rev) ''status'' = JStr ''PAUSED''
      \<and> sub (put updated ''revision'' ?rev) ''resume_status'' = sub s0 ''status''
      \<and> sub (put updated ''revision'' ?rev) ''pending_integration'' = sub s0 ''pending_integration''"
      by (auto simp: pause_def bnd_eq_Inr same_but_index_def)
  qed
  moreover have "oid_of (wg w') = oid_of (wg w)"
    using resolve_revision_cas [OF cas r [unfolded resolve_ref_def]] w'(2) clock by (simp add: clock_keeps_def)
  ultimately show ?thesis using w'(1) by simp
qed

lemma recover_returned:
  assumes "git_cas h oid_of" and "clock_keeps m oid_of" and "load (wd w) = Inr s0"
    and "recover m h w = (Inr out, w')"
  shows "let p = pending_from_state (sub s0 ''pending_integration''); ref = ref_of s0 in
    out = (if oid_of (wg w) ref = Some (pi_expected_head p) then RETRY_CAS
        else if oid_of (wg w) ref = Some (pi_candidate_head p) then COMPLETE_STATE else PAUSE)
    \<and> (\<exists>s. stored_state (wd w') s \<and> valid s
        \<and> (if out = PAUSE then oid_of (wg w') ref = oid_of (wg w) ref \<and> sub s ''status'' = JStr ''PAUSED''
             \<and> sub s ''resume_status'' = sub s0 ''status'' \<and> sub s ''pending_integration'' = sub s0 ''pending_integration''
           else integrated p s \<and> oid_of (wg w') ref = oid_of (wg w') (pi_candidate_head p) \<and> oid_of (wg w') ref \<noteq> None))"
proof -
  define p where "p = pending_from_state (sub s0 ''pending_integration'')"
  from assms(3,4) obtain w1 s where cl: "classify_recovery h p w = (Inr out, w1)"
    and step: "finish_recovery m h s0 p out w1 = (Inr s, w')"
    by (auto simp: recover_def sbnd_Inr Let_def p_def)
  note c = classify_recovery_result [OF assms(1) cl assms(3)]
  have l1: "load (wd w1) = Inr s0" using c assms(3) by simp
  have "stored_state (wd w') s \<and> valid s
        \<and> (if out = PAUSE then oid_of (wg w') (ref_of s0) = oid_of (wg w) (ref_of s0) \<and> sub s ''status'' = JStr ''PAUSED''
             \<and> sub s ''resume_status'' = sub s0 ''status'' \<and> sub s ''pending_integration'' = sub s0 ''pending_integration''
           else integrated p s \<and> oid_of (wg w') (ref_of s0) = oid_of (wg w') (pi_candidate_head p)
             \<and> oid_of (wg w') (ref_of s0) \<noteq> None)"
  proof (cases out)
    case RETRY_CAS
    with step obtain w2 w3 where v: "verify_pending h s0 p w1 = (Inr (), w2)"
      and a: "apply_cas h p w2 = (Inr (), w3)" and d: "complete_state m p w3 = (Inr s, w')"
      by (auto simp: sbnd_Inr finish_recovery_def)
    from verify_pending_reads [OF assms(1) v] l1 have "load (wd w2) = Inr s0" by simp
    from cas_and_complete [OF assms(1,2) a d this] RETRY_CAS show ?thesis by simp
  next
    case COMPLETE_STATE
    with step obtain w2 where v: "verify_pending h s0 p w1 = (Inr (), w2)"
      and d: "complete_state m p w2 = (Inr s, w')" by (auto simp: sbnd_Inr finish_recovery_def)
    note r = verify_pending_reads [OF assms(1) v]
    from r l1 have "load (wd w2) = Inr s0" by simp
    note e = complete_state_result [OF d this]
    have "oid_of (wg w') = oid_of (wg w)" using e r c assms(2) by (simp add: clock_keeps_def)
    moreover have "oid_of (wg w) (ref_of s0) = Some (pi_candidate_head p)"
      using c COMPLETE_STATE by (auto split: if_splits)
    ultimately show ?thesis using e COMPLETE_STATE git_cas_oid [OF assms(1), of "wg w"] by auto
  next
    case PAUSE
    with step have "pause_for_ref_movement m h s0 p w1 = (Inr s, w')" by (simp add: finish_recovery_def)
    from pause_result [OF this l1 assms(1,2)] c PAUSE show ?thesis by simp
  qed
  with c show ?thesis unfolding p_def Let_def by blast
qed

lemma recover_raised:
  assumes cas: "git_cas h oid_of" and clock: "clock_keeps m oid_of" and l: "load (wd w) = Inr s0"
    and "recover m h w = (Inl e, w')" and p: "p = pending_from_state (sub s0 ''pending_integration'')"
  shows "load (wd w') = Inr s0 \<and> (oid_of (wg w') (ref_of s0) = oid_of (wg w) (ref_of s0)
    \<or> oid_of (wg w) (ref_of s0) = Some (pi_expected_head p)
      \<and> oid_of (wg w') (ref_of s0) = oid_of (wg w') (pi_candidate_head p))"
proof -
  obtain r1 w1 where cl: "classify_recovery h p w = (r1, w1)" by force
  have c: "wd w1 = wd w" "oid_of (wg w1) = oid_of (wg w)"
    using cl resolve_revision_cas [OF cas, of "repository_root h" _ "wg w"]
    by (auto simp: classify_recovery_def sbnd_eq on_host_eq resolve_ref_def)
  have l1: "load (wd w1) = Inr s0" using c l by simp
  show ?thesis
  proof (cases "is_obj (sub s0 ''pending_integration'') \<and> ok r1")
    case False
    with assms(4) l cl c show ?thesis by (auto simp: recover_def sbnd_eq Let_def p ok_iff)
  next
    case True
    then obtain out where out: "r1 = Inr out" by (auto simp: ok_iff)
    have f: "finish_recovery m h s0 p out w1 = (Inl e, w')"
      using assms(4) l cl True out by (auto simp: recover_def sbnd_eq Let_def p)
    show ?thesis
    proof (cases out)
      case RETRY_CAS
      have exp: "oid_of (wg w) (ref_of s0) = Some (pi_expected_head p)"
        using classify_recovery_result [OF cas cl [unfolded out] l] RETRY_CAS by (auto split: if_splits)
      from f RETRY_CAS consider "verify_pending h s0 p w1 = (Inl e, w')"
        | w2 where "verify_pending h s0 p w1 = (Inr (), w2)" "apply_cas h p w2 = (Inl e, w')"
        | w2 w3 where "verify_pending h s0 p w1 = (Inr (), w2)" "apply_cas h p w2 = (Inr (), w3)" "complete_state m p w3 = (Inl e, w')"
        by (auto simp: finish_recovery_def sbnd_eq)
      then show ?thesis
      proof cases
        case 1
        with verify_pending_reads [OF cas 1] c l1 show ?thesis by simp
      next
        case 2
        note v = verify_pending_reads [OF cas 2(1)]
        with l1 have "load (wd w2) = Inr s0" by simp
        from apply_cas_error [OF cas 2(2) this] v c l1 show ?thesis by simp
      next
        case 3
        note v = verify_pending_reads [OF cas 3(1)]
        with l1 have l2: "load (wd w2) = Inr s0" by simp
        note a = apply_cas_result [OF cas 3(2) l2]
        with l2 have "load (wd w3) = Inr s0" by simp
        note d = complete_state_error [OF clock 3(3) this]
        have "OID_RE (pi_candidate_head p)" using pending_oids [OF load_valid [OF l2]] a by simp
        with a d exp show ?thesis by simp
      qed
    next
      case COMPLETE_STATE
      with f consider "verify_pending h s0 p w1 = (Inl e, w')"
        | w2 where "verify_pending h s0 p w1 = (Inr (), w2)" "complete_state m p w2 = (Inl e, w')"
        by (auto simp: finish_recovery_def sbnd_eq)
      then show ?thesis
      proof cases
        case 1
        with verify_pending_reads [OF cas 1] c l1 show ?thesis by simp
      next
        case 2
        note v = verify_pending_reads [OF cas 2(1)]
        with l1 have "load (wd w2) = Inr s0" by simp
        from complete_state_error [OF clock 2(2) this] v c show ?thesis by simp
      qed
    next
      case PAUSE
      with f have "pause_for_ref_movement m h s0 p w1 = (Inl e, w')" by (simp add: finish_recovery_def)
      from pause_error [OF cas clock this l1] c show ?thesis by simp
    qed
  qed
qed


text \<open>A run that is already paused cannot record a moved ref: when the integration ref is at
  neither head of the marker, recovery raises and the stored run is the one before, so it can be
  repeated without end.  The pause would name \<^verbatim>\<open>PAUSED\<close> as the status to resume, which no valid state
  does.\<close>

theorem recover_paused_raises:
  assumes "git_cas h oid_of" and "load (wd w) = Inr s0" and "sub s0 ''status'' = JStr ''PAUSED''"
    and "oid_of (wg w) (ref_of s0) \<noteq> Some (pi_expected_head (pending_from_state (sub s0 ''pending_integration'')))"
    and "oid_of (wg w) (ref_of s0) \<noteq> Some (pi_candidate_head (pending_from_state (sub s0 ''pending_integration'')))"
  shows "\<exists>e w'. recover m h w = (Inl e, w') \<and> load (wd w') = Inr s0"
proof -
  define p where "p = pending_from_state (sub s0 ''pending_integration'')"
  have no: "\<exists>e d'. transact n arts (pause p path at) (wd w) = (Inl e, d') \<and> load d' = Inr s0" for n arts path at
  proof (rule store.never_commits [OF assms(2)])
    fix view refs updated
    assume v: "same_but_index view s0" and u: "pause p path at view refs = Inr updated"
    have "sub (put updated ''revision'' (JInt (n + 1))) ''resume_status'' = JStr ''PAUSED''"
      using v u assms(3) by (auto simp: pause_def bnd_eq_Inr same_but_index_def)
    moreover have "RunStatus (JStr ''PAUSED'') = Inr PAUSED" by code_simp
    ultimately show "\<not> valid (put updated ''revision'' (JInt (n + 1)))"
      by (auto simp: valid_iff status_part_def validate_resume_status_def static_for_resume_def)
  qed
  obtain r1 w1 where cl: "classify_recovery h p w = (r1, w1)" by force
  have same: "wd w1 = wd w" using cl by (auto simp: classify_recovery_def sbnd_eq on_host_eq)
  have out: "r1 = Inr out \<Longrightarrow> out = PAUSE" for out
    using classify_recovery_result [OF assms(1) _ assms(2), of p out w1] cl assms(4,5) by (simp add: p_def)
  obtain r2 w2 where pa: "pause_for_ref_movement m h s0 p w1 = (r2, w2)" by force
  have fails: "\<exists>e. r2 = Inl e \<and> load (wd w2) = Inr s0"
  proof -
    from pa have "(\<exists>e. r2 = Inl e \<and> wd w2 = wd w)
      \<or> (\<exists>n arts path at d. transact n arts (pause p path at) (wd w) = (r2, d) \<and> wd w2 = d)"
      using same by (auto simp: pause_for_ref_movement_def sbnd_eq on_host_eq now_eq on_dir_eq Let_def)
    with assms(2) no show ?thesis by (metis prod.inject)
  qed
  show ?thesis
  proof (cases "is_obj (sub s0 ''pending_integration'')")
    case False
    with assms(2) show ?thesis by (simp add: recover_def sbnd_def sget_def slift_def Let_def)
  next
    case True
    show ?thesis
    proof (cases r1)
      case (Inl e)
      with True cl assms(2) same show ?thesis
        by (simp add: recover_def sbnd_def sget_def slift_def Let_def p_def)
    next
      case (Inr outcome)
      with True cl assms(2) out pa fails show ?thesis
        by (auto simp: recover_def finish_recovery_def sbnd_def sget_def slift_def Let_def p_def)
    qed
  qed
qed

end
