(* ===== verification/HostSample.thy ===== *)
theory HostSample
  imports SourceCommit Sample
begin

text \<open>
  Concrete hosts for the witnesses: one that keeps refs and satisfies the laws of \<open>git_cas\<close>, one that
  records every call, and one that answers from a script.
\<close>

section \<open>A host that keeps refs\<close>

definition known_oid :: "(string, string) dict \<Rightarrow> string \<Rightarrow> string option" where
  "known_oid g name =
     (if OID_RE name then (if name = ZERO_OID then None else Some name)
      else case map_of g name of
          Some oid \<Rightarrow> if OID_RE oid \<and> oid \<noteq> ZERO_OID then Some oid else None
        | None \<Rightarrow> None)"

definition ref_git :: "string list \<Rightarrow> (string, string) dict \<Rightarrow> (string, string) dict \<Rightarrow> (int \<times> string) \<times> (string, string) dict" where
  "ref_git args env g =
     (case drop 17 args of
        [a, b] \<Rightarrow> if a = ''rev-parse'' then ((0, hexes (CHR ''c'') 40 @ [NEWLINE]), g) else ((1, []), g)
      | [a, b, c] \<Rightarrow>
          if a = ''rev-parse'' \<and> b = ''--verify'' then
            (case known_oid g (take (length c - 9) c) of Some oid \<Rightarrow> ((0, oid @ [NEWLINE]), g) | None \<Rightarrow> ((128, []), g))
          else ((1, []), g)
      | [a, ref, new, old] \<Rightarrow>
          if a = ''update-ref'' \<and> startswith ref ''refs/''
             \<and> known_oid g ref = (if old = ZERO_OID then None else Some old) \<and> known_oid g new = Some new
          then ((0, []), AList.update ref new g) else ((1, []), g)
      | _ \<Rightarrow> ((1, []), g))"

definition ref_host :: "(string, string) dict host" where
  "ref_host = \<lparr>repository_root = ''/r'', h_git = ref_git, h_resolve = (\<lambda>g p. p), h_exists = (\<lambda>g p. True),
     h_is_dir = (\<lambda>g p. True), h_is_symlink = (\<lambda>g p. False), h_mkdir = (\<lambda>p g. (Inr (), g)),
     h_makedirs = (\<lambda>p g. (Inr (), g)), h_unlink = (\<lambda>p g. (Inr (), g)), h_read = (\<lambda>g p. Inr None),
     h_lstat = (\<lambda>g p. Inr None), h_readlink = (\<lambda>g p. Inl OSError), h_nonempty = (\<lambda>g p. Inr False),
     h_repr = (\<lambda>v. [])\<rparr>"

lemma FIXED_PREFIX_length [simp]: "length FIXED_PREFIX = 15"
  by (simp add: FIXED_PREFIX_def)

lemma refs_not_oid: "startswith ref ''refs/'' \<Longrightarrow> \<not> OID_RE ref"
  by (auto simp: startswith_def prefix_def OID_RE_def is_hex_def is_dec_def byte_def)

lemma ref_host_cas: "git_cas ref_host known_oid"
proof -
  have read: "snd (ref_git (FIXED_PREFIX @ [''-C'', cwd] @ command # args) env g) = g"
    if "command = ''rev-parse'' \<or> command = ''rev-list''" for cwd command args env g
    using that by (auto simp: ref_git_def split: list.splits option.splits)
  have resolve: "ref_git (FIXED_PREFIX @ [''-C'', cwd] @ [''rev-parse'', ''--verify'', name @ ''^{commit}'']) env g
      = (case known_oid g name of Some oid \<Rightarrow> ((0, oid @ [NEWLINE]), g) | None \<Rightarrow> ((128, []), g))" for cwd name env g
    by (simp add: ref_git_def)
  have update: "ref_git (FIXED_PREFIX @ [''-C'', cwd] @ [''update-ref'', ref, new, old]) env g
      = (if known_oid g ref = (if old = ZERO_OID then None else Some old) \<and> known_oid g new = Some new
         then ((0, []), AList.update ref new g) else ((1, []), g))" if "startswith ref ''refs/''" for cwd ref new old env g
    using that by (simp add: ref_git_def)
  have oid: "OID_RE oid \<and> oid \<noteq> ZERO_OID \<and> known_oid g oid = Some oid" if "known_oid g name = Some oid" for g name oid
    using that by (auto simp: known_oid_def split: if_splits option.splits)
  have moved: "known_oid (AList.update ref new g) ref = Some new" if "startswith ref ''refs/''" "known_oid g new = Some new" for ref new g
    using refs_not_oid [OF that(1)] oid [OF that(2)] by (simp add: known_oid_def)
  have others: "known_oid (AList.update ref new g) oid = known_oid g oid" if "OID_RE oid" for ref new g oid
    using that by (simp add: known_oid_def)
  show ?thesis
    unfolding git_cas_def
    using read resolve update oid moved others
    by (auto simp: ref_host_def split: if_splits option.splits)
qed

section \<open>A host that records its calls\<close>

type_synonym call_trace = "(string list \<times> (string, string) dict) list"

definition trace_host :: "call_trace host" where
  "trace_host = \<lparr>repository_root = ''/r'', h_git = (\<lambda>args env g. ((1, []), (args, env) # g)), h_resolve = (\<lambda>g p. p),
     h_exists = (\<lambda>g p. True), h_is_dir = (\<lambda>g p. True), h_is_symlink = (\<lambda>g p. False), h_mkdir = (\<lambda>p g. (Inr (), g)),
     h_makedirs = (\<lambda>p g. (Inr (), g)), h_unlink = (\<lambda>p g. (Inr (), g)), h_read = (\<lambda>g p. Inr None),
     h_lstat = (\<lambda>g p. Inr None), h_readlink = (\<lambda>g p. Inl OSError), h_nonempty = (\<lambda>g p. Inr False),
     h_repr = (\<lambda>v. [])\<rparr>"

theorem git_confined_witness:
  "list_all (\<lambda>(args, env). confined_call args env)
     (snd (create_run_ref trace_host ''RUN-20260723-001'' sample_oid []))"
proof -
  let ?I = "list_all (\<lambda>(args, env). confined_call args env)"
  have "confined trace_host ?I"
    by (auto simp: confined_def trace_host_def keeps_def)
  then have "keeps ?I (create_run_ref trace_host ''RUN-20260723-001'' sample_oid)"
    using git_confined [of trace_host ?I] by blast
  then show ?thesis by (simp add: keeps_def)
qed

section \<open>A compare-and-swap\<close>

definition commit_worktree :: task_worktree where
  "commit_worktree = \<lparr>tw_path = ''/r/w'', tw_branch = ''refs/heads/vibe/RUN/TASK-001-a1'', tw_base_sha = sample_oid\<rparr>"

definition empty_snapshot :: protected_git_snapshot where
  "empty_snapshot = \<lparr>pg_user_head = [], pg_index_tree = [], pg_status_digest = [], pg_refs = [],
     pg_packed_refs_digest = [], pg_config_digest = [], pg_remote_urls = []\<rparr>"

definition sample_commit :: prepared_source_commit where
  "sample_commit = (let c = hexes (CHR ''b'') 40 in
     \<lparr>ps_tree_oid = hexes (CHR ''c'') 40, ps_candidate_commit = c,
      ps_source_audit = \<lparr>sa_task_base_sha = sample_oid, sa_source_head = c, sa_source_commits = [c],
        sa_changed_paths = [''a''], sa_gitlinks_changed = False, sa_protected_before = empty_snapshot,
        sa_protected_after = empty_snapshot\<rparr>,
      ps_source_audit_body = []\<rparr>)"


section \<open>A host that answers from a script\<close>

definition empty_document :: string where
  "empty_document = [CHR ''{'', CHR ''}'', NEWLINE]"

definition script :: "string list \<Rightarrow> string" where
  "script argv =
     (let c = hd argv in
      if argv = [''rev-parse'', ''--abbrev-ref'', ''HEAD''] then ''HEAD'' @ [NEWLINE]
      else if c = ''rev-parse'' \<or> c = ''write-tree'' \<or> c = ''commit-tree'' then sample_oid @ [NEWLINE]
      else if c = ''rev-list'' then sample_oid @ '' '' @ sample_oid @ [NEWLINE]
      else if c = ''symbolic-ref'' then ''refs/heads/main'' @ [NEWLINE]
      else if c = ''show'' then
        ''Vibe Controller'' @ [NUL] @ ''vibe-controller@localhost'' @ [NUL] @ ''Vibe Controller'' @ [NUL]
          @ ''vibe-controller@localhost'' @ [NUL] @ ''vibe(RUN-20260723-001): TASK-001 attempt 1'' @ [NEWLINE]
      else if c = ''status'' then
        (if ''--porcelain=v1'' \<in> set argv then '' M src/a.py'' @ [NUL] else empty_document)
      else if c = ''config'' then empty_document
      else if c = ''diff'' then (if ''--name-status'' \<in> set argv then ''M'' @ [NUL] @ ''src/a.py'' @ [NUL] else [])
      else [])"

definition script_host :: "unit host" where
  "script_host = \<lparr>repository_root = ''/r'', h_git = (\<lambda>args env g. ((0, script (drop 17 args)), g)), h_resolve = (\<lambda>g p. p),
     h_exists = (\<lambda>g p. True), h_is_dir = (\<lambda>g p. True), h_is_symlink = (\<lambda>g p. False), h_mkdir = (\<lambda>p g. (Inr (), g)),
     h_makedirs = (\<lambda>p g. (Inr (), g)), h_unlink = (\<lambda>p g. (Inr (), g)), h_read = (\<lambda>g p. Inr (Some empty_document)),
     h_lstat = (\<lambda>g p. Inr None), h_readlink = (\<lambda>g p. Inl OSError), h_nonempty = (\<lambda>g p. Inr False),
     h_repr = (\<lambda>v. [])\<rparr>"

definition script_snapshot :: protected_git_snapshot where
  "script_snapshot = \<lparr>pg_user_head = ''refs/heads/main@'' @ sample_oid, pg_index_tree = sample_oid,
     pg_status_digest = sample_digest, pg_refs = [], pg_packed_refs_digest = sample_digest,
     pg_config_digest = sample_digest, pg_remote_urls = []\<rparr>"

definition script_contract :: task_contract where
  "script_contract = \<lparr>tc_id = ''TASK-001'', tc_objective = ''x'', tc_worker_type = ''general'', tc_covers = [],
     tc_depends_on = [], tc_path_scope = [''src/''], tc_exclusive_resources = [], tc_acceptance_checks = [],
     tc_max_attempts = 3\<rparr>"

definition script_preflight :: attempt_preflight where
  "script_preflight = \<lparr>ap_role = ''worker'', ap_task_id = Some ''TASK-001'',
     ap_attempt_created_at = ''2026-07-23T00:00:00+00:00'', ap_expected_base = sample_oid,
     ap_branch = Some (tw_branch commit_worktree), ap_worktree = tw_path commit_worktree,
     ap_snapshot = JObj [(''protected_git'', protected_as_dict script_snapshot)]\<rparr>"

definition script_metadata :: source_commit_metadata where
  "script_metadata = \<lparr>sm_run_id = ''RUN-20260723-001'', sm_task_id = ''TASK-001'', sm_attempt_no = 1,
     sm_attempt_created_at = ''2026-07-23T00:00:00+00:00''\<rparr>"

lemma empty_document_digest: "digest_of empty_document = sample_digest"
  using digest_empty_object by (simp add: empty_document_def sample_digest_def)

lemma script_protected: "snapshot_protected_git script_host (Some (tw_branch commit_worktree)) () = (Inr script_snapshot, ())"
proof -
  let ?h = script_host
  have "resolve_revision ?h (repository_root ?h) ''HEAD'' () = (Inr sample_oid, ())"
    "symbolic_head ?h () = (Inr ''refs/heads/main'', ())"
    "git_text ?h (repository_root ?h) [''write-tree''] no_internal () = (Inr sample_oid, ())"
    "git_bytes ?h (repository_root ?h) STATUS_V2 no_internal () = (Inr empty_document, ())"
    "git_bytes ?h (repository_root ?h) [''for-each-ref'', ''--format=%(refname)%00%(objectname)%00''] no_internal () = (Inr [], ())"
    "common_git_dir ?h () = (Inr sample_oid, ())"
    "read_optional ?h () (path_join sample_oid ''packed-refs'') = Inr empty_document"
    "git_bytes ?h (repository_root ?h) [''config'', ''--local'', ''--null'', ''--list''] no_internal () = (Inr empty_document, ())"
    "remote_urls empty_document = []"
    by code_simp+
  then show ?thesis
    by (simp add: snapshot_protected_git_def sbnd_def slift_def sget_def empty_document_digest script_snapshot_def)
qed

lemma script_audit:
  "audit_worker script_host script_contract commit_worktree script_preflight script_metadata ()
     = (Inr (([''src/a.py''], False), script_snapshot, script_snapshot), ())"
proof -
  let ?h = script_host
  have "validate_preparation_identity ?h () script_contract commit_worktree script_preflight script_metadata = Inr ()"
    "assert_no_executable_integrations ?h (repository_root ?h) () = (Inr (), ())"
    "git_text ?h (tw_path commit_worktree) [''rev-parse'', ''--abbrev-ref'', ''HEAD''] no_internal () = (Inr ''HEAD'', ())"
    "revision ?h (tw_path commit_worktree) () = (Inr sample_oid, ())"
    "resolve_revision ?h (repository_root ?h) (tw_branch commit_worktree) () = (Inr sample_oid, ())"
    "git_text ?h (repository_root ?h) [''rev-parse'', tw_base_sha commit_worktree @ ''^{tree}''] no_internal () = (Inr sample_oid, ())"
    "git_text ?h (tw_path commit_worktree) [''write-tree''] no_internal () = (Inr sample_oid, ())"
    "protected_from_preflight ?h script_preflight = Inr script_snapshot"
    "audit_raw_delta ?h (tw_path commit_worktree) () = (Inr ([''src/a.py''], False), ())"
    "validate_scope ?h () (tc_path_scope script_contract) [''src/a.py''] (tw_path commit_worktree) = Inr ()"
    by code_simp+
  then show ?thesis
    by (simp add: audit_worker_def sbnd_def slift_def sget_def script_protected) (simp add: commit_worktree_def)
qed


end
