(* ===== verification/IntegrationSample.thy ===== *)
theory IntegrationSample
  imports Integrator HostSample StoreSample
begin

text \<open>
  Concrete runs of the gate and the integrator for the witnesses: a machine whose commands succeed at
  once, a task that is ready to integrate on the scripted host, and a stored run with a marker.
\<close>

section \<open>A run of the gate\<close>

definition quick_machine :: "'g machine" where
  "quick_machine = \<lparr>m_which = (\<lambda>g name. Some (''/bin/'' @ name)), m_environ = (\<lambda>g. [(''PATH'', ''/bin'')]),
     m_process = (\<lambda>argv cwd env limit g. (Inr (Exited [] [] 0), g)),
     m_now = (\<lambda>g. (''2026-07-23T00:00:00+00:00'', g)),
     m_uuid4 = (\<lambda>g. (''00000000-0000-4000-8000-000000000000'', g))\<rparr>"

abbreviation task_prefix :: string where
  "task_prefix \<equiv> ''verification/tasks/TASK-001-a1/VERIFY-00000000-0000-4000-8000-000000000000''"

abbreviation candidate_dir :: string where
  "candidate_dir \<equiv> ''/r/.vibe-coding/worktrees/RUN-20260723-001/candidates/INT-00000000-0000-4000-8000-000000000000''"

definition quick_command :: prepared_command where
  "quick_command = \<lparr>pc_spec = sample_command, pc_executable = ''/bin/pytest'', pc_argv = [''/bin/pytest''],
     pc_cwd = candidate_dir, pc_environment = [(''PATH'', ''/bin'')]\<rparr>"

definition quick_evidence :: command_evidence where
  "quick_evidence = \<lparr>ce_commit_sha = sample_oid, ce_command_id = ''unit'', ce_argv = [''pytest''],
     ce_resolved_executable = ''/bin/pytest'', ce_cwd = ''.'', ce_env_names = [''PATH''],
     ce_started_at = ''2026-07-23T00:00:00+00:00'', ce_finished_at = ''2026-07-23T00:00:00+00:00'',
     ce_timeout_seconds = 900, ce_timed_out = False, ce_exit_code = Some 0,
     ce_stdout = \<lparr>ar_path = task_prefix @ ''/command-001.stdout'', ar_sha256 = digest_of []\<rparr>,
     ce_stderr = \<lparr>ar_path = task_prefix @ ''/command-001.stderr'', ar_sha256 = digest_of []\<rparr>\<rparr>"

lemma script_unprotected: "snapshot_protected_git script_host None () = (Inr script_snapshot, ())"
proof -
  let ?h = script_host
  have "resolve_revision ?h (repository_root ?h) ''HEAD'' () = (Inr sample_oid, ())"
    "symbolic_head ?h () = (Inr ''refs/heads/main'', ())"
    "git_text ?h (repository_root ?h) [''write-tree''] no_internal () = (Inr sample_oid, ())"
    "git_bytes ?h (repository_root ?h) STATUS_V2 no_internal () = (Inr empty_document, ())"
    "git_bytes ?h (repository_root ?h) [''for-each-ref'', ''--format=%(refname)%00%(objectname)%00''] no_internal () = (Inr [], ())"
    "common_git_dir ?h () = (Inr sample_oid, ())"
    "read_optional ?h () (path_join sample_oid ''packed-refs'') = Inr empty_document"
    "git_bytes ?h (repository_root ?h) [''config'', ''--local'', ''--null'', ''--list''] no_internal () = (Inr empty_document, ())"
    "remote_urls empty_document = []"
    by code_simp+
  then show ?thesis
    by (simp add: snapshot_protected_git_def sbnd_def slift_def sget_def empty_document_digest script_snapshot_def)
qed

lemma unit_run: "ok (fst (f ())) \<Longrightarrow> \<exists>v. f () = (Inr v, ())"
  by (cases "f ()") (auto simp: ok_iff)

lemma script_fingerprint: "\<exists>s. repository_snapshot 1 script_host candidate_dir [] () = (Inr s, ())"
proof -
  let ?h = script_host and ?git = "\<lambda>args. git_bytes script_host candidate_dir (args @ PRODUCT_PATHSPEC) no_internal"
  have quiet: "h_resolve ?h () candidate_dir = candidate_dir" "index_modes ?h candidate_dir () = (Inr [], ())" "revision ?h candidate_dir () = (Inr sample_oid, ())"
    "?git [''ls-files'', ''--others'', ''--exclude-standard'', ''-z''] () = (Inr [], ())"
    by code_simp+
  have u: "untracked_fingerprint_stream ?h candidate_dir () = (Inr (hash_parts []), ())"
    using quiet(4) by (simp add: untracked_fingerprint_stream_def sbnd_def slift_def sget_def)
  have t: "tracked_worktree_fingerprint_stream ?h () candidate_dir [] = Inr (hash_parts [])"
    by (simp add: tracked_worktree_fingerprint_stream_def)
  have "\<exists>b. ?git [''status'', ''--porcelain=v2'', ''-z'', ''--untracked-files=all'', ''--ignore-submodules=none''] () = (Inr b, ())"
    "\<exists>b. ?git [''diff'', ''--cached'', ''--binary'', ''--no-ext-diff'', ''--no-textconv'', ''--no-color'', ''--ignore-submodules=none''] () = (Inr b, ())"
    "\<exists>b. ?git [''diff'', ''--binary'', ''--no-ext-diff'', ''--no-textconv'', ''--no-color'', ''--ignore-submodules=none''] () = (Inr b, ())"
    by (rule unit_run, code_simp)+
  then show ?thesis
    using quiet(1-3) u t by (auto simp: sbnd_def slift_def sget_def)
qed

lemma script_read_only:
  "\<exists>v. capture_read_only_audit 1 script_host candidate_dir () = (Inr v, ()) \<and> wf_json v"
  using script_unprotected script_fingerprint
  by (auto simp: capture_read_only_audit_def sbnd_def slift_def script_host_def protected_as_dict_def script_snapshot_def
        snapshot_as_dict_def pairs_json_def)

lemma utf8_valid_digest: "utf8_valid (digest_of body)"
  using hex_ascii [OF sha256_hex, of body] by (auto simp: digest_of_def byte_def ascii_def intro!: utf8_valid_ascii)

lemma quick_manifest: "all_text utf8_valid (verification_manifest sample_oid True [quick_evidence])"
proof -
  have "list_all utf8_valid [''schema_version'', ''commit_sha'', ''passed'', ''commands'', ''command_id'', ''argv'',
      ''resolved_executable'', ''cwd'', ''env_names'', ''started_at'', ''finished_at'', ''timeout_seconds'', ''timed_out'',
      ''exit_code'', ''stdout'', ''stderr'', ''path'', ''sha256'', sample_oid, ''unit'', ''pytest'', ''/bin/pytest'', ''.'', ''PATH'',
      ''2026-07-23T00:00:00+00:00'', task_prefix @ ''/command-001.stdout'', task_prefix @ ''/command-001.stderr'']"
    by code_simp
  then show ?thesis
    by (simp add: verification_manifest_def evidence_as_dict_def quick_evidence_def jstrs_def artifact_as_dict_def utf8_valid_digest
        del: utf8_valid.simps append.simps)
qed

text \<open>The run directory of a task whose source audit is stored.\<close>

definition audit_world :: "string \<Rightarrow> unit world" where
  "audit_world body = \<lparr>wd = \<lparr>rd_state = None, rd_files = [(''tasks/TASK-001/attempts/001/source-audit.json'', body)],
     rd_log = [], rd_locked = True\<rparr>, wg = ()\<rparr>"

lemma quick_gate:
  "\<exists>res w'. run_gate quick_machine script_host 1 sample_config sample_oid candidate_dir [''unit''] task_prefix (audit_world body)
     = (Inr res, w') \<and> vr_commands res = [quick_evidence] \<and> vr_passed res \<and> vr_commit_sha res = sample_oid"
proof -
  let ?h = script_host and ?m = "quick_machine :: unit machine"
  have static: "resolve_command_ids sample_config [''unit''] = Inr [sample_command]"
    "mapr (prepare_command ?m ?h () candidate_dir) [sample_command] = Inr [quick_command]"
    "h_resolve ?h () candidate_dir = candidate_dir" "head_of ?h candidate_dir () = (Inr sample_oid, ())"
    "m_now ?m () = (''2026-07-23T00:00:00+00:00'', ())" "start_process ?m quick_command () = (Inr (Exited [] [] 0), ())"
    "pad3 (int 1) = ''001''"
    "relative_artifact_path (task_prefix @ ''/command-001.stdout'') = Inr ()"
    "relative_artifact_path (task_prefix @ ''/command-001.stderr'') = Inr ()"
    "relative_artifact_path (task_prefix @ ''/manifest.json'') = Inr ()"
    by code_simp+
  have "validate_prefix (wd (audit_world [])) task_prefix = Inr task_prefix" by code_simp
  then have vp: "validate_prefix (wd (audit_world body)) task_prefix = Inr task_prefix"
    by (simp add: validate_prefix_def prefix_in_use_def audit_world_def)
  obtain v where v: "capture_read_only_audit 1 ?h candidate_dir () = (Inr v, ())" "wf_json v"
    using script_read_only by blast
  obtain b where b: "canonical_json_bytes (verification_manifest sample_oid True [quick_evidence]) = Inr b"
    using canonical_bytes_parse [OF manifest_plain quick_manifest] by blast
  have cmd: "\<exists>d. run_command ?m sample_oid task_prefix (1, quick_command) (audit_world body) = (Inr quick_evidence, \<lparr>wd = d, wg = ()\<rparr>)
      \<and> rd_locked d \<and> map_of (rd_files d) (task_prefix @ ''/manifest.json'') = None"
    using static
    by (simp add: run_command_def Let_def sbnd_def slift_def on_host_def on_dir_def now_def prepare_artifact_def require_lock_def
        write_immutable_def publish_immutable_def artifact_ref_of_def audit_world_def quick_evidence_def)
       (simp add: quick_command_def sample_command_def)
  then obtain d where d: "run_command ?m sample_oid task_prefix (1, quick_command) (audit_world body) = (Inr quick_evidence, \<lparr>wd = d, wg = ()\<rparr>)"
    "rd_locked d" "map_of (rd_files d) (task_prefix @ ''/manifest.json'') = None" by blast
  have passed: "evidence_passed quick_evidence" by (simp add: evidence_passed_def quick_evidence_def)
  show ?thesis
    using static v b d vp passed py_eq_refl [OF v(2)]
    by (simp add: run_gate_def sbnd_def slift_def sget_def on_host_def on_dir_def prepare_artifact_def require_lock_def
        write_immutable_def publish_immutable_def artifact_ref_of_def enumerate_eq_zip audit_world_def Let_def del: append_Cons)
qed


section \<open>A task that is ready to integrate\<close>

definition ready_audit :: source_audit where
  "ready_audit = \<lparr>sa_task_base_sha = sample_oid, sa_source_head = sample_oid, sa_source_commits = [sample_oid],
     sa_changed_paths = [''src/a.py''], sa_gitlinks_changed = False, sa_protected_before = script_snapshot,
     sa_protected_after = script_snapshot\<rparr>"

definition audit_document :: json where
  "audit_document = JObj [(''candidate_commit'', JStr sample_oid), (''base_sha'', JStr sample_oid),
     (''source_commits'', JList [JStr sample_oid]), (''changed_paths'', JList [JStr ''src/a.py'']),
     (''gitlinks_changed'', JBool False)]"

definition audit_bytes :: string where
  "audit_bytes = print_json (canon audit_document) @ [NEWLINE]"

definition ready_state :: json where
  "ready_state = JObj [(''run_id'', JStr ''RUN-20260723-001''), (''repository'', sample_repository),
     (''pending_integration'', JNull),
     (''tasks'', JObj [(''TASK-001'', JObj [(''status'', JStr ''READY_TO_INTEGRATE''), (''attempt_no'', JInt 1),
        (''source_commits'', JList [JStr sample_oid]),
        (''active_attempt'', JObj [(''status'', JStr ''VERIFYING''), (''task_base_sha'', JStr sample_oid),
           (''branch'', JStr (tw_branch commit_worktree))])])]),
     (''artifact_index'', JList [JObj [(''path'', JStr ''tasks/TASK-001/attempts/001/source-audit.json''),
        (''sha256'', JStr (digest_of audit_bytes))]])]"

lemma audit_read_back:
  "bnd (read_bound_artifact (wd (audit_world audit_bytes))
       \<lparr>ar_path = ''tasks/TASK-001/attempts/001/source-audit.json'', ar_sha256 = digest_of audit_bytes\<rparr>) parse_json_object_bytes
   = Inr (canon audit_document)"
proof -
  have "int (length audit_bytes) < 10000" unfolding int_length_fold by code_simp
  then have short: "\<not> length audit_bytes > MAX_ARTIFACT_BYTES" by (simp add: MAX_ARTIFACT_BYTES_def)
  have plain: "is_obj audit_document" "wf_json audit_document" "no_floats audit_document" "all_text utf8_valid audit_document"
    by code_simp+
  have "parse_json_object_bytes audit_bytes = Inr (canon audit_document)"
    using canonical_bytes_parse [OF plain] by (auto simp: canonical_json_bytes_def audit_bytes_def split: if_splits)
  with short show ?thesis by (simp add: read_bound_artifact_def read_regular_def read_bounded_def audit_world_def)
qed

lemma ready_checks:
  "ready_task ready_state ''TASK-001'' = Inr (sub (sub ready_state ''tasks'') ''TASK-001'',
     sub (sub (sub ready_state ''tasks'') ''TASK-001'') ''active_attempt'')"
  "source_audit_ref ready_state ''TASK-001'' 1
     = Inr \<lparr>ar_path = ''tasks/TASK-001/attempts/001/source-audit.json'', ar_sha256 = digest_of audit_bytes\<rparr>"
proof -
  have "attempt_dir ''TASK-001'' 1 @ ''/source-audit.json'' = ''tasks/TASK-001/attempts/001/source-audit.json''" by code_simp
  then show "source_audit_ref ready_state ''TASK-001'' 1
     = Inr \<lparr>ar_path = ''tasks/TASK-001/attempts/001/source-audit.json'', ar_sha256 = digest_of audit_bytes\<rparr>"
    by (simp add: source_audit_ref_def ready_state_def chk_reject_def)
  show "ready_task ready_state ''TASK-001'' = Inr (sub (sub ready_state ''tasks'') ''TASK-001'',
     sub (sub (sub ready_state ''tasks'') ''TASK-001'') ''active_attempt'')"
    by (simp add: ready_task_def ready_state_def chk_reject_def Let_def)
qed

lemma script_answers:
  "resolve_ref script_host (tw_branch commit_worktree) () = (Inr sample_oid, ())"
  "resolve_ref script_host ''refs/heads/vibe/run-RUN-20260723-001'' () = (Inr sample_oid, ())"
  "commit_parents script_host sample_oid () = (Inr [sample_oid, sample_oid], ())"
  "create_disposable_worktree script_host ''RUN-20260723-001'' ''candidates'' ''INT-00000000-0000-4000-8000-000000000000'' sample_oid ()
     = (Inr candidate_dir, ())"
  "run_local script_host candidate_dir [''cherry-pick'', sample_oid] no_internal () = (Inr [], ())"
  "head_of script_host candidate_dir () = (Inr sample_oid, ())"
  "changed_paths script_host candidate_dir sample_oid sample_oid () = (Inr [''src/a.py''], ())"
  "require_paths_in_scope [''src/a.py''] (tc_path_scope script_contract) = Inr ()"
  "effective_command_ids sample_config [''unit''] = Inr [''unit'']"
  by code_simp+

definition ready_contract :: task_contract where
  "ready_contract = script_contract\<lparr>tc_acceptance_checks := [''unit'']\<rparr>"

lemma ready_audit_verified:
  "verify_source_audit script_host ready_contract (sub (sub ready_state ''tasks'') ''TASK-001'')
     (sub (sub (sub ready_state ''tasks'') ''TASK-001'') ''active_attempt'')
     \<lparr>ar_path = ''tasks/TASK-001/attempts/001/source-audit.json'', ar_sha256 = digest_of audit_bytes\<rparr> ready_audit
     (audit_world audit_bytes) = (Inr (), audit_world audit_bytes)"
proof -
  let ?b = "canon audit_document"
  have "sub ?b ''candidate_commit'' = JStr sample_oid" "sub ?b ''base_sha'' = JStr sample_oid"
    "tuple_field ?b ''source_commits'' = Inr [JStr sample_oid]" "tuple_field ?b ''changed_paths'' = Inr [JStr ''src/a.py'']"
    "sub ?b ''gitlinks_changed'' = JBool False"
    by code_simp+
  then show ?thesis
    using audit_read_back script_answers(1,3,8)
    by (simp add: verify_source_audit_def sbnd_def slift_def sget_def on_host_def ready_audit_def ready_state_def
        audit_world_def chk_reject_def ready_contract_def)
qed

abbreviation candidate_id :: string where
  "candidate_id \<equiv> ''INT-00000000-0000-4000-8000-000000000000''"

definition ready_candidate :: "verification_result \<Rightarrow> candidate_integration" where
  "ready_candidate res = \<lparr>ci_operation_id = candidate_id, ci_path = candidate_dir, ci_expected_head = sample_oid,
     ci_candidate_head = sample_oid, ci_source_audit = ready_audit,
     ci_source_audit_ref = \<lparr>ar_path = ''tasks/TASK-001/attempts/001/source-audit.json'', ar_sha256 = digest_of audit_bytes\<rparr>,
     ci_verification = res\<rparr>"

lemma quick_uuid: "uuid4 quick_machine (audit_world body) = (Inr ''00000000-0000-4000-8000-000000000000'', audit_world body)"
  by (simp add: uuid4_def on_host_def quick_machine_def audit_world_def)

lemma on_unit_host: "on_host m (audit_world body) = (fst (m ()), audit_world body)"
  by (simp add: on_host_def audit_world_def split: prod.split)

lemma ready_prepared:
  "\<exists>res w'. prepare quick_machine script_host 1 sample_config ready_state ready_contract ready_audit (audit_world audit_bytes)
     = (Inr (ready_candidate res), w') \<and> vr_commands res = [quick_evidence]"
proof -
  let ?w = "audit_world audit_bytes" and ?task = "sub (sub ready_state ''tasks'') ''TASK-001''"
  obtain res w' where g: "run_gate quick_machine script_host 1 sample_config sample_oid candidate_dir [''unit''] task_prefix ?w
     = (Inr res, w')" "vr_passed res" "vr_commands res = [quick_evidence]" "vr_commit_sha res = sample_oid" using quick_gate by blast
  have fields: "int_of (sub ?task ''attempt_no'') = 1"
    "str_of (sub (sub ready_state ''repository'') ''integration_head'') = sample_oid"
    "str_of (sub (sub ready_state ''repository'') ''integration_ref'') = ''refs/heads/vibe/run-RUN-20260723-001''"
    "str_of (sub ready_state ''run_id'') = ''RUN-20260723-001''"
    by (simp_all add: ready_state_def sample_repository_def)
  have names: "''verification/tasks/'' @ ''TASK-001'' @ ''-a'' @ int_text 1 @ ''/VERIFY-'' @ ''00000000-0000-4000-8000-000000000000'' = task_prefix"
    "''INT-'' @ ''00000000-0000-4000-8000-000000000000'' = candidate_id"
    by code_simp+
  have contract: "tc_id ready_contract = ''TASK-001''" "tc_path_scope ready_contract = tc_path_scope script_contract"
    "tc_acceptance_checks ready_contract = [''unit'']" by (simp_all add: ready_contract_def script_contract_def)
  have parents: "verify_candidate_structure script_host sample_oid sample_oid () = (Inr (), ())"
    by (simp add: verify_candidate_structure_def sbnd_def slift_def script_answers chk_reject_def)
  have pick: "stry (sbnd (run_local script_host candidate_dir [''cherry-pick'', sample_oid] no_internal) (\<lambda>_. slift (Inr ())))
       (slift (Inl IntegrationRejected)) () = (Inr (), ())"
    by (simp add: stry_def sbnd_def slift_def script_answers)
  note unfold = sbnd_def slift_def chk_reject_def contract fields quick_uuid on_unit_host
  have c: "check_candidate quick_machine script_host 1 sample_config ready_contract ready_audit ?task sample_oid
      candidate_id candidate_dir \<lparr>ar_path = ''tasks/TASK-001/attempts/001/source-audit.json'', ar_sha256 = digest_of audit_bytes\<rparr> ?w
    = (Inr (ready_candidate res), w')"
    using script_answers parents g
    by (simp add: check_candidate_def unfold names(1) ready_audit_def ready_candidate_def del: append_Cons)
  have "prepare quick_machine script_host 1 sample_config ready_state ready_contract ready_audit ?w = (Inr (ready_candidate res), w')"
    using script_answers ready_checks ready_audit_verified pick c
    by (simp add: prepare_def unfold names(2) Let_def ready_audit_def del: append_Cons)
  with g(3) show ?thesis by blast
qed

theorem prepared_evidence_rechecks_witness:
  "\<exists>c w' body manifest. prepare quick_machine script_host 1 sample_config ready_state ready_contract ready_audit
       (audit_world audit_bytes) = (Inr c, w')
     \<and> read_bound_artifact (wd w') (vr_manifest_ref (ci_verification c))
        = (if length body > MAX_ARTIFACT_BYTES then Inl ContractError else Inr body)
     \<and> parse_json_object_bytes body = Inr manifest \<and> sub manifest ''commit_sha'' = JStr sample_oid
     \<and> sub manifest ''passed'' = JBool True"
proof -
  obtain res w' where p: "prepare quick_machine script_host 1 sample_config ready_state ready_contract ready_audit (audit_world audit_bytes)
     = (Inr (ready_candidate res), w')" "vr_commands res = [quick_evidence]" using ready_prepared by blast
  have "all_text utf8_valid (verification_manifest (ci_candidate_head (ready_candidate res)) True
      (vr_commands (ci_verification (ready_candidate res))))"
    using quick_manifest p(2) by (simp add: ready_candidate_def)
  from prepared_evidence_rechecks [OF p(1) this] p(1) show ?thesis by (auto simp: ready_candidate_def)
qed

section \<open>A stored run with a marker\<close>

abbreviation marker_paths :: "string list" where
  "marker_paths \<equiv> [''creation.intent.json'', ''config.json'', ''tasks/TASK-001/task.json'', ''verification/v.json'']"

definition marker_task :: json where
  "marker_task = JObj [(''task'', sample_ref ''tasks/TASK-001/task.json''), (''status'', JStr ''PENDING''), (''attempt_no'', JInt 0),
     (''failure_count'', JInt 0), (''max_attempts'', JInt 3), (''active_attempt'', JNull), (''attempts'', JList []),
     (''result'', JNull), (''verification'', JNull), (''source_commits'', JList []), (''integrated_commits'', JList []),
     (''last_error'', JNull)]"

definition marker :: pending_integration where
  "marker = \<lparr>pi_operation_id = candidate_id, pi_task_id = ''TASK-001'', pi_attempt_no = 1, pi_expected_head = sample_oid,
     pi_candidate_head = hexes (CHR ''b'') 40, pi_source_base = sample_oid, pi_source_head = hexes (CHR ''d'') 40,
     pi_verification = \<lparr>ar_path = ''verification/v.json'', ar_sha256 = sample_digest\<rparr>\<rparr>"

definition marker_state :: json where
  "marker_state = put (put (sample_state ''PAUSED'' (JStr ''EXECUTING'') [] [(''TASK-001'', marker_task)])
     ''pending_integration'' (pending_as_dict marker)) ''artifact_index'' (JList (map sample_ref marker_paths))"

lemma marker_load: "load (dir_of marker_state marker_paths) = Inr (canon marker_state)"
proof (rule load_dir_of)
  show "is_obj marker_state" "wf_json marker_state" "no_floats marker_state" "all_text utf8_valid marker_state"
    by code_simp+
  show "int (length (print_json (canon marker_state) @ [NEWLINE])) < 10000" unfolding int_length_fold by code_simp
  show "validate_run_state (canon marker_state) = Inr (canon marker_state)" by code_simp
  show "bindings_of (canon marker_state) = Inr (map (\<lambda>p. (p, sample_digest)) marker_paths)" by code_simp
  show "list_all (\<lambda>p. relative_artifact_path p = Inr ()) marker_paths" by code_simp
  show "validate_bound_state_semantics (canon marker_state)
      (\<lambda>path. case map_of (map (\<lambda>p. (p, sample_body)) marker_paths) path of
         None \<Rightarrow> Inl KeyError | Some body \<Rightarrow> Inr body) = Inr ()" by code_simp
qed

definition marker_world :: "string \<Rightarrow> (string, string) dict world" where
  "marker_world at = \<lparr>wd = dir_of marker_state marker_paths, wg = [(''refs/heads/vibe/run-RUN-20260723-001'', at)]\<rparr>"

lemma marker_facts:
  "ref_of (canon marker_state) = ''refs/heads/vibe/run-RUN-20260723-001''"
  "pending_from_state (sub (canon marker_state) ''pending_integration'') = marker"
  "sub (canon marker_state) ''status'' = JStr ''PAUSED''"
  by code_simp+

lemma quick_clock: "clock_keeps quick_machine oid_of"
  by (simp add: clock_keeps_def quick_machine_def)


lemma marker_recovery: "\<exists>e. recover quick_machine ref_host (marker_world sample_oid) = (Inl e, marker_world sample_oid)"
proof -
  let ?g = "[(''refs/heads/vibe/run-RUN-20260723-001'', sample_oid)]"
  have raw: "sub (canon marker_state) ''pending_integration'' = canon (pending_as_dict marker)"
    "is_obj (canon (pending_as_dict marker))" "pending_from_state (canon (pending_as_dict marker)) = marker"
    "str_of (sub (sub (canon marker_state) ''repository'') ''integration_ref'') = ''refs/heads/vibe/run-RUN-20260723-001''"
    by code_simp+
  have ref: "resolve_ref ref_host ''refs/heads/vibe/run-RUN-20260723-001'' ?g = (Inr sample_oid, ?g)"
    "snd (verify_candidate_structure ref_host (pi_candidate_head marker) sample_oid ?g) = ?g"
    "\<not> ok (fst (verify_candidate_structure ref_host (pi_candidate_head marker) sample_oid ?g))"
    by code_simp+
  then obtain e where "verify_candidate_structure ref_host (pi_candidate_head marker) sample_oid ?g = (Inl e, ?g)"
    by (cases "verify_candidate_structure ref_host (pi_candidate_head marker) sample_oid ?g"; cases "fst (verify_candidate_structure ref_host (pi_candidate_head marker) sample_oid ?g)") auto
  moreover have "pi_expected_head marker = sample_oid" by (simp add: marker_def)
  ultimately show ?thesis
    using marker_load raw ref(1)
    by (simp add: recover_def classify_recovery_def finish_recovery_def verify_pending_def sbnd_def slift_def sget_def Let_def
        on_host_def marker_world_def)
qed


theorem recover_paused_raises_witness:
  "\<exists>e w'. recover quick_machine ref_host (marker_world (hexes (CHR ''e'') 40)) = (Inl e, w')
     \<and> load (wd w') = Inr (canon marker_state)"
proof (rule recover_paused_raises [OF ref_host_cas])
  let ?w = "marker_world (hexes (CHR ''e'') 40)"
  show "load (wd ?w) = Inr (canon marker_state)" by (simp add: marker_world_def marker_load)
  show "sub (canon marker_state) ''status'' = JStr ''PAUSED''" by (rule marker_facts)
  have "known_oid (wg ?w) ''refs/heads/vibe/run-RUN-20260723-001'' = Some (hexes (CHR ''e'') 40)" by code_simp
  then show "known_oid (wg ?w) (ref_of (canon marker_state))
        \<noteq> Some (pi_expected_head (pending_from_state (sub (canon marker_state) ''pending_integration'')))"
    "known_oid (wg ?w) (ref_of (canon marker_state))
        \<noteq> Some (pi_candidate_head (pending_from_state (sub (canon marker_state) ''pending_integration'')))"
    unfolding marker_facts by (simp_all add: marker_def hexes_def sample_oid_def)
qed

end
