(* ===== verification/Roles.thy ===== *)
theory Roles
  imports Prompts Scheduler
begin

text \<open>
  \<^verbatim>\<open>parse_result\<close> of the three role runners (\<^verbatim>\<open>runners/planner.py\<close>, \<^verbatim>\<open>runners/worker.py\<close> and
  \<^verbatim>\<open>runners/evaluator.py\<close>): the only way by which what an agent says enters a run.
\<close>

section \<open>Checks that the runners share\<close>

definition exact_object :: "json \<Rightarrow> string list \<Rightarrow> json result" where
  "exact_object v expected = (if is_obj v \<and> set (jkeys v) = set expected then Inr v else Inl ContractError)"

definition array :: "json \<Rightarrow> json list result" where
  "array v = (if is_list v then Inr (elems v) else Inl ContractError)"

definition nonempty_string :: "json \<Rightarrow> string result" where
  "nonempty_string v = (if is_str v \<and> \<not> blank (str_of v) then Inr (str_of v) else Inl ContractError)"

definition int_from :: "int \<Rightarrow> json \<Rightarrow> int result" where
  "int_from least v = (if is_int v \<and> \<not> int_of v < least then Inr (int_of v) else Inl ContractError)"

definition unique_strings :: "json \<Rightarrow> string list result" where
  "unique_strings v =
     bnd (array v) (\<lambda>xs.
     if list_all is_str xs \<and> unique (map str_of xs) then Inr (map str_of xs) else Inl ContractError)"

definition known_commands :: "json \<Rightarrow> frozen_run_config \<Rightarrow> string list result" where
  "known_commands v config =
     bnd (unique_strings v) (\<lambda>ids.
     if list_all (\<lambda>i. i \<in> set (map cs_id (command_catalog config))) ids then Inr ids else Inl ContractError)"

text \<open>\<^verbatim>\<open>str.isdigit\<close>: the decimal digits and the code points with numeric type digit.\<close>

definition digit_ranges :: "(int \<times> int) list" where
  "digit_ranges =
     [(0xb2, 0xb3), (0xb9, 0xb9), (0x1369, 0x1371), (0x19da, 0x19da), (0x2070, 0x2070), (0x2074, 0x2079),
      (0x2080, 0x2089), (0x2460, 0x2468), (0x2474, 0x247c), (0x2488, 0x2490), (0x24ea, 0x24ea), (0x24f5, 0x24fd),
      (0x24ff, 0x24ff), (0x2776, 0x277e), (0x2780, 0x2788), (0x278a, 0x2792), (0x10a40, 0x10a43),
      (0x10e60, 0x10e68), (0x11052, 0x1105a), (0x1f100, 0x1f10a)]"

definition py_isdigit :: "int \<Rightarrow> bool" where
  "py_isdigit c = (py_digit c \<or> list_ex (\<lambda>(a, b). a \<le> c \<and> c \<le> b) digit_ranges)"

definition canonical_id :: "string \<Rightarrow> json \<Rightarrow> string result" where
  "canonical_id tag v =
     bnd (nonempty_string v) (\<lambda>raw.
     let cs = codepoints raw in
     if length cs = length tag + 3 \<and> startswith raw tag \<and> list_all py_isdigit (drop (length cs - 3) cs)
     then Inr raw else Inl ContractError)"

definition relative_path :: "string \<Rightarrow> string result" where
  "relative_path v =
     (let parts = posix_parts v in
      if is_absolute v \<or> parts = [] \<or> ''..'' \<in> set parts \<or> ''.'' \<in> set parts \<or> v \<noteq> as_posix v
      then Inl ContractError else Inr v)"

text \<open>One more element of a list whose keys must differ.\<close>

definition schema_one :: "json \<Rightarrow> unit result" where
  "schema_one raw = chk (sub raw ''schema_version'' = JInt 1)"

section \<open>The plan\<close>

definition plan_criterion :: "acceptance_criterion list \<Rightarrow> json \<Rightarrow> acceptance_criterion list result" where
  "plan_criterion criteria v =
     bnd (exact_object v [''id'', ''description'']) (\<lambda>entry.
     bnd (canonical_id ''AC-'' (sub entry ''id'')) (\<lambda>criterion_id.
     bnd (chk (criterion_id \<notin> set (map ac_id criteria))) (\<lambda>_.
     bnd (nonempty_string (sub entry ''description'')) (\<lambda>description.
     Inr (criteria @ [\<lparr>ac_id = criterion_id, ac_description = description\<rparr>])))))"

definition plan_task ::
  "frozen_run_config \<Rightarrow> string list \<Rightarrow> task_contract list \<Rightarrow> json \<Rightarrow> task_contract list result" where
  "plan_task config criterion_ids tasks v =
     bnd (exact_object v [''id'', ''objective'', ''worker_type'', ''covers'', ''depends_on'', ''path_scope'',
       ''exclusive_resources'', ''acceptance_checks'', ''max_attempts'']) (\<lambda>entry.
     bnd (canonical_id ''TASK-'' (sub entry ''id'')) (\<lambda>task_id.
     bnd (chk (task_id \<notin> set (map tc_id tasks))) (\<lambda>_.
     bnd (in_str_set (sub entry ''worker_type'') WORKER_TYPES) (\<lambda>known.
     bnd (chk known) (\<lambda>_.
     bnd (unique_strings (sub entry ''covers'')) (\<lambda>covers.
     bnd (chk (covers \<noteq> [] \<and> set covers \<subseteq> set criterion_ids)) (\<lambda>_.
     bnd (unique_strings (sub entry ''path_scope'')) (\<lambda>path_scope.
     bnd (chk (path_scope \<noteq> [])) (\<lambda>_.
     bnd (forr (\<lambda>path. void (relative_path path)) path_scope) (\<lambda>_.
     bnd (int_from 1 (sub entry ''max_attempts'')) (\<lambda>maximum.
     bnd (chk (\<not> maximum > task_attempts config)) (\<lambda>_.
     bnd (nonempty_string (sub entry ''objective'')) (\<lambda>objective.
     bnd (unique_strings (sub entry ''depends_on'')) (\<lambda>depends_on.
     bnd (unique_strings (sub entry ''exclusive_resources'')) (\<lambda>resources.
     bnd (known_commands (sub entry ''acceptance_checks'') config) (\<lambda>acceptance.
     Inr (tasks @ [\<lparr>tc_id = task_id, tc_objective = objective, tc_worker_type = str_of (sub entry ''worker_type''),
       tc_covers = covers, tc_depends_on = depends_on, tc_path_scope = path_scope, tc_exclusive_resources = resources,
       tc_acceptance_checks = acceptance, tc_max_attempts = maximum\<rparr>])))))))))))))))))"

definition plan_of_json :: "frozen_run_config \<Rightarrow> plan_document list \<Rightarrow> json \<Rightarrow> plan_document result" where
  "plan_of_json config prior_plans v =
     bnd (exact_object v
       [''schema_version'', ''plan_version'', ''summary'', ''acceptance_criteria'', ''global_verification'', ''tasks'']) (\<lambda>raw.
     bnd (schema_one raw) (\<lambda>_.
     bnd (int_from 1 (sub raw ''plan_version'')) (\<lambda>plan_version.
     bnd (nonempty_string (sub raw ''summary'')) (\<lambda>summary.
     bnd (array (sub raw ''acceptance_criteria'')) (\<lambda>criteria_values.
     bnd (chk (criteria_values \<noteq> [])) (\<lambda>_.
     bnd (foldr_r plan_criterion [] criteria_values) (\<lambda>criteria.
     bnd (known_commands (sub raw ''global_verification'') config) (\<lambda>global_verification.
     bnd (array (sub raw ''tasks'')) (\<lambda>task_values.
     bnd (chk (\<not> (task_values = [] \<or> int (length task_values) > max_plan_tasks config))) (\<lambda>_.
     bnd (foldr_r (plan_task config (map ac_id criteria)) [] task_values) (\<lambda>tasks.
     let document = \<lparr>pd_schema_version = 1, pd_plan_version = plan_version, pd_summary = summary,
       pd_acceptance_criteria = criteria, pd_global_verification = global_verification, pd_tasks = tasks\<rparr> in
     bnd (validate_plan WORKER_TYPES document config prior_plans) (\<lambda>_. Inr document))))))))))))"

definition parse_plan :: "frozen_run_config \<Rightarrow> plan_document list \<Rightarrow> string \<Rightarrow> plan_document result" where
  "parse_plan config prior_plans body = bnd (parse_single_json_object body) (plan_of_json config prior_plans)"

section \<open>The result of a worker\<close>

record worker_check =
  wc_command_id :: string
  wc_exit_code :: int
  wc_summary :: string

record worker_result =
  wr_schema_version :: int
  wr_task_id :: string
  wr_attempt_no :: int
  wr_attempt_token :: string
  wr_status :: string
  wr_task_base_sha :: string
  wr_changed_paths :: "string list"
  wr_checks :: "worker_check list"
  wr_residual_risks :: "string list"
  wr_blocker :: "string option"

text \<open>The fields of a role invocation that the worker's answer is compared with.\<close>

record assignment =
  as_task_id :: "string option"
  as_attempt_no :: int
  as_attempt_token :: string
  as_expected_base :: string
  as_authorized_command_ids :: "string list"

definition worker_check_of :: "assignment \<Rightarrow> worker_check list \<Rightarrow> json \<Rightarrow> worker_check list result" where
  "worker_check_of a checked v =
     bnd (exact_object v [''command_id'', ''exit_code'', ''summary'']) (\<lambda>entry.
     bnd (nonempty_string (sub entry ''command_id'')) (\<lambda>command_id.
     bnd (chk (command_id \<in> set (as_authorized_command_ids a) \<and> command_id \<notin> set (map wc_command_id checked))) (\<lambda>_.
     bnd (chk (is_int (sub entry ''exit_code''))) (\<lambda>_.
     bnd (nonempty_string (sub entry ''summary'')) (\<lambda>summary.
     Inr (checked @ [\<lparr>wc_command_id = command_id, wc_exit_code = int_of (sub entry ''exit_code''), wc_summary = summary\<rparr>]))))))"

definition worker_result_of_json :: "assignment \<Rightarrow> json \<Rightarrow> worker_result result" where
  "worker_result_of_json a v =
     bnd (exact_object v
       [''schema_version'', ''task_id'', ''attempt_no'', ''attempt_token'', ''status'', ''task_base_sha'',
        ''changed_paths'', ''checks'', ''residual_risks'', ''blocker'']) (\<lambda>raw.
     bnd (schema_one raw) (\<lambda>_.
     bnd (chk (py_eq (sub raw ''task_id'') (jopt (as_task_id a)) \<and> py_eq (sub raw ''attempt_no'') (JInt (as_attempt_no a))
       \<and> py_eq (sub raw ''attempt_token'') (JStr (as_attempt_token a))
       \<and> py_eq (sub raw ''task_base_sha'') (JStr (as_expected_base a)))) (\<lambda>_.
     bnd (in_str_set (sub raw ''status'') [''COMPLETED'', ''BLOCKED'']) (\<lambda>known.
     bnd (chk known) (\<lambda>_.
     bnd (unique_strings (sub raw ''changed_paths'')) (\<lambda>changed_paths.
     bnd (forr (\<lambda>path. void (relative_path path)) changed_paths) (\<lambda>_.
     bnd (bnd (array (sub raw ''checks'')) (foldr_r (worker_check_of a) [])) (\<lambda>checked.
     bnd (unique_strings (sub raw ''residual_risks'')) (\<lambda>residual.
     bnd (if sub raw ''status'' = JStr ''BLOCKED'' then bnd (nonempty_string (sub raw ''blocker'')) (\<lambda>b. Inr (Some b))
          else bnd (chk (sub raw ''blocker'' = JNull)) (\<lambda>_. Inr None)) (\<lambda>blocker.
     Inr \<lparr>wr_schema_version = 1, wr_task_id = (case as_task_id a of None \<Rightarrow> [] | Some t \<Rightarrow> t),
       wr_attempt_no = as_attempt_no a, wr_attempt_token = as_attempt_token a, wr_status = str_of (sub raw ''status''),
       wr_task_base_sha = as_expected_base a, wr_changed_paths = changed_paths, wr_checks = checked,
       wr_residual_risks = residual, wr_blocker = blocker\<rparr>))))))))))"

definition parse_worker_result :: "assignment \<Rightarrow> string \<Rightarrow> worker_result result" where
  "parse_worker_result a body = bnd (parse_single_json_object body) (worker_result_of_json a)"

section \<open>The evaluation\<close>

record evaluation_criterion =
  ec_id :: string
  ec_verdict :: string
  ec_evidence_ids :: "string list"

record evaluation_finding =
  ef_criterion_id :: string
  ef_severity :: string
  ef_evidence :: string
  ef_affected_paths :: "string list"
  ef_repair_hint :: string

record evaluation_result =
  er_schema_version :: int
  er_verdict :: evaluation_verdict
  er_criteria :: "evaluation_criterion list"
  er_findings :: "evaluation_finding list"
  er_evidence_requests :: "string list"
  er_residual_risks :: "string list"

definition criterion_of :: "evaluation_criterion list \<Rightarrow> json \<Rightarrow> evaluation_criterion list result" where
  "criterion_of criteria v =
     bnd (exact_object v [''id'', ''verdict'', ''evidence_ids'']) (\<lambda>entry.
     bnd (canonical_id ''AC-'' (sub entry ''id'')) (\<lambda>criterion_id.
     bnd (chk (criterion_id \<notin> set (map ec_id criteria))) (\<lambda>_.
     bnd (in_str_set (sub entry ''verdict'') [''PASS'', ''FAIL'', ''UNVERIFIED'', ''BLOCKED'']) (\<lambda>known.
     bnd (chk known) (\<lambda>_.
     bnd (unique_strings (sub entry ''evidence_ids'')) (\<lambda>evidence_ids.
     Inr (criteria @ [\<lparr>ec_id = criterion_id, ec_verdict = str_of (sub entry ''verdict''), ec_evidence_ids = evidence_ids\<rparr>])))))))"

definition finding_of :: "string list \<Rightarrow> json \<Rightarrow> evaluation_finding result" where
  "finding_of criterion_ids v =
     bnd (exact_object v [''criterion_id'', ''severity'', ''evidence'', ''affected_paths'', ''repair_hint'']) (\<lambda>entry.
     bnd (canonical_id ''AC-'' (sub entry ''criterion_id'')) (\<lambda>criterion_id.
     bnd (chk (criterion_id \<in> set criterion_ids)) (\<lambda>_.
     bnd (in_str_set (sub entry ''severity'') [''LOW'', ''MEDIUM'', ''HIGH'', ''CRITICAL'']) (\<lambda>known.
     bnd (chk known) (\<lambda>_.
     bnd (unique_strings (sub entry ''affected_paths'')) (\<lambda>paths.
     bnd (forr (\<lambda>path. void (relative_path path)) paths) (\<lambda>_.
     bnd (nonempty_string (sub entry ''evidence'')) (\<lambda>evidence.
     bnd (nonempty_string (sub entry ''repair_hint'')) (\<lambda>hint.
     Inr \<lparr>ef_criterion_id = criterion_id, ef_severity = str_of (sub entry ''severity''), ef_evidence = evidence,
       ef_affected_paths = paths, ef_repair_hint = hint\<rparr>)))))))))"

definition direct_evidence :: "evaluation_criterion \<Rightarrow> bool" where
  "direct_evidence c = (ec_verdict c = ''PASS'' \<and> ec_evidence_ids c \<noteq> [])"

definition evaluation_of_json ::
  "frozen_run_config \<Rightarrow> string list option \<Rightarrow> string list option \<Rightarrow> json \<Rightarrow> evaluation_result result" where
  "evaluation_of_json config expected_criteria authorized_command_ids v =
     bnd (exact_object v
       [''schema_version'', ''verdict'', ''criteria'', ''findings'', ''evidence_requests'', ''residual_risks'']) (\<lambda>raw.
     bnd (schema_one raw) (\<lambda>_.
     bnd (case EvaluationVerdict (sub raw ''verdict'') of Inl e \<Rightarrow> Inl ContractError | Inr x \<Rightarrow> Inr x) (\<lambda>verdict.
     bnd (bnd (array (sub raw ''criteria'')) (foldr_r criterion_of [])) (\<lambda>criteria.
     bnd (chk (\<not> (expected_criteria \<noteq> None \<and> set (map ec_id criteria) \<noteq> set (the expected_criteria)))) (\<lambda>_.
     bnd (bnd (array (sub raw ''findings'')) (mapr (finding_of (map ec_id criteria)))) (\<lambda>findings.
     bnd (unique_strings (sub raw ''evidence_requests'')) (\<lambda>requests.
     bnd (chk (\<not> (verdict \<noteq> UNVERIFIED \<and> requests \<noteq> []))) (\<lambda>_.
     let allowed = (case authorized_command_ids of Some ids \<Rightarrow> ids | None \<Rightarrow> map cs_id (command_catalog config)) in
     bnd (chk (set requests \<subseteq> set allowed)) (\<lambda>_.
     bnd (chk (\<not> (verdict = PASS \<and> (findings \<noteq> [] \<or> \<not> list_all direct_evidence criteria)))) (\<lambda>_.
     bnd (unique_strings (sub raw ''residual_risks'')) (\<lambda>residual.
     Inr \<lparr>er_schema_version = 1, er_verdict = verdict, er_criteria = criteria, er_findings = findings,
       er_evidence_requests = requests, er_residual_risks = residual\<rparr>)))))))))))"

definition parse_evaluation ::
  "frozen_run_config \<Rightarrow> string list option \<Rightarrow> string list option \<Rightarrow> string \<Rightarrow> evaluation_result result" where
  "parse_evaluation config expected_criteria authorized_command_ids body =
     bnd (parse_single_json_object body) (evaluation_of_json config expected_criteria authorized_command_ids)"

section \<open>What an accepted answer guarantees\<close>

lemma exact_object_Inr [simp]: "exact_object v names = Inr raw \<longleftrightarrow> raw = v \<and> is_obj v \<and> set (jkeys v) = set names"
  by (auto simp: exact_object_def)

lemma unique_strings_Inr: "unique_strings v = Inr xs \<Longrightarrow> distinct xs"
  by (auto simp: unique_strings_def bnd_eq_Inr unique_iff split: if_splits)

lemma known_commands_Inr: "known_commands v config = Inr xs \<Longrightarrow> distinct xs \<and> set xs \<subseteq> set (map cs_id (command_catalog config))"
  by (auto simp: known_commands_def bnd_eq_Inr list_all_iff dest: unique_strings_Inr split: if_splits)

text \<open>A path of a plan is never a directory scope.\<close>

lemma relative_path_file: "relative_path p = Inr q \<Longrightarrow> p \<noteq> ''.'' \<and> \<not> endswith p ''/''"
proof -
  assume "relative_path p = Inr q"
  then have n: "p = as_posix p" "\<not> is_absolute p" "posix_parts p \<noteq> []"
    by (auto simp: relative_path_def Let_def split: if_splits)
  have "posix_parts ''.'' = []" by code_simp
  with n normal_path_last [OF n(1,2)] show ?thesis by (auto simp: endswith_slash)
qed

definition file_scoped :: "task_contract \<Rightarrow> bool" where
  "file_scoped t \<longleftrightarrow> tc_path_scope t \<noteq> [] \<and> list_all (\<lambda>p. p \<noteq> ''.'' \<and> \<not> endswith p ''/'') (tc_path_scope t)"

definition within_limits :: "frozen_run_config \<Rightarrow> task_contract \<Rightarrow> bool" where
  "within_limits config t \<longleftrightarrow> 1 \<le> tc_max_attempts t \<and> tc_max_attempts t \<le> task_attempts config
     \<and> set (tc_acceptance_checks t) \<subseteq> set (map cs_id (command_catalog config))"

lemma plan_task_Inr:
  assumes "plan_task config ids tasks v = Inr tasks'"
  shows "\<exists>t. tasks' = tasks @ [t] \<and> tc_id t \<notin> set (map tc_id tasks) \<and> file_scoped t \<and> within_limits config t"
proof -
  have paths: "list_all (\<lambda>p. p \<noteq> ''.'' \<and> \<not> endswith p ''/'') ps" if "\<forall>p\<in>set ps. \<exists>q. relative_path p = Inr q" for ps
    using that relative_path_file by (auto simp: list_all_iff)
  have scope: "forr (\<lambda>path. void (relative_path path)) ps = Inr u \<Longrightarrow>
      list_all (\<lambda>p. p \<noteq> ''.'' \<and> \<not> endswith p ''/'') ps" for ps u
    by (rule paths) (auto simp: forr_eq_Inr ok_iff)
  have least: "int_from 1 v = Inr m \<Longrightarrow> 1 \<le> m" for v m by (auto simp: int_from_def split: if_splits)
  from assms show ?thesis
    unfolding plan_task_def
  proof (elim bnd_InrE)
    fix entry task_id covers path_scope maximum objective depends_on resources acceptance and u1 u2 u3 u4 :: unit
    assume new: "chk (task_id \<notin> set (map tc_id tasks)) = Inr u1"
      and paths: "chk (path_scope \<noteq> []) = Inr u2" "forr (\<lambda>path. void (relative_path path)) path_scope = Inr u3"
      and most: "int_from 1 (sub entry ''max_attempts'') = Inr maximum" "chk (\<not> maximum > task_attempts config) = Inr u4"
      and ids: "known_commands (sub entry ''acceptance_checks'') config = Inr acceptance"
      and out: "Inr (tasks @ [\<lparr>tc_id = task_id, tc_objective = objective, tc_worker_type = str_of (sub entry ''worker_type''),
         tc_covers = covers, tc_depends_on = depends_on, tc_path_scope = path_scope, tc_exclusive_resources = resources,
         tc_acceptance_checks = acceptance, tc_max_attempts = maximum\<rparr>]) = Inr tasks'"
    show ?thesis
      using new paths(1) scope [OF paths(2)] least [OF most(1)] most(2) known_commands_Inr [OF ids] out
      by (auto simp: file_scoped_def within_limits_def)
  qed
qed

text \<open>C5. A plan that is accepted from a planner passes the validation of the scheduler and the frozen
  limits: not too many tasks, no task with more attempts than allowed or with a command that is not in
  the catalog.  And every scope is the path of a single file: a directory scope such as \<^verbatim>\<open>src/\<close> or \<^verbatim>\<open>.\<close>,
  which the scheduler and the design documents know, is never accepted.\<close>

theorem plan_result_sound:
  assumes "parse_plan config prior_plans body = Inr document"
  shows "validate_plan WORKER_TYPES document config prior_plans = Inr ()
    \<and> pd_tasks document \<noteq> [] \<and> int (length (pd_tasks document)) \<le> max_plan_tasks config
    \<and> list_all (within_limits config) (pd_tasks document) \<and> list_all file_scoped (pd_tasks document)"
proof -
  from assms obtain vals ids tasks where v: "\<not> (vals = [] \<or> int (length vals) > max_plan_tasks config)"
    "foldr_r (plan_task config ids) [] vals = Inr tasks" "pd_tasks document = tasks"
    "validate_plan WORKER_TYPES document config prior_plans = Inr ()"
    by (auto simp: parse_plan_def plan_of_json_def bnd_eq_Inr Let_def)
  have "list_all (within_limits config) tasks \<and> list_all file_scoped tasks"
    using v(2) by (rule foldr_r_inv) (auto dest: plan_task_Inr)
  moreover have "length tasks = length ts + length vals" if "foldr_r (plan_task config ids) ts vals = Inr tasks" for ts
    using that by (induction vals arbitrary: ts) (auto simp: bnd_eq_Inr dest!: plan_task_Inr)
  ultimately show ?thesis using v by fastforce
qed

lemma criterion_of_Inr:
  assumes "criterion_of criteria v = Inr criteria'"
  shows "\<exists>c. criteria' = criteria @ [c] \<and> ec_id c \<notin> set (map ec_id criteria)"
  using assms unfolding criterion_of_def
proof (elim bnd_InrE)
  fix entry id ids and u :: unit
  assume "chk (id \<notin> set (map ec_id criteria)) = Inr u"
    and "Inr (criteria @ [\<lparr>ec_id = id, ec_verdict = str_of (sub entry ''verdict''), ec_evidence_ids = ids\<rparr>]) = Inr criteria'"
  then show ?thesis by auto
qed

lemma worker_check_of_Inr:
  assumes "worker_check_of a checked v = Inr checked'"
  shows "\<exists>c. checked' = checked @ [c] \<and> wc_command_id c \<notin> set (map wc_command_id checked)
    \<and> wc_command_id c \<in> set (as_authorized_command_ids a)"
  using assms unfolding worker_check_of_def
proof (elim bnd_InrE)
  fix entry id summary and u :: unit
  assume "chk (id \<in> set (as_authorized_command_ids a) \<and> id \<notin> set (map wc_command_id checked)) = Inr u"
    and "Inr (checked @ [\<lparr>wc_command_id = id, wc_exit_code = int_of (sub entry ''exit_code''), wc_summary = summary\<rparr>]) = Inr checked'"
  then show ?thesis by auto
qed

text \<open>C6. A passing evaluation is backed by evidence: an accepted verdict \<^verbatim>\<open>PASS\<close> lists every expected
  criterion exactly once, each as passed with at least one evidence identifier, and comes without
  findings and without requests for more evidence.\<close>

theorem evaluation_pass_sound:
  assumes "parse_evaluation config expected authorized body = Inr result" and "er_verdict result = PASS"
  shows "list_all direct_evidence (er_criteria result) \<and> distinct (map ec_id (er_criteria result))
    \<and> (case expected of None \<Rightarrow> True | Some ids \<Rightarrow> set (map ec_id (er_criteria result)) = set ids)
    \<and> er_findings result = [] \<and> er_evidence_requests result = []"
proof -
  have "\<exists>vals. foldr_r criterion_of [] vals = Inr (er_criteria result) \<and>
      \<not> (expected \<noteq> None \<and> set (map ec_id (er_criteria result)) \<noteq> set (the expected)) \<and>
      \<not> (er_verdict result \<noteq> UNVERIFIED \<and> er_evidence_requests result \<noteq> []) \<and>
      \<not> (er_verdict result = PASS \<and> (er_findings result \<noteq> [] \<or> \<not> list_all direct_evidence (er_criteria result)))"
    using assms(1) unfolding parse_evaluation_def evaluation_of_json_def Let_def
  proof (elim bnd_InrE)
    fix verdict vals criteria findings requests residual u1 u2 u3
    assume f: "foldr_r criterion_of [] vals = Inr criteria"
      and c: "chk (\<not> (expected \<noteq> None \<and> set (map ec_id criteria) \<noteq> set (the expected))) = Inr u1"
        "chk (\<not> (verdict \<noteq> UNVERIFIED \<and> requests \<noteq> [])) = Inr u2"
        "chk (\<not> (verdict = PASS \<and> (findings \<noteq> [] \<or> \<not> list_all direct_evidence criteria))) = Inr u3"
      and r: "Inr \<lparr>er_schema_version = 1, er_verdict = verdict, er_criteria = criteria, er_findings = findings,
         er_evidence_requests = requests, er_residual_risks = residual\<rparr> = Inr result"
    from r have "result = \<lparr>er_schema_version = 1, er_verdict = verdict, er_criteria = criteria, er_findings = findings,
         er_evidence_requests = requests, er_residual_risks = residual\<rparr>" by simp
    with f c show ?thesis by (intro exI [of _ vals]) (simp add: chk_eq_Inr)
  qed
  then obtain vals where f: "foldr_r criterion_of [] vals = Inr (er_criteria result)"
    and rest: "list_all direct_evidence (er_criteria result)" "er_findings result = []" "er_evidence_requests result = []"
      "\<not> (expected \<noteq> None \<and> set (map ec_id (er_criteria result)) \<noteq> set (the expected))"
    using assms(2) by auto
  have "distinct (map ec_id (er_criteria result))"
    using f by (rule foldr_r_inv [where P = "\<lambda>cs. distinct (map ec_id cs)"]) (auto dest: criterion_of_Inr)
  with rest show ?thesis by (auto split: option.split)
qed

text \<open>The result of a worker names its assignment, and its checks are authorized and distinct.\<close>

lemma worker_result_sound:
  assumes "parse_worker_result a body = Inr result"
  shows "wr_attempt_token result = as_attempt_token a \<and> wr_task_base_sha result = as_expected_base a
    \<and> distinct (map wc_command_id (wr_checks result))
    \<and> set (map wc_command_id (wr_checks result)) \<subseteq> set (as_authorized_command_ids a)
    \<and> (wr_blocker result \<noteq> None \<longleftrightarrow> wr_status result = ''BLOCKED'') \<and> distinct (wr_changed_paths result)"
proof -
  have "\<exists>vals raw. foldr_r (worker_check_of a) [] vals = Inr (wr_checks result)
      \<and> in_str_set (sub raw ''status'') [''COMPLETED'', ''BLOCKED''] = Inr True \<and> wr_status result = str_of (sub raw ''status'')
      \<and> wr_attempt_token result = as_attempt_token a \<and> wr_task_base_sha result = as_expected_base a
      \<and> unique_strings (sub raw ''changed_paths'') = Inr (wr_changed_paths result)
      \<and> (wr_blocker result \<noteq> None \<longleftrightarrow> sub raw ''status'' = JStr ''BLOCKED'')"
    using assms unfolding parse_worker_result_def worker_result_of_json_def
  proof (elim bnd_InrE)
    fix raw known changed vals checked residual blocker and u1 :: unit
    assume f: "foldr_r (worker_check_of a) [] vals = Inr checked"
      and c: "in_str_set (sub raw ''status'') [''COMPLETED'', ''BLOCKED''] = Inr known" "chk known = Inr u1"
        "unique_strings (sub raw ''changed_paths'') = Inr changed"
        "(if sub raw ''status'' = JStr ''BLOCKED'' then bnd (nonempty_string (sub raw ''blocker'')) (\<lambda>b. Inr (Some b))
          else bnd (chk (sub raw ''blocker'' = JNull)) (\<lambda>_. Inr None)) = Inr blocker"
      and r: "Inr \<lparr>wr_schema_version = 1, wr_task_id = (case as_task_id a of None \<Rightarrow> [] | Some t \<Rightarrow> t),
       wr_attempt_no = as_attempt_no a, wr_attempt_token = as_attempt_token a, wr_status = str_of (sub raw ''status''),
       wr_task_base_sha = as_expected_base a, wr_changed_paths = changed, wr_checks = checked,
       wr_residual_risks = residual, wr_blocker = blocker\<rparr> = Inr result"
    have "blocker \<noteq> None \<longleftrightarrow> sub raw ''status'' = JStr ''BLOCKED''"
      using c(4) by (auto simp: bnd_eq_Inr split: if_splits)
    moreover from r have "result = \<lparr>wr_schema_version = 1, wr_task_id = (case as_task_id a of None \<Rightarrow> [] | Some t \<Rightarrow> t),
       wr_attempt_no = as_attempt_no a, wr_attempt_token = as_attempt_token a, wr_status = str_of (sub raw ''status''),
       wr_task_base_sha = as_expected_base a, wr_changed_paths = changed, wr_checks = checked,
       wr_residual_risks = residual, wr_blocker = blocker\<rparr>" by simp
    ultimately show ?thesis using f c(1-3) by (intro exI [of _ vals] exI [of _ raw]) (simp add: chk_eq_Inr)
  qed
  then obtain vals raw where f: "foldr_r (worker_check_of a) [] vals = Inr (wr_checks result)"
    and known: "in_str_set (sub raw ''status'') [''COMPLETED'', ''BLOCKED''] = Inr True" "wr_status result = str_of (sub raw ''status'')"
    and rest: "wr_attempt_token result = as_attempt_token a" "wr_task_base_sha result = as_expected_base a"
      "unique_strings (sub raw ''changed_paths'') = Inr (wr_changed_paths result)"
      "wr_blocker result \<noteq> None \<longleftrightarrow> sub raw ''status'' = JStr ''BLOCKED''"
    by blast
  have "distinct (map wc_command_id (wr_checks result))
      \<and> set (map wc_command_id (wr_checks result)) \<subseteq> set (as_authorized_command_ids a)"
    using f by (rule foldr_r_inv [where P = "\<lambda>cs. distinct (map wc_command_id cs)
      \<and> set (map wc_command_id cs) \<subseteq> set (as_authorized_command_ids a)"]) (auto simp: image_subset_iff dest!: worker_check_of_Inr)
  moreover have "wr_status result = ''BLOCKED'' \<longleftrightarrow> sub raw ''status'' = JStr ''BLOCKED''"
    using known by (auto simp: in_str_set_def split: json.splits)
  ultimately show ?thesis using rest by (auto dest: unique_strings_Inr)
qed

end
