(* ===== verification/Providers.thy ===== *)
theory Providers
  imports Prompts Worktrees Config
begin

text \<open>
  \<^verbatim>\<open>providers/base.py\<close> and the receipts and checks of \<^verbatim>\<open>providers/codex_cli.py\<close>: requests, handles and
  completions of an external agent process, and what the Controller accepts of the files that the
  process leaves.  The process itself is the interface \<open>provider\<close>, a record of functions.

  Fields that the code copies from a parsed document without a type check are JSON values here.
\<close>

section \<open>Data\<close>

datatype provider_failure_kind = TRANSIENT | AUTH | CONFIGURATION | TIMEOUT | INVALID_OUTPUT | PROCESS

record provider_failure =
  pf_kind :: provider_failure_kind
  pf_message :: string

record execution_identity =
  ei_codex_version :: string
  ei_policy_sha256 :: string

record provider_request =
  rq_attempt_token :: json
  rq_role :: json
  rq_request_path :: string
  rq_prompt_path :: string
  rq_schema_path :: string
  rq_cwd :: string
  rq_sandbox :: json
  rq_launch_path :: string
  rq_stdout_path :: string
  rq_stderr_path :: string
  rq_exit_path :: string
  rq_result_path :: string
  rq_timeout_seconds :: json
  rq_codex_version :: json
  rq_execution_policy_sha256 :: json

definition request_as_dict :: "provider_request \<Rightarrow> json" where
  "request_as_dict r =
     JObj [(''attempt_token'', rq_attempt_token r), (''role'', rq_role r), (''request_path'', JStr (rq_request_path r)),
       (''prompt_path'', JStr (rq_prompt_path r)), (''schema_path'', JStr (rq_schema_path r)), (''cwd'', JStr (rq_cwd r)),
       (''sandbox'', rq_sandbox r), (''launch_path'', JStr (rq_launch_path r)), (''stdout_path'', JStr (rq_stdout_path r)),
       (''stderr_path'', JStr (rq_stderr_path r)), (''exit_path'', JStr (rq_exit_path r)),
       (''result_path'', JStr (rq_result_path r)), (''timeout_seconds'', rq_timeout_seconds r),
       (''codex_version'', rq_codex_version r), (''execution_policy_sha256'', rq_execution_policy_sha256 r)]"

record provider_handle =
  ph_adapter :: json
  ph_attempt_token :: json
  ph_pid :: json
  ph_process_start_identity :: json
  ph_process_group :: json
  ph_child_pid :: json
  ph_child_process_start_identity :: json
  ph_child_process_group :: json
  ph_codex_version :: json
  ph_execution_policy_sha256 :: json
  ph_launch_path :: string
  ph_stdout_path :: string
  ph_stderr_path :: string
  ph_exit_path :: string
  ph_result_path :: string

definition identity_pairs :: "provider_handle \<Rightarrow> (string \<times> json) list" where
  "identity_pairs h =
     [(''adapter'', ph_adapter h), (''attempt_token'', ph_attempt_token h), (''pid'', ph_pid h),
      (''process_start_identity'', ph_process_start_identity h), (''process_group'', ph_process_group h),
      (''child_pid'', ph_child_pid h), (''child_process_start_identity'', ph_child_process_start_identity h),
      (''child_process_group'', ph_child_process_group h)]"

definition handle_state_dict :: "provider_handle \<Rightarrow> json" where
  "handle_state_dict h = JObj (identity_pairs h)"

record provider_completion =
  po_identity :: "(string \<times> json) list"
  po_codex_version :: json
  po_execution_policy_sha256 :: json
  po_exit_code :: int
  po_timed_out :: bool
  po_result_published :: bool
  po_stop_requested :: bool
  po_stop_forced :: bool
  po_stderr_body :: string

record provider_result =
  px_attempt_token :: json
  px_body :: string
  px_exit_code :: int

record stop_result =
  sr_attempt_token :: json
  sr_stopped :: bool
  sr_forced :: bool

section \<open>The exit receipt\<close>

definition EXIT_FIELDS :: "string list" where
  "EXIT_FIELDS =
     [''adapter'', ''attempt_token'', ''pid'', ''process_start_identity'', ''process_group'', ''child_pid'',
      ''child_process_start_identity'', ''child_process_group'', ''codex_version'', ''execution_policy_sha256'',
      ''exit_code'', ''timed_out'', ''result_published'', ''stop_requested'', ''stop_forced'']"

definition chk_identity :: "bool \<Rightarrow> unit result" where
  "chk_identity b = (if b then Inr () else Inl ProviderIdentityError)"

definition bool_of :: "json \<Rightarrow> bool" where
  "bool_of v = (v = JBool True)"

definition parse_exit_receipt :: "string \<Rightarrow> provider_handle \<Rightarrow> string \<Rightarrow> provider_completion result" where
  "parse_exit_receipt raw expected stderr_body =
     bnd (parse_single_json_object raw) (\<lambda>v.
     bnd (chk (set (jkeys v) = set EXIT_FIELDS)) (\<lambda>_.
     bnd (forr (\<lambda>(field, e). chk_identity (py_eq (sub v field) e)) (identity_pairs expected)) (\<lambda>_.
     bnd (forr (\<lambda>(field, e). chk_identity (py_eq (sub v field) e))
            [(''codex_version'', ph_codex_version expected),
             (''execution_policy_sha256'', ph_execution_policy_sha256 expected)]) (\<lambda>_.
     bnd (chk (is_int (sub v ''exit_code''))) (\<lambda>_.
     bnd (forr (\<lambda>field. chk (is_bool (sub v field)))
            [''timed_out'', ''result_published'', ''stop_requested'', ''stop_forced'']) (\<lambda>_.
     let exit_code = int_of (sub v ''exit_code''); timed_out = bool_of (sub v ''timed_out'');
         result_published = bool_of (sub v ''result_published''); stop_requested = bool_of (sub v ''stop_requested'');
         stop_forced = bool_of (sub v ''stop_forced'') in
     bnd (chk (\<not> (stop_forced \<and> \<not> stop_requested))) (\<lambda>_.
     bnd (chk (\<not> (timed_out \<and> exit_code \<noteq> 124))) (\<lambda>_.
     bnd (chk (\<not> (stop_requested \<and> (timed_out \<or> exit_code = 0)))) (\<lambda>_.
     bnd (chk (result_published = (exit_code = 0 \<and> \<not> timed_out \<and> \<not> stop_requested))) (\<lambda>_.
     Inr \<lparr>po_identity = identity_pairs expected, po_codex_version = ph_codex_version expected,
       po_execution_policy_sha256 = ph_execution_policy_sha256 expected, po_exit_code = exit_code,
       po_timed_out = timed_out, po_result_published = result_published, po_stop_requested = stop_requested,
       po_stop_forced = stop_forced, po_stderr_body = stderr_body\<rparr>))))))))))"

text \<open>\<^verbatim>\<open>_exit_value\<close>: the receipt that the wrapper or \<^verbatim>\<open>stop\<close> writes.\<close>

definition exit_value :: "provider_handle \<Rightarrow> int \<Rightarrow> bool \<Rightarrow> bool \<Rightarrow> bool \<Rightarrow> bool \<Rightarrow> json" where
  "exit_value h exit_code timed_out result_published stop_requested stop_forced =
     JObj (identity_pairs h @
       [(''codex_version'', ph_codex_version h), (''execution_policy_sha256'', ph_execution_policy_sha256 h),
        (''exit_code'', JInt exit_code), (''timed_out'', JBool timed_out), (''result_published'', JBool result_published),
        (''stop_requested'', JBool stop_requested), (''stop_forced'', JBool stop_forced)])"

section \<open>The launch receipt\<close>

definition LAUNCH_FIELDS :: "string list" where
  "LAUNCH_FIELDS =
     [''adapter'', ''attempt_token'', ''pid'', ''process_start_identity'', ''process_group'', ''child_pid'',
      ''child_process_start_identity'', ''child_process_group'', ''codex_version'', ''execution_policy_sha256'']"

definition parse_launch_receipt :: "string \<Rightarrow> provider_request \<Rightarrow> provider_handle result" where
  "parse_launch_receipt raw expected =
     bnd (parse_single_json_object raw) (\<lambda>v.
     bnd (chk (set (jkeys v) = set LAUNCH_FIELDS)) (\<lambda>_.
     bnd (forr (\<lambda>(field, e). chk_identity (py_eq (sub v field) e))
            [(''adapter'', JStr ''codex-cli''), (''attempt_token'', rq_attempt_token expected),
             (''codex_version'', rq_codex_version expected),
             (''execution_policy_sha256'', rq_execution_policy_sha256 expected)]) (\<lambda>_.
     bnd (forr (\<lambda>field. chk (is_int (sub v field) \<and> int_of (sub v field) > 0))
            [''pid'', ''process_group'', ''child_pid'', ''child_process_group'']) (\<lambda>_.
     bnd (forr (\<lambda>field. chk (is_str (sub v field) \<and> str_of (sub v field) \<noteq> []))
            [''process_start_identity'', ''child_process_start_identity'']) (\<lambda>_.
     Inr \<lparr>ph_adapter = JStr ''codex-cli'', ph_attempt_token = rq_attempt_token expected, ph_pid = sub v ''pid'',
       ph_process_start_identity = sub v ''process_start_identity'', ph_process_group = sub v ''process_group'',
       ph_child_pid = sub v ''child_pid'', ph_child_process_start_identity = sub v ''child_process_start_identity'',
       ph_child_process_group = sub v ''child_process_group'', ph_codex_version = rq_codex_version expected,
       ph_execution_policy_sha256 = rq_execution_policy_sha256 expected, ph_launch_path = rq_launch_path expected,
       ph_stdout_path = rq_stdout_path expected, ph_stderr_path = rq_stderr_path expected,
       ph_exit_path = rq_exit_path expected, ph_result_path = rq_result_path expected\<rparr>)))))"

section \<open>A request read back from the state\<close>

definition MAX_REQUEST_BYTES :: nat where
  "MAX_REQUEST_BYTES = 4194304"

definition REQUEST_FIELDS :: "string list" where
  "REQUEST_FIELDS =
     [''attempt_token'', ''role'', ''request_path'', ''prompt_path'', ''schema_path'', ''cwd'', ''sandbox'',
      ''launch_path'', ''stdout_path'', ''stderr_path'', ''exit_path'', ''result_path'', ''timeout_seconds'',
      ''codex_version'', ''execution_policy_sha256'']"

definition join_parts :: "string \<Rightarrow> string list \<Rightarrow> string" where
  "join_parts root parts = foldl path_join root parts"

text \<open>\<open>safe_parts\<close>: relative, not empty, without \<^verbatim>\<open>.\<close> and \<^verbatim>\<open>..\<close>.\<close>

definition safe_parts :: "string \<Rightarrow> bool" where
  "safe_parts p = (\<not> (is_absolute p \<or> posix_parts p = [] \<or> ''.'' \<in> set (posix_parts p) \<or> ''..'' \<in> set (posix_parts p)))"

definition relative_field :: "json \<Rightarrow> string \<Rightarrow> string list result" where
  "relative_field pending field =
     (let v = sub pending field in
      bnd (chk (is_str v)) (\<lambda>_.
      bnd (chk (safe_parts (str_of v) \<and> str_of v = as_posix (str_of v))) (\<lambda>_.
      Inr (posix_parts (str_of v)))))"

definition artifact_field :: "json \<Rightarrow> string \<Rightarrow> string list result" where
  "artifact_field pending field =
     (let v = sub pending field in
      bnd (chk (is_obj v \<and> set (jkeys v) = {''path'', ''sha256''} \<and> is_str (sub v ''path''))) (\<lambda>_.
      bnd (chk (safe_parts (str_of (sub v ''path'')))) (\<lambda>_.
      Inr (posix_parts (str_of (sub v ''path''))))))"

text \<open>
  A file of the run directory, opened without following links and read with a bound; every failure to
  open it is a contract error.  The run directory of the store is the trusted run root, so a path below
  it is a key of \<open>rd_files\<close>.
\<close>

definition read_run_file :: "run_dir \<Rightarrow> string list \<Rightarrow> nat \<Rightarrow> string result" where
  "read_run_file d parts max_bytes =
     (case map_of (rd_files d) (join_with (CHR ''/'') parts) of
        None \<Rightarrow> Inl ContractError | Some body \<Rightarrow> read_bounded body max_bytes)"

text \<open>The paths that the request must name, all derived from the pending dispatch.\<close>

definition expected_paths :: "string \<Rightarrow> string \<Rightarrow> json \<Rightarrow> string \<Rightarrow> (string \<times> string) list result" where
  "expected_paths run_root target_root pending request_path =
     bnd (artifact_field pending ''prompt'') (\<lambda>prompt.
     bnd (artifact_field pending ''schema'') (\<lambda>schema.
     bnd (relative_field pending ''worktree'') (\<lambda>worktree.
     bnd (mapr (\<lambda>field. bnd (relative_field pending field) (\<lambda>parts. Inr (field, join_parts run_root parts)))
            [''launch_path'', ''stdout_path'', ''stderr_path'', ''exit_path'', ''result_path'']) (\<lambda>outputs.
     Inr ([(''request_path'', request_path), (''prompt_path'', join_parts run_root prompt),
           (''schema_path'', join_parts run_root schema), (''cwd'', join_parts target_root worktree)] @ outputs)))))"

definition request_of_dict :: "json \<Rightarrow> provider_request" where
  "request_of_dict v =
     \<lparr>rq_attempt_token = sub v ''attempt_token'', rq_role = sub v ''role'',
      rq_request_path = str_of (sub v ''request_path''), rq_prompt_path = str_of (sub v ''prompt_path''),
      rq_schema_path = str_of (sub v ''schema_path''), rq_cwd = str_of (sub v ''cwd''), rq_sandbox = sub v ''sandbox'',
      rq_launch_path = str_of (sub v ''launch_path''), rq_stdout_path = str_of (sub v ''stdout_path''),
      rq_stderr_path = str_of (sub v ''stderr_path''), rq_exit_path = str_of (sub v ''exit_path''),
      rq_result_path = str_of (sub v ''result_path''), rq_timeout_seconds = sub v ''timeout_seconds'',
      rq_codex_version = sub v ''codex_version'', rq_execution_policy_sha256 = sub v ''execution_policy_sha256''\<rparr>"

text \<open>\<open>run_root\<close> and \<open>target_root\<close> are the resolved roots.\<close>

definition request_from_pending :: "run_dir \<Rightarrow> json \<Rightarrow> string \<Rightarrow> string \<Rightarrow> provider_request result" where
  "request_from_pending d pending run_root target_root =
     bnd (chk (is_obj pending)) (\<lambda>_.
     bnd (artifact_field pending ''request'') (\<lambda>parts.
     let request_path = join_parts run_root parts in
     bnd (read_run_file d parts MAX_REQUEST_BYTES) (\<lambda>body.
     bnd (parse_single_json_object body) (\<lambda>raw.
     bnd (chk (set (jkeys raw) = set REQUEST_FIELDS)) (\<lambda>_.
     bnd (expected_paths run_root target_root pending request_path) (\<lambda>paths.
     bnd (forr (\<lambda>(field, path). chk (sub raw field = JStr path)) paths) (\<lambda>_.
     bnd (forr (\<lambda>field. chk (py_eq (sub raw field) (sub pending field))) [''attempt_token'', ''role'']) (\<lambda>_.
     let request = request_of_dict raw in
     bnd (canonical_json_bytes (request_as_dict request)) (\<lambda>bytes.
     bnd (chk (body = bytes)) (\<lambda>_. Inr request))))))))))"

definition handle_of_identity :: "json \<Rightarrow> provider_request \<Rightarrow> provider_handle" where
  "handle_of_identity v request =
     \<lparr>ph_adapter = sub v ''adapter'', ph_attempt_token = sub v ''attempt_token'', ph_pid = sub v ''pid'',
      ph_process_start_identity = sub v ''process_start_identity'', ph_process_group = sub v ''process_group'',
      ph_child_pid = sub v ''child_pid'', ph_child_process_start_identity = sub v ''child_process_start_identity'',
      ph_child_process_group = sub v ''child_process_group'', ph_codex_version = rq_codex_version request,
      ph_execution_policy_sha256 = rq_execution_policy_sha256 request, ph_launch_path = rq_launch_path request,
      ph_stdout_path = rq_stdout_path request, ph_stderr_path = rq_stderr_path request,
      ph_exit_path = rq_exit_path request, ph_result_path = rq_result_path request\<rparr>"

definition IDENTITY_FIELDS :: "string list" where
  "IDENTITY_FIELDS =
     [''adapter'', ''attempt_token'', ''pid'', ''process_start_identity'', ''process_group'', ''child_pid'',
      ''child_process_start_identity'', ''child_process_group'']"

definition handle_from_pending :: "run_dir \<Rightarrow> json \<Rightarrow> string \<Rightarrow> string \<Rightarrow> provider_handle result" where
  "handle_from_pending d pending run_root target_root =
     bnd (request_from_pending d pending run_root target_root) (\<lambda>request.
     let identity = sub pending ''provider_handle'' in
     bnd (chk (is_obj identity)) (\<lambda>_.
     bnd (chk (set (jkeys identity) = set IDENTITY_FIELDS)) (\<lambda>_.
     Inr (handle_of_identity identity request))))"

section \<open>Failures\<close>

text \<open>\<^verbatim>\<open>stderr.lower()\<close> as far as a comparison with ASCII text can tell: the Kelvin sign is the one
  character outside ASCII whose lower case is an ASCII letter.\<close>

definition lower_full :: "string \<Rightarrow> string" where
  "lower_full s = concat (map (\<lambda>c. if c = map char_of [0xE2, 0x84, 0xAA :: nat] then ''k'' else lower_text c) (chars_of s))"

definition classify_provider_failure :: "int \<Rightarrow> string \<Rightarrow> provider_failure" where
  "classify_provider_failure exit_code stderr =
     (let lowered = lower_full stderr; has = contains_text lowered in
      \<lparr>pf_kind =
         (if exit_code = 124 \<or> has ''timed out'' then TIMEOUT
          else if has ''rate limit'' \<or> has ''temporar'' \<or> has ''network'' then TRANSIENT
          else if has ''auth'' \<or> has ''login'' then AUTH
          else if has ''schema'' \<or> has ''invalid output'' then INVALID_OUTPUT
          else if has ''configuration'' \<or> has ''not found'' then CONFIGURATION else PROCESS),
       pf_message = (if strip_text stderr = [] then ''exit '' @ int_text exit_code else strip_text stderr)\<rparr>)"

section \<open>Receipts\<close>

lemma chk_identity_simps [simp]: "chk_identity b = Inr u \<longleftrightarrow> b"
  by (simp add: chk_identity_def)

text \<open>What a terminal cause can be: a result is published exactly on success, a time-out has exit code
  124, a stop is a failure and is not a time-out, and only a requested stop can be forced.\<close>

definition coherent_exit :: "int \<Rightarrow> bool \<Rightarrow> bool \<Rightarrow> bool \<Rightarrow> bool \<Rightarrow> bool" where
  "coherent_exit exit_code timed_out result_published stop_requested stop_forced \<longleftrightarrow>
     (stop_forced \<longrightarrow> stop_requested) \<and> (timed_out \<longrightarrow> exit_code = 124)
     \<and> (stop_requested \<longrightarrow> \<not> timed_out \<and> exit_code \<noteq> 0)
     \<and> (result_published \<longleftrightarrow> exit_code = 0 \<and> \<not> timed_out \<and> \<not> stop_requested)"

lemma coherent_exit_checks: "bnd (chk (\<not> (f \<and> \<not> r))) (\<lambda>_. bnd (chk (\<not> (t \<and> c \<noteq> 124))) (\<lambda>_.
    bnd (chk (\<not> (r \<and> (t \<or> c = 0)))) (\<lambda>_. bnd (chk (p = (c = 0 \<and> \<not> t \<and> \<not> r))) (\<lambda>_. Inr x))))
  = (if coherent_exit c t p r f then Inr x else Inl ContractError)"
  by (auto simp: coherent_exit_def chk_def)

definition plain_handle :: "provider_handle \<Rightarrow> bool" where
  "plain_handle h \<longleftrightarrow> list_all (\<lambda>v. wf_json v \<and> no_floats v \<and> all_text utf8_valid v \<and> canon v = v)
     (ph_codex_version h # ph_execution_policy_sha256 h # map snd (identity_pairs h))"

lemma exit_value_plain:
  assumes "plain_handle h"
  shows "is_obj (exit_value h c t p r f)" "wf_json (exit_value h c t p r f)" "no_floats (exit_value h c t p r f)"
    "all_text utf8_valid (exit_value h c t p r f)"
proof -
  have "list_all utf8_valid EXIT_FIELDS" by code_simp
  then show "all_text utf8_valid (exit_value h c t p r f)"
    using assms by (simp add: plain_handle_def exit_value_def identity_pairs_def EXIT_FIELDS_def del: utf8_valid.simps)
qed (use assms in \<open>simp_all add: plain_handle_def exit_value_def identity_pairs_def\<close>)

text \<open>The exit receipt is read exactly when its terminal cause is possible: for the receipt of any
  outcome, \<^verbatim>\<open>parse_exit_receipt\<close> returns the outcome with the identity of the handle if the cause is
  coherent, and raises a contract error if it is not, so no process can report a published result
  together with a failure, a time-out or a stop.\<close>

theorem exit_receipt_roundtrip:
  assumes "plain_handle h"
  shows "\<exists>raw. canonical_json_bytes (exit_value h c t p r f) = Inr raw
    \<and> parse_exit_receipt raw h err =
        (if coherent_exit c t p r f
         then Inr \<lparr>po_identity = identity_pairs h, po_codex_version = ph_codex_version h,
           po_execution_policy_sha256 = ph_execution_policy_sha256 h, po_exit_code = c, po_timed_out = t,
           po_result_published = p, po_stop_requested = r, po_stop_forced = f, po_stderr_body = err\<rparr>
         else Inl ContractError)"
proof -
  let ?v = "exit_value h c t p r f"
  note plain = exit_value_plain [OF assms, of c t p r f]
  obtain raw where raw: "canonical_json_bytes ?v = Inr raw" "parse_json_object_bytes raw = Inr (canon ?v)"
    using canonical_bytes_parse [OF plain] by blast
  then have parse: "parse_single_json_object raw = Inr (canon ?v)" by (rule_tac single_object_reads)
  have same: "list_all (\<lambda>v. py_eq v v \<and> canon v = v) (ph_codex_version h # ph_execution_policy_sha256 h # map snd (identity_pairs h))"
    using assms by (auto simp: plain_handle_def list_all_iff py_eq_refl)
  have keys: "set (jkeys (canon ?v)) = set EXIT_FIELDS"
    by (simp add: exit_value_def identity_pairs_def EXIT_FIELDS_def) auto
  let ?s = "sub (canon ?v)"
  have subs: "?s ''exit_code'' = JInt c" "?s ''timed_out'' = JBool t" "?s ''result_published'' = JBool p"
    "?s ''stop_requested'' = JBool r" "?s ''stop_forced'' = JBool f"
    by (simp_all add: sub_canon [OF plain(2)] exit_value_def identity_pairs_def)
  have "list_all (\<lambda>(field, e). ?s field = e) (identity_pairs h)"
    and versions: "?s ''codex_version'' = ph_codex_version h"
      "?s ''execution_policy_sha256'' = ph_execution_policy_sha256 h"
    using same by (simp_all add: sub_canon [OF plain(2)] exit_value_def identity_pairs_def)
  moreover have "list_all (\<lambda>(field, e). py_eq e e) (identity_pairs h)"
    using same by (auto simp: list_all_iff)
  ultimately have ids: "forr (\<lambda>(field, e). chk_identity (py_eq (?s field) e)) (identity_pairs h) = Inr ()"
    by (fastforce simp: forr_eq_Inr list_all_iff)
  have "py_eq (ph_codex_version h) (ph_codex_version h)" "py_eq (ph_execution_policy_sha256 h) (ph_execution_policy_sha256 h)"
    using same by simp_all
  then have read: "parse_exit_receipt raw h err =
      bnd (chk (\<not> (f \<and> \<not> r))) (\<lambda>_. bnd (chk (\<not> (t \<and> c \<noteq> 124))) (\<lambda>_.
      bnd (chk (\<not> (r \<and> (t \<or> c = 0)))) (\<lambda>_. bnd (chk (p = (c = 0 \<and> \<not> t \<and> \<not> r))) (\<lambda>_.
      Inr \<lparr>po_identity = identity_pairs h, po_codex_version = ph_codex_version h,
           po_execution_policy_sha256 = ph_execution_policy_sha256 h, po_exit_code = c, po_timed_out = t,
           po_result_published = p, po_stop_requested = r, po_stop_forced = f, po_stderr_body = err\<rparr>))))"
    unfolding parse_exit_receipt_def parse bnd_Inr keys ids subs
    by (simp add: versions chk_identity_def bool_of_def subs)
  show ?thesis using raw(1) read unfolding coherent_exit_checks by (intro exI [of _ raw] conjI)
qed

end
