(* ===== verification/Dispatch.thy ===== *)
theory Dispatch
  imports Providers Gate StoreContract
begin

text \<open>
  \<^verbatim>\<open>runners/__init__.py\<close>: the ledger of agent calls.  Before an agent process is started, everything
  that it gets and where it writes is stored as a pending dispatch; its handle, its receipts and its
  result are bound to that entry later, and closing the entry is what accepts the result.

  The start of the provider, its report of a completion, the fault hook and the callbacks of the
  Controller are parameters.  The trusted run root is the directory of the store.
\<close>

section \<open>Invocations\<close>

record role_invocation =
  in_role :: string
  in_task_id :: "string option"
  in_operation_id :: string
  in_attempt_no :: int
  in_attempt_created_at :: string
  in_attempt_token :: string
  in_provider_retry_no :: int
  in_expected_base :: string
  in_branch :: "string option"
  in_worktree :: string
  in_target_root :: string
  in_run_root :: string
  in_prompt_body :: string
  in_prompt_versions :: "prompt_ref list"
  in_schema_body :: string
  in_preflight_body :: string
  in_authorized_command_ids :: "string list"
  in_required_command_ids :: "string list"
  in_config_sha256 :: string
  in_codex_version :: string
  in_execution_policy_sha256 :: string
  in_sandbox :: string
  in_artifact_prefix :: string
  in_timeout_seconds :: int

definition provider_prefix :: "role_invocation \<Rightarrow> string" where
  "provider_prefix i =
     in_artifact_prefix i @ ''/providers/'' @ pad3 (in_provider_retry_no i + 1) @ ''-'' @ in_attempt_token i"

definition require_operation_id :: "json \<Rightarrow> string result" where
  "require_operation_id v = bnd (chk (is_str v \<and> OPERATION_ID_RE (str_of v))) (\<lambda>_. Inr (str_of v))"

definition role_attempt_prefix :: "string \<Rightarrow> json \<Rightarrow> json \<Rightarrow> string result" where
  "role_attempt_prefix role operation_id attempt_no =
     bnd (chk (role \<in> {''planner'', ''evaluator''})) (\<lambda>_.
     bnd (require_operation_id operation_id) (\<lambda>operation.
     bnd (chk (is_int attempt_no \<and> \<not> int_of attempt_no < 1)) (\<lambda>_.
     Inr (''roles/'' @ role @ ''/operations/'' @ operation @ ''/attempts/'' @ pad3 (int_of attempt_no)))))"

text \<open>\<^verbatim>\<open>str(root.joinpath(*PurePosixPath(path).parts))\<close>\<close>

definition under_root :: "string \<Rightarrow> string list \<Rightarrow> string" where
  "under_root root parts = as_posix (join_parts (as_posix root) parts)"

definition provider_request_for :: "role_invocation \<Rightarrow> string \<Rightarrow> string \<Rightarrow> string \<Rightarrow> provider_request" where
  "provider_request_for i prompt_path schema_path request_path =
     (let run_root = in_run_root i; prefix_parts = posix_parts (provider_prefix i);
          output = (\<lambda>name. under_root run_root (prefix_parts @ [name])) in
      \<lparr>rq_attempt_token = JStr (in_attempt_token i), rq_role = JStr (in_role i),
       rq_request_path = under_root run_root (posix_parts request_path),
       rq_prompt_path = under_root run_root (posix_parts prompt_path),
       rq_schema_path = under_root run_root (posix_parts schema_path),
       rq_cwd = under_root (in_target_root i) (posix_parts (in_worktree i)),
       rq_sandbox = JStr (in_sandbox i), rq_launch_path = output ''launch.json'',
       rq_stdout_path = output ''stdout.log'', rq_stderr_path = output ''stderr.log'',
       rq_exit_path = output ''exit.json'', rq_result_path = output ''result.json'',
       rq_timeout_seconds = JInt (in_timeout_seconds i), rq_codex_version = JStr (in_codex_version i),
       rq_execution_policy_sha256 = JStr (in_execution_policy_sha256 i)\<rparr>)"

section \<open>The ledger in the state\<close>

type_synonym refs = "(string \<times> artifact_ref) list"

definition ref_at :: "refs \<Rightarrow> string \<Rightarrow> artifact_ref result" where
  "ref_at refs path = (case map_of refs path of None \<Rightarrow> Inl KeyError | Some r \<Rightarrow> Inr r)"

definition pending_entry ::
  "json \<Rightarrow> role_invocation \<Rightarrow> artifact_ref \<Rightarrow> artifact_ref \<Rightarrow> artifact_ref \<Rightarrow> artifact_ref \<Rightarrow> json" where
  "pending_entry current i prompt_ref schema_ref preflight_ref request_ref =
     JObj [(''attempt_token'', JStr (in_attempt_token i)), (''role'', JStr (in_role i)),
       (''task_id'', jopt (in_task_id i)), (''operation_id'', JStr (in_operation_id i)),
       (''attempt_no'', JInt (in_attempt_no i)), (''attempt_created_at'', JStr (in_attempt_created_at i)),
       (''provider_retry_no'', JInt (in_provider_retry_no i)), (''expected_base'', JStr (in_expected_base i)),
       (''branch'', jopt (in_branch i)), (''worktree'', JStr (in_worktree i)),
       (''provider_prefix'', JStr (provider_prefix i)), (''prompt'', artifact_as_dict prompt_ref),
       (''schema'', artifact_as_dict schema_ref), (''preflight'', artifact_as_dict preflight_ref),
       (''prompt_versions'', JList (map prompt_as_dict (in_prompt_versions i))),
       (''request'', artifact_as_dict request_ref),
       (''launch_path'', JStr (provider_prefix i @ ''/launch.json'')),
       (''stdout_path'', JStr (provider_prefix i @ ''/stdout.log'')),
       (''stderr_path'', JStr (provider_prefix i @ ''/stderr.log'')),
       (''exit_path'', JStr (provider_prefix i @ ''/exit.json'')),
       (''result_path'', JStr (provider_prefix i @ ''/result.json'')),
       (''launch'', JNull), (''stdout'', JNull), (''stderr'', JNull), (''exit'', JNull), (''result'', JNull),
       (''provider_attempts'', JList []), (''provider_handle'', JNull),
       (''prepared_revision'', JInt (int_of (sub current ''revision'') + 1))]"

definition add_pending_dispatch ::
  "json \<Rightarrow> role_invocation \<Rightarrow> artifact_ref \<Rightarrow> artifact_ref \<Rightarrow> artifact_ref \<Rightarrow> artifact_ref \<Rightarrow> json result" where
  "add_pending_dispatch current i prompt_ref schema_ref preflight_ref request_ref =
     bnd (chk (\<not> has_key (sub current ''pending_dispatches'') (in_attempt_token i))) (\<lambda>_.
     Inr (upd current ''pending_dispatches'' (\<lambda>pending. put pending (in_attempt_token i)
       (pending_entry current i prompt_ref schema_ref preflight_ref request_ref))))"

text \<open>\<^verbatim>\<open>value in (None, expected)\<close>\<close>

definition unset_or :: "json \<Rightarrow> json \<Rightarrow> bool" where
  "unset_or v expected = (v = JNull \<or> py_eq v expected)"

text \<open>\<^verbatim>\<open>mapping.get(key)\<close>; an entry of the ledger is never \<^verbatim>\<open>None\<close>.\<close>

definition set_in :: "json \<Rightarrow> string \<Rightarrow> string \<Rightarrow> string \<Rightarrow> json \<Rightarrow> json" where
  "set_in current table key field v = upd current table (\<lambda>t. upd t key (\<lambda>entry. put entry field v))"

definition owner_running :: "json \<Rightarrow> string \<Rightarrow> json \<Rightarrow> json \<Rightarrow> json result" where
  "owner_running current attempt_token pending handle_state =
     (let task_id = str_of (sub pending ''task_id''); task = sub (sub current ''tasks'') task_id;
          active = sub task ''active_attempt'' in
      bnd (chk_state (\<not> (active = JNull \<or> \<not> py_eq (sub active ''attempt_token'') (JStr attempt_token)
        \<or> sub active ''status'' \<notin> {JStr ''STARTING'', JStr ''RUNNING''}
        \<or> \<not> py_eq (sub active ''preflight'') (sub pending ''preflight'')
        \<or> \<not> unset_or (sub active ''provider_handle'') handle_state))) (\<lambda>_.
      Inr (set_in current ''tasks'' task_id ''active_attempt''
        (put (put active ''status'' (JStr ''RUNNING'')) ''provider_handle'' handle_state))))"

definition owner_current :: "json \<Rightarrow> string \<Rightarrow> json \<Rightarrow> json result" where
  "owner_current current attempt_token pending =
     bnd (item (sub current ''role_runtime'') (str_of (sub pending ''role''))) (\<lambda>runtime.
     bnd (chk_state (\<not> (\<not> py_eq (sub runtime ''active_attempt_token'') (JStr attempt_token)
       \<or> \<not> py_eq (sub runtime ''operation_id'') (sub pending ''operation_id'')))) (\<lambda>_.
     Inr current))"

definition bind_matching_handle :: "json \<Rightarrow> string \<Rightarrow> provider_handle \<Rightarrow> artifact_ref \<Rightarrow> json result" where
  "bind_matching_handle current attempt_token h launch_ref =
     (let pending = sub (sub current ''pending_dispatches'') attempt_token;
          handle_state = handle_state_dict h; launch_state = artifact_as_dict launch_ref in
      bnd (chk_state (\<not> (pending = JNull \<or> \<not> py_eq (ph_attempt_token h) (JStr attempt_token)))) (\<lambda>_.
      bnd (chk_state (\<not> (\<not> unset_or (sub pending ''launch'') launch_state
        \<or> \<not> unset_or (sub pending ''provider_handle'') handle_state))) (\<lambda>_.
      bnd (if sub pending ''role'' = JStr ''worker'' then owner_running current attempt_token pending handle_state
           else owner_current current attempt_token pending) (\<lambda>next_state.
      Inr (set_in (set_in next_state ''pending_dispatches'' attempt_token ''launch'' launch_state)
        ''pending_dispatches'' attempt_token ''provider_handle'' handle_state)))))"

section \<open>Files of the provider\<close>

definition lexical_relative_path :: "string \<Rightarrow> string \<Rightarrow> string list result" where
  "lexical_relative_path path trusted_root =
     bnd (chk (is_absolute path \<and> is_absolute trusted_root)) (\<lambda>_.
     bnd (chk (path_below path trusted_root)) (\<lambda>_.
     let parts = relative_parts path trusted_root in
     bnd (chk (\<not> (parts = [] \<or> ''..'' \<in> set parts \<or> ''.'' \<in> set parts))) (\<lambda>_.
     Inr parts)))"

definition read_regular_bytes :: "run_dir \<Rightarrow> string \<Rightarrow> string \<Rightarrow> nat \<Rightarrow> string result" where
  "read_regular_bytes d path trusted_root max_bytes =
     bnd (lexical_relative_path path trusted_root) (\<lambda>parts. read_run_file d parts max_bytes)"

definition read_optional_regular_bytes :: "run_dir \<Rightarrow> string \<Rightarrow> string \<Rightarrow> nat \<Rightarrow> string option result" where
  "read_optional_regular_bytes d path trusted_root max_bytes =
     (case read_regular_bytes d path trusted_root max_bytes of
        Inr body \<Rightarrow> Inr (Some body)
      | Inl e \<Rightarrow>
          bnd (lexical_relative_path path trusted_root) (\<lambda>parts.
          if map_of (rd_files d) (join_with (CHR ''/'') parts) = None then Inr None else Inl e))"

section \<open>Dispatch\<close>

definition MAX_LAUNCH_BYTES :: nat where
  "MAX_LAUNCH_BYTES = 4 * 1024 * 1024"

definition MAX_LOG_BYTES :: nat where
  "MAX_LOG_BYTES = 16 * 1024 * 1024"

definition bind_launch :: "role_invocation \<Rightarrow> provider_request \<Rightarrow> json \<Rightarrow> provider_handle \<Rightarrow> ('g world, unit) eff" where
  "bind_launch i request stored h =
     (let launch_path = provider_prefix i @ ''/launch.json'' in
      sbnd (sget (\<lambda>w. read_regular_bytes (wd w) (rq_launch_path request) (in_run_root i) MAX_LAUNCH_BYTES)) (\<lambda>body.
      sbnd (on_dir (transact (int_of (sub stored ''revision'')) [(launch_path, body)]
              (\<lambda>current refs. bnd (ref_at refs launch_path) (bind_matching_handle current (in_attempt_token i) h)))) (\<lambda>_.
      slift (Inr ()))))"

definition start_recorded ::
  "(string \<Rightarrow> ('g world, unit) eff) \<Rightarrow> (provider_request \<Rightarrow> ('g world, provider_handle) eff) \<Rightarrow>
   role_invocation \<Rightarrow> provider_request \<Rightarrow> json \<Rightarrow> ('g world, provider_handle) eff" where
  "start_recorded fault_hook start i request stored =
     sbnd (fault_hook ''after_dispatch_intent_before_provider_start'') (\<lambda>_.
     sbnd (start request) (\<lambda>h.
     sbnd (fault_hook ''after_provider_start_before_handle_binding'') (\<lambda>_.
     sbnd (bind_launch i request stored h) (\<lambda>_.
     slift (Inr h)))))"

definition record_intent :: "role_invocation \<Rightarrow> provider_request \<Rightarrow> string \<Rightarrow> json act" where
  "record_intent i request request_body =
     (let prompt_path = in_artifact_prefix i @ ''/prompt.md''; schema_path = in_artifact_prefix i @ ''/output.schema.json'';
          preflight_path = in_artifact_prefix i @ ''/preflight.json''; request_path = provider_prefix i @ ''/request.json'' in
      sbnd (sget load) (\<lambda>state.
      transact (int_of (sub state ''revision''))
        [(prompt_path, in_prompt_body i), (schema_path, in_schema_body i), (preflight_path, in_preflight_body i),
         (request_path, request_body)]
        (\<lambda>current refs.
          bnd (ref_at refs prompt_path) (\<lambda>prompt_ref.
          bnd (ref_at refs schema_path) (\<lambda>schema_ref.
          bnd (ref_at refs preflight_path) (\<lambda>preflight_ref.
          bnd (ref_at refs request_path) (\<lambda>request_ref.
          add_pending_dispatch current i prompt_ref schema_ref preflight_ref request_ref)))))))"

definition first_request :: "role_invocation \<Rightarrow> provider_request" where
  "first_request i = provider_request_for i (in_artifact_prefix i @ ''/prompt.md'')
     (in_artifact_prefix i @ ''/output.schema.json'') (provider_prefix i @ ''/request.json'')"

definition dispatch ::
  "(string \<Rightarrow> ('g world, unit) eff) \<Rightarrow> (provider_request \<Rightarrow> ('g world, provider_handle) eff) \<Rightarrow>
   role_invocation \<Rightarrow> ('g world, provider_handle) eff" where
  "dispatch fault_hook start i =
     (let request = first_request i in
      sbnd (slift (canonical_json_bytes (request_as_dict request))) (\<lambda>request_body.
      sbnd (on_dir (record_intent i request request_body)) (\<lambda>stored.
      start_recorded fault_hook start i request stored)))"

section \<open>Completion\<close>

definition completion_eq :: "provider_completion \<Rightarrow> provider_completion \<Rightarrow> bool" where
  "completion_eq a b =
     (list_all2 (\<lambda>x y. fst x = fst y \<and> py_eq (snd x) (snd y)) (po_identity a) (po_identity b)
      \<and> py_eq (po_codex_version a) (po_codex_version b)
      \<and> py_eq (po_execution_policy_sha256 a) (po_execution_policy_sha256 b) \<and> po_exit_code a = po_exit_code b
      \<and> po_timed_out a = po_timed_out b \<and> po_result_published a = po_result_published b
      \<and> po_stop_requested a = po_stop_requested b \<and> po_stop_forced a = po_stop_forced b
      \<and> po_stderr_body a = po_stderr_body b)"

text \<open>\<^verbatim>\<open>current["pending_dispatches"].get(token)\<close> whose handle is still this one.\<close>

definition held_by :: "json \<Rightarrow> string \<Rightarrow> provider_handle \<Rightarrow> json result" where
  "held_by current attempt_token h =
     (let pending = sub (sub current ''pending_dispatches'') attempt_token in
      bnd (chk_state (\<not> (pending = JNull \<or> \<not> py_eq (sub pending ''provider_handle'') (handle_state_dict h)))) (\<lambda>_.
      Inr pending))"

definition bind_field :: "string \<Rightarrow> refs \<Rightarrow> json \<Rightarrow> string \<times> string \<Rightarrow> json result" where
  "bind_field attempt_token refs current fp =
     (let pending = sub (sub current ''pending_dispatches'') attempt_token in
      bnd (ref_at refs (str_of (sub pending (snd fp)))) (\<lambda>r.
      bnd (chk_state (unset_or (sub pending (fst fp)) (artifact_as_dict r))) (\<lambda>_.
      Inr (set_in current ''pending_dispatches'' attempt_token (fst fp) (artifact_as_dict r)))))"

definition bind_receipts :: "string \<Rightarrow> provider_handle \<Rightarrow> bool \<Rightarrow> json \<Rightarrow> refs \<Rightarrow> json result" where
  "bind_receipts attempt_token h with_result current refs =
     bnd (held_by current attempt_token h) (\<lambda>_.
     foldr_r (bind_field attempt_token refs) current
       ([(''stdout'', ''stdout_path''), (''stderr'', ''stderr_path''), (''exit'', ''exit_path'')]
        @ (if with_result then [(''result'', ''result_path'')] else [])))"

definition dict_of :: "('a \<times> 'b) list \<Rightarrow> ('a, 'b) dict" where
  "dict_of xs = foldl (\<lambda>d (k, v). AList.update k v d) [] xs"

definition bind_completion ::
  "(provider_handle \<Rightarrow> ('g world, provider_completion) eff) \<Rightarrow> role_invocation \<Rightarrow> provider_handle \<Rightarrow> ('g world, json) eff" where
  "bind_completion completion i h =
     (let root = in_run_root i in
      sbnd (sget (\<lambda>w. load (wd w))) (\<lambda>state.
      sbnd (slift (held_by state (in_attempt_token i) h)) (\<lambda>pending.
      sbnd (sget (\<lambda>w. read_regular_bytes (wd w) (ph_stdout_path h) root MAX_LOG_BYTES)) (\<lambda>stdout.
      sbnd (sget (\<lambda>w. read_regular_bytes (wd w) (ph_stderr_path h) root MAX_LOG_BYTES)) (\<lambda>stderr.
      sbnd (sget (\<lambda>w. read_regular_bytes (wd w) (ph_exit_path h) root MAX_LAUNCH_BYTES)) (\<lambda>exit_body.
      sbnd (slift (parse_exit_receipt exit_body h stderr)) (\<lambda>parsed.
      sbnd (completion h) (\<lambda>reported.
      sbnd (slift (chk (completion_eq reported parsed))) (\<lambda>_.
      sbnd (sget (\<lambda>w. read_optional_regular_bytes (wd w) (ph_result_path h) root MAX_LAUNCH_BYTES)) (\<lambda>res.
      sbnd (slift (chk (\<not> (po_result_published parsed \<and> res = None)))) (\<lambda>_.
      sbnd (slift (chk (\<not> (\<not> po_result_published parsed \<and> res \<noteq> None)))) (\<lambda>_.
      on_dir (transact (int_of (sub state ''revision''))
        (dict_of ([(str_of (sub pending ''stdout_path''), stdout), (str_of (sub pending ''stderr_path''), stderr),
           (str_of (sub pending ''exit_path''), exit_body)]
          @ (case res of None \<Rightarrow> [] | Some body \<Rightarrow> [(str_of (sub pending ''result_path''), body)])))
        (bind_receipts (in_attempt_token i) h (res \<noteq> None)))))))))))))))"

section \<open>Retries\<close>

definition validate_retry :: "role_invocation \<Rightarrow> role_invocation \<Rightarrow> unit result" where
  "validate_retry current following =
     bnd (chk (in_role current = in_role following \<and> in_task_id current = in_task_id following
       \<and> in_operation_id current = in_operation_id following \<and> in_attempt_no current = in_attempt_no following
       \<and> in_attempt_created_at current = in_attempt_created_at following
       \<and> in_expected_base current = in_expected_base following \<and> in_branch current = in_branch following
       \<and> in_worktree current = in_worktree following \<and> in_target_root current = in_target_root following
       \<and> in_run_root current = in_run_root following \<and> in_artifact_prefix current = in_artifact_prefix following
       \<and> in_preflight_body current = in_preflight_body following)) (\<lambda>_.
     chk (\<not> (in_provider_retry_no following \<noteq> in_provider_retry_no current + 1
       \<or> in_attempt_token following = in_attempt_token current)))"

definition retry_request :: "role_invocation \<Rightarrow> provider_request" where
  "retry_request i = provider_request_for i (provider_prefix i @ ''/prompt.md'')
     (provider_prefix i @ ''/output.schema.json'') (provider_prefix i @ ''/request.json'')"

definition attempt_summary :: "role_invocation \<Rightarrow> json \<Rightarrow> json" where
  "attempt_summary i old =
     JObj [(''attempt_token'', JStr (in_attempt_token i)), (''provider_retry_no'', JInt (in_provider_retry_no i)),
       (''launch'', sub old ''launch''), (''stdout'', sub old ''stdout''), (''stderr'', sub old ''stderr''),
       (''exit'', sub old ''exit''), (''result'', sub old ''result'')]"

definition transfer_owner :: "role_invocation \<Rightarrow> provider_handle \<Rightarrow> role_invocation \<Rightarrow> json \<Rightarrow> json result" where
  "transfer_owner i h following state =
     (if in_role i = ''worker'' then
        bnd (case in_task_id i of None \<Rightarrow> Inl KeyError | Some t \<Rightarrow> item (sub state ''tasks'') t) (\<lambda>task.
        let active = sub task ''active_attempt'' in
        bnd (chk_state (\<not> (active = JNull \<or> \<not> py_eq (sub active ''attempt_token'') (JStr (in_attempt_token i))
          \<or> \<not> py_eq (sub active ''provider_handle'') (handle_state_dict h)))) (\<lambda>_.
        Inr (set_in state ''tasks'' (the (in_task_id i)) ''active_attempt''
          (put (put (put active ''attempt_token'' (JStr (in_attempt_token following))) ''status'' (JStr ''RUNNING''))
            ''provider_handle'' JNull))))
      else
        bnd (item (sub state ''role_runtime'') (in_role i)) (\<lambda>runtime.
        bnd (chk_state (py_eq (sub runtime ''active_attempt_token'') (JStr (in_attempt_token i)))) (\<lambda>_.
        Inr (set_in state ''role_runtime'' (in_role i) ''active_attempt_token'' (JStr (in_attempt_token following))))))"

definition rotate_dispatch ::
  "role_invocation \<Rightarrow> provider_handle \<Rightarrow> role_invocation \<Rightarrow> json \<Rightarrow> refs \<Rightarrow> json result" where
  "rotate_dispatch i h following state refs =
     bnd (held_by state (in_attempt_token i) h) (\<lambda>old.
     bnd (transfer_owner i h following state) (\<lambda>moved.
     let previous_attempts = elems (sub old ''provider_attempts'');
         closed = upd moved ''pending_dispatches'' (\<lambda>pending. del pending (in_attempt_token i)) in
     bnd (ref_at refs (provider_prefix following @ ''/prompt.md'')) (\<lambda>prompt_ref.
     bnd (ref_at refs (provider_prefix following @ ''/output.schema.json'')) (\<lambda>schema_ref.
     bnd (ref_at refs (in_artifact_prefix following @ ''/preflight.json'')) (\<lambda>preflight_ref.
     bnd (ref_at refs (provider_prefix following @ ''/request.json'')) (\<lambda>request_ref.
     bnd (add_pending_dispatch closed following prompt_ref schema_ref preflight_ref request_ref) (\<lambda>added.
     bnd (ref_at refs (provider_prefix i @ ''/provider-attempt.json'')) (\<lambda>summary_ref.
     Inr (set_in added ''pending_dispatches'' (in_attempt_token following) ''provider_attempts''
       (JList (previous_attempts @ [artifact_as_dict summary_ref])))))))))))"

definition retry_transient ::
  "(string \<Rightarrow> ('g world, unit) eff) \<Rightarrow> (provider_request \<Rightarrow> ('g world, provider_handle) eff) \<Rightarrow>
   role_invocation \<Rightarrow> provider_handle \<Rightarrow> role_invocation \<Rightarrow> ('g world, provider_handle) eff" where
  "retry_transient fault_hook start i h following =
     (let request = retry_request following in
      sbnd (slift (validate_retry i following)) (\<lambda>_.
      sbnd (sget (\<lambda>w. load (wd w))) (\<lambda>current.
      sbnd (slift (held_by current (in_attempt_token i) h)) (\<lambda>old.
      sbnd (slift (chk_state (sub old ''exit'' \<noteq> JNull))) (\<lambda>_.
      sbnd (slift (canonical_json_bytes (attempt_summary i old))) (\<lambda>summary_body.
      sbnd (slift (canonical_json_bytes (request_as_dict request))) (\<lambda>request_body.
      sbnd (on_dir (transact (int_of (sub current ''revision''))
        (dict_of [(provider_prefix following @ ''/prompt.md'', in_prompt_body following),
          (provider_prefix following @ ''/output.schema.json'', in_schema_body following),
          (in_artifact_prefix following @ ''/preflight.json'', in_preflight_body following),
          (provider_prefix following @ ''/request.json'', request_body),
          (provider_prefix i @ ''/provider-attempt.json'', summary_body)])
        (rotate_dispatch i h following))) (\<lambda>rotated.
      start_recorded fault_hook start following request rotated))))))))"

section \<open>Closing an entry\<close>

text \<open>The callback gets the state, the entry and the references; it returns the state that it leaves
  and whether it returned \<^verbatim>\<open>None\<close>.\<close>

type_synonym closing = "json \<Rightarrow> json \<Rightarrow> refs \<Rightarrow> (json \<times> bool) result"

definition close_entry :: "string \<Rightarrow> closing \<Rightarrow> json \<Rightarrow> refs \<Rightarrow> json result" where
  "close_entry attempt_token accept current refs =
     (let pending = sub (sub current ''pending_dispatches'') attempt_token in
      bnd (chk_state (pending \<noteq> JNull)) (\<lambda>_.
      bnd (accept current pending refs) (\<lambda>(accepted, returned_none).
      bnd (chk returned_none) (\<lambda>_.
      bnd (item (sub accepted ''pending_dispatches'') attempt_token) (\<lambda>_.
      Inr (upd accepted ''pending_dispatches'' (\<lambda>d. del d attempt_token)))))))"

definition accept_current_result :: "string \<Rightarrow> (string, string) dict \<Rightarrow> closing \<Rightarrow> bool act" where
  "accept_current_result attempt_token artifacts accept =
     sbnd (sget load) (\<lambda>state.
     if \<not> has_key (sub state ''pending_dispatches'') attempt_token then
       sbnd (append_log (JObj [(''event'', JStr ''stale-result-rejected''), (''attempt_token'', JStr attempt_token)])) (\<lambda>_.
       slift (Inr False))
     else sbnd (transact (int_of (sub state ''revision'')) artifacts (close_entry attempt_token accept)) (\<lambda>_.
       slift (Inr True)))"

definition abandon :: "string \<Rightarrow> (string, string) dict \<Rightarrow> closing \<Rightarrow> json act" where
  "abandon attempt_token artifacts close =
     sbnd (sget load) (\<lambda>state.
     sbnd (slift (chk_state (has_key (sub state ''pending_dispatches'') attempt_token))) (\<lambda>_.
     transact (int_of (sub state ''revision'')) artifacts (close_entry attempt_token close)))"

section \<open>Paths under a root\<close>

text \<open>A component of a path: not empty, without a slash, and not \<^verbatim>\<open>.\<close>.\<close>

definition component_ok :: "string \<Rightarrow> bool" where
  "component_ok p \<longleftrightarrow> p \<noteq> [] \<and> p \<noteq> ''.'' \<and> CHR ''/'' \<notin> set p"

lemma join_head: "list_all component_ok ps \<Longrightarrow> \<not> startswith (join_with (CHR ''/'') ps) ''/''"
  by (induction "CHR ''/''" ps rule: join_with.induct)
     (auto simp: component_ok_def startswith_def prefix_def Cons_eq_append_conv append_eq_Cons_conv)

lemma rooted_split: "list_all component_ok ps \<Longrightarrow> posix_rel (join_with (CHR ''/'') ps) = ps"
proof (cases "ps = []")
  case False
  assume c: "list_all component_ok ps"
  then have "split_on (CHR ''/'') (join_with (CHR ''/'') ps) = ps"
    using False by (intro split_join) (auto simp: list_all_iff component_ok_def)
  with c show ?thesis by (auto simp: posix_rel_def list_all_iff component_ok_def intro: filter_True)
qed (simp add: posix_rel_def)

lemma rel_slash: "posix_rel (CHR ''/'' # x) = posix_rel x"
  by (simp add: posix_rel_def)

lemma rooted_path:
  assumes "root = ''/'' \<or> root = ''//''" and "list_all component_ok ps"
  shows "posix_root (root @ join_with (CHR ''/'') ps) = root" "posix_rel (root @ join_with (CHR ''/'') ps) = ps"
    "as_posix (root @ join_with (CHR ''/'') ps) = root @ join_with (CHR ''/'') ps"
proof -
  let ?p = "root @ join_with (CHR ''/'') ps"
  show r: "posix_root ?p = root"
    using assms(1) join_head [OF assms(2)] by (auto simp: posix_root_def startswith_def)
  show l: "posix_rel ?p = ps" using assms(1) rooted_split [OF assms(2)] by (auto simp: rel_slash)
  show "as_posix ?p = ?p" using r l assms(1) by (auto simp: as_posix_def)
qed

lemma join_with_snoc: "ps \<noteq> [] \<Longrightarrow> join_with c (ps @ [p]) = join_with c ps @ c # p"
  by (induction c ps rule: join_with.induct) auto

lemma rooted_join:
  assumes "root = ''/'' \<or> root = ''//''" and "list_all component_ok ps" and "component_ok p"
  shows "path_join (root @ join_with (CHR ''/'') ps) p = root @ join_with (CHR ''/'') (ps @ [p])"
proof -
  have rel: "\<not> is_absolute p"
    using assms(3) by (cases p) (auto simp: is_absolute_def posix_root_def component_ok_def startswith_def)
  show ?thesis
  proof (cases "ps = []")
    case True
    with rel assms(1) show ?thesis by (auto simp: path_join_def endswith_def suffix_def)
  next
    case False
    then have l: "join_with (CHR ''/'') ps \<noteq> []" "last (join_with (CHR ''/'') ps) = last (last ps)"
      using assms(2) join_with_last [of ps] by (auto simp: list_all_iff component_ok_def)
    moreover have "component_ok (last ps)" using assms(2) False by (auto simp: list_all_iff)
    then have "last (last ps) \<noteq> CHR ''/''" by (metis component_ok_def last_in_set)
    ultimately have "\<not> endswith (root @ join_with (CHR ''/'') ps) ''/''"
      by (simp add: endswith_slash)
    with rel False show ?thesis by (simp add: path_join_def join_with_snoc)
  qed
qed

lemma rooted_join_parts:
  assumes "root = ''/'' \<or> root = ''//''" and "list_all component_ok ps" and "list_all component_ok qs"
  shows "join_parts (root @ join_with (CHR ''/'') ps) qs = root @ join_with (CHR ''/'') (ps @ qs)"
  using assms(2,3)
proof (induction qs arbitrary: ps)
  case (Cons q qs)
  then have "list_all component_ok (ps @ [q])" by simp
  with Cons rooted_join [OF assms(1), of ps q] show ?case by (simp add: join_parts_def)
qed (simp add: join_parts_def)

lemma component_parts: "list_all component_ok (posix_rel s)"
  using split_on_no_sep by (fastforce simp: list_all_iff component_ok_def posix_rel_def)

text \<open>A resolved root is an absolute path in normal form; joining relative parts to it is direct.\<close>

definition resolved_root :: "string \<Rightarrow> bool" where
  "resolved_root root \<longleftrightarrow> is_absolute root \<and> as_posix root = root"

lemma under_resolved:
  assumes "resolved_root root" and "list_all component_ok parts"
  shows "under_root root parts = join_parts root parts"
proof -
  have r: "posix_root root = ''/'' \<or> posix_root root = ''//''"
    using assms(1) by (auto simp: resolved_root_def is_absolute_def posix_root_def split: if_splits)
  have root: "root = posix_root root @ join_with (CHR ''/'') (posix_rel root)"
    using assms(1) by (auto simp: resolved_root_def is_absolute_def as_posix_def)
  have "join_parts root parts = posix_root root @ join_with (CHR ''/'') (posix_rel root @ parts)"
    using rooted_join_parts [OF r component_parts assms(2), of root] root by simp
  moreover have "list_all component_ok (posix_rel root @ parts)" using component_parts assms(2) by simp
  ultimately show ?thesis using assms(1) rooted_path(3) [OF r] by (simp add: under_root_def resolved_root_def)
qed

section \<open>The intent on disk\<close>

text \<open>What a recovering Controller needs of an entry of the ledger.\<close>

definition intent_entry :: "role_invocation \<Rightarrow> string \<Rightarrow> string \<Rightarrow> string \<Rightarrow> json \<Rightarrow> bool" where
  "intent_entry i prompt_path schema_path request_body pending \<longleftrightarrow>
     sub pending ''attempt_token'' = JStr (in_attempt_token i) \<and> sub pending ''role'' = JStr (in_role i)
     \<and> sub pending ''worktree'' = JStr (in_worktree i)
     \<and> sub pending ''request'' = artifact_as_dict \<lparr>ar_path = provider_prefix i @ ''/request.json'', ar_sha256 = digest_of request_body\<rparr>
     \<and> sub pending ''prompt'' = artifact_as_dict \<lparr>ar_path = prompt_path, ar_sha256 = digest_of (in_prompt_body i)\<rparr>
     \<and> sub pending ''schema'' = artifact_as_dict \<lparr>ar_path = schema_path, ar_sha256 = digest_of (in_schema_body i)\<rparr>
     \<and> list_all (\<lambda>(field, name). sub pending field = JStr (provider_prefix i @ name))
         [(''launch_path'', ''/launch.json''), (''stdout_path'', ''/stdout.log''), (''stderr_path'', ''/stderr.log''),
          (''exit_path'', ''/exit.json''), (''result_path'', ''/result.json'')]"

definition intent_recorded :: "role_invocation \<Rightarrow> string \<Rightarrow> string \<Rightarrow> run_dir \<Rightarrow> bool" where
  "intent_recorded i prompt_path schema_path d \<longleftrightarrow>
     (\<exists>s body. stored_state d s \<and> valid s
       \<and> canonical_json_bytes (request_as_dict (provider_request_for i prompt_path schema_path
           (provider_prefix i @ ''/request.json''))) = Inr body
       \<and> map_of (rd_files d) (provider_prefix i @ ''/request.json'') = Some body
       \<and> map_of (rd_files d) prompt_path = Some (in_prompt_body i)
       \<and> map_of (rd_files d) schema_path = Some (in_schema_body i)
       \<and> intent_entry i prompt_path schema_path body (sub (sub s ''pending_dispatches'') (in_attempt_token i)))"

lemma references_of:
  "artifact_references arts = Inr refs \<Longrightarrow> map_of refs p = Some r \<Longrightarrow>
     \<exists>body. (p, body) \<in> set arts \<and> r = \<lparr>ar_path = p, ar_sha256 = digest_of body\<rparr>"
  unfolding artifact_references_def mapr_eq_Inr
  by (induction arts refs rule: list_all2_induct) (auto simp: bnd_eq_Inr artifact_ref_of_def split: if_splits)

lemma references_keys: "artifact_references arts = Inr refs \<Longrightarrow> map fst refs = map fst arts"
  unfolding artifact_references_def mapr_eq_Inr
  by (induction arts refs rule: list_all2_induct) (auto simp: bnd_eq_Inr)

lemma reference_at:
  assumes "artifact_references arts = Inr refs" and "ref_at refs p = Inr r" and "distinct (map fst arts)"
    and "(p, body) \<in> set arts"
  shows "r = \<lparr>ar_path = p, ar_sha256 = digest_of body\<rparr>"
proof -
  from assms(2) have "map_of refs p = Some r" by (auto simp: ref_at_def split: option.splits)
  from references_of [OF assms(1) this] assms(3,4) show ?thesis by (metis eq_key_imp_eq_value)
qed

text \<open>A committed transaction with the references that its callback got.\<close>

lemma transact_committed:
  assumes "transact n arts mutate d = (Inr s, d')"
  obtains current view refs updated where "load d = Inr current" "same_but_index view current"
    "artifact_references arts = Inr refs" "mutate view refs = Inr updated"
    "s = put updated ''revision'' (JInt (n + 1))" "valid s" "is_obj updated" "stored_state d' s"
    "\<forall>p\<in>set arts. map_of (rd_files d') (fst p) = Some (snd p)"
  using assms
proof (cases rule: transact_cases)
  case (committed s1 b)
  then have s1: "s1 = s" by simp
  show thesis
  proof (rule next_state_facts [OF committed(2) [unfolded s1]])
    fix current indexed refs updated
    assume f: "load d = Inr current" "artifact_references arts = Inr refs" "mutate (fst indexed) refs = Inr updated"
        "s = put updated ''revision'' (JInt (n + 1))" "valid s"
      and fold: "foldr_r index_artifact (current, index_of current) (map snd refs) = Inr indexed"
    have "is_obj updated" using f(4,5) by (simp add: valid_iff)
    moreover have "same_but_index (fst indexed) current"
      using index_same [OF fold] load_valid [OF f(1)] by (simp add: valid_iff)
    moreover have "stored_state d' s" using committed(3,4) s1 by (auto simp: stored_state_def)
    ultimately show thesis using f committed(6) by (intro that)
  qed
qed simp

text \<open>The artifacts of a dispatch have different names.\<close>

lemma names_differ [simp]:
  fixes x y :: string
  shows "x @ ''/prompt.md'' \<noteq> y @ ''/output.schema.json''"
    "x @ ''/prompt.md'' \<noteq> y @ ''/preflight.json''"
    "x @ ''/prompt.md'' \<noteq> y @ ''/request.json''"
    "x @ ''/prompt.md'' \<noteq> y @ ''/provider-attempt.json''"
    "x @ ''/output.schema.json'' \<noteq> y @ ''/preflight.json''"
    "x @ ''/output.schema.json'' \<noteq> y @ ''/request.json''"
    "x @ ''/output.schema.json'' \<noteq> y @ ''/provider-attempt.json''"
    "x @ ''/preflight.json'' \<noteq> y @ ''/request.json''"
    "x @ ''/preflight.json'' \<noteq> y @ ''/provider-attempt.json''"
    "x @ ''/request.json'' \<noteq> y @ ''/provider-attempt.json''"
  by (auto dest: arg_cong [of _ _ rev])

lemma pending_is_obj: "valid s \<Longrightarrow> is_obj (sub s ''pending_dispatches'')"
  by (auto simp: valid_iff body_part_def validate_work_def bnd_eq_Inr)

lemma jpath [simp]: "artifact_as_dict r = artifact_as_dict r' \<longleftrightarrow> r = r'"
  by (cases r; cases r') (simp add: artifact_as_dict_def)

lemma record_intent_recorded:
  assumes "record_intent i request body d = (Inr s, d')" and "request = first_request i"
    and "canonical_json_bytes (request_as_dict request) = Inr body"
  shows "intent_recorded i (in_artifact_prefix i @ ''/prompt.md'') (in_artifact_prefix i @ ''/output.schema.json'') d'"
proof -
  let ?a = "in_artifact_prefix i" and ?tok = "in_attempt_token i"
  let ?arts = "[(?a @ ''/prompt.md'', in_prompt_body i), (?a @ ''/output.schema.json'', in_schema_body i),
    (?a @ ''/preflight.json'', in_preflight_body i), (provider_prefix i @ ''/request.json'', body)]"
  have dist: "distinct (map fst ?arts)" by simp
  from assms(1) obtain n where t: "transact n ?arts (\<lambda>current refs.
          bnd (ref_at refs (?a @ ''/prompt.md'')) (\<lambda>prompt_ref.
          bnd (ref_at refs (?a @ ''/output.schema.json'')) (\<lambda>schema_ref.
          bnd (ref_at refs (?a @ ''/preflight.json'')) (\<lambda>preflight_ref.
          bnd (ref_at refs (provider_prefix i @ ''/request.json'')) (\<lambda>request_ref.
          add_pending_dispatch current i prompt_ref schema_ref preflight_ref request_ref))))) d = (Inr s, d')"
    by (auto simp: record_intent_def Let_def sbnd_Inr)
  show ?thesis
  proof (rule transact_committed [OF t])
    fix view refs updated current
    assume refs: "artifact_references ?arts = Inr refs"
      and m: "bnd (ref_at refs (?a @ ''/prompt.md'')) (\<lambda>prompt_ref.
          bnd (ref_at refs (?a @ ''/output.schema.json'')) (\<lambda>schema_ref.
          bnd (ref_at refs (?a @ ''/preflight.json'')) (\<lambda>preflight_ref.
          bnd (ref_at refs (provider_prefix i @ ''/request.json'')) (\<lambda>request_ref.
          add_pending_dispatch view i prompt_ref schema_ref preflight_ref request_ref)))) = Inr updated"
      and s: "s = put updated ''revision'' (JInt (n + 1))" "valid s" "is_obj updated" "stored_state d' s"
      and files: "\<forall>p\<in>set ?arts. map_of (rd_files d') (fst p) = Some (snd p)"
      and v: "same_but_index view current"
    from m obtain r1 r2 r3 r4 where r: "ref_at refs (?a @ ''/prompt.md'') = Inr r1"
      "ref_at refs (?a @ ''/output.schema.json'') = Inr r2" "ref_at refs (provider_prefix i @ ''/request.json'') = Inr r4"
      and u: "updated = upd view ''pending_dispatches'' (\<lambda>p. put p ?tok (pending_entry view i r1 r2 r3 r4))"
      by (auto simp: bnd_eq_Inr add_pending_dispatch_def)
    note at = reference_at [OF refs _ dist]
    have rs: "r1 = \<lparr>ar_path = ?a @ ''/prompt.md'', ar_sha256 = digest_of (in_prompt_body i)\<rparr>"
      "r2 = \<lparr>ar_path = ?a @ ''/output.schema.json'', ar_sha256 = digest_of (in_schema_body i)\<rparr>"
      "r4 = \<lparr>ar_path = provider_prefix i @ ''/request.json'', ar_sha256 = digest_of body\<rparr>"
      using at [OF r(1), of "in_prompt_body i"] at [OF r(2), of "in_schema_body i"] at [OF r(3), of body] by simp_all
    have "is_obj (sub s ''pending_dispatches'')" using s(2) by (rule pending_is_obj)
    then have "sub (sub s ''pending_dispatches'') ?tok = pending_entry view i r1 r2 r3 r4"
      using s(1) u v by (auto simp: same_but_index_def upd_def)
    then have "intent_entry i (?a @ ''/prompt.md'') (?a @ ''/output.schema.json'') body (sub (sub s ''pending_dispatches'') ?tok)"
      using rs by (simp add: intent_entry_def pending_entry_def)
    with s files assms(2,3) show ?thesis
      unfolding intent_recorded_def first_request_def by (intro exI [of _ s] exI [of _ body]) simp
  qed
qed

lemma dict_of_distinct: "distinct (map fst xs) \<Longrightarrow> dict_of xs = xs"
proof -
  have "distinct (map fst (ys @ xs)) \<Longrightarrow> foldl (\<lambda>d (k, v). AList.update k v d) ys xs = ys @ xs" for ys
  proof (induction xs arbitrary: ys)
    case (Cons x xs)
    then have "fst x \<notin> fst ` set ys" by auto
    then have "AList.update (fst x) (snd x) ys = ys @ [x]" by (induction ys) auto
    with Cons.IH [of "ys @ [x]"] Cons.prems show ?case by (simp add: case_prod_beta)
  qed simp
  from this [of "[]"] show "distinct (map fst xs) \<Longrightarrow> dict_of xs = xs" by (simp add: dict_of_def)
qed

lemma retry_recorded:
  assumes "transact n (dict_of [(provider_prefix i @ ''/prompt.md'', in_prompt_body i),
          (provider_prefix i @ ''/output.schema.json'', in_schema_body i),
          (in_artifact_prefix i @ ''/preflight.json'', in_preflight_body i),
          (provider_prefix i @ ''/request.json'', body), (provider_prefix before @ ''/provider-attempt.json'', summary)])
      (rotate_dispatch before h i) d = (Inr s, d')"
    and "canonical_json_bytes (request_as_dict (retry_request i)) = Inr body"
  shows "intent_recorded i (provider_prefix i @ ''/prompt.md'') (provider_prefix i @ ''/output.schema.json'') d'"
proof -
  let ?p = "provider_prefix i" and ?tok = "in_attempt_token i"
  let ?arts = "[(?p @ ''/prompt.md'', in_prompt_body i), (?p @ ''/output.schema.json'', in_schema_body i),
    (in_artifact_prefix i @ ''/preflight.json'', in_preflight_body i), (?p @ ''/request.json'', body),
    (provider_prefix before @ ''/provider-attempt.json'', summary)]"
  have dist: "distinct (map fst ?arts)" by simp
  show ?thesis
  proof (rule transact_committed [OF assms(1) [unfolded dict_of_distinct [OF dist]]])
    fix current view refs updated
    assume refs: "artifact_references ?arts = Inr refs" and m: "rotate_dispatch before h i view refs = Inr updated"
      and s: "s = put updated ''revision'' (JInt (n + 1))" "valid s" "is_obj updated" "stored_state d' s"
      and files: "\<forall>q\<in>set ?arts. map_of (rd_files d') (fst q) = Some (snd q)"
    from m obtain closed r1 r2 r3 r4 xs where r: "ref_at refs (?p @ ''/prompt.md'') = Inr r1"
      "ref_at refs (?p @ ''/output.schema.json'') = Inr r2" "ref_at refs (?p @ ''/request.json'') = Inr r4"
      and u: "updated = set_in (upd closed ''pending_dispatches'' (\<lambda>q. put q ?tok (pending_entry closed i r1 r2 r3 r4)))
        ''pending_dispatches'' ?tok ''provider_attempts'' xs"
      unfolding rotate_dispatch_def Let_def
      by (elim bnd_InrE) (auto simp: add_pending_dispatch_def bnd_eq_Inr)
    note at = reference_at [OF refs _ dist]
    have rs: "r1 = \<lparr>ar_path = ?p @ ''/prompt.md'', ar_sha256 = digest_of (in_prompt_body i)\<rparr>"
      "r2 = \<lparr>ar_path = ?p @ ''/output.schema.json'', ar_sha256 = digest_of (in_schema_body i)\<rparr>"
      "r4 = \<lparr>ar_path = ?p @ ''/request.json'', ar_sha256 = digest_of body\<rparr>"
      using at [OF r(1), of "in_prompt_body i"] at [OF r(2), of "in_schema_body i"] at [OF r(3), of body] by simp_all
    have obj: "is_obj (sub s ''pending_dispatches'')" using s(2) by (rule pending_is_obj)
    have "is_obj closed" using s(3) by (simp add: u set_in_def upd_def)
    with obj have "sub (sub s ''pending_dispatches'') ?tok = put (pending_entry closed i r1 r2 r3 r4) ''provider_attempts'' xs"
      by (simp add: s(1) u set_in_def upd_def)
    then have "intent_entry i (?p @ ''/prompt.md'') (?p @ ''/output.schema.json'') body (sub (sub s ''pending_dispatches'') ?tok)"
      using rs by (simp add: intent_entry_def) (simp add: pending_entry_def)
    with s files assms(2) show ?thesis
      unfolding intent_recorded_def retry_request_def by (intro exI [of _ s] exI [of _ body]) simp
  qed
qed

definition intent_guard ::
  "role_invocation \<Rightarrow> string \<Rightarrow> string \<Rightarrow> (string \<Rightarrow> ('g world, unit) eff) \<Rightarrow> string \<Rightarrow> ('g world, unit) eff" where
  "intent_guard i prompt_path schema_path fault_hook event = (\<lambda>w.
     if event = ''after_dispatch_intent_before_provider_start'' \<and> \<not> intent_recorded i prompt_path schema_path (wd w)
     then (Inl ValueError, w) else fault_hook event w)"

lemma start_guarded:
  assumes "intent_recorded i p s (wd w)"
  shows "start_recorded (intent_guard i p s hook) start i r stored w = start_recorded hook start i r stored w"
proof -
  have "intent_guard i p s hook ''after_provider_start_before_handle_binding'' = hook ''after_provider_start_before_handle_binding''"
    by (rule ext) (simp add: intent_guard_def)
  with assms show ?thesis
    unfolding start_recorded_def by (simp add: sbnd_def intent_guard_def)
qed

lemma sbnd_cong: "(\<And>x s'. m s = (Inr x, s') \<Longrightarrow> f x s' = g x s') \<Longrightarrow> sbnd m f s = sbnd m g s"
  by (auto simp: sbnd_def split: prod.splits sum.splits)


section \<open>Recovery of a request\<close>

text \<open>Paths as the Controller makes them: relative, in normal form, and below resolved roots.\<close>

definition plain_path :: "string \<Rightarrow> bool" where
  "plain_path p \<longleftrightarrow> safe_parts p \<and> as_posix p = p"

definition plain_invocation :: "role_invocation \<Rightarrow> bool" where
  "plain_invocation i \<longleftrightarrow> resolved_root (in_run_root i) \<and> resolved_root (in_target_root i)
     \<and> plain_path (in_artifact_prefix i) \<and> plain_path (provider_prefix i) \<and> plain_path (in_worktree i)
     \<and> all_text utf8_valid (request_as_dict (first_request i))"

lemma plain_path_child:
  assumes "plain_path p" and "component_ok name" and "name \<noteq> ''..''"
  shows "plain_path (p @ ''/'' @ name) \<and> posix_parts (p @ ''/'' @ name) = posix_parts p @ [name]"
proof -
  have rel: "posix_root p = []" and parts: "posix_parts p = posix_rel p" "posix_rel p \<noteq> []" "''..'' \<notin> set (posix_rel p)"
    using assms(1) by (auto simp: plain_path_def safe_parts_def is_absolute_def posix_parts_def)
  have p: "p = join_with (CHR ''/'') (posix_rel p)"
    using assms(1) rel parts(2) by (simp add: plain_path_def as_posix_def)
  have child: "p @ ''/'' @ name = join_with (CHR ''/'') (posix_rel p @ [name])"
    using parts(2) by (subst p) (simp add: join_with_snoc)
  have c: "list_all component_ok (posix_rel p @ [name])" using component_parts assms(2) by simp
  have "posix_rel (p @ ''/'' @ name) = posix_rel p @ [name]" unfolding child by (rule rooted_split [OF c])
  moreover have "posix_root (p @ ''/'' @ name) = []"
    using join_head [OF c] unfolding child by (auto simp: posix_root_def startswith_def prefix_def)
  ultimately show ?thesis using parts child assms(2,3) component_parts [of p]
    by (auto simp: plain_path_def safe_parts_def is_absolute_def posix_parts_def as_posix_def list_all_iff component_ok_def)
qed

text \<open>C3. Recovery of a dispatch: from the stored entry and the stored request bytes the Controller
  rebuilds exactly the request that the agent process was started with, so what it observes after a
  crash is the process that it started.\<close>

theorem request_recovered:
  assumes "plain_invocation i" and "canonical_json_bytes (request_as_dict (first_request i)) = Inr body"
    and "length body \<le> MAX_REQUEST_BYTES" and "is_obj pending"
    and "intent_entry i (in_artifact_prefix i @ ''/prompt.md'') (in_artifact_prefix i @ ''/output.schema.json'') body pending"
    and "map_of (rd_files d) (provider_prefix i @ ''/request.json'') = Some body"
  shows "request_from_pending d pending (in_run_root i) (in_target_root i) = Inr (first_request i)"
proof -
  let ?p = "provider_prefix i" and ?a = "in_artifact_prefix i" and ?R = "first_request i"
  let ?v = "request_as_dict ?R" and ?run = "in_run_root i"
  note plain = assms(1) [unfolded plain_invocation_def]
  have kid: "plain_path (q @ ''/'' @ name) \<and> posix_parts (q @ ''/'' @ name) = posix_parts q @ [name]"
    if "plain_path q" "name \<in> {''prompt.md'', ''output.schema.json'', ''request.json'', ''launch.json'', ''stdout.log'',
      ''stderr.log'', ''exit.json'', ''result.json''}" for q name
    by (rule plain_path_child [OF that(1)]) (use that(2) in \<open>auto simp: component_ok_def\<close>)
  note kids = kid [of ?p] kid [of ?a]
  have rel: "posix_parts q = posix_rel q" "list_all component_ok (posix_parts q)" if "plain_path q" for q
    using that component_parts [of q] by (auto simp: plain_path_def safe_parts_def is_absolute_def posix_parts_def)
  have under: "under_root root (posix_parts q) = join_parts root (posix_parts q)" if "plain_path q" "resolved_root root" for q root
    using under_resolved [OF that(2) rel(2) [OF that(1)]] .
  have art: "artifact_field pending f = Inr (posix_parts q)"
    if "sub pending f = artifact_as_dict \<lparr>ar_path = q, ar_sha256 = x\<rparr>" "plain_path q" for f q x
    using that by (simp add: artifact_field_def artifact_as_dict_def plain_path_def)
  have relf: "relative_field pending f = Inr (posix_parts q)" if "sub pending f = JStr q" "plain_path q" for f q
    using that by (simp add: relative_field_def plain_path_def)
  note entry = assms(5) [unfolded intent_entry_def]
  have request: "artifact_field pending ''request'' = Inr (posix_parts (?p @ ''/request.json''))"
    using entry kids plain by (intro art) auto
  have "read_run_file d (posix_parts (?p @ ''/request.json'')) MAX_REQUEST_BYTES = Inr body"
  proof -
    have q: "plain_path (?p @ ''/request.json'')" using kids plain by simp
    then have "join_with (CHR ''/'') (posix_parts (?p @ ''/request.json'')) = ?p @ ''/request.json''"
      using rel [OF q] by (auto simp: plain_path_def safe_parts_def is_absolute_def as_posix_def posix_parts_def)
    with assms(3,6) show ?thesis by (simp add: read_run_file_def read_bounded_def)
  qed
  note read = this
  have vp: "is_obj ?v" "wf_json ?v" "no_floats ?v"
    by (simp_all add: request_as_dict_def first_request_def provider_request_for_def Let_def)
  have parse: "parse_single_json_object body = Inr (canon ?v)"
    using canonical_bytes_parse [OF vp(1,2,3)] plain assms(2) single_object_reads by auto
  have fields: "artifact_field pending ''prompt'' = Inr (posix_parts (?a @ ''/prompt.md''))"
    "artifact_field pending ''schema'' = Inr (posix_parts (?a @ ''/output.schema.json''))"
    using entry kids plain by (intro art; auto)+
  have outputs: "relative_field pending ''worktree'' = Inr (posix_parts (in_worktree i))"
    "relative_field pending ''launch_path'' = Inr (posix_parts ?p @ [''launch.json''])"
    "relative_field pending ''stdout_path'' = Inr (posix_parts ?p @ [''stdout.log''])"
    "relative_field pending ''stderr_path'' = Inr (posix_parts ?p @ [''stderr.log''])"
    "relative_field pending ''exit_path'' = Inr (posix_parts ?p @ [''exit.json''])"
    "relative_field pending ''result_path'' = Inr (posix_parts ?p @ [''result.json''])"
    using entry kids plain relf [of _ "?p @ ''/'' @ x" for x] relf [of _ "in_worktree i"] by auto
  have rr: "resolved_root ?run" "resolved_root (in_target_root i)" using plain by simp_all
  have pp: "plain_path (?p @ ''/request.json'')" "plain_path (?a @ ''/prompt.md'')" "plain_path (?a @ ''/output.schema.json'')"
    "plain_path (in_worktree i)" using kids plain by simp_all
  have roots: "rq_request_path ?R = join_parts ?run (posix_parts (?p @ ''/request.json''))"
    "rq_prompt_path ?R = join_parts ?run (posix_parts (?a @ ''/prompt.md''))"
    "rq_schema_path ?R = join_parts ?run (posix_parts (?a @ ''/output.schema.json''))"
    "rq_cwd ?R = join_parts (in_target_root i) (posix_parts (in_worktree i))"
    using under [OF pp(1) rr(1)] under [OF pp(2) rr(1)] under [OF pp(3) rr(1)] under [OF pp(4) rr(2)]
    by (simp_all add: first_request_def provider_request_for_def Let_def)
  have leaf: "under_root ?run (posix_parts ?p @ [name]) = join_parts ?run (posix_parts ?p @ [name])"
    if "component_ok name" for name
    using rel [of ?p] plain that by (intro under_resolved) auto
  have out_paths: "rq_launch_path ?R = join_parts ?run (posix_parts ?p @ [''launch.json''])"
    "rq_stdout_path ?R = join_parts ?run (posix_parts ?p @ [''stdout.log''])"
    "rq_stderr_path ?R = join_parts ?run (posix_parts ?p @ [''stderr.log''])"
    "rq_exit_path ?R = join_parts ?run (posix_parts ?p @ [''exit.json''])"
    "rq_result_path ?R = join_parts ?run (posix_parts ?p @ [''result.json''])"
    by (simp_all add: first_request_def provider_request_for_def Let_def, auto intro!: leaf simp: component_ok_def)
  have subs: "sub (canon ?v) k = canon (sub ?v k)" for k by (rule sub_canon [OF vp(2)])
  have texts: "sub ?v ''request_path'' = JStr (rq_request_path ?R)" "sub ?v ''prompt_path'' = JStr (rq_prompt_path ?R)"
    "sub ?v ''schema_path'' = JStr (rq_schema_path ?R)" "sub ?v ''cwd'' = JStr (rq_cwd ?R)"
    "sub ?v ''launch_path'' = JStr (rq_launch_path ?R)" "sub ?v ''stdout_path'' = JStr (rq_stdout_path ?R)"
    "sub ?v ''stderr_path'' = JStr (rq_stderr_path ?R)" "sub ?v ''exit_path'' = JStr (rq_exit_path ?R)"
    "sub ?v ''result_path'' = JStr (rq_result_path ?R)" "sub ?v ''attempt_token'' = JStr (in_attempt_token i)"
    "sub ?v ''role'' = JStr (in_role i)"
    by (simp_all add: request_as_dict_def first_request_def provider_request_for_def Let_def)
  have again: "request_of_dict (canon ?v) = ?R"
    by (rule provider_request.equality)
       (simp_all add: request_of_dict_def subs texts, simp_all add: request_as_dict_def first_request_def provider_request_for_def Let_def)
  have keys: "set (jkeys ?v) = set REQUEST_FIELDS"
    by (simp add: request_as_dict_def REQUEST_FIELDS_def)
  have named: "sub pending ''attempt_token'' = JStr (in_attempt_token i)" "sub pending ''role'' = JStr (in_role i)"
    using entry by simp_all
  show ?thesis
    unfolding request_from_pending_def Let_def request bnd_Inr read parse expected_paths_def fields
    by (simp add: assms(4) keys outputs subs texts roots out_paths named again assms(2))
qed

section \<open>Binding and closing\<close>

lemma has_key_obj: "has_key v k \<Longrightarrow> is_obj v"
  by (cases v) (auto simp: has_key_def jget_def items_def)

lemma sub_set_in [simp]:
  "t' \<noteq> t \<Longrightarrow> sub (set_in c t k f v) t' = sub c t'"
  "has_key c t \<Longrightarrow> has_key (sub c t) k \<Longrightarrow> sub (sub (set_in c t k f v) t) k = put (sub (sub c t) k) f v"
  "has_key c t \<Longrightarrow> has_key (sub c t) k \<Longrightarrow> k' \<noteq> k \<Longrightarrow> sub (sub (set_in c t k f v) t) k' = sub (sub c t) k'"
  "has_key c t' \<Longrightarrow> has_key (set_in c t k f v) t'"
  "has_key c t \<Longrightarrow> has_key (sub c t) k' \<Longrightarrow> has_key (sub (set_in c t k f v) t) k'"
  using has_key_obj [of c t] has_key_obj [of "sub c t" k] has_key_obj [of c t'] has_key_obj [of "sub c t" k']
  by (auto simp: set_in_def upd_def)

lemma set_in_id: "has_key c t \<Longrightarrow> has_key (sub c t) k \<Longrightarrow> put (sub (sub c t) k) f v = sub (sub c t) k \<Longrightarrow> set_in c t k f v = c"
  by (simp add: set_in_def upd_def put_triv)

lemma unset_or_refl: "wf_json v \<Longrightarrow> unset_or v v"
  by (simp add: unset_or_def py_eq_refl)

lemma put_again: "is_obj v \<Longrightarrow> put (put (put v k w) k' w') k w = put (put v k w) k' w'" if "k \<noteq> k'"
  using that by (intro put_triv) simp_all

lemma put_nonobj: "\<not> is_obj v \<Longrightarrow> put v k w = v"
  by (cases v) (simp_all add: put_def)

lemma obj_not_null: "is_obj v \<Longrightarrow> v \<noteq> JNull"
  by auto

lemma sub_nonobj: "\<not> is_obj v \<Longrightarrow> sub v k = JNull"
  by (cases v) (simp_all add: sub_def jget_def items_def)

lemma bnd_chk_state_Inr: "bnd (chk_state b) (\<lambda>_. Inr x) = Inr y \<longleftrightarrow> b \<and> x = y"
  by (auto simp: bnd_eq_Inr)

lemma owner_running_Inr:
  assumes "owner_running current token pending H = Inr nxt"
  obtains id a where "id = str_of (sub pending ''task_id'')" "a = sub (sub (sub current ''tasks'') id) ''active_attempt''"
    "a \<noteq> JNull" "sub a ''attempt_token'' = JStr token" "py_eq (sub a ''preflight'') (sub pending ''preflight'')"
    "nxt = set_in current ''tasks'' id ''active_attempt'' (put (put a ''status'' (JStr ''RUNNING'')) ''provider_handle'' H)"
    "is_obj a" "has_key (sub (sub current ''tasks'') id) ''active_attempt''" "has_key (sub current ''tasks'') id"
    "has_key current ''tasks''"
proof -
  let ?id = "str_of (sub pending ''task_id'')"
  let ?a = "sub (sub (sub current ''tasks'') ?id) ''active_attempt''"
  note c = assms [unfolded owner_running_def Let_def bnd_chk_state_Inr de_Morgan_disj not_not py_eq_JStr]
  note f = c [THEN conjunct1, THEN conjunct1] c [THEN conjunct1, THEN conjunct2, THEN conjunct1]
    c [THEN conjunct1, THEN conjunct2, THEN conjunct2, THEN conjunct2, THEN conjunct1] c [THEN conjunct2, symmetric]
  have k: "has_key (sub (sub current ''tasks'') ?id) ''active_attempt''" using f(1) by (rule sub_not_JNull)
  have k2: "has_key (sub current ''tasks'') ?id" by (rule sub_not_JNull) (use has_key_obj [OF k] in auto)
  have k3: "has_key current ''tasks''" by (rule sub_not_JNull) (use has_key_obj [OF k2] in auto)
  have "has_key ?a ''attempt_token''" by (rule sub_not_JNull) (simp add: f(2))
  then show thesis by (rule that [OF refl refl f has_key_obj k k2 k3])
qed

lemma owner_running_again:
  assumes "owner_running current token pending H = Inr nxt" and "unset_or H H"
    and "sub s ''tasks'' = sub nxt ''tasks''" and "has_key s ''tasks''"
    and "sub pending' ''task_id'' = sub pending ''task_id''" and "sub pending' ''preflight'' = sub pending ''preflight''"
  shows "owner_running s token pending' H = Inr s"
  using assms(1)
proof (rule owner_running_Inr)
  fix id a
  assume id: "id = str_of (sub pending ''task_id'')"
    and a: "a \<noteq> JNull" "sub a ''attempt_token'' = JStr token" "py_eq (sub a ''preflight'') (sub pending ''preflight'')" "is_obj a"
    and nxt: "nxt = set_in current ''tasks'' id ''active_attempt'' (put (put a ''status'' (JStr ''RUNNING'')) ''provider_handle'' H)"
    and k: "has_key (sub (sub current ''tasks'') id) ''active_attempt''" "has_key (sub current ''tasks'') id" "has_key current ''tasks''"
  let ?a = "put (put a ''status'' (JStr ''RUNNING'')) ''provider_handle'' H"
  have task: "sub (sub s ''tasks'') id = put (sub (sub current ''tasks'') id) ''active_attempt'' ?a"
    using k by (simp add: assms(3) nxt)
  have active: "sub (sub (sub s ''tasks'') id) ''active_attempt'' = ?a"
    using has_key_obj [OF k(1)] by (simp add: task)
  have "is_obj ?a" using a(4) by simp
  then have "?a \<noteq> JNull" by (rule obj_not_null)
  moreover have "put ?a ''status'' (JStr ''RUNNING'') = ?a" using a(4) by (simp add: put_again)
  moreover have "put ?a ''provider_handle'' H = ?a" by simp
  moreover have "set_in s ''tasks'' id ''active_attempt'' ?a = s"
    using k assms(3,4) by (intro set_in_id) (simp_all add: task nxt)
  ultimately show ?thesis
    unfolding owner_running_def Let_def assms(5,6) id [symmetric] active
    using a assms(2) by simp
qed

lemma owner_current_again:
  assumes "owner_current current token pending = Inr nxt" and "sub s ''role_runtime'' = sub nxt ''role_runtime''"
    and "sub pending' ''role'' = sub pending ''role''" and "sub pending' ''operation_id'' = sub pending ''operation_id''"
  shows "owner_current s token pending' = Inr s"
  using assms by (auto simp: owner_current_def bnd_eq_Inr)

lemma owner_keeps_pending:
  "owner_running current token pending H = Inr nxt \<Longrightarrow>
     sub nxt ''pending_dispatches'' = sub current ''pending_dispatches'' \<and> has_key nxt ''tasks'' \<and>
     (has_key current k \<longrightarrow> has_key nxt k)"
  "owner_current current token pending = Inr nxt \<Longrightarrow> nxt = current"
  by (erule owner_running_Inr, simp) (auto simp: owner_current_def bnd_eq_Inr)

text \<open>Binding a handle twice changes nothing: when the handle and the launch receipt of an attempt
  have been bound, binding the same ones again, as a Controller does that died between the provider's
  start and the report of the binding, succeeds and leaves the same state.\<close>

theorem bind_handle_idempotent:
  assumes "bind_matching_handle current token h r = Inr bound" and "wf_json current" and "wf_json (handle_state_dict h)"
  shows "bind_matching_handle bound token h r = Inr bound"
proof -
  let ?P = "sub (sub current ''pending_dispatches'') token" and ?L = "artifact_as_dict r" and ?H = "handle_state_dict h"
  let ?P' = "put (put ?P ''launch'' ?L) ''provider_handle'' ?H"
  have w: "unset_or ?L ?L" "unset_or ?H ?H"
    using assms(3) by (simp_all add: unset_or_refl artifact_as_dict_def)
  have "\<exists>nxt. ?P \<noteq> JNull \<and> py_eq (ph_attempt_token h) (JStr token)
      \<and> (if sub ?P ''role'' = JStr ''worker'' then owner_running current token ?P ?H
           else owner_current current token ?P) = Inr nxt
      \<and> bound = set_in (set_in nxt ''pending_dispatches'' token ''launch'' ?L) ''pending_dispatches'' token ''provider_handle'' ?H"
    using assms(1) unfolding bind_matching_handle_def Let_def
  proof (elim bnd_InrE)
    fix nxt and u :: unit
    assume "chk_state (\<not> (?P = JNull \<or> \<not> py_eq (ph_attempt_token h) (JStr token))) = Inr u"
      "(if sub ?P ''role'' = JStr ''worker'' then owner_running current token ?P ?H
           else owner_current current token ?P) = Inr nxt"
      "Inr (set_in (set_in nxt ''pending_dispatches'' token ''launch'' ?L) ''pending_dispatches'' token ''provider_handle'' ?H) = Inr bound"
    then show ?thesis by (intro exI [of _ nxt]) simp
  qed
  then obtain nxt where p: "?P \<noteq> JNull" "py_eq (ph_attempt_token h) (JStr token)"
    and own: "(if sub ?P ''role'' = JStr ''worker'' then owner_running current token ?P ?H
           else owner_current current token ?P) = Inr nxt"
    and bound: "bound = set_in (set_in nxt ''pending_dispatches'' token ''launch'' ?L) ''pending_dispatches'' token ''provider_handle'' ?H"
    by blast
  have hk: "has_key (sub current ''pending_dispatches'') token" using p(1) by (rule sub_not_JNull)
  have hk': "has_key current ''pending_dispatches''"
    by (rule sub_not_JNull) (use has_key_obj [OF hk] in auto)
  have keep: "sub nxt ''pending_dispatches'' = sub current ''pending_dispatches''" "has_key nxt ''pending_dispatches''"
    using own hk' by (cases "sub ?P ''role'' = JStr ''worker''"; auto dest: owner_keeps_pending)+
  have P': "sub (sub bound ''pending_dispatches'') token = ?P'" and other: "\<And>t. t \<noteq> ''pending_dispatches'' \<Longrightarrow> sub bound t = sub nxt t"
    using hk keep by (simp_all add: bound)
  have hb: "has_key bound ''pending_dispatches''" "has_key (sub bound ''pending_dispatches'') token"
    using hk keep by (simp_all add: bound)
  have idem: "put ?P' ''launch'' ?L = ?P'" "put ?P' ''provider_handle'' ?H = ?P'"
    by (cases "is_obj ?P") (simp_all add: put_again put_nonobj)
  have ids: "set_in bound ''pending_dispatches'' token ''launch'' ?L = bound"
    "set_in bound ''pending_dispatches'' token ''provider_handle'' ?H = bound"
    using idem by (intro set_in_id hb; simp add: P')+
  have "(if sub ?P' ''role'' = JStr ''worker'' then owner_running bound token ?P' ?H else owner_current bound token ?P') = Inr bound"
  proof (cases "sub ?P ''role'' = JStr ''worker''")
    case True
    with own have o: "owner_running current token ?P ?H = Inr nxt" by simp
    have "owner_running bound token ?P' ?H = Inr bound"
      using owner_keeps_pending(1) [OF o] by (intro owner_running_again [OF o w(2)]) (simp_all add: other, simp add: bound)
    with True show ?thesis by simp
  next
    case False
    with own have o: "owner_current current token ?P = Inr nxt" by simp
    have "owner_current bound token ?P' = Inr bound" by (rule owner_current_again [OF o]) (simp_all add: other)
    with False show ?thesis by simp
  qed
  moreover have "?P' \<noteq> JNull" using p(1) by (cases ?P) (simp_all add: put_def)
  moreover have "unset_or (sub ?P' ''launch'') ?L" "unset_or (sub ?P' ''provider_handle'') ?H"
    using w by (cases "is_obj ?P", simp, simp add: put_nonobj sub_nonobj unset_or_def)+
  ultimately show ?thesis
    unfolding bind_matching_handle_def Let_def P' using p(2) by (simp add: ids)
qed

text \<open>C4. A result is accepted at most once: when a result is accepted, its attempt was in the ledger and
  is not in the valid state that the store then holds; when it is not, the attempt was not in the
  ledger and neither the state nor an artifact has changed, so a late or repeated result of an attempt
  that is closed has no effect.\<close>

theorem accept_result_once:
  assumes "accept_current_result token arts accept d = (Inr accepted, d')"
  shows "\<exists>current. load d = Inr current \<and> accepted = has_key (sub current ''pending_dispatches'') token
    \<and> (if accepted then \<exists>s. stored_state d' s \<and> valid s \<and> \<not> has_key (sub s ''pending_dispatches'') token
       else rd_state d' = rd_state d \<and> rd_files d' = rd_files d)"
proof -
  from assms obtain current where l: "load d = Inr current" by (auto simp: accept_current_result_def sbnd_Inr)
  show ?thesis
  proof (cases "has_key (sub current ''pending_dispatches'') token")
    case False
    with assms l show ?thesis
      by (auto simp: accept_current_result_def sbnd_Inr append_log_def append_complete_record_def)
  next
    case True
    with assms l obtain n s where t: "transact n arts (close_entry token accept) d = (Inr s, d')" and acc: "accepted"
      by (auto simp: accept_current_result_def sbnd_Inr)
    show ?thesis
    proof (rule transact_committed [OF t])
      fix current' view refs updated
      assume m: "close_entry token accept view refs = Inr updated"
        and s: "s = put updated ''revision'' (JInt (n + 1))" "valid s" "is_obj updated" "stored_state d' s"
      from m obtain left where u: "updated = upd left ''pending_dispatches'' (\<lambda>q. del q token)"
        by (auto simp: close_entry_def bnd_eq_Inr Let_def split: prod.splits)
      have "is_obj left" using s(3) by (simp add: u upd_def)
      then have "sub s ''pending_dispatches'' = del (sub left ''pending_dispatches'') token"
        by (simp add: s(1) u upd_def)
      then have "\<not> has_key (sub s ''pending_dispatches'') token" by (simp add: has_key_def jget_del)
      with s acc l True show ?thesis by auto
    qed
  qed
qed

lemma transfer_keeps_pending: "transfer_owner before h i state = Inr moved \<Longrightarrow>
    sub moved ''pending_dispatches'' = sub state ''pending_dispatches'' \<and> (has_key state k \<longrightarrow> has_key moved k)"
  by (auto simp: transfer_owner_def bnd_eq_Inr Let_def split: if_splits option.splits)

text \<open>A retry hands the attempt over: the entry of the failed process is removed, the entry of the new
  token lists all earlier process attempts of the old entry and then the summary of the failed one, and no
  other entry of the ledger changes.\<close>

theorem rotate_hands_over:
  assumes "rotate_dispatch before h i state refs = Inr rotated" and "in_attempt_token i \<noteq> in_attempt_token before"
  shows "(\<exists>summary. map_of refs (provider_prefix before @ ''/provider-attempt.json'') = Some summary
      \<and> sub (sub (sub rotated ''pending_dispatches'') (in_attempt_token i)) ''provider_attempts''
        = JList (elems (sub (sub (sub state ''pending_dispatches'') (in_attempt_token before)) ''provider_attempts'')
            @ [artifact_as_dict summary]))
    \<and> \<not> has_key (sub rotated ''pending_dispatches'') (in_attempt_token before)
    \<and> \<not> has_key (sub state ''pending_dispatches'') (in_attempt_token i)
    \<and> (\<forall>token. token \<noteq> in_attempt_token i \<and> token \<noteq> in_attempt_token before \<longrightarrow>
         sub (sub rotated ''pending_dispatches'') token = sub (sub state ''pending_dispatches'') token)"
proof -
  let ?old = "sub (sub state ''pending_dispatches'') (in_attempt_token before)"
  let ?new = "in_attempt_token i" and ?gone = "in_attempt_token before"
  have "\<exists>moved closed added r1 r2 r3 r4 summary. ?old \<noteq> JNull \<and> transfer_owner before h i state = Inr moved
      \<and> map_of refs (provider_prefix before @ ''/provider-attempt.json'') = Some summary
      \<and> closed = upd moved ''pending_dispatches'' (\<lambda>pending. del pending ?gone)
      \<and> add_pending_dispatch closed i r1 r2 r3 r4 = Inr added
      \<and> rotated = set_in added ''pending_dispatches'' ?new ''provider_attempts''
            (JList (elems (sub ?old ''provider_attempts'') @ [artifact_as_dict summary]))"
    using assms(1) unfolding rotate_dispatch_def held_by_def Let_def
  proof (elim bnd_InrE)
    fix old moved r1 r2 r3 r4 added summary u
    assume h: "chk_state (\<not> (?old = JNull \<or> \<not> py_eq (sub ?old ''provider_handle'') (handle_state_dict h))) = Inr u"
        "Inr ?old = Inr old" "transfer_owner before h i state = Inr moved"
      and add: "add_pending_dispatch (upd moved ''pending_dispatches'' (\<lambda>pending. del pending ?gone)) i r1 r2 r3 r4 = Inr added"
      and sm: "ref_at refs (provider_prefix before @ ''/provider-attempt.json'') = Inr summary"
      and out: "Inr (set_in added ''pending_dispatches'' ?new ''provider_attempts''
            (JList (elems (sub old ''provider_attempts'') @ [artifact_as_dict summary]))) = Inr rotated"
    have "map_of refs (provider_prefix before @ ''/provider-attempt.json'') = Some summary"
      using sm by (simp add: ref_at_def split: option.splits)
    moreover have "?old \<noteq> JNull" using h(1) by simp
    moreover have "old = ?old" using h(2) by simp
    ultimately show ?thesis using h(3) add out
      by - (rule exI [where x = moved], rule exI [where x = "upd moved ''pending_dispatches'' (\<lambda>pending. del pending ?gone)"],
          rule exI [where x = added], rule exI [where x = r1], rule exI [where x = r2], rule exI [where x = r3],
          rule exI [where x = r4], rule exI [where x = summary], simp)
  qed
  then obtain moved closed added r1 r2 r3 r4 summary where old: "?old \<noteq> JNull"
    and mv: "transfer_owner before h i state = Inr moved"
    and sm: "map_of refs (provider_prefix before @ ''/provider-attempt.json'') = Some summary"
    and closed: "closed = upd moved ''pending_dispatches'' (\<lambda>pending. del pending ?gone)"
    and add: "add_pending_dispatch closed i r1 r2 r3 r4 = Inr added"
    and rot: "rotated = set_in added ''pending_dispatches'' ?new ''provider_attempts''
            (JList (elems (sub ?old ''provider_attempts'') @ [artifact_as_dict summary]))"
    by blast
  have hk: "has_key (sub state ''pending_dispatches'') ?gone" using old by (rule sub_not_JNull)
  have hs: "has_key state ''pending_dispatches''" by (rule sub_not_JNull) (use has_key_obj [OF hk] in auto)
  let ?led = "del (sub state ''pending_dispatches'') ?gone"
  have led: "sub closed ''pending_dispatches'' = ?led" "is_obj ?led" "is_obj closed"
    using transfer_keeps_pending [OF mv, of "''pending_dispatches''"] hs has_key_obj [OF hk]
      has_key_obj [of moved "''pending_dispatches''"] by (auto simp: closed upd_def)
  have fresh: "\<not> has_key ?led ?new"
    and added: "added = upd closed ''pending_dispatches'' (\<lambda>q. put q ?new (pending_entry closed i r1 r2 r3 r4))"
    using add by (auto simp: add_pending_dispatch_def led(1) bnd_eq_Inr)
  have after: "sub rotated ''pending_dispatches'' = put (put ?led ?new (pending_entry closed i r1 r2 r3 r4)) ?new
      (put (pending_entry closed i r1 r2 r3 r4) ''provider_attempts''
        (JList (elems (sub ?old ''provider_attempts'') @ [artifact_as_dict summary])))"
    using led by (simp add: rot added set_in_def upd_def)
  have "is_obj (pending_entry closed i r1 r2 r3 r4)" by (simp add: pending_entry_def)
  with sm fresh assms(2) led(2) show ?thesis
    unfolding after by (auto simp: has_key_def jget_del sub_del)
qed

end
