(* ===== verification/Runners.thy ===== *)
theory Runners
  imports Dispatch Roles Prompts GoalGate
begin

text \<open>
  \<^verbatim>\<open>runners/planner.py\<close>, \<^verbatim>\<open>runners/worker.py\<close> and \<^verbatim>\<open>runners/evaluator.py\<close>: how the invocation of a
  role is prepared, started under a read-only audit, and finished.

  The provider is a parameter: the methods of \<^verbatim>\<open>ProviderAdapter\<close>.  What a controller process keeps
  in memory, the invocations and the audits, is the state \<open>session\<close> beside the world.
\<close>

section \<open>The provider and the session\<close>

record 'g provider =
  pv_identity :: execution_identity
  pv_start :: "provider_request \<Rightarrow> ('g world, provider_handle) eff"
  pv_poll :: "provider_handle \<Rightarrow> ('g world, provider_status) eff"
  pv_stop :: "provider_handle \<Rightarrow> ('g world, stop_result) eff"
  pv_completion :: "provider_handle \<Rightarrow> ('g world, provider_completion) eff"
  pv_result :: "provider_handle \<Rightarrow> ('g world, provider_result) eff"

text \<open>The dependencies of a controller, which do not change: \<open>dp_hook\<close> is \<^verbatim>\<open>fault_hook\<close>, \<open>dp_sleep\<close> is
  \<^verbatim>\<open>sleep\<close>, \<open>dp_error_text\<close> the text of an exception.  \<open>dp_target\<close> is a resolved path, \<open>dp_run_root\<close>
  the directory of the store.\<close>

record 'g deps =
  dp_target :: string
  dp_run_root :: string
  dp_config :: frozen_run_config
  dp_config_sha256 :: string
  dp_host :: "'g host"
  dp_machine :: "'g machine"
  dp_depth :: nat
  dp_provider :: "'g provider"
  dp_registry :: prompt_registry
  dp_hook :: "string \<Rightarrow> ('g world, unit) eff"
  dp_sleep :: "('g world, unit) eff"
  dp_error_text :: "error \<Rightarrow> string"

text \<open>\<open>ss_stop\<close> is the file \<^verbatim>\<open>control/stop.request\<close>; \<open>ss_audits\<close> holds the tables \<^verbatim>\<open>_audits\<close> of the planner
  and of the evaluator, by role and token; \<open>ss_meta\<close> is \<^verbatim>\<open>_evaluation_meta\<close>.\<close>

record 'g session =
  ss_world :: "'g world"
  ss_stop :: "string option"
  ss_invocations :: "(string, role_invocation) dict"
  ss_audits :: "(string \<times> string, json \<times> role_invocation) dict"
  ss_meta :: "(string, int \<times> int) dict"

definition on_world :: "('g world, 'a) eff \<Rightarrow> ('g session, 'a) eff" where
  "on_world m = (\<lambda>s. case m (ss_world s) of (r, w) \<Rightarrow> (r, s\<lparr>ss_world := w\<rparr>))"

section \<open>Preparing an invocation\<close>

text \<open>\<^verbatim>\<open>_relative_worktree\<close>; the resolution is strict.\<close>

definition relative_worktree :: "'g host \<Rightarrow> string \<Rightarrow> 'g \<Rightarrow> string \<Rightarrow> string result" where
  "relative_worktree h target_root g worktree =
     (if \<not> h_exists h g worktree then Inl OSError
      else let resolved = h_resolve h g worktree in
        bnd (chk (path_below resolved target_root)) (\<lambda>_.
        relative_path (case relative_parts resolved target_root of
            [] \<Rightarrow> ''.'' | parts \<Rightarrow> join_with (CHR ''/'') parts)))"

definition command_summaries :: "frozen_run_config \<Rightarrow> json" where
  "command_summaries config =
     JList (map (\<lambda>c. JObj [(''id'', JStr (cs_id c)), (''purpose'', JStr (cs_purpose c))]) (command_catalog config))"

text \<open>The context of a read-only role: the keys of the caller, then the commands and the digest of the
  configuration.\<close>

definition enriched_context :: "'g deps \<Rightarrow> (string \<times> json) list \<Rightarrow> json" where
  "enriched_context c ctx =
     put (put (put (JObj ctx) ''authorized_command_ids'' (command_summaries (dp_config c)))
       ''required_command_ids'' (jstrs (required_command_ids (dp_config c))))
       ''config_sha256'' (JStr (dp_config_sha256 c))"

definition compose_read_only :: "string \<Rightarrow> 'g host \<Rightarrow> 'g \<Rightarrow> prompt_registry \<Rightarrow> json \<Rightarrow> rendered_prompt result" where
  "compose_read_only role h g registry ctx =
     (if role = ''planner'' then compose_planner h g registry ctx else compose_evaluator h g registry ctx)"

definition readonly_preflight :: "string \<Rightarrow> string \<Rightarrow> string \<Rightarrow> string \<Rightarrow> (string \<times> json) list \<Rightarrow> json" where
  "readonly_preflight role created_at expected_base worktree audit =
     JObj ([(''role'', JStr role), (''attempt_created_at'', JStr created_at),
       (''expected_base'', JStr expected_base), (''worktree'', JStr worktree)] @ audit)"

text \<open>\<^verbatim>\<open>prepare\<close> of the planner and of the evaluator, which differ in the role alone; the first attempt,
  no retry, the time limit of 900 seconds.\<close>

definition prepare_read_only ::
  "'g deps \<Rightarrow> string \<Rightarrow> string \<Rightarrow> string \<Rightarrow> int \<Rightarrow> string \<Rightarrow> string \<Rightarrow> string \<Rightarrow> (string \<times> json) list \<Rightarrow> string \<Rightarrow>
   'g \<Rightarrow> role_invocation result" where
  "prepare_read_only c role expected_base operation_id attempt_no created_at token worktree ctx artifact_prefix g =
     bnd (require_operation_id (JStr operation_id)) (\<lambda>_.
     bnd (relative_worktree (dp_host c) (dp_target c) g worktree) (\<lambda>relative.
     bnd (compose_read_only role (dp_host c) g (dp_registry c) (enriched_context c ctx)) (\<lambda>rendered.
     bnd (chk (attempt_no \<ge> 1)) (\<lambda>_.
     bnd (read_file (dp_host c) g (rp_schema_path rendered)) (\<lambda>schema_body.
     bnd (canonical_json_bytes (readonly_preflight role created_at expected_base relative [])) (\<lambda>preflight_body.
     Inr \<lparr>in_role = role, in_task_id = None, in_operation_id = operation_id, in_attempt_no = attempt_no,
       in_attempt_created_at = created_at, in_attempt_token = token, in_provider_retry_no = 0,
       in_expected_base = expected_base, in_branch = None, in_worktree = relative, in_target_root = dp_target c,
       in_run_root = dp_run_root c, in_prompt_body = rp_body rendered, in_prompt_versions = rp_prompts rendered,
       in_schema_body = schema_body, in_preflight_body = preflight_body,
       in_authorized_command_ids = map cs_id (command_catalog (dp_config c)),
       in_required_command_ids = required_command_ids (dp_config c), in_config_sha256 = dp_config_sha256 c,
       in_codex_version = ei_codex_version (pv_identity (dp_provider c)),
       in_execution_policy_sha256 = ei_policy_sha256 (pv_identity (dp_provider c)), in_sandbox = ''read-only'',
       in_artifact_prefix = artifact_prefix, in_timeout_seconds = 900\<rparr>))))))"

definition prepare_planner ::
  "'g deps \<Rightarrow> string \<Rightarrow> string \<Rightarrow> int \<Rightarrow> string \<Rightarrow> string \<Rightarrow> string \<Rightarrow> (string \<times> json) list \<Rightarrow> string \<Rightarrow>
   'g \<Rightarrow> role_invocation result" where
  "prepare_planner c = prepare_read_only c ''planner''"

definition prepare_evaluator ::
  "'g deps \<Rightarrow> string \<Rightarrow> string \<Rightarrow> int \<Rightarrow> string \<Rightarrow> string \<Rightarrow> string \<Rightarrow> (string \<times> json) list \<Rightarrow> string \<Rightarrow>
   'g \<Rightarrow> role_invocation result" where
  "prepare_evaluator c = prepare_read_only c ''evaluator''"

definition contract_dict :: "task_contract \<Rightarrow> json" where
  "contract_dict t =
     JObj [(''id'', JStr (tc_id t)), (''objective'', JStr (tc_objective t)), (''worker_type'', JStr (tc_worker_type t)),
       (''covers'', jstrs (tc_covers t)), (''depends_on'', jstrs (tc_depends_on t)), (''path_scope'', jstrs (tc_path_scope t)),
       (''exclusive_resources'', jstrs (tc_exclusive_resources t)), (''acceptance_checks'', jstrs (tc_acceptance_checks t)),
       (''max_attempts'', JInt (tc_max_attempts t))]"

definition worker_context ::
  "'g deps \<Rightarrow> string \<Rightarrow> task_contract \<Rightarrow> string \<Rightarrow> int \<Rightarrow> string \<Rightarrow> string \<Rightarrow> string \<Rightarrow> string \<Rightarrow> json \<Rightarrow> json" where
  "worker_context c instructions task operation_id attempt_no token task_base_sha branch relative previous_failure =
     JObj [(''repository_instructions'', JStr instructions), (''task_contract'', contract_dict task),
       (''execution'', JObj [(''operation_id'', JStr operation_id), (''attempt_no'', JInt attempt_no),
          (''attempt_token'', JStr token), (''task_base_sha'', JStr task_base_sha), (''branch'', JStr branch),
          (''worktree'', JStr relative), (''authorized_command_ids'', jstrs (tc_acceptance_checks task)),
          (''config_sha256'', JStr (dp_config_sha256 c))]),
       (''previous_failure'', previous_failure)]"

definition worker_branch :: "string \<Rightarrow> string \<Rightarrow> int \<Rightarrow> string" where
  "worker_branch run_id task_id attempt_no = ''refs/heads/vibe/'' @ run_id @ ''/'' @ task_id @ ''-a'' @ int_text attempt_no"

definition prepare_worker ::
  "'g deps \<Rightarrow> string \<Rightarrow> task_contract \<Rightarrow> string \<Rightarrow> int \<Rightarrow> string \<Rightarrow> string \<Rightarrow> string \<Rightarrow> string \<Rightarrow> json \<Rightarrow> string \<Rightarrow>
   'g \<Rightarrow> role_invocation result" where
  "prepare_worker c run_id task operation_id attempt_no created_at token worktree task_base_sha previous_failure
       artifact_prefix g =
     bnd (require_operation_id (JStr operation_id)) (\<lambda>_.
     bnd (relative_worktree (dp_host c) (dp_target c) g worktree) (\<lambda>relative.
     bnd (collect_repository_instructions (dp_host c) g worktree (tc_path_scope task)) (\<lambda>instructions.
     let branch = worker_branch run_id (tc_id task) attempt_no in
     bnd (compose_worker (dp_host c) g (dp_registry c) (tc_worker_type task)
       (worker_context c instructions task operation_id attempt_no token task_base_sha branch relative previous_failure)) (\<lambda>rendered.
     bnd (chk (attempt_no \<ge> 1)) (\<lambda>_.
     bnd (read_file (dp_host c) g (rp_schema_path rendered)) (\<lambda>schema_body.
     bnd (canonical_json_bytes (JObj [(''role'', JStr ''worker''), (''task_id'', JStr (tc_id task)),
       (''operation_id'', JStr operation_id), (''attempt_no'', JInt attempt_no), (''attempt_created_at'', JStr created_at),
       (''task_base_sha'', JStr task_base_sha), (''branch'', JStr branch), (''worktree'', JStr relative)])) (\<lambda>preflight_body.
     Inr \<lparr>in_role = ''worker'', in_task_id = Some (tc_id task), in_operation_id = operation_id, in_attempt_no = attempt_no,
       in_attempt_created_at = created_at, in_attempt_token = token, in_provider_retry_no = 0,
       in_expected_base = task_base_sha, in_branch = Some branch, in_worktree = relative, in_target_root = dp_target c,
       in_run_root = dp_run_root c, in_prompt_body = rp_body rendered, in_prompt_versions = rp_prompts rendered,
       in_schema_body = schema_body, in_preflight_body = preflight_body,
       in_authorized_command_ids = tc_acceptance_checks task,
       in_required_command_ids =
         filter (\<lambda>i. i \<in> set (tc_acceptance_checks task)) (required_command_ids (dp_config c)),
       in_config_sha256 = dp_config_sha256 c, in_codex_version = ei_codex_version (pv_identity (dp_provider c)),
       in_execution_policy_sha256 = ei_policy_sha256 (pv_identity (dp_provider c)), in_sandbox = ''workspace-write'',
       in_artifact_prefix = artifact_prefix, in_timeout_seconds = 1800\<rparr>)))))))"

section \<open>Starting and finishing a read-only role\<close>

definition worktree_of :: "role_invocation \<Rightarrow> string" where
  "worktree_of i = under_root (in_target_root i) (posix_parts (in_worktree i))"

definition dispatch_role :: "'g deps \<Rightarrow> role_invocation \<Rightarrow> ('g session, provider_handle) eff" where
  "dispatch_role c i = on_world (dispatch (dp_hook c) (pv_start (dp_provider c)) i)"

definition bind_completion_of :: "'g deps \<Rightarrow> role_invocation \<Rightarrow> provider_handle \<Rightarrow> ('g session, json) eff" where
  "bind_completion_of c i h = on_world (bind_completion (pv_completion (dp_provider c)) i h)"

definition remember_audit :: "json \<Rightarrow> role_invocation \<Rightarrow> ('g session, unit) eff" where
  "remember_audit before audited = (\<lambda>s. (Inr (), s\<lparr>ss_audits :=
     AList.update (in_role audited, in_attempt_token audited) (before, audited) (ss_audits s)\<rparr>))"

definition start_read_only :: "'g deps \<Rightarrow> role_invocation \<Rightarrow> ('g session, provider_handle) eff" where
  "start_read_only c i =
     sbnd (on_world (on_host (capture_read_only_audit (dp_depth c) (dp_host c) (worktree_of i)))) (\<lambda>before.
     sbnd (slift (canonical_json_bytes (readonly_preflight (in_role i) (in_attempt_created_at i) (in_expected_base i)
       (in_worktree i) [(''audit'', before)]))) (\<lambda>preflight_body.
     let audited = i\<lparr>in_preflight_body := preflight_body\<rparr> in
     sbnd (remember_audit before audited) (\<lambda>_. dispatch_role c audited)))"

text \<open>\<^verbatim>\<open>start\<close> of the two runners, the same code; the role is that of the invocation.\<close>

definition start_planner :: "'g deps \<Rightarrow> role_invocation \<Rightarrow> ('g session, provider_handle) eff" where
  "start_planner c = start_read_only c"

definition start_evaluation :: "'g deps \<Rightarrow> role_invocation \<Rightarrow> ('g session, provider_handle) eff" where
  "start_evaluation c = start_read_only c"

text \<open>The result is parsed only if the worktree still is what the audit saw; without a remembered audit
  (another process started the role) nothing is compared.\<close>

definition audited_result :: "'g deps \<Rightarrow> role_invocation \<Rightarrow> provider_handle \<Rightarrow> ('g session, string) eff" where
  "audited_result c i h =
     sbnd (sget (\<lambda>s. Inr (map_of (ss_audits s) (in_role i, in_attempt_token i)))) (\<lambda>known.
     let audited = (case known of None \<Rightarrow> i | Some (_, a) \<Rightarrow> a) in
     sbnd (bind_completion_of c audited h) (\<lambda>_.
     sbnd (case known of
         None \<Rightarrow> slift (Inr ())
       | Some (before, _) \<Rightarrow>
           if truthy before then
             sbnd (on_world (on_host (capture_read_only_audit (dp_depth c) (dp_host c) (worktree_of audited)))) (\<lambda>after.
             slift (assert_unchanged before after))
           else slift (Inr ())) (\<lambda>_.
     sbnd (on_world (pv_result (dp_provider c) h)) (\<lambda>r. slift (Inr (px_body r))))))"

definition planner_result ::
  "'g deps \<Rightarrow> plan_document list \<Rightarrow> role_invocation \<Rightarrow> provider_handle \<Rightarrow> ('g session, plan_document) eff" where
  "planner_result c prior_plans i h =
     sbnd (audited_result c i h) (\<lambda>body. slift (parse_plan (dp_config c) prior_plans body))"

definition evaluator_result ::
  "'g deps \<Rightarrow> role_invocation \<Rightarrow> provider_handle \<Rightarrow> ('g session, evaluation_result) eff" where
  "evaluator_result c i h =
     sbnd (audited_result c i h) (\<lambda>body. slift (parse_evaluation (dp_config c) None None body))"

definition assignment_of :: "role_invocation \<Rightarrow> assignment" where
  "assignment_of i =
     \<lparr>as_task_id = in_task_id i, as_attempt_no = in_attempt_no i, as_attempt_token = in_attempt_token i,
      as_expected_base = in_expected_base i, as_authorized_command_ids = in_authorized_command_ids i\<rparr>"

end
