(* ===== verification/Plans.thy ===== *)
theory Plans
  imports Roles GoalGate StateStore "HOL-Library.Product_Lexorder"
begin

text \<open>
  The readers of \<^verbatim>\<open>controller.py\<close>: plans stored as artifacts, the catalog of evidence that an
  evaluation may cite, and the envelope that is stored for an evaluation.
\<close>

section \<open>Plans as artifacts\<close>

definition criterion_to_dict :: "acceptance_criterion \<Rightarrow> json" where
  "criterion_to_dict a = JObj [(''id'', JStr (ac_id a)), (''description'', JStr (ac_description a))]"

definition task_to_dict :: "task_contract \<Rightarrow> json" where
  "task_to_dict t =
     JObj [(''id'', JStr (tc_id t)), (''objective'', JStr (tc_objective t)), (''worker_type'', JStr (tc_worker_type t)),
       (''covers'', jstrs (tc_covers t)), (''depends_on'', jstrs (tc_depends_on t)), (''path_scope'', jstrs (tc_path_scope t)),
       (''exclusive_resources'', jstrs (tc_exclusive_resources t)), (''acceptance_checks'', jstrs (tc_acceptance_checks t)),
       (''max_attempts'', JInt (tc_max_attempts t))]"

definition plan_to_dict :: "plan_document \<Rightarrow> json" where
  "plan_to_dict p =
     JObj [(''schema_version'', JInt (pd_schema_version p)), (''plan_version'', JInt (pd_plan_version p)),
       (''summary'', JStr (pd_summary p)), (''acceptance_criteria'', JList (map criterion_to_dict (pd_acceptance_criteria p))),
       (''global_verification'', jstrs (pd_global_verification p)), (''tasks'', JList (map task_to_dict (pd_tasks p)))]"

text \<open>A missing key raises; the fields of a stored plan have the types that \<open>plan_to_dict\<close> gave them.\<close>

definition text_item :: "json \<Rightarrow> string \<Rightarrow> string result" where
  "text_item v k = bnd (item v k) (\<lambda>x. Inr (str_of x))"

definition texts_item :: "json \<Rightarrow> string \<Rightarrow> string list result" where
  "texts_item v k = bnd (item v k) (\<lambda>x. Inr (map str_of (elems x)))"

definition int_item :: "json \<Rightarrow> string \<Rightarrow> int result" where
  "int_item v k = bnd (item v k) (\<lambda>x. Inr (int_of x))"

definition criterion_from_dict :: "json \<Rightarrow> acceptance_criterion result" where
  "criterion_from_dict v =
     bnd (text_item v ''id'') (\<lambda>i. bnd (text_item v ''description'') (\<lambda>d. Inr \<lparr>ac_id = i, ac_description = d\<rparr>))"

definition task_from_dict :: "json \<Rightarrow> task_contract result" where
  "task_from_dict v =
     bnd (text_item v ''id'') (\<lambda>id.
     bnd (text_item v ''objective'') (\<lambda>objective.
     bnd (text_item v ''worker_type'') (\<lambda>worker_type.
     bnd (texts_item v ''covers'') (\<lambda>covers.
     bnd (texts_item v ''depends_on'') (\<lambda>depends_on.
     bnd (texts_item v ''path_scope'') (\<lambda>path_scope.
     bnd (texts_item v ''exclusive_resources'') (\<lambda>resources.
     bnd (texts_item v ''acceptance_checks'') (\<lambda>checks.
     bnd (int_item v ''max_attempts'') (\<lambda>maximum.
     Inr \<lparr>tc_id = id, tc_objective = objective, tc_worker_type = worker_type, tc_covers = covers,
       tc_depends_on = depends_on, tc_path_scope = path_scope, tc_exclusive_resources = resources,
       tc_acceptance_checks = checks, tc_max_attempts = maximum\<rparr>)))))))))"

definition plan_from_dict :: "json \<Rightarrow> plan_document result" where
  "plan_from_dict v =
     bnd (int_item v ''schema_version'') (\<lambda>schema_version.
     bnd (int_item v ''plan_version'') (\<lambda>plan_version.
     bnd (text_item v ''summary'') (\<lambda>summary.
     bnd (item v ''acceptance_criteria'') (\<lambda>raw_criteria.
     bnd (mapr criterion_from_dict (elems raw_criteria)) (\<lambda>criteria.
     bnd (texts_item v ''global_verification'') (\<lambda>verification.
     bnd (item v ''tasks'') (\<lambda>raw_tasks.
     bnd (mapr task_from_dict (elems raw_tasks)) (\<lambda>tasks.
     Inr \<lparr>pd_schema_version = schema_version, pd_plan_version = plan_version, pd_summary = summary,
       pd_acceptance_criteria = criteria, pd_global_verification = verification, pd_tasks = tasks\<rparr>))))))))"

definition ref_of_dict :: "json \<Rightarrow> artifact_ref" where
  "ref_of_dict v = \<lparr>ar_path = str_of (sub v ''path''), ar_sha256 = str_of (sub v ''sha256'')\<rparr>"

text \<open>\<^verbatim>\<open>_read_ref\<close>: the artifact of a reference, which must have the recorded digest.\<close>

definition read_ref :: "run_dir \<Rightarrow> artifact_ref \<Rightarrow> string result" where
  "read_ref d reference =
     bnd (read_regular (map_of (rd_files d) (join_with (CHR ''/'') (posix_parts (ar_path reference)))) MAX_ARTIFACT_BYTES) (\<lambda>body.
     bnd (chk (digest_of body = ar_sha256 reference)) (\<lambda>_. Inr body))"

definition read_json_ref :: "run_dir \<Rightarrow> json \<Rightarrow> json result" where
  "read_json_ref d reference = bnd (read_ref d (ref_of_dict reference)) parse_json_object_bytes"

definition load_plans :: "run_dir \<Rightarrow> json \<Rightarrow> plan_document list result" where
  "load_plans d state = mapr (\<lambda>reference. bnd (read_json_ref d reference) plan_from_dict) (elems (sub state ''plans''))"

text \<open>\<^verbatim>\<open>self._load_plans(state)[0].acceptance_criteria\<close>\<close>

definition first_criteria :: "run_dir \<Rightarrow> json \<Rightarrow> acceptance_criterion list result" where
  "first_criteria d state =
     bnd (load_plans d state) (\<lambda>plans. case plans of [] \<Rightarrow> Inl IndexError | p # _ \<Rightarrow> Inr (pd_acceptance_criteria p))"

definition task_contracts :: "run_dir \<Rightarrow> json \<Rightarrow> (string, task_contract) dict result" where
  "task_contracts d state =
     bnd (load_plans d state) (\<lambda>plans.
     Inr (foldl (\<lambda>contracts t. AList.update (tc_id t) t contracts) [] (concat (map pd_tasks plans))))"

section \<open>The evidence that an evaluation may cite\<close>

definition catalog_entry :: "string \<Rightarrow> json \<Rightarrow> json \<Rightarrow> json \<Rightarrow> json \<Rightarrow> json \<Rightarrow> json \<Rightarrow> json" where
  "catalog_entry kind reference commit command_id task_id attempt_no criteria =
     JObj [(''kind'', JStr kind), (''verification'', reference), (''integration_head'', commit),
       (''command_id'', command_id), (''task_id'', task_id), (''attempt_no'', attempt_no), (''criterion_ids'', criteria)]"

definition integration_head :: "json \<Rightarrow> json" where
  "integration_head state = sub (sub state ''repository'') ''integration_head''"

text \<open>The command ids of a verification manifest, if it verified the integration head.\<close>

definition head_commands :: "run_dir \<Rightarrow> json \<Rightarrow> json \<Rightarrow> json list result" where
  "head_commands d state reference =
     bnd (read_json_ref d reference) (\<lambda>manifest.
     bnd (item manifest ''commit_sha'') (\<lambda>commit.
     if \<not> py_eq commit (integration_head state) then Inr []
     else bnd (item manifest ''commands'') (\<lambda>commands. mapr (\<lambda>command. item command ''command_id'') (elems commands))))"

definition commit_of :: "run_dir \<Rightarrow> json \<Rightarrow> json result" where
  "commit_of d reference = bnd (read_json_ref d reference) (\<lambda>manifest. item manifest ''commit_sha'')"

text \<open>The entries of one manifest; \<open>name\<close> gives the evidence id of a command.\<close>

definition add_commands ::
  "run_dir \<Rightarrow> json \<Rightarrow> (json \<Rightarrow> bool) \<Rightarrow> (json \<Rightarrow> string) \<Rightarrow> string \<Rightarrow> json \<Rightarrow> json \<Rightarrow> json \<Rightarrow> json \<Rightarrow> json \<Rightarrow> json result" where
  "add_commands d state wanted name kind task_id attempt_no criteria catalog reference =
     bnd (head_commands d state reference) (\<lambda>commands.
     bnd (commit_of d reference) (\<lambda>commit.
     Inr (foldl (\<lambda>cat command. put cat (name command)
            (catalog_entry kind reference commit command task_id attempt_no criteria)) catalog (filter wanted commands))))"

definition global_evidence :: "run_dir \<Rightarrow> json \<Rightarrow> json \<Rightarrow> json \<Rightarrow> json result" where
  "global_evidence d state criteria catalog =
     (let global_value = sub state ''global_verification'' in
      if \<not> is_obj global_value then Inr catalog
      else bnd (item global_value ''verification'') (\<lambda>reference.
        add_commands d state (\<lambda>_. True) (\<lambda>command. ''global:'' @ str_of command) ''global'' JNull JNull criteria catalog reference))"

definition task_evidence ::
  "run_dir \<Rightarrow> json \<Rightarrow> (string, task_contract) dict \<Rightarrow> json \<Rightarrow> string \<times> json \<Rightarrow> json result" where
  "task_evidence d state contracts catalog entry =
     (let task_id = fst entry; task = snd entry; reference = sub task ''verification'' in
      if reference = JNull then Inr catalog
      else bnd (head_commands d state reference) (\<lambda>commands.
        if commands = [] then Inr catalog
        else bnd (case map_of contracts task_id of None \<Rightarrow> Inl KeyError | Some t \<Rightarrow> Inr (jstrs (tc_covers t))) (\<lambda>covers.
          add_commands d state (\<lambda>_. True) (\<lambda>command. ''task:'' @ task_id @ '':'' @ str_of command) ''task''
            (JStr task_id) (sub task ''attempt_no'') covers catalog reference)))"

text \<open>The commands that the last evaluation asked for, for the criteria that it left open.\<close>

definition supplemental_evidence :: "run_dir \<Rightarrow> json \<Rightarrow> json \<Rightarrow> json result" where
  "supplemental_evidence d state catalog =
     (let latest = sub state ''latest_evaluation'' in
      if \<not> (is_obj latest \<and> sub latest ''verdict'' = JStr ''UNVERIFIED''
            \<and> py_eq (sub latest ''integration_head'') (integration_head state)) then Inr catalog
      else bnd (chk (is_obj (sub latest ''evaluation''))) (\<lambda>_.
        bnd (read_json_ref d (sub latest ''evaluation'')) (\<lambda>envelope.
        bnd (item envelope ''evidence_requests'') (\<lambda>requests.
        bnd (item envelope ''criteria'') (\<lambda>raw.
        let requested = elems requests;
            permitted = JList (map (\<lambda>c. sub c ''id'') (filter (\<lambda>c. sub c ''verdict'' = JStr ''UNVERIFIED'') (elems raw))) in
        foldr_r (add_commands d state (\<lambda>command. py_in command requested) (\<lambda>command. ''supplemental:'' @ str_of command)
            ''supplemental'' JNull JNull permitted) catalog
          (filter (\<lambda>r. startswith (str_of (sub r ''path'')) ''verification/supplemental/'') (elems (sub state ''verifications''))))))))"

definition evidence_catalog :: "run_dir \<Rightarrow> json \<Rightarrow> json result" where
  "evidence_catalog d state =
     bnd (first_criteria d state) (\<lambda>criteria.
     bnd (global_evidence d state (jstrs (map ac_id criteria)) (JObj [])) (\<lambda>catalog1.
     bnd (task_contracts d state) (\<lambda>contracts.
     bnd (foldr_r (task_evidence d state contracts) catalog1 (items (sub state ''tasks''))) (\<lambda>catalog2.
     supplemental_evidence d state catalog2))))"

definition evidence_authorized :: "json \<Rightarrow> evaluation_criterion \<Rightarrow> string \<Rightarrow> bool" where
  "evidence_authorized catalog criterion evidence_id =
     (let evidence = sub catalog evidence_id in
      is_obj evidence \<and> py_in (JStr (ec_id criterion)) (elems (sub evidence ''criterion_ids'')))"

definition validate_evaluation_evidence :: "evaluation_result \<Rightarrow> json \<Rightarrow> unit result" where
  "validate_evaluation_evidence r catalog =
     (if er_verdict r \<noteq> PASS then Inr ()
      else forr (\<lambda>criterion. forr (\<lambda>e. chk (evidence_authorized catalog criterion e)) (ec_evidence_ids criterion)) (er_criteria r))"

section \<open>The envelope of an evaluation\<close>

definition refs_digest :: "json list \<Rightarrow> string result" where
  "refs_digest refs =
     bnd (canonical_json_bytes (JList
       (sort_key (\<lambda>r. (str_of (sub r ''path''), str_of (sub r ''sha256''))) refs))) (\<lambda>body. Inr (digest_of body))"

definition role_prompts :: "run_dir \<Rightarrow> json \<Rightarrow> json result" where
  "role_prompts d reference =
     bnd (read_json_ref d reference) (\<lambda>manifest.
     bnd (item manifest ''operation_id'') (\<lambda>operation_id.
     bnd (item manifest ''attempt_no'') (\<lambda>attempt_no.
     bnd (item manifest ''prompt_versions'') (\<lambda>prompts.
     Inr (JObj [(''operation_id'', operation_id), (''attempt_no'', attempt_no), (''prompts'', prompts)])))))"

definition task_prompts :: "run_dir \<Rightarrow> json \<Rightarrow> json result" where
  "task_prompts d reference =
     bnd (read_json_ref d reference) (\<lambda>manifest.
     bnd (item manifest ''attempt_no'') (\<lambda>attempt_no.
     bnd (item manifest ''prompt_versions'') (\<lambda>prompts.
     Inr (JObj [(''attempt_no'', attempt_no), (''prompts'', prompts)]))))"

definition prompt_versions :: "run_dir \<Rightarrow> json \<Rightarrow> json result" where
  "prompt_versions d state =
     (let attempts = sub state ''role_attempts'' in
      bnd (mapr (role_prompts d) (elems (sub attempts ''planner''))) (\<lambda>planner.
      bnd (mapr (role_prompts d) (elems (sub attempts ''evaluator''))) (\<lambda>evaluator.
      bnd (mapr (\<lambda>(task_id, task).
             bnd (mapr (task_prompts d) (elems (sub task ''attempts''))) (\<lambda>vs. Inr (task_id, JList vs)))
           (items (sub state ''tasks''))) (\<lambda>worker.
      Inr (JObj [(''planner'', JList planner), (''worker'', JObj worker), (''evaluator'', JList evaluator)])))))"

definition finding_dict :: "evaluation_finding \<Rightarrow> json" where
  "finding_dict f =
     JObj [(''criterion_id'', JStr (ef_criterion_id f)), (''severity'', JStr (ef_severity f)), (''evidence'', JStr (ef_evidence f)),
       (''affected_paths'', jstrs (ef_affected_paths f)), (''repair_hint'', JStr (ef_repair_hint f))]"

definition evaluation_envelope ::
  "json \<Rightarrow> json \<Rightarrow> json \<Rightarrow> artifact_ref \<Rightarrow> evaluation_result \<Rightarrow> string \<Rightarrow> string \<Rightarrow> string \<Rightarrow> json \<Rightarrow> json \<Rightarrow> json" where
  "evaluation_envelope state evaluation_round evidence_round raw_ref r plan_digest task_digest verification_digest prompts catalog =
     JObj [(''schema_version'', JInt 1), (''run_id'', sub state ''run_id''), (''evaluation_round'', evaluation_round),
       (''evidence_round'', evidence_round), (''integration_head'', integration_head state),
       (''goal_sha256'', JStr (digest_of (str_of (sub state ''goal'')))), (''plan_manifest_sha256'', JStr plan_digest),
       (''task_result_manifest_sha256'', JStr task_digest), (''verification_manifest_sha256'', JStr verification_digest),
       (''prompt_versions'', prompts), (''evidence_catalog'', catalog), (''raw_result_sha256'', JStr (ar_sha256 raw_ref)),
       (''verdict'', JStr (verdict_value (er_verdict r))),
       (''criteria'', JList (map (\<lambda>c. JObj [(''id'', JStr (ec_id c)), (''verdict'', JStr (ec_verdict c)),
          (''evidence_ids'', jstrs (ec_evidence_ids c))]) (er_criteria r))),
       (''findings'', JList (map finding_dict (er_findings r))), (''evidence_requests'', jstrs (er_evidence_requests r)),
       (''residual_risks'', jstrs (er_residual_risks r))]"

section \<open>A stored plan reads back\<close>

lemma item_canon:
  assumes "wf_json v" shows "item (canon v) k = (case item v k of Inl e \<Rightarrow> Inl e | Inr w \<Rightarrow> Inr (canon w))"
proof (cases v)
  case (JObj d)
  from assms JObj have d: "distinct (keys_of d)" by simp
  then have "map_of (sort_key fst (canon_dict d)) = map_of (canon_dict d)"
    using distinct_keys_canon [of d]
    by (subst map_of_inject_set) (auto simp: keys_of_def canon_dict_map comp_def)
  moreover have "map_of (canon_dict d) k = map_option canon (map_of d k)"
    by (induction d) (auto simp: canon_dict_map)
  ultimately show ?thesis
    by (simp add: JObj item_def jget_def items_def split: option.splits)
qed (auto simp: item_def jget_def items_def split: option.splits)

lemma canon_values [simp]:
  "str_of (canon v) = str_of v" "int_of (canon v) = int_of v" "elems (canon v) = map canon (elems v)"
  by (cases v; simp add: str_of_def int_of_def elems_def canon_list_map)+

lemma canon_items:
  assumes "wf_json v"
  shows "text_item (canon v) k = text_item v k" "int_item (canon v) k = int_item v k" "texts_item (canon v) k = texts_item v k"
  by (auto simp: text_item_def int_item_def texts_item_def item_canon [OF assms] bnd_def split: sum.splits)

lemma mapr_id: "(\<And>x. x \<in> set xs \<Longrightarrow> f (g x) = Inr x) \<Longrightarrow> mapr f (map g xs) = Inr xs"
  by (induction xs) auto

lemma wf_dicts [simp]: "wf_json (criterion_to_dict a)" "wf_json (task_to_dict t)" "wf_json (plan_to_dict p)"
proof -
  have l: "wf_list vs \<longleftrightarrow> (\<forall>v\<in>set vs. wf_json v)" for vs by (induction vs) auto
  have j: "wf_json (jstrs xs)" for xs by (simp add: jstrs_def l)
  show "wf_json (criterion_to_dict a)" "wf_json (task_to_dict t)" by (simp_all add: criterion_to_dict_def task_to_dict_def j)
  then show "wf_json (plan_to_dict p)" by (auto simp: plan_to_dict_def j l criterion_to_dict_def task_to_dict_def)
qed

lemma item_simps [simp]:
  "item (JObj ((k, v) # d)) k' = (if k = k' then Inr v else item (JObj d) k')"
  by (simp add: item_def jget_def items_def)

lemma strs_back [simp]: "map str_of (elems (jstrs xs)) = xs"
  by (induction xs) (auto simp: jstrs_def elems_def str_of_def)

lemma elems_JList: "elems (JList xs) = xs"
  by (simp add: elems_def)

lemma criterion_back: "criterion_from_dict (canon (criterion_to_dict a)) = Inr a"
  unfolding criterion_from_dict_def canon_items [OF wf_dicts(1)]
  by (simp add: criterion_to_dict_def text_item_def str_of_def)

lemma task_back: "task_from_dict (canon (task_to_dict t)) = Inr t"
  unfolding task_from_dict_def canon_items [OF wf_dicts(2)]
  by (simp add: task_to_dict_def text_item_def texts_item_def int_item_def str_of_def int_of_def)

lemma plan_back: "plan_from_dict (canon (plan_to_dict p)) = Inr p"
  unfolding plan_from_dict_def canon_items [OF wf_dicts(3)] item_canon [OF wf_dicts(3)]
  by (simp add: plan_to_dict_def text_item_def texts_item_def int_item_def str_of_def int_of_def elems_JList
      canon_list_map mapr_id criterion_back task_back)

lemma no_floats_plan: "no_floats (plan_to_dict p)"
proof -
  have j: "no_floats (jstrs xs)" for xs by (auto simp: jstrs_def no_floats_list_iff)
  show ?thesis by (auto simp: plan_to_dict_def j no_floats_list_iff criterion_to_dict_def task_to_dict_def)
qed

text \<open>C36. The artifact that is stored for an accepted plan reads back as exactly that plan: its tasks,
  their order, scopes, dependencies and limits are what the scheduler and the workers get after a
  restart.\<close>

theorem stored_plan_reads_back:
  assumes "all_text utf8_valid (plan_to_dict p)" and "canonical_json_bytes (plan_to_dict p) = Inr body"
  shows "bnd (parse_json_object_bytes body) plan_from_dict = Inr p"
proof -
  have "is_obj (plan_to_dict p)" by (simp add: plan_to_dict_def is_obj_def)
  from canonical_bytes_parse [OF this wf_dicts(3) no_floats_plan assms(1)] assms(2)
  show ?thesis by (auto simp: plan_back)
qed

section \<open>The catalog holds evidence for the integration head only\<close>

text \<open>\<open>e\<close> is a command of a stored manifest that verified the integration head.\<close>

definition head_evidence :: "run_dir \<Rightarrow> json \<Rightarrow> json \<Rightarrow> bool" where
  "head_evidence d state e \<longleftrightarrow>
     (\<exists>manifest commands command. read_json_ref d (sub e ''verification'') = Inr manifest
        \<and> item manifest ''commit_sha'' = Inr (sub e ''integration_head'')
        \<and> py_eq (sub e ''integration_head'') (integration_head state)
        \<and> item manifest ''commands'' = Inr commands \<and> command \<in> set (elems commands)
        \<and> item command ''command_id'' = Inr (sub e ''command_id''))"

definition catalog_ok :: "run_dir \<Rightarrow> json \<Rightarrow> json \<Rightarrow> bool" where
  "catalog_ok d state catalog \<longleftrightarrow> is_obj catalog \<and> (\<forall>(k, e) \<in> set (items catalog). head_evidence d state e)"

lemma set_items_put: "is_obj v \<Longrightarrow> set (items (put v k w)) \<subseteq> insert (k, w) (set (items v))"
proof (cases v)
  case (JObj d)
  have "set (AList.update k w d) \<subseteq> insert (k, w) (set d)" by (induction d) auto
  with JObj show ?thesis by (simp add: put_def items_def)
qed auto

lemma mapr_member: "mapr f xs = Inr ys \<Longrightarrow> y \<in> set ys \<Longrightarrow> \<exists>x\<in>set xs. f x = Inr y"
  by (induction xs arbitrary: ys) (auto simp: bnd_eq_Inr)

lemma head_commands_entry:
  assumes "head_commands d state reference = Inr commands" "commit_of d reference = Inr commit" "command \<in> set commands"
  shows "head_evidence d state (catalog_entry kind reference commit command task_id attempt_no criteria)"
proof -
  from assms(1) obtain manifest c where m: "read_json_ref d reference = Inr manifest" "item manifest ''commit_sha'' = Inr c"
    and rest: "(if \<not> py_eq c (integration_head state) then Inr []
       else bnd (item manifest ''commands'') (\<lambda>commands. mapr (\<lambda>command. item command ''command_id'') (elems commands))) = Inr commands"
    unfolding head_commands_def by (auto simp: bnd_eq_Inr)
  from m assms(2) have c: "commit = c" by (simp add: commit_of_def)
  from rest assms(3) obtain cs where cs: "py_eq c (integration_head state)" "item manifest ''commands'' = Inr cs"
      "mapr (\<lambda>command. item command ''command_id'') (elems cs) = Inr commands"
    by (auto simp: bnd_eq_Inr split: if_splits)
  from mapr_member [OF cs(3) assms(3)] obtain x where "x \<in> set (elems cs)" "item x ''command_id'' = Inr command" by blast
  with m c cs show ?thesis
    by (auto simp: head_evidence_def catalog_entry_def sub_def jget_def items_def)
qed

lemma add_commands_ok:
  assumes "add_commands d state wanted name kind task_id attempt_no criteria catalog reference = Inr catalog'"
    and "catalog_ok d state catalog"
  shows "catalog_ok d state catalog'"
proof -
  from assms(1) obtain commands commit where c: "head_commands d state reference = Inr commands" "commit_of d reference = Inr commit"
      "catalog' = foldl (\<lambda>cat command. put cat (name command)
            (catalog_entry kind reference commit command task_id attempt_no criteria)) catalog (filter wanted commands)"
    by (auto simp: add_commands_def bnd_eq_Inr)
  have "catalog_ok d state (foldl (\<lambda>cat command. put cat (name command)
            (catalog_entry kind reference commit command task_id attempt_no criteria)) cat xs)"
    if "set xs \<subseteq> set commands" "catalog_ok d state cat" for xs cat
    using that
  proof (induction xs arbitrary: cat)
    case (Cons x xs)
    then have "head_evidence d state (catalog_entry kind reference commit x task_id attempt_no criteria)"
      by (intro head_commands_entry [OF c(1,2)]) auto
    with Cons.prems(2) have "catalog_ok d state (put cat (name x)
        (catalog_entry kind reference commit x task_id attempt_no criteria))"
      using set_items_put [of cat "name x" "catalog_entry kind reference commit x task_id attempt_no criteria"]
      by (auto simp: catalog_ok_def)
    with Cons show ?case by simp
  qed simp
  with assms(2) show ?thesis unfolding c(3) by auto
qed

text \<open>C8. Every piece of evidence in the catalog is a command of a verification manifest that is stored
  under its recorded digest and whose commit is the current integration head; results for an older head
  are never offered to an evaluator.\<close>

theorem evidence_catalog_current:
  assumes "evidence_catalog d state = Inr catalog" and "(evidence_id, e) \<in> set (items catalog)"
  shows "head_evidence d state e"
proof -
  have "catalog_ok d state catalog"
    using assms(1) unfolding evidence_catalog_def
  proof (elim bnd_InrE)
    fix criteria c1 contracts c2
    assume 1: "global_evidence d state (jstrs (map ac_id criteria)) (JObj []) = Inr c1"
      and 2: "foldr_r (task_evidence d state contracts) c1 (items (sub state ''tasks'')) = Inr c2"
      and 3: "supplemental_evidence d state c2 = Inr catalog"
    have "catalog_ok d state (JObj [])" by (simp add: catalog_ok_def items_def is_obj_def)
    with 1 have c1: "catalog_ok d state c1"
      by (auto simp: global_evidence_def Let_def bnd_eq_Inr dest: add_commands_ok split: if_splits)
    have "catalog_ok d state c2"
      by (rule foldr_r_inv [OF 2, where P = "catalog_ok d state"])
        (use c1 in \<open>auto simp: task_evidence_def Let_def bnd_eq_Inr dest: add_commands_ok split: if_splits option.splits\<close>)
    with 3 show ?thesis
      by (auto simp: supplemental_evidence_def Let_def bnd_eq_Inr split: if_splits
          elim!: foldr_r_inv [where P = "catalog_ok d state"] dest: add_commands_ok)
  qed
  with assms(2) show ?thesis by (auto simp: catalog_ok_def)
qed

end
