(* ===== verification/ControlState.thy ===== *)
theory ControlState
  imports Runners Plans Lifecycle StoreContract
begin

text \<open>
  The state changes of \<^verbatim>\<open>controller.py\<close> that several phases share: pausing, failing, opening a
  repair round, and closing an attempt of a role or of a worker with its manifest.

  A callback that the source gives to \<^verbatim>\<open>transact\<close> is a function from the loaded state and the
  references to the new state; the clock is read just before the transaction.
\<close>

section \<open>The controller's view of the store\<close>

record tick_result =
  tr_state :: json
  tr_progressed :: bool
  tr_completed :: "string list"

definition ticked :: "json \<Rightarrow> tick_result" where
  "ticked state = \<lparr>tr_state = state, tr_progressed = True, tr_completed = []\<rparr>"

definition idle :: "json \<Rightarrow> tick_result" where
  "idle state = \<lparr>tr_state = state, tr_progressed = False, tr_completed = []\<rparr>"

definition load_state :: "('g session, json) eff" where
  "load_state = sget (\<lambda>s. load (wd (ss_world s)))"

definition commit ::
  "json \<Rightarrow> (string, string) dict \<Rightarrow> (json \<Rightarrow> refs \<Rightarrow> json result) \<Rightarrow> ('g session, json) eff" where
  "commit state artifacts mutate = on_world (on_dir (transact (int_of (sub state ''revision'')) artifacts mutate))"

definition clock :: "'g deps \<Rightarrow> ('g session, string) eff" where
  "clock c = on_world (now (dp_machine c))"

definition fresh_uuid :: "'g deps \<Rightarrow> ('g session, string) eff" where
  "fresh_uuid c = on_world (uuid4 (dp_machine c))"

definition on_git :: "('g, 'a) eff \<Rightarrow> ('g session, 'a) eff" where
  "on_git m = on_world (on_host m)"

definition fault :: "'g deps \<Rightarrow> string \<Rightarrow> ('g session, unit) eff" where
  "fault c point = on_world (dp_hook c point)"

text \<open>A read of the run directory and of the host.\<close>

definition read_dir :: "(run_dir \<Rightarrow> 'a result) \<Rightarrow> ('g session, 'a) eff" where
  "read_dir f = sget (\<lambda>s. f (wd (ss_world s)))"

definition read_host :: "('g \<Rightarrow> 'a result) \<Rightarrow> ('g session, 'a) eff" where
  "read_host f = sget (\<lambda>s. f (wg (ss_world s)))"

text \<open>The expression \<^verbatim>\<open>current[a][b]\<close> as the target of an update.\<close>

definition upd2 :: "json \<Rightarrow> string \<Rightarrow> string \<Rightarrow> (json \<Rightarrow> json) \<Rightarrow> json" where
  "upd2 v a b f = upd v a (\<lambda>x. upd x b f)"

definition stamp :: "string \<Rightarrow> json \<Rightarrow> json" where
  "stamp at v = put v ''updated_at'' (JStr at)"

definition error_value :: "string \<Rightarrow> string \<Rightarrow> bool \<Rightarrow> json" where
  "error_value code message retryable =
     JObj [(''code'', JStr code), (''message'', JStr message), (''retryable'', JBool retryable)]"

definition commit_now ::
  "'g deps \<Rightarrow> json \<Rightarrow> (string, string) dict \<Rightarrow> (string \<Rightarrow> json \<Rightarrow> refs \<Rightarrow> json result) \<Rightarrow> ('g session, json) eff" where
  "commit_now c state artifacts mutate = sbnd (clock c) (\<lambda>at. commit state artifacts (mutate at))"

section \<open>Changes of the run status\<close>

definition transition :: "string \<Rightarrow> string \<Rightarrow> json \<Rightarrow> refs \<Rightarrow> json result" where
  "transition status at current refs = Inr (stamp at (put current ''status'' (JStr status)))"

definition transition_status :: "'g deps \<Rightarrow> json \<Rightarrow> string \<Rightarrow> ('g session, tick_result) eff" where
  "transition_status c state status =
     sbnd (commit_now c state [] (transition status)) (\<lambda>updated. slift (Inr (ticked updated)))"

definition pausing :: "string \<Rightarrow> string \<Rightarrow> string \<Rightarrow> json \<Rightarrow> refs \<Rightarrow> json result" where
  "pausing code message at current refs =
     Inr (stamp at (put (put (put current ''resume_status'' (sub current ''status'')) ''status'' (JStr ''PAUSED''))
       ''last_error'' (error_value code message True)))"

definition pause_run :: "'g deps \<Rightarrow> json \<Rightarrow> string \<Rightarrow> string \<Rightarrow> ('g session, tick_result) eff" where
  "pause_run c state code message =
     sbnd (commit_now c state [] (pausing code message)) (\<lambda>updated. slift (Inr (ticked updated)))"

definition failing :: "string \<Rightarrow> string \<Rightarrow> string \<Rightarrow> json \<Rightarrow> refs \<Rightarrow> json result" where
  "failing code message at current refs =
     Inr (stamp at (put (put (put current ''status'' (JStr ''FAILED'')) ''resume_status'' JNull)
       ''last_error'' (error_value code message False)))"

definition fail_run :: "'g deps \<Rightarrow> json \<Rightarrow> string \<Rightarrow> string \<Rightarrow> ('g session, tick_result) eff" where
  "fail_run c state code message =
     sbnd (commit_now c state [] (failing code message)) (\<lambda>updated. slift (Inr (ticked updated)))"

definition opening_repair :: "string \<Rightarrow> string \<Rightarrow> json \<Rightarrow> string \<Rightarrow> json \<Rightarrow> refs \<Rightarrow> json result" where
  "opening_repair code message evidence at current refs =
     Inr (stamp at (put (put (put current ''repair_round'' (JInt (int_of (sub current ''repair_round'') + 1)))
       ''status'' (JStr ''REPAIRING''))
       ''last_error'' (put (error_value code message True) ''evidence'' evidence)))"

text \<open>Both callers leave \<^verbatim>\<open>already_incremented\<close> false.\<close>

definition open_repair :: "'g deps \<Rightarrow> json \<Rightarrow> string \<Rightarrow> string \<Rightarrow> json \<Rightarrow> ('g session, tick_result) eff" where
  "open_repair c state code message evidence =
     (if int_of (sub state ''repair_round'') \<ge> int_of (sub state ''max_repair_rounds'')
      then fail_run c state ''REPAIR_EXHAUSTED'' message
      else sbnd (commit_now c state [] (opening_repair code message evidence)) (\<lambda>updated. slift (Inr (ticked updated))))"

section \<open>Manifests of attempts\<close>

definition worker_attempt_value ::
  "json \<Rightarrow> string \<Rightarrow> string \<Rightarrow> artifact_ref option \<Rightarrow> artifact_ref option \<Rightarrow> json \<Rightarrow> json option \<Rightarrow> string \<Rightarrow> json" where
  "worker_attempt_value state task_id status source_audit verification last_error pending completed_at =
     (let task = sub (sub state ''tasks'') task_id; active = sub task ''active_attempt'';
          source = (case pending of None \<Rightarrow> JObj [] | Some p \<Rightarrow> p);
          ref = (\<lambda>r. case r of None \<Rightarrow> JNull | Some a \<Rightarrow> artifact_as_dict a) in
      JObj [(''schema_version'', JInt 1), (''role'', JStr ''worker''),
        (''operation_id'', (if truthy (sub source ''operation_id'') then sub source ''operation_id''
           else JStr (''WORK-'' @ task_id @ ''-A'' @ int_text (int_of (sub task ''attempt_no''))))),
        (''task_id'', JStr task_id), (''attempt_no'', sub task ''attempt_no''),
        (''attempt_token'', sub active ''attempt_token''), (''status'', JStr status),
        (''created_at'', sub active ''created_at''), (''completed_at'', JStr completed_at),
        (''expected_base'', sub active ''task_base_sha''), (''branch'', sub active ''branch''),
        (''worktree'', sub active ''worktree''), (''preflight'', sub active ''preflight''),
        (''prompt_versions'', get_or source ''prompt_versions'' (JList [])),
        (''provider_attempts'', get_or source ''provider_attempts'' (JList [])),
        (''request'', sub source ''request''), (''launch'', sub source ''launch''), (''stdout'', sub source ''stdout''),
        (''stderr'', sub source ''stderr''), (''exit'', sub source ''exit''), (''result'', sub task ''result''),
        (''source_audit'', ref source_audit), (''verification'', ref verification), (''last_error'', last_error)])"

definition worker_attempt_body ::
  "'g deps \<Rightarrow> json \<Rightarrow> string \<Rightarrow> string \<Rightarrow> artifact_ref option \<Rightarrow> artifact_ref option \<Rightarrow> json \<Rightarrow> json option \<Rightarrow> ('g session, string) eff" where
  "worker_attempt_body c state task_id status source_audit verification last_error pending =
     sbnd (clock c) (\<lambda>completed_at.
     slift (canonical_json_bytes
       (worker_attempt_value state task_id status source_audit verification last_error pending completed_at)))"

definition attempt_manifest_value :: "json \<Rightarrow> string \<Rightarrow> string \<Rightarrow> json \<Rightarrow> json" where
  "attempt_manifest_value pending status completed_at last_error =
     JObj [(''schema_version'', JInt 1), (''role'', sub pending ''role''), (''operation_id'', sub pending ''operation_id''),
       (''task_id'', sub pending ''task_id''), (''attempt_no'', sub pending ''attempt_no''),
       (''attempt_token'', sub pending ''attempt_token''), (''status'', JStr status),
       (''created_at'', sub pending ''attempt_created_at''), (''completed_at'', JStr completed_at),
       (''expected_base'', sub pending ''expected_base''), (''branch'', sub pending ''branch''),
       (''worktree'', sub pending ''worktree''), (''preflight'', sub pending ''preflight''),
       (''prompt_versions'', sub pending ''prompt_versions''), (''provider_attempts'', sub pending ''provider_attempts''),
       (''request'', sub pending ''request''), (''launch'', sub pending ''launch''), (''stdout'', sub pending ''stdout''),
       (''stderr'', sub pending ''stderr''), (''exit'', sub pending ''exit''), (''result'', sub pending ''result''),
       (''source_audit'', JNull), (''verification'', JNull), (''last_error'', last_error)]"

definition attempt_manifest_body :: "json \<Rightarrow> string \<Rightarrow> string \<Rightarrow> json \<Rightarrow> string result" where
  "attempt_manifest_body pending status completed_at last_error =
     canonical_json_bytes (attempt_manifest_value pending status completed_at last_error)"

definition worker_manifest_path :: "json \<Rightarrow> string \<Rightarrow> string" where
  "worker_manifest_path state task_id =
     ''tasks/'' @ task_id @ ''/attempts/'' @ pad3 (int_of (sub (sub (sub state ''tasks'') task_id) ''attempt_no''))
       @ ''/attempt.json''"

definition role_manifest_path :: "string \<Rightarrow> json \<Rightarrow> string result" where
  "role_manifest_path role pending =
     bnd (role_attempt_prefix role (sub pending ''operation_id'') (sub pending ''attempt_no'')) (\<lambda>p. Inr (p @ ''/attempt.json''))"

section \<open>Closing attempts\<close>

definition require_invocation :: "string \<Rightarrow> ('g session, role_invocation) eff" where
  "require_invocation token =
     sget (\<lambda>s. case map_of (ss_invocations s) token of None \<Rightarrow> Inl ContractError | Some i \<Rightarrow> Inr i)"

definition drop_dispatch :: "string \<Rightarrow> json \<Rightarrow> json result" where
  "drop_dispatch token current =
     bnd (item (sub current ''pending_dispatches'') token) (\<lambda>_.
     Inr (upd current ''pending_dispatches'' (\<lambda>d. del d token)))"

definition closing_role :: "string \<Rightarrow> string \<Rightarrow> string \<Rightarrow> string \<Rightarrow> string \<Rightarrow> json \<Rightarrow> refs \<Rightarrow> json result" where
  "closing_role role token code path at active refs =
     (let runtime = sub (sub active ''role_runtime'') role; failures = int_of (sub runtime ''failure_count'') + 1 in
      bnd (ref_at refs path) (\<lambda>r.
      bnd (drop_dispatch token
        (upd2 (upd2 active ''role_attempts'' role (\<lambda>xs. push xs (artifact_as_dict r)))
          ''role_runtime'' role (\<lambda>x. put (put x ''active_attempt_token'' JNull) ''failure_count'' (JInt failures)))) (\<lambda>closed.
      Inr (stamp at
        (if failures \<ge> int_of (sub runtime ''max_attempts'')
         then put (put closed ''status'' (JStr ''FAILED''))
                ''last_error'' (error_value code (role @ '' attempts exhausted'') False)
         else closed)))))"

definition close_role_failure ::
  "'g deps \<Rightarrow> string \<Rightarrow> string \<Rightarrow> provider_handle \<Rightarrow> string \<Rightarrow> ('g session, tick_result) eff" where
  "close_role_failure c role token h code =
     sbnd (require_invocation token) (\<lambda>i.
     sbnd (bind_completion_of c i h) (\<lambda>_.
     sbnd load_state (\<lambda>current.
     sbnd (slift (item (sub current ''pending_dispatches'') token)) (\<lambda>pending.
     sbnd (slift (role_manifest_path role pending)) (\<lambda>path.
     sbnd (clock c) (\<lambda>completed_at.
     sbnd (slift (attempt_manifest_body pending ''FAILED'' completed_at
       (error_value code (role @ '' Provider failed'') True))) (\<lambda>body.
     sbnd (commit_now c current [(path, body)] (closing_role role token code path)) (\<lambda>updated.
     slift (Inr ((ticked updated)\<lparr>tr_completed := [token]\<rparr>))))))))))"

text \<open>The status of a task after one more failure, and a run that fails with its task.\<close>

definition next_task_status :: "json \<Rightarrow> string" where
  "next_task_status task =
     (if int_of (sub task ''failure_count'') < int_of (sub task ''max_attempts'') then ''READY'' else ''FAILED'')"

definition fail_with_task :: "string \<Rightarrow> json \<Rightarrow> json" where
  "fail_with_task task_id current =
     (let task = sub (sub current ''tasks'') task_id in
      if sub task ''status'' = JStr ''FAILED''
      then put (put current ''status'' (JStr ''FAILED'')) ''last_error'' (sub task ''last_error'') else current)"

definition one_more_failure :: "json \<Rightarrow> json" where
  "one_more_failure task =
     (let failed = put task ''failure_count'' (JInt (int_of (sub task ''failure_count'') + 1)) in
      put failed ''status'' (JStr (next_task_status failed)))"

definition freezing_worker :: "string \<Rightarrow> string \<Rightarrow> string \<Rightarrow> string \<Rightarrow> string \<Rightarrow> json \<Rightarrow> refs \<Rightarrow> json result" where
  "freezing_worker token task_id code path at current refs =
     bnd (item (sub current ''tasks'') task_id) (\<lambda>_.
     bnd (ref_at refs path) (\<lambda>r.
     bnd (drop_dispatch token (upd2 current ''tasks'' task_id (\<lambda>task.
        one_more_failure (put (put (upd task ''attempts'' (\<lambda>xs. push xs (artifact_as_dict r))) ''active_attempt'' JNull)
          ''last_error'' (error_value code ''Worker Provider failed'' True))))) (\<lambda>closed.
     Inr (stamp at (fail_with_task task_id closed)))))"

definition freeze_failed_worker :: "'g deps \<Rightarrow> json \<Rightarrow> string \<Rightarrow> string \<Rightarrow> ('g session, unit) eff" where
  "freeze_failed_worker c state token code =
     sbnd (slift (item (sub state ''pending_dispatches'') token)) (\<lambda>pending.
     let task_id = str_of (sub pending ''task_id''); path = worker_manifest_path state task_id in
     sbnd (slift (item (sub state ''tasks'') task_id)) (\<lambda>_.
     sbnd (worker_attempt_body c state task_id ''FAILED'' None None (error_value code ''Worker Provider failed'' True)
       (Some pending)) (\<lambda>body.
     sbnd (commit_now c state [(path, body)] (freezing_worker token task_id code path)) (\<lambda>_. slift (Inr ())))))"

definition blocking_worker :: "string \<Rightarrow> string \<Rightarrow> string \<Rightarrow> string \<Rightarrow> string \<Rightarrow> json \<Rightarrow> refs \<Rightarrow> json result" where
  "blocking_worker token task_id blocker path at current refs =
     bnd (item (sub current ''tasks'') task_id) (\<lambda>_.
     bnd (ref_at refs path) (\<lambda>r.
     bnd (drop_dispatch token (upd2 current ''tasks'' task_id (\<lambda>task.
        put (put (put (upd task ''attempts'' (\<lambda>xs. push xs (artifact_as_dict r))) ''active_attempt'' JNull)
          ''status'' (JStr ''FAILED'')) ''last_error'' (error_value ''WORKER_BLOCKED'' blocker True)))) (\<lambda>closed.
     Inr (stamp at (put (put (put closed ''resume_status'' (JStr ''EXECUTING'')) ''status'' (JStr ''PAUSED''))
       ''last_error'' (error_value ''WORKER_BLOCKED'' blocker True))))))"

definition pause_blocked_worker :: "'g deps \<Rightarrow> json \<Rightarrow> string \<Rightarrow> string \<Rightarrow> ('g session, unit) eff" where
  "pause_blocked_worker c state token blocker =
     sbnd (slift (item (sub state ''pending_dispatches'') token)) (\<lambda>pending.
     let task_id = str_of (sub pending ''task_id''); path = worker_manifest_path state task_id in
     sbnd (slift (item (sub state ''tasks'') task_id)) (\<lambda>_.
     sbnd (worker_attempt_body c state task_id ''FAILED'' None None (error_value ''WORKER_BLOCKED'' blocker True)
       (Some pending)) (\<lambda>body.
     sbnd (commit_now c state [(path, body)] (blocking_worker token task_id blocker path)) (\<lambda>_. slift (Inr ())))))"

section \<open>What a committed change stores\<close>

lemma on_world_eq: "on_world m s = (r, s') \<longleftrightarrow> (\<exists>w. m (ss_world s) = (r, w) \<and> s' = s\<lparr>ss_world := w\<rparr>)"
  by (auto simp: on_world_def split: prod.splits)

lemma clock_keeps_dir:
  assumes "clock c s = (r, s')" shows "\<exists>g at. r = Inr at \<and> s' = s\<lparr>ss_world := (ss_world s)\<lparr>wg := g\<rparr>\<rparr>"
proof -
  from assms obtain w where w: "now (dp_machine c) (ss_world s) = (r, w)" "s' = s\<lparr>ss_world := w\<rparr>"
    by (auto simp: clock_def on_world_eq)
  from w(1) obtain g where "w = (ss_world s)\<lparr>wg := g\<rparr>" "\<exists>at. r = Inr at"
    by (auto simp: now_def on_host_eq split: prod.splits)
  with w(2) show ?thesis by blast
qed

text \<open>The state of the store is \<open>current\<close>.\<close>

definition holds :: "'g session \<Rightarrow> json \<Rightarrow> bool" where
  "holds s current \<longleftrightarrow> load (wd (ss_world s)) = Inr current"

lemma load_state_eq [simp]: "load_state s = (r, s') \<longleftrightarrow> load (wd (ss_world s)) = r \<and> s' = s"
  by (simp add: load_state_def)

text \<open>The store's contract for \<open>commit\<close> and \<open>commit_now\<close>, success and failure.\<close>

lemma commit_Inr:
  assumes "commit state arts f s = (Inr u, s')" and "holds s current"
  obtains view refs updated where "same_but_index view current" "f view refs = Inr updated"
    "u = put updated ''revision'' (JInt (int_of (sub state ''revision'') + 1))" "valid u" "stored_state (wd (ss_world s')) u"
    "ss_stop s' = ss_stop s" "wg (ss_world s') = wg (ss_world s)" "sub current ''revision'' = JInt (int_of (sub state ''revision''))"
proof -
  from assms(1) obtain d where d: "transact (int_of (sub state ''revision'')) arts f (wd (ss_world s)) = (Inr u, d)"
      "s' = s\<lparr>ss_world := (ss_world s)\<lparr>wd := d\<rparr>\<rparr>"
    by (auto simp: commit_def on_world_eq on_dir_eq)
  from store.committed [OF d(1)] assms(2) d(2) show thesis by (auto simp: holds_def intro: that)
qed

lemma commit_now_Inr:
  assumes "commit_now c state arts f s = (Inr u, s')" and "holds s current"
  obtains at view refs updated where "same_but_index view current" "f at view refs = Inr updated"
    "u = put updated ''revision'' (JInt (int_of (sub state ''revision'') + 1))" "valid u" "stored_state (wd (ss_world s')) u"
    "ss_stop s' = ss_stop s" "sub current ''revision'' = JInt (int_of (sub state ''revision''))"
proof -
  from assms(1) obtain at s1 where c: "clock c s = (Inr at, s1)" "commit state arts (f at) s1 = (Inr u, s')"
    by (auto simp: commit_now_def sbnd_Inr)
  from clock_keeps_dir [OF c(1)] assms(2) have h: "holds s1 current" "ss_stop s1 = ss_stop s" by (auto simp: holds_def)
  from commit_Inr [OF c(2) h(1)] h(2) show thesis by (metis that)
qed

lemma commit_now_holds:
  assumes "commit_now c state arts f s = (Inr u, s')" shows "\<exists>current. holds s current"
proof -
  from assms obtain at s1 where c: "clock c s = (Inr at, s1)" "commit state arts (f at) s1 = (Inr u, s')"
    by (auto simp: commit_now_def sbnd_Inr)
  from c(2) obtain d where d: "transact (int_of (sub state ''revision'')) arts (f at) (wd (ss_world s1)) = (Inr u, d)"
    by (auto simp: commit_def on_world_eq on_dir_eq)
  from store.committed [OF d] clock_keeps_dir [OF c(1)] show ?thesis by (auto simp: holds_def)
qed

lemma on_git_keeps: "on_git m s = (r, s') \<Longrightarrow> holds s' v = holds s v \<and> ss_stop s' = ss_stop s"
  by (auto simp: on_git_def on_world_eq on_host_eq holds_def)

lemma commit_now_refused:
  assumes "holds s current"
    and "\<And>at view refs updated. same_but_index view current \<Longrightarrow> f at view refs = Inr updated \<Longrightarrow>
           \<not> valid (put updated ''revision'' (JInt (int_of (sub state ''revision'') + 1)))"
  shows "\<exists>e s'. commit_now c state arts f s = (Inl e, s') \<and> holds s' current"
proof -
  obtain r s1 where c: "clock c s = (r, s1)" by force
  from clock_keeps_dir [OF c] obtain at g where r: "r = Inr at" "s1 = s\<lparr>ss_world := (ss_world s)\<lparr>wg := g\<rparr>\<rparr>" by blast
  from store.never_commits [of "wd (ss_world s)" current "f at" "int_of (sub state ''revision'')" arts] assms
  obtain e d where d: "transact (int_of (sub state ''revision'')) arts (f at) (wd (ss_world s)) = (Inl e, d)" "load d = Inr current"
    unfolding holds_def by blast
  have "commit state arts (f at) s1 = (Inl e, s1\<lparr>ss_world := (ss_world s1)\<lparr>wd := d\<rparr>\<rparr>)"
    using d(1) r(2) by (simp add: commit_def on_world_eq on_dir_eq)
  with d(2) r c show ?thesis by (auto simp: commit_now_def sbnd_eq holds_def)
qed

lemma same_but_index_sub: "same_but_index view current \<Longrightarrow> k \<noteq> ''artifact_index'' \<Longrightarrow> sub view k = sub current k"
  by (simp add: same_but_index_def)

lemma view_obj: "same_but_index view current \<Longrightarrow> is_obj view"
  by (simp add: same_but_index_def)

lemma stamp_simps [simp]:
  "is_obj (stamp at v) = is_obj v" "k \<noteq> ''updated_at'' \<Longrightarrow> sub (stamp at v) k = sub v k"
  by (simp_all add: stamp_def)

lemma upd2_simps [simp]:
  "is_obj (upd2 v a b f) = is_obj v" "k \<noteq> a \<Longrightarrow> sub (upd2 v a b f) k = sub v k"
  by (simp_all add: upd2_def)

lemma sub_obj: "is_obj (sub v a) \<Longrightarrow> is_obj v"
  by (cases v) (auto simp: sub_def jget_def items_def is_obj_def)

lemma upd2_inside: "is_obj (sub v a) \<Longrightarrow> sub (sub (upd2 v a b f) a) b = f (sub (sub v a) b)"
  by (simp add: upd2_def upd_def sub_obj)

section \<open>Coherence of the status\<close>

lemma valid_coherence:
  assumes "valid s" and "sub s ''status'' = JStr (run_status_value t)"
  shows "\<exists>le. validate_status_coherence s t le = Inr ()"
proof -
  from assms(1) obtain st le where "sub s ''status'' = JStr (run_status_value st)" "validate_status_coherence s st le = Inr ()"
    by (auto simp: valid_iff status_part_def)
  with assms(2) show ?thesis by auto
qed

lemma ended_has_no_work:
  assumes "valid s" and "sub s ''status'' = JStr (run_status_value t)" and "t \<in> {SUCCEEDED, run_status.FAILED, IMPORTED_READ_ONLY}"
  shows "no_pending_work s"
  using valid_coherence [OF assms(1,2)] assms(3)
  by (auto simp: validate_status_coherence_def Let_def no_pending_work_def split: if_splits)

lemma running_has_no_resume:
  assumes "valid s" and "sub s ''status'' = JStr (run_status_value t)" and "t \<notin> {PAUSED, STOPPED}"
  shows "sub s ''resume_status'' = JNull"
  using valid_coherence [OF assms(1,2)] assms(3)
  by (auto simp: validate_status_coherence_def Let_def split: if_splits)

section \<open>Repair rounds\<close>

text \<open>C9. A repair round is opened only while rounds are left, and it uses one up: the stored run is
  repairing in the next round, which is at most the configured maximum, or it has failed for good with
  the round unchanged.\<close>

theorem open_repair_bounded:
  assumes "open_repair c state code message evidence s = (Inr r, s')" and "holds s state"
  shows "stored_state (wd (ss_world s')) (tr_state r) \<and> valid (tr_state r)
    \<and> (sub (tr_state r) ''status'' = JStr ''REPAIRING''
        \<and> sub (tr_state r) ''repair_round'' = JInt (int_of (sub state ''repair_round'') + 1)
        \<and> int_of (sub (tr_state r) ''repair_round'') \<le> int_of (sub (tr_state r) ''max_repair_rounds'')
      \<or> sub (tr_state r) ''status'' = JStr ''FAILED''
        \<and> sub (tr_state r) ''repair_round'' = sub state ''repair_round''
        \<and> int_of (sub state ''repair_round'') \<ge> int_of (sub state ''max_repair_rounds''))"
proof (cases "int_of (sub state ''repair_round'') \<ge> int_of (sub state ''max_repair_rounds'')")
  case True
  with assms(1) obtain u where u: "commit_now c state [] (failing ''REPAIR_EXHAUSTED'' message) s = (Inr u, s')" "r = ticked u"
    by (auto simp: open_repair_def fail_run_def sbnd_Inr)
  from commit_now_Inr [OF u(1) assms(2)] obtain at view refs updated where v:
    "same_but_index view state" "failing ''REPAIR_EXHAUSTED'' message at view refs = Inr updated"
    "u = put updated ''revision'' (JInt (int_of (sub state ''revision'') + 1))" "valid u" "stored_state (wd (ss_world s')) u"
    by metis
  then show ?thesis using True u(2) same_but_index_sub [OF v(1), of "''repair_round''"]
    by (auto simp: ticked_def failing_def view_obj)
next
  case False
  with assms(1) obtain u where u: "commit_now c state [] (opening_repair code message evidence) s = (Inr u, s')" "r = ticked u"
    by (auto simp: open_repair_def sbnd_Inr)
  from commit_now_Inr [OF u(1) assms(2)] obtain at view refs updated where v:
    "same_but_index view state" "opening_repair code message evidence at view refs = Inr updated"
    "u = put updated ''revision'' (JInt (int_of (sub state ''revision'') + 1))" "valid u" "stored_state (wd (ss_world s')) u"
    by metis
  then show ?thesis
    using False u(2) same_but_index_sub [OF v(1), of "''repair_round''"] same_but_index_sub [OF v(1), of "''max_repair_rounds''"]
    by (auto simp: ticked_def opening_repair_def view_obj int_of_def)
qed

section \<open>A failing run with other work in flight\<close>

text \<open>C38. A worker that fails its last attempt while another dispatch is pending cannot be closed: the
  closed state would be a failed run with pending work, which the run-state contract refuses, so no
  transaction with this change ever commits, whatever the revision.\<close>

theorem last_failure_refused:
  assumes "is_obj (sub (sub view ''tasks'') task_id)"
    and "int_of (sub (sub (sub view ''tasks'') task_id) ''failure_count'') + 1
       \<ge> int_of (sub (sub (sub view ''tasks'') task_id) ''max_attempts'')"
    and "has_key (sub view ''pending_dispatches'') other" and "other \<noteq> token"
    and "freezing_worker token task_id code path at view refs = Inr updated"
  shows "sub updated ''status'' = JStr ''FAILED'' \<and> has_key (sub updated ''pending_dispatches'') other
    \<and> \<not> valid (put updated ''revision'' n)"
proof -
  from assms(5) obtain r closed where r: "drop_dispatch token (upd2 view ''tasks'' task_id (\<lambda>task.
        one_more_failure (put (put (upd task ''attempts'' (\<lambda>xs. push xs (artifact_as_dict r))) ''active_attempt'' JNull)
          ''last_error'' (error_value code ''Worker Provider failed'' True)))) = Inr closed"
      "updated = stamp at (fail_with_task task_id closed)"
    by (auto simp: freezing_worker_def bnd_eq_Inr)
  have tasks: "is_obj (sub view ''tasks'')" and obj: "is_obj view" using sub_obj assms(1) by blast+
  from r(1) obtain closed_task where c: "closed = upd (upd2 view ''tasks'' task_id (\<lambda>task. closed_task task)) ''pending_dispatches'' (\<lambda>d. del d token)"
      "sub (closed_task (sub (sub view ''tasks'') task_id)) ''status'' = JStr ''FAILED''"
    using assms(1,2) by (auto simp: drop_dispatch_def bnd_eq_Inr one_more_failure_def Let_def next_task_status_def upd_def int_of_def)
  have "sub (sub (sub closed ''tasks'') task_id) ''status'' = JStr ''FAILED''"
    using c tasks by (simp add: upd_def upd2_inside)
  then have failed: "fail_with_task task_id closed = put (put closed ''status'' (JStr ''FAILED''))
      ''last_error'' (sub (sub (sub closed ''tasks'') task_id) ''last_error'')"
    by (simp add: fail_with_task_def)
  have "is_obj closed" using c(1) obj by (simp add: upd_def)
  then have status: "sub updated ''status'' = JStr ''FAILED''" and "is_obj updated" using r(2) failed by simp_all
  have "sub closed ''pending_dispatches'' = del (sub view ''pending_dispatches'') token"
    using c(1) obj by (simp add: upd_def)
  then have pending: "has_key (sub updated ''pending_dispatches'') other"
    using r(2) failed assms(3,4) by (simp add: has_key_def jget_del)
  have "\<not> valid (put updated ''revision'' n)"
  proof
    assume v: "valid (put updated ''revision'' n)"
    from ended_has_no_work [OF v, of run_status.FAILED] status have "items (sub updated ''pending_dispatches'') = []"
      by (simp add: no_pending_work_def)
    with pending show False by (simp add: has_key_def jget_def)
  qed
  with status pending show ?thesis by blast
qed

end
