(* ===== verification/StopControl.thy ===== *)
theory StopControl
  imports ControlState StoreContract
begin

text \<open>
  The stop of a run in \<^verbatim>\<open>controller.py\<close>: another process leaves a request beside the store; the
  controller that owns the run stops the agents, closes every pending dispatch as cancelled and leaves
  the run in \<^verbatim>\<open>STOPPED\<close>.  A request for an earlier controller is recorded and ignored.
\<close>

section \<open>The request\<close>

definition STOP_FIELDS :: "string list" where
  "STOP_FIELDS = [''run_id'', ''observed_revision'', ''controller_token'', ''requested_at'', ''nonce'']"

definition parse_stop_request :: "string \<Rightarrow> stop_request result" where
  "parse_stop_request body =
     bnd (parse_json_object_bytes body) (\<lambda>raw.
     bnd (chk (set (jkeys raw) = set STOP_FIELDS)) (\<lambda>_.
     bnd (chk (\<not> (\<not> is_str (sub raw ''run_id'') \<or> \<not> is_int (sub raw ''observed_revision'')
         \<or> int_of (sub raw ''observed_revision'') < 0 \<or> \<not> is_str (sub raw ''controller_token'')
         \<or> \<not> is_str (sub raw ''requested_at'') \<or> \<not> is_str (sub raw ''nonce'')
         \<or> \<not> startswith (str_of (sub raw ''nonce'')) ''STOP-''))) (\<lambda>_.
     bnd (chk (fromisoformat (str_of (sub raw ''requested_at'')) \<noteq> None)) (\<lambda>_.
     Inr \<lparr>sr_run_id = str_of (sub raw ''run_id''), sr_observed_revision = int_of (sub raw ''observed_revision''),
       sr_controller_token = str_of (sub raw ''controller_token''), sr_requested_at = str_of (sub raw ''requested_at''),
       sr_nonce = str_of (sub raw ''nonce'')\<rparr>))))"

definition MAX_STOP_BYTES :: nat where
  "MAX_STOP_BYTES = 64 * 1024"

definition read_stop_request :: "'g session \<Rightarrow> stop_request option result" where
  "read_stop_request s =
     bnd (read_optional_regular (ss_stop s) MAX_STOP_BYTES) (\<lambda>file.
     case file of None \<Rightarrow> Inr None | Some body \<Rightarrow> bnd (parse_stop_request body) (\<lambda>r. Inr (Some r)))"

definition write_stop :: "string option \<Rightarrow> ('g session, unit) eff" where
  "write_stop file = (\<lambda>s. (Inr (), s\<lparr>ss_stop := file\<rparr>))"

text \<open>\<^verbatim>\<open>request_stop\<close> of the requesting process; \<open>wake\<close> is \<^verbatim>\<open>wake_signal\<close>.\<close>

definition request_stop ::
  "'g deps \<Rightarrow> (json \<Rightarrow> ('g world, unit) eff) \<Rightarrow> string \<Rightarrow> ('g session, stop_request) eff" where
  "request_stop c wake run_id =
     sbnd load_state (\<lambda>state.
     sbnd (slift (chk (sub state ''run_id'' = JStr run_id))) (\<lambda>_.
     let controller = sub state ''controller'' in
     sbnd (slift (chk_state (is_obj controller))) (\<lambda>_.
     sbnd (sget read_stop_request) (\<lambda>existing.
     case existing of
       Some request \<Rightarrow> sbnd (slift (chk (sr_run_id request = run_id))) (\<lambda>_. slift (Inr request))
     | None \<Rightarrow>
         sbnd (clock c) (\<lambda>requested_at.
         sbnd (fresh_uuid c) (\<lambda>u.
         let request = \<lparr>sr_run_id = run_id, sr_observed_revision = int_of (sub state ''revision''),
               sr_controller_token = str_of (sub controller ''controller_token''), sr_requested_at = requested_at,
               sr_nonce = ''STOP-'' @ u\<rparr> in
         sbnd (slift (canonical_json_bytes (stop_request_as_dict request))) (\<lambda>body.
         sbnd (write_stop (Some body)) (\<lambda>_.
         sbnd (on_world (wake controller)) (\<lambda>_.
         slift (Inr request)))))))))) "

section \<open>Recording the outcome\<close>

definition STOP_ERROR :: json where
  "STOP_ERROR = error_value ''STOP_REQUESTED'' ''attempt cancelled by operator'' True"

text \<open>The manifest of one cancelled dispatch, with its path.\<close>

definition cancelled_manifest ::
  "'g deps \<Rightarrow> json \<Rightarrow> string \<Rightarrow> string \<times> json \<Rightarrow> ('g session, string \<times> string \<times> string) eff" where
  "cancelled_manifest c state completed_at entry =
     (let token = fst entry; pending = snd entry in
      if sub pending ''role'' = JStr ''worker'' then
        let task_id = str_of (sub pending ''task_id'') in
        sbnd (slift (item (sub state ''tasks'') task_id)) (\<lambda>_.
        sbnd (worker_attempt_body c state task_id ''CANCELLED'' None None STOP_ERROR (Some pending)) (\<lambda>body.
        slift (Inr (token, worker_manifest_path state task_id, body))))
      else
        sbnd (slift (role_manifest_path (str_of (sub pending ''role'')) pending)) (\<lambda>path.
        sbnd (slift (attempt_manifest_body pending ''CANCELLED'' completed_at STOP_ERROR)) (\<lambda>body.
        slift (Inr (token, path, body)))))"

definition cancel_task :: "json \<Rightarrow> json \<Rightarrow> json" where
  "cancel_task reference task =
     put (put (put (put (put (put (upd task ''attempts'' (\<lambda>xs. push xs reference)) ''active_attempt'' JNull)
       ''status'' (JStr ''READY'')) ''result'' JNull) ''source_commits'' (JList [])) ''verification'' JNull)
       ''last_error'' STOP_ERROR"

definition cancel_dispatch :: "refs \<Rightarrow> json \<Rightarrow> string \<times> string \<Rightarrow> json result" where
  "cancel_dispatch refs current tp =
     (let token = fst tp; pending = sub (sub current ''pending_dispatches'') token; role = str_of (sub pending ''role'') in
      bnd (chk_state (pending \<noteq> JNull)) (\<lambda>_.
      bnd (ref_at refs (snd tp)) (\<lambda>r.
      if sub pending ''role'' = JStr ''worker'' then
        let task_id = str_of (sub pending ''task_id'') in
        bnd (item (sub current ''tasks'') task_id) (\<lambda>_.
        drop_dispatch token (upd2 current ''tasks'' task_id (cancel_task (artifact_as_dict r))))
      else
        drop_dispatch token
          (upd2 (upd2 current ''role_attempts'' role (\<lambda>xs. push xs (artifact_as_dict r)))
            ''role_runtime'' role (\<lambda>x. put (put x ''active_attempt_token'' JNull) ''last_error'' STOP_ERROR)))))"

definition stopped_run :: "json \<Rightarrow> json \<Rightarrow> json" where
  "stopped_run previous_status current =
     put (put (put (put current ''resume_status'' previous_status) ''status'' (JStr ''STOPPED'')) ''controller'' JNull)
       ''last_error'' (error_value ''STOP_REQUESTED'' ''run stopped by operator'' True)"

definition has_receipt :: "json \<Rightarrow> string \<Rightarrow> bool" where
  "has_receipt state nonce = list_ex (\<lambda>x. sub x ''nonce'' = JStr nonce) (elems (sub state ''stop_receipts''))"

definition stopping ::
  "stop_request \<Rightarrow> string \<Rightarrow> string \<Rightarrow> (string \<times> string) list \<Rightarrow> string \<Rightarrow> json \<Rightarrow> refs \<Rightarrow> json result" where
  "stopping request outcome receipt_path attempt_paths completed_at current refs =
     (if has_receipt current (sr_nonce request) then Inr current
      else
        bnd (if outcome = ''STOPPED''
             then bnd (foldr_r (cancel_dispatch refs) current attempt_paths) (\<lambda>cancelled.
                    Inr (stopped_run (sub current ''status'') cancelled))
             else Inr current) (\<lambda>updated.
        bnd (ref_at refs receipt_path) (\<lambda>r.
        Inr (stamp completed_at (upd updated ''stop_receipts''
          (\<lambda>xs. push xs (JObj [(''nonce'', JStr (sr_nonce request)), (''receipt'', artifact_as_dict r)])))))))"

definition persist_stop_outcome ::
  "'g deps \<Rightarrow> json \<Rightarrow> stop_request \<Rightarrow> string \<Rightarrow> string list \<Rightarrow> string list \<Rightarrow> ('g session, json) eff" where
  "persist_stop_outcome c state request outcome stopped forced =
     sbnd (clock c) (\<lambda>completed_at.
     let receipt_path = ''control/receipts/'' @ sr_nonce request @ ''.json'' in
     sbnd (slift (bnd (stop_receipt_as_dict \<lparr>sp_request = request, sp_outcome = outcome, sp_stopped_tokens = stopped,
       sp_forced_tokens = forced, sp_completed_at = completed_at\<rparr>) canonical_json_bytes)) (\<lambda>receipt_body.
     sbnd (if outcome = ''STOPPED''
           then smap (cancelled_manifest c state completed_at) (items (sub state ''pending_dispatches''))
           else slift (Inr [])) (\<lambda>manifests.
     commit state (dict_of ((receipt_path, receipt_body) # map snd manifests))
       (stopping request outcome receipt_path (map (\<lambda>(token, path, _). (token, path)) manifests) completed_at))))"

section \<open>Consuming the request\<close>

definition stop_agent ::
  "'g deps \<Rightarrow> string list \<times> string list \<Rightarrow> json \<Rightarrow> ('g session, string list \<times> string list) eff" where
  "stop_agent c done pending =
     (if sub pending ''provider_handle'' = JNull then slift (Inr done)
      else sbnd (read_dir (\<lambda>d. handle_from_pending d pending (dp_run_root c) (dp_target c))) (\<lambda>h.
           sbnd (on_world (pv_stop (dp_provider c) h)) (\<lambda>r.
           let token = str_of (sr_attempt_token r) in
           slift (Inr (if sr_stopped r then fst done @ [token] else fst done,
                       if sr_forced r then snd done @ [token] else snd done)))))"

fun stop_agents ::
  "'g deps \<Rightarrow> string list \<times> string list \<Rightarrow> json list \<Rightarrow> ('g session, string list \<times> string list) eff" where
  "stop_agents c done [] = slift (Inr done)"
| "stop_agents c done (p # ps) = sbnd (stop_agent c done p) (\<lambda>done'. stop_agents c done' ps)"

definition owns_run :: "json \<Rightarrow> stop_request \<Rightarrow> bool" where
  "owns_run state request =
     (is_obj (sub state ''controller'')
      \<and> sub (sub state ''controller'') ''controller_token'' = JStr (sr_controller_token request))"

definition check_request :: "stop_request option \<Rightarrow> json \<Rightarrow> stop_request \<Rightarrow> unit result" where
  "check_request expected state request =
     bnd (chk_state (\<not> (expected \<noteq> None \<and> expected \<noteq> Some request))) (\<lambda>_.
     bnd (chk (JStr (sr_run_id request) = sub state ''run_id'')) (\<lambda>_.
     chk (\<not> sr_observed_revision request > int_of (sub state ''revision''))))"

definition receipt_for :: "json \<Rightarrow> string \<Rightarrow> json option" where
  "receipt_for state nonce = find (\<lambda>x. sub x ''nonce'' = JStr nonce) (elems (sub state ''stop_receipts''))"

definition stop_own_run :: "'g deps \<Rightarrow> json \<Rightarrow> stop_request \<Rightarrow> ('g session, tick_result option) eff" where
  "stop_own_run c state request =
     sbnd (fault c ''after_stop_request_before_worker_exit'') (\<lambda>_.
     sbnd (stop_agents c ([], []) (map snd (items (sub state ''pending_dispatches'')))) (\<lambda>(stopped, forced).
     sbnd load_state (\<lambda>current.
     sbnd (persist_stop_outcome c current request ''STOPPED'' stopped forced) (\<lambda>updated.
     sbnd (write_stop None) (\<lambda>_.
     slift (Inr (Some (ticked updated))))))))"

definition consume_stop_request ::
  "'g deps \<Rightarrow> json \<Rightarrow> stop_request option \<Rightarrow> ('g session, tick_result option) eff" where
  "consume_stop_request c state expected =
     sbnd (sget read_stop_request) (\<lambda>file.
     case file of
       None \<Rightarrow> slift (Inr None)
     | Some request \<Rightarrow>
         sbnd (slift (check_request expected state request)) (\<lambda>_.
         case receipt_for state (sr_nonce request) of
           Some x \<Rightarrow>
             sbnd (read_dir (\<lambda>d. read_ref d (ref_of_dict (sub x ''receipt'')))) (\<lambda>_.
             sbnd (write_stop None) (\<lambda>_. slift (Inr (Some (ticked state)))))
         | None \<Rightarrow>
             if owns_run state request then stop_own_run c state request
             else sbnd (persist_stop_outcome c state request ''IGNORED_STALE_CONTROLLER'' [] []) (\<lambda>updated.
                  sbnd (write_stop None) (\<lambda>_. slift (Inr (Some (ticked updated)))))))"

section \<open>A stop leaves nothing running\<close>

lemma drop_dispatch_Inr:
  assumes "drop_dispatch token v = Inr v'"
  shows "has_key (sub v ''pending_dispatches'') token \<and> sub v' ''pending_dispatches'' = del (sub v ''pending_dispatches'') token
    \<and> (\<forall>k. k \<noteq> ''pending_dispatches'' \<longrightarrow> sub v' k = sub v k) \<and> is_obj v' = is_obj v"
proof -
  from assms obtain x where x: "item (sub v ''pending_dispatches'') token = Inr x"
      "v' = upd v ''pending_dispatches'' (\<lambda>d. del d token)" by (auto simp: drop_dispatch_def bnd_eq_Inr)
  then have k: "has_key (sub v ''pending_dispatches'') token" "is_obj (sub v ''pending_dispatches'')"
    by (cases "sub v ''pending_dispatches''"; auto simp: item_def has_key_def jget_def items_def is_obj_def split: option.splits)+
  with x(2) sub_obj [OF k(2)] show ?thesis by (simp add: upd_def)
qed

lemma cancel_dispatch_Inr:
  assumes "cancel_dispatch refs current tp = Inr v"
  shows "sub v ''pending_dispatches'' = del (sub current ''pending_dispatches'') (fst tp)
    \<and> sub v ''stop_receipts'' = sub current ''stop_receipts'' \<and> is_obj v = is_obj current"
  using assms by (auto simp: cancel_dispatch_def Let_def bnd_eq_Inr dest!: drop_dispatch_Inr split: if_splits)

lemma keys_delete_all:
  assumes "foldr_r (cancel_dispatch refs) current tps = Inr v"
  shows "set (jkeys (sub v ''pending_dispatches'')) = set (jkeys (sub current ''pending_dispatches'')) - set (map fst tps)
    \<and> sub v ''stop_receipts'' = sub current ''stop_receipts'' \<and> is_obj v = is_obj current"
  using assms
proof (induction tps arbitrary: current)
  case (Cons tp tps)
  then obtain w where w: "cancel_dispatch refs current tp = Inr w" "foldr_r (cancel_dispatch refs) w tps = Inr v"
    by (auto simp: bnd_eq_Inr)
  have "set (jkeys (del x k)) = set (jkeys x) - {k}" for x k
    by (cases x) (auto simp: del_def jkeys_def items_def)
  with cancel_dispatch_Inr [OF w(1)] Cons.IH [OF w(2)] show ?case by auto
qed simp


section \<open>Steps that keep the stored state\<close>

lemma keepsD: "keeps (\<lambda>s. holds s v) m \<Longrightarrow> m s = (r, s') \<Longrightarrow> holds s v \<Longrightarrow> holds s' v"
  unfolding keeps_def by (metis snd_conv)

lemma keeps_clock [keeps_intros]: "keeps (\<lambda>s. holds s v) (clock c)"
proof -
  have "holds (snd (clock c s)) v = holds s v" for s
    using clock_keeps_dir [of c s "fst (clock c s)" "snd (clock c s)"] by (auto simp: holds_def)
  then show ?thesis by (simp add: keeps_def)
qed

text \<open>What the code relies on: a fault hook and the stop of an agent leave the state of the store alone.\<close>

definition agents_apart :: "'g deps \<Rightarrow> bool" where
  "agents_apart c \<longleftrightarrow> (\<forall>v point. keeps (\<lambda>s. holds s v) (fault c point))
     \<and> (\<forall>v h. keeps (\<lambda>s. holds s v) (on_world (pv_stop (dp_provider c) h)))"

lemma keeps_stop_agents: "agents_apart c \<Longrightarrow> keeps (\<lambda>s. holds s v) (stop_agents c found ps)"
  by (induction ps arbitrary: found)
     (auto simp: stop_agent_def read_dir_def agents_apart_def Let_def intro!: keeps_intros)

lemma keeps_manifests: "keeps (\<lambda>s. holds s v) (smap (cancelled_manifest c state at) es)"
  by (rule keeps_smap) (auto simp: cancelled_manifest_def worker_attempt_body_def Let_def intro!: keeps_intros)

lemma receipt_for_None: "receipt_for state nonce = None \<longleftrightarrow> \<not> has_receipt state nonce"
  by (auto simp: receipt_for_def has_receipt_def find_None_iff list_ex_iff)

lemma stopping_stops:
  assumes "stopping request ''STOPPED'' path tps at view refs = Inr updated" and "is_obj view" and "\<not> has_receipt view (sr_nonce request)"
  shows "sub updated ''status'' = JStr ''STOPPED''"
proof -
  from assms obtain v r where v: "foldr_r (cancel_dispatch refs) view tps = Inr v"
      "updated = stamp at (upd (stopped_run (sub view ''status'') v) ''stop_receipts''
          (\<lambda>xs. push xs (JObj [(''nonce'', JStr (sr_nonce request)), (''receipt'', artifact_as_dict r)])))"
    by (auto simp: stopping_def bnd_eq_Inr)
  with keys_delete_all [OF v(1)] assms(2) show ?thesis by (simp add: stopped_run_def upd_def)
qed

text \<open>A request that the controller owns is not passed over: the tick raises, or the run is stopped.\<close>

lemma stop_own_run_stops:
  assumes "holds s state" and "receipt_for state (sr_nonce request) = None" and "agents_apart c"
    and "stop_own_run c state request s = (Inr r, s')"
  shows "\<exists>updated. r = Some (ticked updated) \<and> sub updated ''status'' = JStr ''STOPPED'' \<and> ss_stop s' = None"
proof -
  from assms(4) obtain s1 found s2 current s3 updated s4 where
    1: "fault c ''after_stop_request_before_worker_exit'' s = (Inr (), s1)"
    and 2: "stop_agents c ([], []) (map snd (items (sub state ''pending_dispatches''))) s1 = (Inr found, s2)"
    and 3: "load_state s2 = (Inr current, s3)"
    and 4: "persist_stop_outcome c current request ''STOPPED'' (fst found) (snd found) s3 = (Inr updated, s4)"
    and r: "r = Some (ticked updated)" "ss_stop s' = None"
    by (auto simp: stop_own_run_def write_stop_def slift_def elim!: sbnd_InrE)
  from assms(1,3) have "holds s2 state"
    using keepsD [where m = "fault c ''after_stop_request_before_worker_exit''", OF _ 1] keepsD [OF keeps_stop_agents 2] assms(3)
    by (auto simp: agents_apart_def)
  with 3 have h: "holds s3 state" "current = state" by (auto simp: holds_def)
  from 4 h(2) obtain at s5 body manifests s6 where
    5: "clock c s3 = (Inr at, s5)" "smap (cancelled_manifest c state at) (items (sub state ''pending_dispatches'')) s5 = (Inr manifests, s6)"
    and 6: "commit state (dict_of ((''control/receipts/'' @ sr_nonce request @ ''.json'', body) # map snd manifests))
       (stopping request ''STOPPED'' (''control/receipts/'' @ sr_nonce request @ ''.json'') (map (\<lambda>(token, path, _). (token, path)) manifests) at) s6
       = (Inr updated, s4)"
    by (auto simp: persist_stop_outcome_def Let_def elim!: sbnd_InrE)
  from h(1) have "holds s6 state"
    by (auto intro: keepsD [OF keeps_manifests 5(2)] keepsD [OF keeps_clock 5(1)])
  from commit_Inr [OF 6 this] obtain view refs u where v: "same_but_index view state"
      "stopping request ''STOPPED'' (''control/receipts/'' @ sr_nonce request @ ''.json'') (map (\<lambda>(token, path, _). (token, path)) manifests) at view refs = Inr u"
      "updated = put u ''revision'' (JInt (int_of (sub state ''revision'') + 1))"
    by metis
  have "\<not> has_receipt view (sr_nonce request)"
    using assms(2) same_but_index_sub [OF v(1), of "''stop_receipts''"] by (simp add: receipt_for_None has_receipt_def)
  from stopping_stops [OF v(2) view_obj [OF v(1)] this] v(3) r show ?thesis by (intro exI [of _ updated]) simp
qed

end
