(* ===== verification/Planning.thy ===== *)
theory Planning
  imports ControlState Attempts
begin

text \<open>
  The planner's part of \<^verbatim>\<open>controller.py\<close>: an operation is allocated in the state, the agent is started
  through the ledger, polled, and its plan accepted with the tasks that it adds.
\<close>

section \<open>Dispatches of a role\<close>

definition pending_for_role :: "json \<Rightarrow> string \<Rightarrow> (string \<times> json) option result" where
  "pending_for_role state role =
     (let values = filter (\<lambda>e. sub (snd e) ''role'' = JStr role) (items (sub state ''pending_dispatches'')) in
      if length values > 1 then Inl ContractError
      else Inr (case values of [] \<Rightarrow> None | v # _ \<Rightarrow> Some v))"

text \<open>\<^verbatim>\<open>_handle_from_pending\<close>; the versions are those of the provider.\<close>

definition current_handle :: "'g deps \<Rightarrow> json \<Rightarrow> provider_handle option" where
  "current_handle c pending =
     (let v = sub pending ''provider_handle'';
          absolute = (\<lambda>field. under_root (dp_run_root c) (posix_parts (str_of (sub pending field)))) in
      if v = JNull then None
      else Some \<lparr>ph_adapter = sub v ''adapter'', ph_attempt_token = sub v ''attempt_token'', ph_pid = sub v ''pid'',
        ph_process_start_identity = sub v ''process_start_identity'', ph_process_group = sub v ''process_group'',
        ph_child_pid = sub v ''child_pid'', ph_child_process_start_identity = sub v ''child_process_start_identity'',
        ph_child_process_group = sub v ''child_process_group'',
        ph_codex_version = JStr (ei_codex_version (pv_identity (dp_provider c))),
        ph_execution_policy_sha256 = JStr (ei_policy_sha256 (pv_identity (dp_provider c))),
        ph_launch_path = absolute ''launch_path'', ph_stdout_path = absolute ''stdout_path'',
        ph_stderr_path = absolute ''stderr_path'', ph_exit_path = absolute ''exit_path'',
        ph_result_path = absolute ''result_path''\<rparr>)"

definition remember_invocation :: "string \<Rightarrow> role_invocation \<Rightarrow> ('g session, unit) eff" where
  "remember_invocation token i =
     (\<lambda>s. (Inr (), s\<lparr>ss_invocations := AList.update token i (ss_invocations s)\<rparr>))"

section \<open>Starting the planner\<close>

definition planner_context :: "json \<Rightarrow> plan_document list \<Rightarrow> (string \<times> json) list" where
  "planner_context state prior_plans =
     [(''goal'', sub state ''goal''), (''repository'', sub state ''repository''),
      (''prior_plans'', JList (map plan_to_dict prior_plans)), (''repair_round'', sub state ''repair_round''),
      (''last_error'', sub state ''last_error'')]"

definition allocating_planner :: "bool \<Rightarrow> string \<Rightarrow> int \<Rightarrow> string \<Rightarrow> string \<Rightarrow> json \<Rightarrow> refs \<Rightarrow> json result" where
  "allocating_planner repair operation_id attempt_no token created_at current refs =
     (let runtime = sub (sub current ''role_runtime'') ''planner'' in
      bnd (chk (sub runtime ''active_attempt_token'' = JNull)) (\<lambda>_.
      Inr (stamp created_at
        (put (upd2 current ''role_runtime'' ''planner'' (\<lambda>x.
            put (put (put (put (put x ''operation_id'' (JStr operation_id)) ''attempt_no'' (JInt attempt_no))
              ''failure_count'' (JInt 0)) ''active_attempt_token'' (JStr token)) ''last_error'' JNull))
          ''status'' (JStr (if repair then ''REPAIRING'' else ''PLANNING''))))))"

definition start_planner_operation :: "'g deps \<Rightarrow> json \<Rightarrow> bool \<Rightarrow> ('g session, tick_result) eff" where
  "start_planner_operation c state repair =
     sbnd (fresh_uuid c) (\<lambda>u1.
     sbnd (fresh_uuid c) (\<lambda>u2.
     sbnd (clock c) (\<lambda>created_at.
     let operation_id = (if repair then ''REPAIR'' else ''PLAN'') @ ''-'' @ u1; token = ''ATTEMPT-PLANNER-'' @ u2;
         head = str_of (integration_head state) in
     sbnd (on_git (create_disposable_worktree (dp_host c) (str_of (sub state ''run_id'')) ''read-only'' operation_id head)) (\<lambda>worktree.
     sbnd (read_dir (\<lambda>d. load_plans d state)) (\<lambda>prior_plans.
     sbnd (slift (role_attempt_prefix ''planner'' (JStr operation_id) (JInt 1))) (\<lambda>artifact_prefix.
     sbnd (read_host (prepare_planner c head operation_id 1 created_at token worktree
       (planner_context state prior_plans) artifact_prefix)) (\<lambda>i.
     sbnd (commit state [] (allocating_planner repair operation_id 1 token created_at)) (\<lambda>_.
     sbnd (remember_invocation token i) (\<lambda>_.
     sbnd (start_planner c i) (\<lambda>_.
     sbnd load_state (\<lambda>updated.
     slift (Inr (ticked updated)))))))))))))"

section \<open>Accepting a plan\<close>

definition plan_path :: "plan_document \<Rightarrow> string" where
  "plan_path p =
     (if pd_plan_version p = 1 then ''plan/plan-v001.json'' else ''plan/repair-v'' @ pad3 (pd_plan_version p) @ ''.json'')"

definition task_path :: "task_contract \<Rightarrow> string" where
  "task_path t = ''tasks/'' @ tc_id t @ ''/task.json''"

definition add_task :: "refs \<Rightarrow> json \<Rightarrow> task_contract \<Rightarrow> json result" where
  "add_task refs current t =
     bnd (chk (\<not> has_key (sub current ''tasks'') (tc_id t))) (\<lambda>_.
     bnd (new_task_state t) (\<lambda>task_state.
     bnd (ref_at refs (task_path t)) (\<lambda>r.
     Inr (upd current ''tasks'' (\<lambda>tasks. put tasks (tc_id t) (put task_state ''task'' (artifact_as_dict r)))))))"

definition accepting_plan ::
  "string \<Rightarrow> json \<Rightarrow> plan_document \<Rightarrow> string \<Rightarrow> string \<Rightarrow> string \<Rightarrow> json \<Rightarrow> refs \<Rightarrow> json result" where
  "accepting_plan token pending document raw_body attempt_path at current refs =
     (let current_pending = sub (sub current ''pending_dispatches'') token; r = sub current_pending ''result'' in
      bnd (chk (py_eq current_pending pending)) (\<lambda>_.
      bnd (chk (r \<noteq> JNull)) (\<lambda>_.
      bnd (artifact_ref_of (str_of (sub r ''path'')) raw_body) (\<lambda>raw.
      bnd (chk (JStr (ar_sha256 raw) = sub r ''sha256'')) (\<lambda>_.
      bnd (ref_at refs (plan_path document)) (\<lambda>plan_ref.
      bnd (ref_at refs attempt_path) (\<lambda>attempt_ref.
      bnd (foldr_r (add_task refs)
        (upd2 (upd2 (put (upd current ''plans'' (\<lambda>xs. push xs (artifact_as_dict plan_ref)))
            ''plan_version'' (JInt (pd_plan_version document)))
          ''role_attempts'' ''planner'' (\<lambda>xs. push xs (artifact_as_dict attempt_ref)))
          ''role_runtime'' ''planner'' (\<lambda>x. put (put x ''active_attempt_token'' JNull) ''last_error'' JNull))
        (pd_tasks document)) (\<lambda>extended.
      bnd (drop_dispatch token extended) (\<lambda>closed.
      Inr (stamp at (put (put closed ''status'' (JStr ''EXECUTING'')) ''last_error'' JNull)))))))))))"

definition accept_plan ::
  "'g deps \<Rightarrow> json \<Rightarrow> string \<Rightarrow> plan_document \<Rightarrow> string \<Rightarrow> ('g session, tick_result) eff" where
  "accept_plan c state token document raw_body =
     sbnd (slift (item (sub state ''pending_dispatches'') token)) (\<lambda>pending.
     sbnd (slift (canonical_json_bytes (plan_to_dict document))) (\<lambda>plan_body.
     sbnd (slift (role_manifest_path ''planner'' pending)) (\<lambda>attempt_path.
     sbnd (clock c) (\<lambda>completed_at.
     sbnd (slift (attempt_manifest_body pending ''SUCCEEDED'' completed_at JNull)) (\<lambda>attempt_body.
     sbnd (slift (mapr (\<lambda>t. bnd (canonical_json_bytes (task_to_dict t)) (\<lambda>b. Inr (task_path t, b))) (pd_tasks document))) (\<lambda>tasks.
     sbnd (commit_now c state (dict_of ([(plan_path document, plan_body), (attempt_path, attempt_body)] @ tasks))
       (accepting_plan token pending document raw_body attempt_path)) (\<lambda>updated.
     slift (Inr ((ticked updated)\<lparr>tr_completed := [token]\<rparr>)))))))))"

section \<open>Polling\<close>

definition planner_answered :: "'g deps \<Rightarrow> json \<Rightarrow> string \<Rightarrow> provider_handle \<Rightarrow> ('g session, tick_result) eff" where
  "planner_answered c state token h =
     sbnd (require_invocation token) (\<lambda>i.
     sbnd (read_dir (\<lambda>d. load_plans d state)) (\<lambda>prior_plans.
     sbnd (planner_result c prior_plans i h) (\<lambda>document.
     sbnd (on_world (pv_result (dp_provider c) h)) (\<lambda>raw.
     sbnd load_state (\<lambda>current.
     accept_plan c current token document (px_body raw))))))"

text \<open>Without a dispatch, or before its handle is bound, a tick of the planner does nothing.\<close>

definition poll_planner :: "'g deps \<Rightarrow> json \<Rightarrow> ('g session, tick_result) eff" where
  "poll_planner c state =
     sbnd (slift (pending_for_role state ''planner'')) (\<lambda>entry.
     case entry of
       None \<Rightarrow> slift (Inr (idle state))
     | Some (token, pending) \<Rightarrow>
         (case current_handle c pending of
            None \<Rightarrow> slift (Inr (idle state))
          | Some h \<Rightarrow>
              sbnd (on_world (pv_poll (dp_provider c) h)) (\<lambda>status.
              case status of
                P_RUNNING \<Rightarrow> slift (Inr (idle state))
              | P_FAILED \<Rightarrow> close_role_failure c ''planner'' token h ''PLANNER_PROVIDER_FAILED''
              | P_SUCCEEDED \<Rightarrow> planner_answered c state token h)))"

definition repair :: "'g deps \<Rightarrow> json \<Rightarrow> ('g session, tick_result) eff" where
  "repair c state =
     sbnd (slift (pending_for_role state ''planner'')) (\<lambda>entry.
     if entry \<noteq> None then poll_planner c state else start_planner_operation c state True)"

end
