(* ===== verification/Execution.thy ===== *)
theory Execution
  imports Planning Integrator Scheduler
begin

text \<open>
  The workers' part of \<^verbatim>\<open>controller.py\<close>: attempts are allocated, their worktrees and preflights
  recorded, the agents started and polled; the change of a finished worker is committed on its task ref
  and handed to the integrator, and the next tasks are chosen by the scheduler.
\<close>

text \<open>\<^verbatim>\<open>try: m except P as error: handler(error)\<close>\<close>

definition sexcept :: "(error \<Rightarrow> bool) \<Rightarrow> ('s, 'a) eff \<Rightarrow> (error \<Rightarrow> ('s, 'a) eff) \<Rightarrow> ('s, 'a) eff" where
  "sexcept P m handler = (\<lambda>s. case m s of
     (Inl e, s') \<Rightarrow> if P e then handler e s' else (Inl e, s')
   | (Inr x, s') \<Rightarrow> (Inr x, s'))"

section \<open>Starting workers\<close>

definition task_at :: "json \<Rightarrow> string \<Rightarrow> json" where
  "task_at state task_id = sub (sub state ''tasks'') task_id"

definition allocating_worker ::
  "string \<Rightarrow> task_worktree \<Rightarrow> string \<Rightarrow> string \<Rightarrow> string \<Rightarrow> json \<Rightarrow> refs \<Rightarrow> json result" where
  "allocating_worker task_id descriptor token created_at at current refs =
     bnd (item (sub current ''tasks'') task_id) (\<lambda>task.
     bnd (start_attempt task (tw_base_sha descriptor) descriptor token created_at) (\<lambda>started.
     Inr (stamp at (upd current ''tasks'' (\<lambda>tasks. put tasks task_id started)))))"

text \<open>The first loop: one attempt and one worktree for every selected task.\<close>

fun allocate_workers ::
  "'g deps \<Rightarrow> (string, task_contract) dict \<Rightarrow> json \<Rightarrow> string list \<Rightarrow> ('g session, json \<times> (task_contract \<times> task_worktree \<times> string) list) eff" where
  "allocate_workers c contracts state [] = slift (Inr (state, []))"
| "allocate_workers c contracts state (task_id # ids) =
     sbnd (slift (case map_of contracts task_id of None \<Rightarrow> Inl KeyError | Some t \<Rightarrow> Inr t)) (\<lambda>contract.
     sbnd (slift (item (sub state ''tasks'') task_id)) (\<lambda>task_state.
     let attempt_no = int_of (sub task_state ''attempt_no'') + 1; base = str_of (integration_head state);
         run_id = str_of (sub state ''run_id'');
         name = task_id @ ''-a'' @ int_text attempt_no;
         descriptor = \<lparr>tw_path = path_join (path_join (path_join (path_join (dp_target c) ''.vibe-coding'') ''worktrees'') run_id) name,
           tw_branch = worker_branch run_id task_id attempt_no, tw_base_sha = base\<rparr> in
     sbnd (fresh_uuid c) (\<lambda>u.
     let token = ''ATTEMPT-WORKER-'' @ u in
     sbnd (clock c) (\<lambda>created_at.
     sbnd (commit_now c state [] (allocating_worker (tc_id contract) descriptor token created_at)) (\<lambda>allocated.
     sbnd (on_git (create_task_worktree (dp_host c) run_id task_id attempt_no base)) (\<lambda>worktree.
     sbnd (allocate_workers c contracts allocated ids) (\<lambda>(final, rest).
     slift (Inr (final, (contract, worktree, token) # rest)))))))))"

definition binding_preflight :: "string \<Rightarrow> string \<Rightarrow> string \<Rightarrow> string \<Rightarrow> json \<Rightarrow> refs \<Rightarrow> json result" where
  "binding_preflight task_id token path at current refs =
     bnd (item (sub current ''tasks'') task_id) (\<lambda>task.
     bnd (ref_at refs path) (\<lambda>r.
     bnd (bind_attempt_preflight task token r) (\<lambda>bound.
     Inr (stamp at (upd current ''tasks'' (\<lambda>tasks. put tasks task_id bound))))))"

text \<open>The body of the second loop: the preflight is recorded, then the worker is dispatched.\<close>

definition launch_worker ::
  "'g deps \<Rightarrow> json \<Rightarrow> task_contract \<times> task_worktree \<times> string \<Rightarrow> ('g session, json) eff" where
  "launch_worker c state allocated =
     (case allocated of (contract, worktree, token) \<Rightarrow>
      let task = task_at state (tc_id contract); attempts = ''tasks/'' @ tc_id contract @ ''/attempts/'';
          preflight_path = attempts @ pad3 (int_of (sub task ''attempt_no'')) @ ''/preflight.json'' in
      sbnd (on_git (snapshot_protected_git (dp_host c) (Some (tw_branch worktree)))) (\<lambda>protected.
      sbnd (on_git (capture_worker_preflight (dp_depth c) (dp_host c) worktree (tc_id contract)
        (str_of (sub (sub task ''active_attempt'') ''created_at'')) protected)) (\<lambda>preflight.
      sbnd (slift (canonical_json_bytes (preflight_as_dict preflight))) (\<lambda>preflight_body.
      sbnd (commit_now c state [(preflight_path, preflight_body)] (binding_preflight (tc_id contract) token preflight_path)) (\<lambda>prepared.
      let bound = task_at prepared (tc_id contract); attempt_no = int_of (sub bound ''attempt_no'') in
      sbnd (read_host (prepare_worker c (str_of (sub prepared ''run_id'')) contract
        (''WORK-'' @ tc_id contract @ ''-A'' @ int_text attempt_no) attempt_no
        (str_of (sub (sub bound ''active_attempt'') ''created_at'')) token (tw_path worktree) (tw_base_sha worktree)
        (sub bound ''last_error'') (attempts @ pad3 attempt_no))) (\<lambda>i.
      let invocation = i\<lparr>in_branch := Some (tw_branch worktree), in_preflight_body := preflight_body\<rparr> in
      sbnd (remember_invocation token invocation) (\<lambda>_.
      sbnd (dispatch_role c invocation) (\<lambda>_.
      load_state))))))))"

fun launch_workers ::
  "'g deps \<Rightarrow> json \<Rightarrow> (task_contract \<times> task_worktree \<times> string) list \<Rightarrow> ('g session, json) eff" where
  "launch_workers c state [] = slift (Inr state)"
| "launch_workers c state (a # rest) = sbnd (launch_worker c state a) (\<lambda>state'. launch_workers c state' rest)"

definition start_workers ::
  "'g deps \<Rightarrow> json \<Rightarrow> (string, task_contract) dict \<Rightarrow> string list \<Rightarrow> ('g session, json) eff" where
  "start_workers c state contracts selected =
     sbnd (allocate_workers c contracts state selected) (\<lambda>(allocated, workers). launch_workers c allocated workers)"

section \<open>Polling workers\<close>

definition accepting_work :: "string \<Rightarrow> string \<Rightarrow> string \<Rightarrow> string \<Rightarrow> closing" where
  "accepting_work token task_id path at current pending refs =
     bnd (item (sub current ''tasks'') task_id) (\<lambda>task.
     let active = sub task ''active_attempt'' in
     bnd (ref_at refs path) (\<lambda>r.
     bnd (chk (\<not> (active = JNull \<or> sub active ''attempt_token'' \<noteq> JStr token \<or> sub pending ''result'' = JNull
        \<or> JStr (ar_sha256 r) \<noteq> sub (sub pending ''result'') ''sha256''))) (\<lambda>_.
     Inr (stamp at (upd2 current ''tasks'' task_id (\<lambda>t. put (put t ''result'' (artifact_as_dict r))
            ''active_attempt'' (put (put active ''status'' (JStr ''VERIFYING'')) ''provider_handle'' JNull))), True))))"

definition worker_answered ::
  "'g deps \<Rightarrow> string \<Rightarrow> role_invocation \<Rightarrow> provider_handle \<Rightarrow> ('g session, unit) eff" where
  "worker_answered c token i h =
     sbnd (on_world (pv_result (dp_provider c) h)) (\<lambda>raw.
     sbnd (slift (parse_worker_result (assignment_of i) (px_body raw))) (\<lambda>r.
     if wr_status r = ''BLOCKED'' then
       sbnd load_state (\<lambda>state.
       pause_blocked_worker c state token (case wr_blocker r of None \<Rightarrow> ''Worker blocked'' | Some b \<Rightarrow> b))
     else
       sbnd load_state (\<lambda>state.
       sbnd (slift (item (sub state ''tasks'') (wr_task_id r))) (\<lambda>task.
       let path = str_of (sub (sub task ''active_attempt'') ''result_path'') in
       sbnd (clock c) (\<lambda>at.
       sbnd (on_world (on_dir (accept_current_result token [(path, px_body raw)]
         (accepting_work token (wr_task_id r) path at)))) (\<lambda>_.
       slift (Inr ())))))))"

definition poll_worker :: "'g deps \<Rightarrow> string \<times> json \<Rightarrow> ('g session, string list) eff" where
  "poll_worker c entry =
     (let token = fst entry in
      case current_handle c (snd entry) of
        None \<Rightarrow> slift (Inl ContractError)
      | Some h \<Rightarrow>
          sbnd (on_world (pv_poll (dp_provider c) h)) (\<lambda>status.
          if status = P_RUNNING then slift (Inr [])
          else
            sbnd (require_invocation token) (\<lambda>i.
            sbnd (bind_completion_of c i h) (\<lambda>_.
            sbnd (if status = P_FAILED
                  then sbnd load_state (\<lambda>state. freeze_failed_worker c state token ''WORKER_PROVIDER_FAILED'')
                  else worker_answered c token i h) (\<lambda>_.
            slift (Inr [token]))))))"

definition worker_entries :: "json \<Rightarrow> (string \<times> json) list" where
  "worker_entries state =
     filter (\<lambda>(token, pending). sub pending ''role'' = JStr ''worker'' \<and> sub pending ''provider_handle'' \<noteq> JNull)
       (items (sub state ''pending_dispatches''))"

definition poll_workers :: "'g deps \<Rightarrow> json \<Rightarrow> ('g session, string list) eff" where
  "poll_workers c state =
     sbnd (smap (poll_worker c) (worker_entries state)) (\<lambda>completed. slift (Inr (concat completed)))"

section \<open>The source commit of a finished worker\<close>

definition active_worktree :: "'g deps \<Rightarrow> json \<Rightarrow> 'g \<Rightarrow> task_worktree" where
  "active_worktree c active g =
     \<lparr>tw_path = h_resolve (dp_host c) g (under_root (dp_target c) (posix_parts (str_of (sub active ''worktree'')))),
      tw_branch = str_of (sub active ''branch''), tw_base_sha = str_of (sub active ''task_base_sha'')\<rparr>"

definition opt_text :: "json \<Rightarrow> string option" where
  "opt_text v = (if v = JNull then None else Some (str_of v))"

text \<open>The stored preflight; its fields have the types that \<open>preflight_as_dict\<close> gave them.\<close>

definition preflight_of_dict :: "json \<Rightarrow> attempt_preflight result" where
  "preflight_of_dict v =
     bnd (text_item v ''role'') (\<lambda>role.
     bnd (item v ''task_id'') (\<lambda>task_id.
     bnd (text_item v ''attempt_created_at'') (\<lambda>created_at.
     bnd (text_item v ''expected_base'') (\<lambda>base.
     bnd (item v ''branch'') (\<lambda>branch.
     bnd (text_item v ''worktree'') (\<lambda>worktree.
     bnd (item v ''snapshot'') (\<lambda>snapshot.
     Inr \<lparr>ap_role = role, ap_task_id = opt_text task_id, ap_attempt_created_at = created_at, ap_expected_base = base,
       ap_branch = opt_text branch, ap_worktree = worktree, ap_snapshot = snapshot\<rparr>)))))))"

definition contract_for :: "run_dir \<Rightarrow> json \<Rightarrow> string \<Rightarrow> task_contract result" where
  "contract_for d state task_id =
     bnd (task_contracts d state) (\<lambda>contracts.
     case map_of contracts task_id of None \<Rightarrow> Inl KeyError | Some t \<Rightarrow> Inr t)"

definition prepare_active_source ::
  "'g deps \<Rightarrow> json \<Rightarrow> string \<Rightarrow> ('g session, prepared_source_commit \<times> task_worktree) eff" where
  "prepare_active_source c state task_id =
     (let task = task_at state task_id; active = sub task ''active_attempt'' in
      sbnd (read_host (\<lambda>g. Inr (active_worktree c active g))) (\<lambda>worktree.
      sbnd (read_dir (\<lambda>d. bnd (read_json_ref d (sub active ''preflight'')) preflight_of_dict)) (\<lambda>preflight.
      sbnd (read_dir (\<lambda>d. contract_for d state task_id)) (\<lambda>contract.
      sbnd (on_git (prepare_source_commit (dp_host c) contract worktree preflight
        \<lparr>sm_run_id = str_of (sub state ''run_id''), sm_task_id = task_id, sm_attempt_no = int_of (sub task ''attempt_no''),
         sm_attempt_created_at = str_of (sub active ''created_at'')\<rparr>)) (\<lambda>prepared.
      slift (Inr (prepared, worktree)))))))"

definition source_audit_path :: "string \<Rightarrow> json \<Rightarrow> string" where
  "source_audit_path task_id task =
     ''tasks/'' @ task_id @ ''/attempts/'' @ pad3 (int_of (sub task ''attempt_no'')) @ ''/source-audit.json''"

definition source_marker ::
  "json \<Rightarrow> string \<Rightarrow> string \<Rightarrow> task_worktree \<Rightarrow> prepared_source_commit \<Rightarrow> artifact_ref \<Rightarrow> json" where
  "source_marker state operation_id task_id worktree prepared r =
     (let task = task_at state task_id in
      JObj [(''operation_id'', JStr operation_id), (''task_id'', JStr task_id), (''attempt_no'', sub task ''attempt_no''),
        (''expected_base'', JStr (tw_base_sha worktree)), (''task_ref'', JStr (tw_branch worktree)),
        (''tree_oid'', JStr (ps_tree_oid prepared)), (''candidate_commit'', JStr (ps_candidate_commit prepared)),
        (''author_name'', JStr ''Vibe Controller''), (''author_email'', JStr ''vibe-controller@localhost''),
        (''timestamp'', sub (sub task ''active_attempt'') ''created_at''),
        (''message'', JStr (''vibe('' @ str_of (sub state ''run_id'') @ ''): '' @ task_id @ '' attempt ''
           @ int_text (int_of (sub task ''attempt_no'')))),
        (''source_audit'', artifact_as_dict r)])"

definition marking_source ::
  "json \<Rightarrow> string \<Rightarrow> string \<Rightarrow> task_worktree \<Rightarrow> prepared_source_commit \<Rightarrow> string \<Rightarrow> string \<Rightarrow> json \<Rightarrow> refs \<Rightarrow> json result" where
  "marking_source state operation_id task_id worktree prepared path at current refs =
     bnd (ref_at refs path) (\<lambda>r.
     Inr (stamp at (put current ''pending_source_commit'' (source_marker state operation_id task_id worktree prepared r))))"

definition completing_source :: "json \<Rightarrow> string \<Rightarrow> prepared_source_commit \<Rightarrow> string \<Rightarrow> json \<Rightarrow> refs \<Rightarrow> json result" where
  "completing_source marker task_id prepared at current refs =
     bnd (chk (py_eq (sub current ''pending_source_commit'') marker)) (\<lambda>_.
     bnd (item (sub current ''tasks'') task_id) (\<lambda>_.
     Inr (stamp at (put (upd2 current ''tasks'' task_id (\<lambda>t.
        put (put t ''source_commits'' (JList [JStr (ps_candidate_commit prepared)])) ''status'' (JStr ''READY_TO_INTEGRATE'')))
        ''pending_source_commit'' JNull))))"

definition complete_source_marker ::
  "'g deps \<Rightarrow> json \<Rightarrow> string \<Rightarrow> prepared_source_commit \<Rightarrow> ('g session, json) eff" where
  "complete_source_marker c state task_id prepared =
     commit_now c state [] (completing_source (sub state ''pending_source_commit'') task_id prepared)"

definition prepare_source_for_task :: "'g deps \<Rightarrow> json \<Rightarrow> string \<Rightarrow> ('g session, tick_result) eff" where
  "prepare_source_for_task c state task_id =
     sbnd (prepare_active_source c state task_id) (\<lambda>(prepared, worktree).
     let path = source_audit_path task_id (task_at state task_id) in
     sbnd (fresh_uuid c) (\<lambda>u.
     sbnd (slift (artifact_ref_of path (ps_source_audit_body prepared))) (\<lambda>_.
     sbnd (commit_now c state [(path, ps_source_audit_body prepared)]
       (marking_source state (''SRC-'' @ u) task_id worktree prepared path)) (\<lambda>persisted.
     sbnd (fault c ''after_worker_edit_before_controller_commit'') (\<lambda>_.
     sbnd (on_git (apply_source_commit_cas (dp_host c) worktree prepared)) (\<lambda>_.
     sbnd (fault c ''after_controller_commit_before_verification_binding'') (\<lambda>_.
     sbnd (complete_source_marker c persisted task_id prepared) (\<lambda>updated.
     slift (Inr (ticked updated))))))))))"

text \<open>The reference and the contents of the source audit of the active attempt.\<close>

definition indexed_audit_ref :: "json \<Rightarrow> string \<Rightarrow> json \<Rightarrow> artifact_ref result" where
  "indexed_audit_ref state task_id task =
     (case find (\<lambda>x. sub x ''path'' = JStr (source_audit_path task_id task)) (elems (sub state ''artifact_index'')) of
        None \<Rightarrow> Inl ContractError | Some x \<Rightarrow> Inr (ref_of_dict x))"

definition protected_of_dict :: "'g host \<Rightarrow> json \<Rightarrow> protected_git_snapshot result" where
  "protected_of_dict h raw =
     bnd (chk (is_obj raw)) (\<lambda>_.
     bnd (str_field h raw ''user_head'') (\<lambda>user_head.
     bnd (str_field h raw ''index_tree'') (\<lambda>index_tree.
     bnd (str_field h raw ''status_digest'') (\<lambda>status_digest.
     bnd (str_pairs h raw ''refs'') (\<lambda>rs.
     bnd (str_field h raw ''packed_refs_digest'') (\<lambda>packed.
     bnd (str_field h raw ''config_digest'') (\<lambda>config.
     bnd (str_pairs h raw ''remote_urls'') (\<lambda>urls.
     Inr \<lparr>pg_user_head = user_head, pg_index_tree = index_tree, pg_status_digest = status_digest, pg_refs = rs,
       pg_packed_refs_digest = packed, pg_config_digest = config, pg_remote_urls = urls\<rparr>))))))))"

definition str_tuple :: "'g host \<Rightarrow> json \<Rightarrow> string \<Rightarrow> string list result" where
  "str_tuple h raw key =
     bnd (some_or_contract (jget raw key)) (\<lambda>v. bnd (some_or_contract (py_iter v)) (\<lambda>xs. Inr (map (py_str h) xs)))"

definition source_audit_of_dict :: "'g host \<Rightarrow> json \<Rightarrow> source_audit result" where
  "source_audit_of_dict h raw =
     bnd (str_field h raw ''base_sha'') (\<lambda>base.
     bnd (str_field h raw ''candidate_commit'') (\<lambda>head.
     bnd (str_tuple h raw ''source_commits'') (\<lambda>commits.
     bnd (str_tuple h raw ''changed_paths'') (\<lambda>paths.
     bnd (some_or_contract (jget raw ''gitlinks_changed'')) (\<lambda>gitlinks.
     bnd (bnd (some_or_contract (jget raw ''protected_before'')) (protected_of_dict h)) (\<lambda>before.
     bnd (bnd (some_or_contract (jget raw ''protected_after'')) (protected_of_dict h)) (\<lambda>after.
     Inr \<lparr>sa_task_base_sha = base, sa_source_head = head, sa_source_commits = commits, sa_changed_paths = paths,
       sa_gitlinks_changed = bool_of gitlinks, sa_protected_before = before, sa_protected_after = after\<rparr>)))))))"

definition source_audit_for_active :: "'g deps \<Rightarrow> json \<Rightarrow> string \<Rightarrow> run_dir \<Rightarrow> source_audit result" where
  "source_audit_for_active c state task_id d =
     bnd (indexed_audit_ref state task_id (task_at state task_id)) (\<lambda>r.
     bnd (bnd (read_ref d r) parse_json_object_bytes) (source_audit_of_dict (dp_host c)))"

definition reconcile_source_commit :: "'g deps \<Rightarrow> json \<Rightarrow> ('g session, tick_result) eff" where
  "reconcile_source_commit c state =
     (let marker = sub state ''pending_source_commit''; task_id = str_of (sub marker ''task_id'');
          active = sub (task_at state task_id) ''active_attempt'' in
      sbnd (read_host (\<lambda>g. Inr (active_worktree c active g))) (\<lambda>worktree.
      sbnd (read_dir (\<lambda>d. read_ref d (ref_of_dict (sub marker ''source_audit'')))) (\<lambda>audit_body.
      sbnd (read_dir (source_audit_for_active c state task_id)) (\<lambda>audit.
      let prepared = \<lparr>ps_tree_oid = str_of (sub marker ''tree_oid''),
            ps_candidate_commit = str_of (sub marker ''candidate_commit''), ps_source_audit = audit,
            ps_source_audit_body = audit_body\<rparr> in
      if JStr (sa_source_head audit) \<noteq> sub marker ''candidate_commit'' \<or> JStr (sa_task_base_sha audit) \<noteq> sub marker ''expected_base''
      then pause_run c state ''SOURCE_PREPARED_MISMATCH'' ''prepared source commit no longer matches durable marker''
      else
        sbnd (on_git (classify_source_cas (dp_host c) worktree prepared)) (\<lambda>outcome.
        if outcome = ''PAUSE'' then pause_run c state ''SOURCE_REF_MOVED'' ''reserved task ref moved outside the Controller''
        else
          sbnd (if outcome = ''RETRY_CAS'' then on_git (apply_source_commit_cas (dp_host c) worktree prepared)
                else slift (Inr ())) (\<lambda>_.
          sbnd load_state (\<lambda>current.
          sbnd (complete_source_marker c current task_id prepared) (\<lambda>updated.
          slift (Inr (ticked updated))))))))))"

section \<open>Integration\<close>

definition rejecting_worker :: "string \<Rightarrow> json \<Rightarrow> string \<Rightarrow> string \<Rightarrow> string \<Rightarrow> json \<Rightarrow> refs \<Rightarrow> json result" where
  "rejecting_worker task_id active message path at current refs =
     bnd (item (sub current ''tasks'') task_id) (\<lambda>task.
     bnd (chk (py_eq (sub task ''active_attempt'') active)) (\<lambda>_.
     bnd (ref_at refs path) (\<lambda>r.
     Inr (fail_with_task task_id (stamp at (upd2 current ''tasks'' task_id (\<lambda>t.
        one_more_failure (put (put (put (put (put (upd t ''attempts'' (\<lambda>xs. push xs (artifact_as_dict r)))
          ''active_attempt'' JNull) ''result'' JNull) ''verification'' JNull) ''source_commits'' (JList []))
          ''last_error'' (error_value ''INTEGRATION_REJECTED'' message True)))))))))"

definition close_rejected_worker :: "'g deps \<Rightarrow> json \<Rightarrow> string \<Rightarrow> string \<Rightarrow> ('g session, tick_result) eff" where
  "close_rejected_worker c state task_id message =
     (let task = task_at state task_id; path = worker_manifest_path state task_id in
      sbnd (slift (indexed_audit_ref state task_id task)) (\<lambda>audit_ref.
      sbnd (worker_attempt_body c state task_id ''FAILED'' (Some audit_ref) None
        (error_value ''INTEGRATION_REJECTED'' message True) None) (\<lambda>body.
      sbnd (commit_now c state [(path, body)] (rejecting_worker task_id (sub task ''active_attempt'') message path)) (\<lambda>updated.
      slift (Inr (ticked updated))))))"

definition integrate_task :: "'g deps \<Rightarrow> json \<Rightarrow> string \<Rightarrow> ('g session, tick_result) eff" where
  "integrate_task c state task_id =
     sbnd (read_dir (\<lambda>d. contract_for d state task_id)) (\<lambda>contract.
     sbnd (read_dir (source_audit_for_active c state task_id)) (\<lambda>audit.
     sexcept (\<lambda>e. e = IntegrationRejected)
       (sbnd (on_world (integrate (dp_hook c) (dp_machine c) (dp_host c) (dp_depth c) (dp_config c) contract audit)) (\<lambda>_.
        sbnd load_state (\<lambda>updated. slift (Inr (ticked updated)))))
       (\<lambda>e. sbnd load_state (\<lambda>current. close_rejected_worker c current task_id (dp_error_text c e)))))"

section \<open>One step of the execution\<close>

definition is_verifying :: "json \<Rightarrow> bool" where
  "is_verifying task =
     (sub task ''status'' = JStr ''RUNNING'' \<and> is_obj (sub task ''active_attempt'')
      \<and> sub (sub task ''active_attempt'') ''status'' = JStr ''VERIFYING'')"

definition sorted_tasks :: "json \<Rightarrow> string list" where
  "sorted_tasks state = sort (jkeys (sub state ''tasks''))"

definition verifying_task :: "json \<Rightarrow> string option" where
  "verifying_task state = find (\<lambda>i. is_verifying (task_at state i)) (sorted_tasks state)"

definition ready_to_integrate :: "json \<Rightarrow> string option" where
  "ready_to_integrate state = find (\<lambda>i. sub (task_at state i) ''status'' = JStr ''READY_TO_INTEGRATE'') (sorted_tasks state)"

definition all_completed :: "json \<Rightarrow> bool" where
  "all_completed state =
     (items (sub state ''tasks'') \<noteq> []
      \<and> list_all (\<lambda>(_, task). sub task ''status'' = JStr ''COMPLETED'') (items (sub state ''tasks'')))"

definition promoting :: "string list \<Rightarrow> string \<Rightarrow> json \<Rightarrow> refs \<Rightarrow> json result" where
  "promoting promoted at current refs =
     bnd (foldr_r (\<lambda>s task_id. bnd (item (sub s ''tasks'') task_id) (\<lambda>task.
         Inr (if sub task ''status'' = JStr ''PENDING'' then upd2 s ''tasks'' task_id (\<lambda>t. put t ''status'' (JStr ''READY'')) else s)))
       current promoted) (\<lambda>updated. Inr (stamp at updated))"

text \<open>The plan of all tasks so far, with the criteria of the first plan.\<close>

definition active_plan :: "run_dir \<Rightarrow> json \<Rightarrow> (string, task_contract) dict \<Rightarrow> plan_document result" where
  "active_plan d state contracts =
     bnd (first_criteria d state) (\<lambda>criteria.
     Inr \<lparr>pd_schema_version = 1, pd_plan_version = int_of (sub state ''plan_version''), pd_summary = ''active task set'',
       pd_acceptance_criteria = criteria, pd_global_verification = [], pd_tasks = map snd contracts\<rparr>)"

definition schedule_tasks :: "'g deps \<Rightarrow> json \<Rightarrow> ('g session, tick_result) eff" where
  "schedule_tasks c state =
     sbnd (read_dir (\<lambda>d. task_contracts d state)) (\<lambda>contracts.
     sbnd (read_dir (\<lambda>d. active_plan d state contracts)) (\<lambda>plan.
     sbnd (slift (promote_ready state plan)) (\<lambda>(_, promoted).
     if promoted \<noteq> [] then
       sbnd (commit_now c state [] (promoting promoted)) (\<lambda>updated. slift (Inr (ticked updated)))
     else
       sbnd (slift (dispatchable state plan)) (\<lambda>selected.
       if selected \<noteq> [] then
         sbnd (start_workers c state contracts selected) (\<lambda>updated. slift (Inr (ticked updated)))
       else slift (Inr (idle state))))))"

definition advance_tasks :: "'g deps \<Rightarrow> json \<Rightarrow> ('g session, tick_result) eff" where
  "advance_tasks c state =
     (case verifying_task state of
        Some task_id \<Rightarrow> prepare_source_for_task c state task_id
      | None \<Rightarrow>
          (case ready_to_integrate state of
             Some task_id \<Rightarrow> integrate_task c state task_id
           | None \<Rightarrow> if all_completed state then transition_status c state ''GLOBAL_VERIFYING''
                     else schedule_tasks c state))"

definition execute_tasks :: "'g deps \<Rightarrow> json \<Rightarrow> ('g session, tick_result) eff" where
  "execute_tasks c state =
     (if sub state ''pending_source_commit'' \<noteq> JNull then reconcile_source_commit c state
      else if sub state ''pending_integration'' \<noteq> JNull then
        sbnd (on_world (recover (dp_machine c) (dp_host c))) (\<lambda>_.
        sbnd load_state (\<lambda>updated. slift (Inr (ticked updated))))
      else
        sbnd (poll_workers c state) (\<lambda>completed.
        sbnd load_state (\<lambda>current.
        if completed \<noteq> [] then slift (Inr ((ticked current)\<lparr>tr_completed := completed\<rparr>))
        else advance_tasks c current)))"

end
