(* ===== verification/Evaluation.thy ===== *)
theory Evaluation
  imports Planning Gate Scheduler
begin

text \<open>
  The last phases of \<^verbatim>\<open>controller.py\<close>: the verification of the integration head, the evaluator, and
  what its verdict does to the run: success behind the goal gate, a repair round, a pause, or more
  evidence.
\<close>

section \<open>Global verification\<close>

text \<open>The ref of the run still is where the state says.\<close>

definition ref_at_head :: "'g deps \<Rightarrow> json \<Rightarrow> ('g session, bool) eff" where
  "ref_at_head c state =
     sbnd (on_git (resolve_ref (dp_host c) (str_of (sub (sub state ''repository'') ''integration_ref'')))) (\<lambda>actual.
     slift (Inr (JStr actual = integration_head state)))"

text \<open>A run of the gate on the integration head; an environment error is a pause.\<close>

definition run_on_head ::
  "'g deps \<Rightarrow> json \<Rightarrow> string \<Rightarrow> string list \<Rightarrow> string \<Rightarrow> (verification_result \<Rightarrow> ('g session, tick_result) eff) \<Rightarrow>
   ('g session, tick_result) eff" where
  "run_on_head c state worktree command_ids artifact_prefix continue0 = (\<lambda>s.
     case on_world (run_gate (dp_machine c) (dp_host c) (dp_depth c) (dp_config c) (str_of (integration_head state)) worktree
            command_ids artifact_prefix) s of
       (Inl e, s') \<Rightarrow> if e = VerificationEnvironmentError
         then pause_run c state ''VERIFICATION_ENVIRONMENT'' (dp_error_text c e) s' else (Inl e, s')
     | (Inr r, s') \<Rightarrow> continue0 r s')"

definition binding_verification :: "string \<Rightarrow> verification_result \<Rightarrow> string \<Rightarrow> json \<Rightarrow> refs \<Rightarrow> json result" where
  "binding_verification head r at current refs =
     (let v = artifact_as_dict (vr_manifest_ref r) in
      Inr (stamp at (put (put (upd current ''verifications'' (\<lambda>xs. push xs v))
        ''global_verification'' (JObj [(''verification'', v), (''integration_head'', JStr head), (''passed'', JBool True)]))
        ''status'' (JStr ''EVALUATING''))))"

definition run_global_verification :: "'g deps \<Rightarrow> json \<Rightarrow> ('g session, tick_result) eff" where
  "run_global_verification c state =
     (let head = str_of (integration_head state) in
      sbnd (ref_at_head c state) (\<lambda>before.
      if \<not> before then pause_run c state ''INTEGRATION_REF_MOVED'' ''integration ref moved before global verification''
      else
        sbnd (fresh_uuid c) (\<lambda>u.
        sbnd (on_git (create_disposable_worktree (dp_host c) (str_of (sub state ''run_id'')) ''read-only'' (''GLOBAL-'' @ u) head)) (\<lambda>worktree.
        sbnd (read_dir (\<lambda>d. bnd (load_plans d state) (effective_global_verification (dp_config c)))) (\<lambda>command_ids.
        sbnd (fresh_uuid c) (\<lambda>v.
        run_on_head c state worktree command_ids (''verification/global/VERIFY-'' @ v) (\<lambda>r.
        sbnd (ref_at_head c state) (\<lambda>after.
        if \<not> after then pause_run c state ''INTEGRATION_REF_MOVED'' ''integration ref moved during global verification''
        else if \<not> vr_passed r then
          open_repair c state ''GLOBAL_VERIFICATION_FAILED'' ''global verification failed'' (artifact_as_dict (vr_manifest_ref r))
        else
          sbnd (commit_now c state [] (binding_verification head r)) (\<lambda>updated. slift (Inr (ticked updated)))))))))))"

section \<open>The evaluator\<close>

definition evaluation_context ::
  "json \<Rightarrow> acceptance_criterion list \<Rightarrow> json \<Rightarrow> int \<Rightarrow> (string \<times> json) list" where
  "evaluation_context state criteria catalog evidence_round =
     [(''goal'', sub state ''goal''), (''acceptance_criteria'', JList (map criterion_to_dict criteria)),
      (''plans'', sub state ''plans''), (''tasks'', sub state ''tasks''), (''integration_head'', integration_head state),
      (''evidence_catalog'', catalog), (''evidence_round'', JInt evidence_round)]"

definition allocating_evaluator :: "string \<Rightarrow> string \<Rightarrow> string \<Rightarrow> json \<Rightarrow> refs \<Rightarrow> json result" where
  "allocating_evaluator operation_id token created_at current refs =
     Inr (stamp created_at (upd2 current ''role_runtime'' ''evaluator'' (\<lambda>x.
       put (put (put (put (put x ''operation_id'' (JStr operation_id)) ''attempt_no'' (JInt 1)) ''failure_count'' (JInt 0))
         ''active_attempt_token'' (JStr token)) ''last_error'' JNull)))"

definition remember_meta :: "string \<Rightarrow> int \<times> int \<Rightarrow> ('g session, unit) eff" where
  "remember_meta token meta = (\<lambda>s. (Inr (), s\<lparr>ss_meta := AList.update token meta (ss_meta s)\<rparr>))"

definition start_evaluator :: "'g deps \<Rightarrow> json \<Rightarrow> int \<Rightarrow> ('g session, tick_result) eff" where
  "start_evaluator c state evidence_round =
     sbnd (fresh_uuid c) (\<lambda>u1.
     sbnd (fresh_uuid c) (\<lambda>u2.
     sbnd (clock c) (\<lambda>created_at.
     let operation_id = ''EVAL-'' @ u1; token = ''ATTEMPT-EVALUATOR-'' @ u2; head = str_of (integration_head state) in
     sbnd (on_git (create_disposable_worktree (dp_host c) (str_of (sub state ''run_id'')) ''read-only'' operation_id head)) (\<lambda>worktree.
     sbnd (read_dir (\<lambda>d. first_criteria d state)) (\<lambda>criteria.
     sbnd (read_dir (\<lambda>d. evidence_catalog d state)) (\<lambda>catalog.
     sbnd (slift (role_attempt_prefix ''evaluator'' (JStr operation_id) (JInt 1))) (\<lambda>artifact_prefix.
     sbnd (read_host (prepare_evaluator c head operation_id 1 created_at token worktree
       (evaluation_context state criteria catalog evidence_round) artifact_prefix)) (\<lambda>i.
     sbnd (commit state [] (allocating_evaluator operation_id token created_at)) (\<lambda>_.
     sbnd (remember_meta token (int (length (elems (sub state ''evaluations''))) + 1, evidence_round)) (\<lambda>_.
     sbnd (remember_invocation token i) (\<lambda>_.
     sbnd (start_evaluation c i) (\<lambda>_.
     sbnd load_state (\<lambda>updated.
     slift (Inr (ticked updated)))))))))))))))"

definition evaluation_marker ::
  "string \<Rightarrow> json \<Rightarrow> int \<times> int \<Rightarrow> json \<Rightarrow> artifact_ref \<Rightarrow> json" where
  "evaluation_marker token pending meta head attempt_ref =
     JObj [(''operation_id'', sub pending ''operation_id''), (''attempt_no'', sub pending ''attempt_no''),
       (''attempt_token'', JStr token), (''evaluation_round'', JInt (fst meta)), (''evidence_round'', JInt (snd meta)),
       (''integration_head'', head), (''attempt'', artifact_as_dict attempt_ref), (''raw_result'', sub pending ''result'')]"

definition marking_evaluation ::
  "string \<Rightarrow> json \<Rightarrow> int \<times> int \<Rightarrow> json \<Rightarrow> string \<Rightarrow> string \<Rightarrow> json \<Rightarrow> refs \<Rightarrow> json result" where
  "marking_evaluation token pending meta head attempt_path at current refs =
     bnd (chk (py_eq (sub (sub current ''pending_dispatches'') token) pending)) (\<lambda>_.
     bnd (ref_at refs attempt_path) (\<lambda>r.
     bnd (drop_dispatch token
       (upd2 (upd2 current ''role_attempts'' ''evaluator'' (\<lambda>xs. push xs (artifact_as_dict r)))
         ''role_runtime'' ''evaluator'' (\<lambda>x. put x ''active_attempt_token'' JNull))) (\<lambda>closed.
     Inr (stamp at (put closed ''pending_evaluation'' (evaluation_marker token pending meta head r))))))"

definition evaluator_answered :: "'g deps \<Rightarrow> json \<Rightarrow> string \<Rightarrow> provider_handle \<Rightarrow> ('g session, tick_result) eff" where
  "evaluator_answered c state token h =
     sbnd (require_invocation token) (\<lambda>i.
     sbnd (evaluator_result c i h) (\<lambda>_.
     sbnd (on_world (pv_result (dp_provider c) h)) (\<lambda>raw.
     sbnd (read_dir (\<lambda>d. first_criteria d state)) (\<lambda>criteria.
     sbnd (slift (parse_evaluation (dp_config c) (Some (map ac_id criteria)) None (px_body raw))) (\<lambda>_.
     sbnd load_state (\<lambda>current.
     sbnd (slift (item (sub current ''pending_dispatches'') token)) (\<lambda>pending.
     sbnd (sget (\<lambda>s. Inr (case map_of (ss_meta s) token of
         Some meta \<Rightarrow> meta | None \<Rightarrow> (int (length (elems (sub current ''evaluations''))) + 1, 0)))) (\<lambda>meta.
     sbnd (slift (role_manifest_path ''evaluator'' pending)) (\<lambda>attempt_path.
     sbnd (clock c) (\<lambda>completed_at.
     sbnd (slift (attempt_manifest_body pending ''SUCCEEDED'' completed_at JNull)) (\<lambda>attempt_body.
     sbnd (slift (artifact_ref_of attempt_path attempt_body)) (\<lambda>_.
     sbnd (commit_now c current [(attempt_path, attempt_body)]
       (marking_evaluation token pending meta (integration_head current) attempt_path)) (\<lambda>updated.
     slift (Inr ((ticked updated)\<lparr>tr_completed := [token]\<rparr>)))))))))))))))"

definition poll_evaluator :: "'g deps \<Rightarrow> json \<Rightarrow> string \<times> json \<Rightarrow> ('g session, tick_result) eff" where
  "poll_evaluator c state entry =
     (case current_handle c (snd entry) of
        None \<Rightarrow> slift (Inr (idle state))
      | Some h \<Rightarrow>
          sbnd (on_world (pv_poll (dp_provider c) h)) (\<lambda>status.
          case status of
            P_RUNNING \<Rightarrow> slift (Inr (idle state))
          | P_FAILED \<Rightarrow> close_role_failure c ''evaluator'' (fst entry) h ''EVALUATOR_PROVIDER_FAILED''
          | P_SUCCEEDED \<Rightarrow> evaluator_answered c state (fst entry) h))"

section \<open>Accepting a verdict\<close>

text \<open>The reference and the summary of an accepted evaluation in the state.\<close>

definition record_evaluation :: "json \<Rightarrow> string \<Rightarrow> json \<Rightarrow> json \<Rightarrow> json \<Rightarrow> json" where
  "record_evaluation pending verdict head reference current =
     put (put (upd current ''evaluations'' (\<lambda>xs. push xs reference))
       ''latest_evaluation'' (JObj [(''evaluation'', reference), (''verdict'', JStr verdict),
          (''evaluation_round'', sub pending ''evaluation_round''), (''evidence_round'', sub pending ''evidence_round''),
          (''integration_head'', head)]))
       ''pending_evaluation'' JNull"

definition succeeding :: "json \<Rightarrow> json \<Rightarrow> string \<Rightarrow> string \<Rightarrow> json \<Rightarrow> refs \<Rightarrow> json result" where
  "succeeding pending head path at current refs =
     bnd (chk (py_eq (sub current ''pending_evaluation'') pending)) (\<lambda>_.
     bnd (ref_at refs path) (\<lambda>r.
     Inr (stamp at (put (put (put (record_evaluation pending ''PASS'' head (artifact_as_dict r) current)
       ''status'' (JStr ''SUCCEEDED'')) ''resume_status'' JNull) ''last_error'' JNull))))"

definition accept_pass ::
  "'g deps \<Rightarrow> json \<Rightarrow> json \<Rightarrow> json \<Rightarrow> string \<Rightarrow> string \<Rightarrow> ('g session, tick_result) eff" where
  "accept_pass c state pending envelope path body =
     (let head = integration_head state; ref = str_of (sub (sub state ''repository'') ''integration_ref'') in
      sbnd (ref_at_head c state) (\<lambda>same.
      if \<not> same then pause_run c state ''INTEGRATION_REF_MOVED'' ''integration ref moved before evaluation acceptance''
      else
        sbnd (slift (artifact_ref_of path body)) (\<lambda>reference.
        let candidate = record_evaluation pending ''PASS'' head (artifact_as_dict reference) state in
        sbnd (slift (bnd (goal_gate_satisfied candidate envelope (str_of head)) chk)) (\<lambda>_.
        sbnd (on_git (update_ref (dp_host c) ref (str_of head) (str_of head))) (\<lambda>_.
        sbnd (commit_now c state [(path, body)] (succeeding pending head path)) (\<lambda>updated.
        slift (Inr (ticked updated))))))))"

definition persisting_evaluation ::
  "json \<Rightarrow> string \<Rightarrow> string \<Rightarrow> string \<Rightarrow> string \<Rightarrow> string \<Rightarrow> json \<Rightarrow> refs \<Rightarrow> json result" where
  "persisting_evaluation pending verdict path next_status pause_code at current refs =
     bnd (chk (py_eq (sub current ''pending_evaluation'') pending)) (\<lambda>_.
     bnd (ref_at refs path) (\<lambda>r.
     let reference = artifact_as_dict r;
         recorded = record_evaluation pending verdict (sub pending ''integration_head'') reference current;
         paused = (if next_status = ''PAUSED''
           then put (put recorded ''resume_status'' (JStr ''EVALUATING''))
             ''last_error'' (put (error_value pause_code ''Evaluator blocked the run'' True) ''evidence'' reference)
           else recorded) in
     Inr (stamp at (put paused ''status'' (JStr next_status)))))"

definition persist_evaluation ::
  "'g deps \<Rightarrow> json \<Rightarrow> json \<Rightarrow> evaluation_result \<Rightarrow> string \<Rightarrow> string \<Rightarrow> string \<Rightarrow> string \<Rightarrow> ('g session, json) eff" where
  "persist_evaluation c state pending r path body next_status pause_code =
     commit_now c state [(path, body)] (persisting_evaluation pending (verdict_value (er_verdict r)) path next_status pause_code)"

definition recording_verification :: "verification_result \<Rightarrow> string \<Rightarrow> json \<Rightarrow> refs \<Rightarrow> json result" where
  "recording_verification r at current refs =
     Inr (stamp at (upd current ''verifications'' (\<lambda>xs. push xs (artifact_as_dict (vr_manifest_ref r)))))"

definition run_supplemental :: "'g deps \<Rightarrow> json \<Rightarrow> string list \<Rightarrow> ('g session, tick_result) eff" where
  "run_supplemental c state command_ids =
     (let head = str_of (integration_head state) in
      sbnd (ref_at_head c state) (\<lambda>before.
      if \<not> before then pause_run c state ''INTEGRATION_REF_MOVED'' ''integration ref moved before supplemental verification''
      else
        sbnd (fresh_uuid c) (\<lambda>u.
        sbnd (on_git (create_disposable_worktree (dp_host c) (str_of (sub state ''run_id'')) ''read-only'' (''SUPPLEMENTAL-'' @ u) head)) (\<lambda>worktree.
        sbnd (fresh_uuid c) (\<lambda>v.
        run_on_head c state worktree command_ids (''verification/supplemental/VERIFY-'' @ v) (\<lambda>r.
        sbnd (ref_at_head c state) (\<lambda>after.
        if \<not> after then pause_run c state ''INTEGRATION_REF_MOVED'' ''integration ref moved during supplemental verification''
        else
          sbnd (commit_now c state [] (recording_verification r)) (\<lambda>updated. slift (Inr (ticked updated))))))))))"

definition evaluation_path :: "json \<Rightarrow> string" where
  "evaluation_path pending =
     ''evaluations/'' @ pad3 (int_of (sub pending ''evaluation_round'')) @ ''-'' @ pad3 (int_of (sub pending ''evidence_round'')) @ ''.json''"

text \<open>The answer that the marker names, checked against the plan and the catalog, with its envelope.\<close>

definition read_verdict :: "'g deps \<Rightarrow> json \<Rightarrow> run_dir \<Rightarrow> (evaluation_result \<times> json) result" where
  "read_verdict c state d =
     (let pending = sub state ''pending_evaluation''; raw_ref = ref_of_dict (sub pending ''raw_result'') in
      bnd (first_criteria d state) (\<lambda>criteria.
      bnd (read_ref d raw_ref) (\<lambda>raw.
      bnd (parse_evaluation (dp_config c) (Some (map ac_id criteria)) None raw) (\<lambda>r.
      bnd (evidence_catalog d state) (\<lambda>catalog.
      bnd (validate_evaluation_evidence r catalog) (\<lambda>_.
      bnd (refs_digest (elems (sub state ''plans''))) (\<lambda>plan_digest.
      bnd (refs_digest (filter (\<lambda>v. v \<noteq> JNull) (map (\<lambda>(_, task). sub task ''result'') (items (sub state ''tasks''))))) (\<lambda>task_digest.
      bnd (refs_digest (elems (sub state ''verifications''))) (\<lambda>verification_digest.
      bnd (prompt_versions d state) (\<lambda>prompts.
      Inr (r, evaluation_envelope state (sub pending ''evaluation_round'') (sub pending ''evidence_round'') raw_ref r
        plan_digest task_digest verification_digest prompts catalog)))))))))))"

definition apply_verdict ::
  "'g deps \<Rightarrow> json \<Rightarrow> evaluation_result \<Rightarrow> json \<Rightarrow> string \<Rightarrow> ('g session, tick_result) eff" where
  "apply_verdict c state r envelope body =
     (let pending = sub state ''pending_evaluation''; path = evaluation_path pending in
      case er_verdict r of
        PASS \<Rightarrow> accept_pass c state pending envelope path body
      | NEEDS_REPAIR \<Rightarrow>
          sbnd (persist_evaluation c state pending r path body ''REPAIRING'' []) (\<lambda>accepted.
          open_repair c accepted ''EVALUATOR_NEEDS_REPAIR'' ''Evaluator requested repair''
            (sub (sub accepted ''latest_evaluation'') ''evaluation''))
      | BLOCKED \<Rightarrow>
          sbnd (persist_evaluation c state pending r path body ''PAUSED'' ''EVALUATOR_BLOCKED'') (\<lambda>accepted.
          slift (Inr (ticked accepted)))
      | UNVERIFIED \<Rightarrow>
          sbnd (persist_evaluation c state pending r path body ''EVALUATING'' []) (\<lambda>accepted.
          if int_of (sub pending ''evidence_round'') \<ge> evidence_rounds (dp_config c)
          then pause_run c accepted ''EVIDENCE_EXHAUSTED'' ''supplemental evidence limit exhausted''
          else if er_evidence_requests r \<noteq> [] then run_supplemental c accepted (er_evidence_requests r)
          else slift (Inr (ticked accepted))))"

definition accept_pending_evaluation :: "'g deps \<Rightarrow> json \<Rightarrow> ('g session, tick_result) eff" where
  "accept_pending_evaluation c state =
     sbnd (read_dir (read_verdict c state)) (\<lambda>(r, envelope).
     sbnd (slift (canonical_json_bytes envelope)) (\<lambda>body.
     apply_verdict c state r envelope body))"

definition next_evidence_round :: "json \<Rightarrow> int" where
  "next_evidence_round state =
     (let latest = sub state ''latest_evaluation'' in
      if is_obj latest \<and> sub latest ''verdict'' = JStr ''UNVERIFIED''
         \<and> py_eq (sub latest ''integration_head'') (integration_head state)
      then int_of (sub latest ''evidence_round'') + 1 else 0)"

definition evaluate :: "'g deps \<Rightarrow> json \<Rightarrow> ('g session, tick_result) eff" where
  "evaluate c state =
     (if sub state ''pending_evaluation'' \<noteq> JNull then accept_pending_evaluation c state
      else
        sbnd (slift (pending_for_role state ''evaluator'')) (\<lambda>entry.
        case entry of
          Some e \<Rightarrow> poll_evaluator c state e
        | None \<Rightarrow> start_evaluator c state (next_evidence_round state)))"

section \<open>Success only through the goal gate\<close>


section \<open>A verdict for a run at rest\<close>

lemma persisting_refused:
  assumes "persisting_evaluation pending verdict path next_status code at view refs = Inr updated" and "is_obj view"
    and "sub view ''resume_status'' \<noteq> JNull" and "next_status = run_status_value t" and "t \<in> {REPAIRING, EVALUATING}"
  shows "\<not> valid (put updated ''revision'' n)"
proof
  assume v: "valid (put updated ''revision'' n)"
  from assms obtain r where r: "updated = stamp at (put (record_evaluation pending verdict (sub pending ''integration_head'')
      (artifact_as_dict r) view) ''status'' (JStr next_status))"
    by (auto simp: persisting_evaluation_def bnd_eq_Inr Let_def)
  have o: "is_obj (record_evaluation pending verdict head x view)" for head x
    using assms(2) by (simp add: record_evaluation_def)
  have "sub (put updated ''revision'' n) ''status'' = JStr (run_status_value t)"
    unfolding r using o assms(4) by simp
  from running_has_no_resume [OF v this] assms(5) have "sub updated ''resume_status'' = JNull" by auto
  with assms(3) r show False by (simp add: record_evaluation_def)
qed


end
