(* ===== verification/Controller.thy ===== *)
theory Controller
  imports StopControl Execution Evaluation
begin

text \<open>
  The controller process of \<^verbatim>\<open>controller.py\<close>: the tick, the loop that drives a run until it rests, and
  what the commands execute, recover and resume do under the lock of the run.

  The store lock is held by the caller.  The numbers of the process are fields of \<open>owner\<close>.
\<close>

section \<open>Tick and loop\<close>

definition STATIC_RUN_STATUSES :: "run_status list" where
  "STATIC_RUN_STATUSES = [PAUSED, STOPPED, SUCCEEDED, run_status.FAILED, IMPORTED_READ_ONLY]"

definition handle_status :: "'g deps \<Rightarrow> run_status \<Rightarrow> json \<Rightarrow> ('g session, tick_result) eff" where
  "handle_status c status state =
     (case status of
        CREATED \<Rightarrow> start_planner_operation c state False
      | PLANNING \<Rightarrow> poll_planner c state
      | EXECUTING \<Rightarrow> execute_tasks c state
      | GLOBAL_VERIFYING \<Rightarrow> run_global_verification c state
      | EVALUATING \<Rightarrow> evaluate c state
      | REPAIRING \<Rightarrow> repair c state
      | _ \<Rightarrow> slift (Inr (idle state)))"

definition tick :: "'g deps \<Rightarrow> json \<Rightarrow> ('g session, tick_result) eff" where
  "tick c state =
     sbnd (consume_stop_request c state None) (\<lambda>stop.
     case stop of
       Some r \<Rightarrow> slift (Inr r)
     | None \<Rightarrow> sbnd (slift (RunStatus (sub state ''status''))) (\<lambda>status. handle_status c status state))"

text \<open>\<^verbatim>\<open>_drive_locked\<close>.  The loop may run forever: \<open>None\<close> means that it has not ended after \<open>n\<close> ticks.\<close>

definition pause_tick :: "'g deps \<Rightarrow> tick_result \<Rightarrow> ('g session, unit) eff" where
  "pause_tick c r = (if tr_progressed r then slift (Inr ()) else on_world (dp_sleep c))"

fun drive :: "nat \<Rightarrow> 'g deps \<Rightarrow> json \<Rightarrow> 'g session \<Rightarrow> (json result \<times> 'g session) option" where
  "drive n c state s =
     (case RunStatus (sub state ''status'') of
        Inl e \<Rightarrow> Some (Inl e, s)
      | Inr status \<Rightarrow>
          if status \<in> set STATIC_RUN_STATUSES then Some (Inr state, s)
          else case n of
            0 \<Rightarrow> None
          | Suc m \<Rightarrow>
              (case sbnd (tick c state) (\<lambda>r. sbnd (pause_tick c r) (\<lambda>_. slift (Inr (tr_state r)))) s of
                 (Inl e, s') \<Rightarrow> Some (Inl e, s')
               | (Inr state', s') \<Rightarrow> drive m c state' s'))"

declare drive.simps [simp del]

section \<open>Registration\<close>

record owner =
  ow_pid :: int
  ow_process_start_identity :: string
  ow_process_group :: int

definition controller_entry :: "owner \<Rightarrow> string \<Rightarrow> json" where
  "controller_entry own token =
     JObj [(''pid'', JInt (ow_pid own)), (''process_start_identity'', JStr (ow_process_start_identity own)),
       (''process_group'', JInt (ow_process_group own)), (''controller_token'', JStr token)]"

definition registering :: "owner \<Rightarrow> string \<Rightarrow> string \<Rightarrow> json \<Rightarrow> refs \<Rightarrow> json result" where
  "registering own token at current refs = Inr (stamp at (put current ''controller'' (controller_entry own token)))"

definition register_controller :: "'g deps \<Rightarrow> owner \<Rightarrow> json \<Rightarrow> ('g session, json) eff" where
  "register_controller c own state =
     sbnd (fresh_uuid c) (\<lambda>u. commit_now c state [] (registering own (''CONTROLLER-'' @ u)))"

definition RESUMABLE :: "string list" where
  "RESUMABLE = [''CREATED'', ''PLANNING'', ''EXECUTING'', ''GLOBAL_VERIFYING'', ''EVALUATING'', ''REPAIRING'']"

definition restoring :: "owner \<Rightarrow> string \<Rightarrow> json \<Rightarrow> string \<Rightarrow> json \<Rightarrow> refs \<Rightarrow> json result" where
  "restoring own token resume_status at current refs =
     bnd (chk_state (sub current ''status'' \<in> {JStr ''PAUSED'', JStr ''STOPPED''} \<and> sub current ''resume_status'' = resume_status)) (\<lambda>_.
     Inr (stamp at (put (put (put (put current ''status'' resume_status) ''resume_status'' JNull)
       ''controller'' (controller_entry own token)) ''last_error'' JNull)))"

definition restore_and_register :: "'g deps \<Rightarrow> owner \<Rightarrow> json \<Rightarrow> ('g session, json) eff" where
  "restore_and_register c own state =
     (let resume_status = sub state ''resume_status'' in
      sbnd (slift (chk_state (resume_status \<in> set (map JStr RESUMABLE)))) (\<lambda>_.
      sbnd (fresh_uuid c) (\<lambda>u.
      commit_now c state [] (restoring own (''CONTROLLER-'' @ u) resume_status))))"

section \<open>Dispatches of an earlier controller\<close>

text \<open>\<^verbatim>\<open>s.rsplit(marker, 1)[0]\<close>; \<open>None\<close> when the marker does not occur.\<close>

definition before_last :: "string \<Rightarrow> string \<Rightarrow> string option" where
  "before_last marker s =
     (case filter (\<lambda>n. startswith (drop n s) marker) [0..<length s] of [] \<Rightarrow> None | ns \<Rightarrow> Some (take (last ns) s))"

definition prompt_of_dict :: "json \<Rightarrow> prompt_ref result" where
  "prompt_of_dict v =
     bnd (text_item v ''id'') (\<lambda>i. bnd (int_item v ''version'') (\<lambda>n. bnd (text_item v ''sha256'') (\<lambda>h.
     Inr \<lparr>pr_id = i, pr_version = n, pr_sha256 = h\<rparr>)))"

definition authorized_commands :: "'g deps \<Rightarrow> run_dir \<Rightarrow> json \<Rightarrow> json \<Rightarrow> (string list \<times> string list) result" where
  "authorized_commands c d state pending =
     (if sub pending ''role'' = JStr ''worker'' then
        bnd (contract_for d state (str_of (sub pending ''task_id''))) (\<lambda>contract.
        Inr (tc_acceptance_checks contract,
             filter (\<lambda>i. i \<in> set (tc_acceptance_checks contract)) (required_command_ids (dp_config c))))
      else Inr (map cs_id (command_catalog (dp_config c)), required_command_ids (dp_config c)))"

definition invocation_from_pending :: "'g deps \<Rightarrow> json \<Rightarrow> json \<Rightarrow> run_dir \<Rightarrow> role_invocation result" where
  "invocation_from_pending c state pending d =
     bnd (request_from_pending d pending (dp_run_root c) (dp_target c)) (\<lambda>request.
     bnd (authorized_commands c d state pending) (\<lambda>(authorized, required).
     bnd (some_or_contract (before_last ''/providers/'' (str_of (sub pending ''provider_prefix'')))) (\<lambda>artifact_prefix.
     bnd (read_ref d (ref_of_dict (sub pending ''prompt''))) (\<lambda>prompt_body.
     bnd (mapr prompt_of_dict (elems (sub pending ''prompt_versions''))) (\<lambda>prompts.
     bnd (read_ref d (ref_of_dict (sub pending ''schema''))) (\<lambda>schema_body.
     bnd (read_ref d (ref_of_dict (sub pending ''preflight''))) (\<lambda>preflight_body.
     bnd (frozen_config_bytes (dp_config c)) (\<lambda>config_body.
     Inr \<lparr>in_role = str_of (sub pending ''role''), in_task_id = opt_text (sub pending ''task_id''),
       in_operation_id = str_of (sub pending ''operation_id''), in_attempt_no = int_of (sub pending ''attempt_no''),
       in_attempt_created_at = str_of (sub pending ''attempt_created_at''),
       in_attempt_token = str_of (sub pending ''attempt_token''),
       in_provider_retry_no = int_of (sub pending ''provider_retry_no''),
       in_expected_base = str_of (sub pending ''expected_base''), in_branch = opt_text (sub pending ''branch''),
       in_worktree = str_of (sub pending ''worktree''), in_target_root = dp_target c, in_run_root = dp_run_root c,
       in_prompt_body = prompt_body, in_prompt_versions = prompts, in_schema_body = schema_body,
       in_preflight_body = preflight_body, in_authorized_command_ids = authorized, in_required_command_ids = required,
       in_config_sha256 = digest_of config_body, in_codex_version = str_of (rq_codex_version request),
       in_execution_policy_sha256 = str_of (rq_execution_policy_sha256 request), in_sandbox = str_of (rq_sandbox request),
       in_artifact_prefix = artifact_prefix, in_timeout_seconds = int_of (rq_timeout_seconds request)\<rparr>))))))))"

definition LAUNCH_IDENTITY :: "string list" where
  "LAUNCH_IDENTITY =
     [''adapter'', ''attempt_token'', ''pid'', ''process_start_identity'', ''process_group'', ''child_pid'',
      ''child_process_start_identity'', ''child_process_group'', ''codex_version'', ''execution_policy_sha256'']"

definition handle_from_launch :: "provider_request \<Rightarrow> string \<Rightarrow> provider_handle result" where
  "handle_from_launch request body =
     bnd (parse_json_object_bytes body) (\<lambda>raw.
     bnd (chk (set (jkeys raw) = set LAUNCH_IDENTITY)) (\<lambda>_.
     bnd (chk (\<not> (\<not> py_eq (sub raw ''attempt_token'') (rq_attempt_token request)
        \<or> \<not> py_eq (sub raw ''codex_version'') (rq_codex_version request)
        \<or> \<not> py_eq (sub raw ''execution_policy_sha256'') (rq_execution_policy_sha256 request)))) (\<lambda>_.
     Inr (handle_of_identity raw request))))"

definition provider_body :: "run_dir \<Rightarrow> string \<Rightarrow> string option result" where
  "provider_body d relative =
     read_optional_regular (map_of (rd_files d) (join_with (CHR ''/'') (posix_parts relative))) MAX_ARTIFACT_BYTES"

definition bind_recovered_handle :: "json \<Rightarrow> json \<Rightarrow> provider_handle \<Rightarrow> string \<Rightarrow> ('g session, unit) eff" where
  "bind_recovered_handle state pending h launch_body =
     (let launch_path = str_of (sub pending ''launch_path''); token = str_of (sub pending ''attempt_token'') in
      sbnd (commit state [(launch_path, launch_body)]
        (\<lambda>current refs. bnd (ref_at refs launch_path) (bind_matching_handle current token h))) (\<lambda>_.
      slift (Inr ())))"

definition recover_unbound :: "'g deps \<Rightarrow> bool \<Rightarrow> json \<Rightarrow> json \<Rightarrow> ('g session, unit) eff" where
  "recover_unbound c start_unlaunched state pending =
     (let launch_path = str_of (sub pending ''launch_path'') in
      sbnd (read_dir (\<lambda>d. request_from_pending d pending (dp_run_root c) (dp_target c))) (\<lambda>request.
      sbnd (read_dir (\<lambda>d. provider_body d launch_path)) (\<lambda>launch.
      case launch of
        Some body \<Rightarrow>
          sbnd (slift (handle_from_launch request body)) (\<lambda>h. bind_recovered_handle state pending h body)
      | None \<Rightarrow>
          if \<not> start_unlaunched then slift (Inr ())
          else
            sbnd (on_world (pv_start (dp_provider c) request)) (\<lambda>h.
            sbnd (read_dir (\<lambda>d. bnd (provider_body d launch_path) some_or_contract)) (\<lambda>body.
            bind_recovered_handle state pending h body)))))"

definition recover_dispatch :: "'g deps \<Rightarrow> bool \<Rightarrow> string \<Rightarrow> ('g session, unit) eff" where
  "recover_dispatch c start_unlaunched token =
     sbnd load_state (\<lambda>state.
     let pending = sub (sub state ''pending_dispatches'') token in
     if pending = JNull then slift (Inr ())
     else
       sbnd (read_dir (invocation_from_pending c state pending)) (\<lambda>i.
       sbnd (remember_invocation token i) (\<lambda>_.
       if sub pending ''provider_handle'' \<noteq> JNull then
         read_dir (\<lambda>d. void (handle_from_pending d pending (dp_run_root c) (dp_target c)))
       else recover_unbound c start_unlaunched state pending)))"

definition recover_dispatches :: "'g deps \<Rightarrow> bool \<Rightarrow> ('g session, json) eff" where
  "recover_dispatches c start_unlaunched =
     sbnd load_state (\<lambda>state.
     sbnd (smap (recover_dispatch c start_unlaunched) (jkeys (sub state ''pending_dispatches''))) (\<lambda>_.
     load_state))"

section \<open>Recovery\<close>

definition pausing_after_exit :: "json \<Rightarrow> string \<Rightarrow> json \<Rightarrow> refs \<Rightarrow> json result" where
  "pausing_after_exit previous at current refs =
     bnd (chk_state (sub current ''status'' = previous)) (\<lambda>_.
     Inr (stamp at (put (put (put (put current ''resume_status'' previous) ''status'' (JStr ''PAUSED'')) ''controller'' JNull)
       ''last_error'' (error_value ''CONTROLLER_EXIT_RECOVERED'' ''the prior foreground Controller exited'' True))))"

definition pause_unless_static :: "'g deps \<Rightarrow> json \<Rightarrow> ('g session, json) eff" where
  "pause_unless_static c state =
     sbnd (slift (RunStatus (sub state ''status''))) (\<lambda>status.
     if status \<in> set STATIC_RUN_STATUSES then slift (Inr state)
     else commit_now c state [] (pausing_after_exit (sub state ''status'')))"

text \<open>The markers that an exit may have left, in the order of the code.\<close>

definition settle_evaluation :: "'g deps \<Rightarrow> json \<Rightarrow> ('g session, json) eff" where
  "settle_evaluation c state =
     (if sub state ''pending_evaluation'' \<noteq> JNull
      then sbnd (accept_pending_evaluation c state) (\<lambda>r. slift (Inr (tr_state r))) else slift (Inr state))"

definition settle_source :: "'g deps \<Rightarrow> json \<Rightarrow> ('g session, json) eff" where
  "settle_source c state =
     (if sub state ''pending_source_commit'' \<noteq> JNull
      then sbnd (reconcile_source_commit c state) (\<lambda>r. slift (Inr (tr_state r))) else slift (Inr state))"

definition settle_integration :: "'g deps \<Rightarrow> json \<Rightarrow> ('g session, json) eff" where
  "settle_integration c state =
     (if sub state ''pending_integration'' \<noteq> JNull
      then sbnd (on_world (Integrator.recover (dp_machine c) (dp_host c))) (\<lambda>_. load_state) else slift (Inr state))"

definition recover_locked :: "'g deps \<Rightarrow> ('g session, json) eff" where
  "recover_locked c =
     sbnd load_state (\<lambda>_.
     sbnd (recover_dispatches c False) (\<lambda>_.
     sbnd load_state (\<lambda>state0.
     sbnd (consume_stop_request c state0 None) (\<lambda>stop.
     let state = (case stop of None \<Rightarrow> state0 | Some r \<Rightarrow> tr_state r) in
     if stop \<noteq> None \<and> sub state ''status'' = JStr ''STOPPED'' then slift (Inr state)
     else
       sbnd (settle_evaluation c state) (\<lambda>state1.
       sbnd (settle_source c state1) (\<lambda>state2.
       sbnd (settle_integration c state2) (\<lambda>state3.
       pause_unless_static c state3)))))))"

section \<open>The commands\<close>

definition execute :: "nat \<Rightarrow> 'g deps \<Rightarrow> owner \<Rightarrow> 'g session \<Rightarrow> (json result \<times> 'g session) option" where
  "execute n c own s =
     (case sbnd load_state (register_controller c own) s of
        (Inl e, s') \<Rightarrow> Some (Inl e, s')
      | (Inr state, s') \<Rightarrow> drive n c state s')"

definition recover_and_stop :: "'g deps \<Rightarrow> string \<Rightarrow> stop_request \<Rightarrow> ('g session, json) eff" where
  "recover_and_stop c run_id request =
     sbnd (slift (chk (sr_run_id request = run_id))) (\<lambda>_.
     sbnd load_state (\<lambda>_.
     sbnd (recover_dispatches c False) (\<lambda>_.
     sbnd load_state (\<lambda>state.
     sbnd (consume_stop_request c state (Some request)) (\<lambda>r.
     case r of None \<Rightarrow> slift (Inl ContractError) | Some t \<Rightarrow> slift (Inr (tr_state t)))))))"

definition REPLAN_CODE :: json where
  "REPLAN_CODE = JStr ''SCHEMA3_REPLAN_REQUIRED''"

definition replan_pause :: "json \<Rightarrow> bool" where
  "replan_pause state =
     (sub state ''status'' = JStr ''PAUSED'' \<and> is_obj (sub state ''last_error'')
      \<and> sub (sub state ''last_error'') ''code'' = REPLAN_CODE)"

definition replanning :: "owner \<Rightarrow> string \<Rightarrow> json \<Rightarrow> string \<Rightarrow> json \<Rightarrow> refs \<Rightarrow> json result" where
  "replanning own token state at current refs =
     bnd (chk_state (py_eq (sub current ''revision'') (sub state ''revision'') \<and> sub current ''status'' = JStr ''PAUSED''
       \<and> py_eq (sub current ''last_error'') (sub state ''last_error''))) (\<lambda>_.
     Inr (stamp at (put (put (put (put current ''status'' (JStr ''CREATED'')) ''resume_status'' JNull)
       ''controller'' (controller_entry own token)) ''last_error'' JNull)))"

definition replannable :: "json \<Rightarrow> bool" where
  "replannable state =
     (replan_pause state \<and> sub state ''resume_status'' = JNull \<and> sub state ''plan_version'' = JInt 0
      \<and> elems (sub state ''plans'') = [] \<and> items (sub state ''tasks'') = [] \<and> sub state ''legacy_import'' \<noteq> JNull)"

text \<open>\<open>identity\<close> is the identity of the repository that the worktree manager computed.\<close>

definition replan_and_register :: "'g deps \<Rightarrow> owner \<Rightarrow> string \<Rightarrow> json \<Rightarrow> ('g session, json) eff" where
  "replan_and_register c own identity state =
     (let repository = sub state ''repository'';
          completion = filter (\<lambda>x. sub x ''path'' = JStr ''migration-completion.json'') (elems (sub state ''artifact_index'')) in
      sbnd (slift (chk (replannable state))) (\<lambda>_.
      sbnd (slift (chk (length completion = 1))) (\<lambda>_.
      sbnd (on_git (assert_clean_baseline (dp_depth c) (dp_host c) identity)) (\<lambda>baseline.
      sbnd (slift (chk_state (JStr (rb_identity baseline) = sub repository ''identity''
        \<and> JStr (rb_base_sha baseline) = sub repository ''base_sha''
        \<and> py_eq (sub repository ''integration_head'') (sub repository ''base_sha'')))) (\<lambda>_.
      sbnd (on_git (resolve_ref (dp_host c) (str_of (sub repository ''integration_ref'')))) (\<lambda>actual.
      sbnd (slift (chk_state (JStr actual = sub repository ''base_sha''))) (\<lambda>_.
      sbnd (fresh_uuid c) (\<lambda>u.
      commit_now c state [] (replanning own (''CONTROLLER-'' @ u) state)))))))))"

text \<open>What \<^verbatim>\<open>resume\<close> does before it drives the run: the run rests (\<^term>\<open>Inl state\<close>), or it goes on.\<close>

definition prepare_resume :: "'g deps \<Rightarrow> owner \<Rightarrow> string \<Rightarrow> bool \<Rightarrow> ('g session, json + json) eff" where
  "prepare_resume c own identity replan =
     sbnd (recover_locked c) (\<lambda>state.
     sbnd (slift (RunStatus (sub state ''status''))) (\<lambda>status.
     if replan then
       sbnd (slift (chk (replan_pause state))) (\<lambda>_.
       sbnd (replan_and_register c own identity state) (\<lambda>restored. slift (Inr (Inr restored))))
     else
       sbnd (slift (chk_state (\<not> replan_pause state))) (\<lambda>_.
       if status \<in> {SUCCEEDED, run_status.FAILED, IMPORTED_READ_ONLY} then slift (Inr (Inl state))
       else
         sbnd (slift (chk_state (status \<in> {PAUSED, STOPPED}))) (\<lambda>_.
         sbnd (restore_and_register c own state) (\<lambda>_.
         sbnd (recover_dispatches c True) (\<lambda>_.
         sbnd load_state (\<lambda>restored. slift (Inr (Inr restored)))))))))"

definition resume :: "nat \<Rightarrow> 'g deps \<Rightarrow> owner \<Rightarrow> string \<Rightarrow> bool \<Rightarrow> 'g session \<Rightarrow> (json result \<times> 'g session) option" where
  "resume n c own identity replan s =
     (case prepare_resume c own identity replan s of
        (Inl e, s') \<Rightarrow> Some (Inl e, s')
      | (Inr (Inl state), s') \<Rightarrow> Some (Inr state, s')
      | (Inr (Inr state), s') \<Rightarrow> drive n c state s')"

section \<open>A planner that is never started again\<close>

text \<open>The sleep between two ticks returns.\<close>

definition quiet :: "'g deps \<Rightarrow> bool" where
  "quiet c \<longleftrightarrow> (\<forall>w. fst (dp_sleep c w) = Inr ())"

lemma status_running: "RunStatus (JStr (run_status_value t)) = Inr t"
  by (simp add: RunStatus_Inr)

lemma idle_tick:
  assumes "sub state ''status'' = JStr ''PLANNING''" and "pending_for_role state ''planner'' = Inr None" and "ss_stop s = None"
  shows "tick c state s = (Inr (idle state), s)"
proof -
  have st: "RunStatus (sub state ''status'') = Inr PLANNING"
    using assms(1) status_running [of PLANNING] by simp
  show ?thesis
    using assms(2,3) st
    by (simp add: tick_def consume_stop_request_def sbnd_def sget_def slift_def read_stop_request_def read_optional_regular_def
        handle_status_def poll_planner_def)
qed

lemma planning_waits:
  assumes "sub state ''status'' = JStr ''PLANNING''" and "pending_for_role state ''planner'' = Inr None"
    and "ss_stop s = None" and "quiet c"
  shows "drive n c state s = None"
  using assms(3)
proof (induction n arbitrary: s)
  have st: "RunStatus (sub state ''status'') = Inr PLANNING"
    using assms(1) status_running [of PLANNING] by simp
  case 0
  then show ?case using st by (subst drive.simps) (simp add: STATIC_RUN_STATUSES_def)
next
  case (Suc n)
  have st: "RunStatus (sub state ''status'') = Inr PLANNING"
    using assms(1) status_running [of PLANNING] by simp
  obtain w where w: "on_world (dp_sleep c) s = (Inr (), s\<lparr>ss_world := w\<rparr>)"
    using assms(4) by (metis on_world_eq prod.collapse quiet_def)
  have "drive n c state (s\<lparr>ss_world := w\<rparr>) = None" using Suc by simp
  then show ?case
    using st idle_tick [OF assms(1,2) Suc.prems] w
    by (subst drive.simps) (simp add: STATIC_RUN_STATUSES_def sbnd_def pause_tick_def idle_def slift_def)
qed


section \<open>Recovery ends at rest\<close>

lemma pause_unless_static_rests:
  assumes "pause_unless_static c state s = (Inr final, s')"
  shows "\<exists>t. t \<in> set STATIC_RUN_STATUSES \<and> sub final ''status'' = JStr (run_status_value t)"
proof -
  from assms obtain t where t: "RunStatus (sub state ''status'') = Inr t"
      "(if t \<in> set STATIC_RUN_STATUSES then slift (Inr state)
        else commit_now c state [] (pausing_after_exit (sub state ''status''))) s = (Inr final, s')"
    by (auto simp: pause_unless_static_def sbnd_Inr)
  show ?thesis
  proof (cases "t \<in> set STATIC_RUN_STATUSES")
    case True
    with t show ?thesis by (auto simp: RunStatus_Inr)
  next
    case False
    with t(2) have u: "commit_now c state [] (pausing_after_exit (sub state ''status'')) s = (Inr final, s')" by simp
    from commit_now_holds [OF u] obtain current where "holds s current" ..
    from commit_now_Inr [OF u this] obtain at view refs updated where v: "same_but_index view current"
      "pausing_after_exit (sub state ''status'') at view refs = Inr updated"
      "final = put updated ''revision'' (JInt (int_of (sub state ''revision'') + 1))"
      by metis
    then have "sub final ''status'' = JStr (run_status_value PAUSED)"
      by (auto simp: pausing_after_exit_def bnd_eq_Inr view_obj)
    then show ?thesis by (intro exI [of _ PAUSED]) (simp add: STATIC_RUN_STATUSES_def)
  qed
qed


section \<open>What the loop returns\<close>

text \<open>The loop returns only a run at rest, and the number of ticks that it is given decides nothing
  but whether it has ended yet: a result stays the same with any larger number.\<close>

lemma drive_rests:
  assumes "drive n c state s = Some (r, s')"
  shows "drive (n + m) c state s = Some (r, s')
    \<and> (case r of Inl e \<Rightarrow> True
       | Inr final \<Rightarrow> list_ex (\<lambda>t. sub final ''status'' = JStr (run_status_value t)) STATIC_RUN_STATUSES)"
  using assms
proof (induction n arbitrary: state s)
  case 0
  then show ?case
    by (subst (asm) drive.simps, subst drive.simps)
       (auto simp: RunStatus_Inr list_ex_iff split: sum.splits if_splits)
next
  case (Suc n)
  show ?case
  proof (cases "RunStatus (sub state ''status'')")
    case (Inr t)
    show ?thesis
    proof (cases "t \<in> set STATIC_RUN_STATUSES")
      case True
      with Inr Suc.prems show ?thesis
        by (subst (asm) drive.simps, subst drive.simps) (auto simp: RunStatus_Inr list_ex_iff)
    next
      case False
      with Inr Suc.prems Suc.IH show ?thesis
        by (subst (asm) drive.simps, subst drive.simps) (auto split: prod.splits sum.splits)
    qed
  next
    case (Inl e)
    with Suc.prems show ?thesis by (subst (asm) drive.simps, subst drive.simps) auto
  qed
qed

section \<open>A stop request ends the loop\<close>

text \<open>C14. A stop request for this controller ends the loop with the tick that reads it: whatever the run
  was doing and however long it would have gone on, the loop returns a stopped run or raises, if
  stopping an agent leaves the state of the store alone.\<close>

theorem stop_ends_drive:
  assumes "holds s state" and "sub state ''status'' = JStr (run_status_value t)" and "t \<notin> set STATIC_RUN_STATUSES"
    and "read_stop_request s = Inr (Some request)" and "owns_run state request"
    and "receipt_for state (sr_nonce request) = None" and "agents_apart c"
  shows "\<exists>r s'. drive (Suc n) c state s = Some (r, s')
    \<and> (case r of Inl e \<Rightarrow> True | Inr final \<Rightarrow> sub final ''status'' = JStr ''STOPPED'' \<and> ss_stop s' = None)"
proof -
  have st: "RunStatus (sub state ''status'') = Inr t" using assms(2) status_running by simp
  obtain r s1 where own: "stop_own_run c state request s = (r, s1)" by force
  have consumed: "consume_stop_request c state None s =
      (case check_request None state request of Inl e \<Rightarrow> (Inl e, s) | Inr _ \<Rightarrow> (r, s1))"
    using assms(4-6) own by (simp add: consume_stop_request_def sbnd_def sget_def slift_def split: sum.splits)
  have static: "drive m c final s1 = Some (Inr final, s1)" if "sub final ''status'' = JStr ''STOPPED''" for m final
    using that status_running [of STOPPED] by (subst drive.simps) (simp add: STATIC_RUN_STATUSES_def)
  show ?thesis
  proof (cases "check_request None state request")
    case (Inl e)
    then show ?thesis
      using st assms(3) consumed by (subst drive.simps) (simp add: tick_def sbnd_def)
  next
    case ok: (Inr u)
    show ?thesis
    proof (cases r)
      case (Inl e)
      then show ?thesis using st assms(3) consumed ok by (subst drive.simps) (simp add: tick_def sbnd_def)
    next
      case (Inr x)
      from stop_own_run_stops [OF assms(1,6,7) own [unfolded Inr]] obtain final where
        f: "x = Some (ticked final)" "sub final ''status'' = JStr ''STOPPED''" "ss_stop s1 = None" by blast
      then show ?thesis
        using st assms(3) consumed ok Inr static [OF f(2)]
        by (subst drive.simps) (simp add: tick_def sbnd_def pause_tick_def ticked_def slift_def)
    qed
  qed
qed

end
