(* ===== verification/Creation.thy ===== *)
theory Creation
  imports ControlState Config
begin

text \<open>
  The creation of a run in \<^verbatim>\<open>controller.py\<close>: the intent and the configuration are published first, then
  the run ref, the initial state and a receipt; a creation that was cut off is found by its fingerprint
  and completed.

  The run directories of the target, the reservations of a migration and the host are the state \<open>site\<close>;
  the allocation lock is held.
\<close>

record 'g site =
  st_runs :: "(string, run_dir) dict"
  st_reservations :: "(string, string) dict"
  st_host :: 'g

definition validate_goal :: "string \<Rightarrow> string result" where
  "validate_goal goal =
     bnd (chk (strip_text goal \<noteq> [])) (\<lambda>_. bnd (chk (\<not> has_surrogate goal)) (\<lambda>_. Inr goal))"

definition creation_fingerprint :: "string \<Rightarrow> string \<Rightarrow> string \<Rightarrow> string \<Rightarrow> string result" where
  "creation_fingerprint identity base_sha goal config_body =
     bnd (canonical_json_bytes (JObj [(''repository_identity'', JStr identity), (''base_sha'', JStr base_sha),
       (''goal_sha256'', JStr (digest_of goal)), (''config_sha256'', JStr (digest_of config_body))])) (\<lambda>body.
     Inr (digest_of body))"

definition is_pristine_created :: "json \<Rightarrow> bool" where
  "is_pristine_created state =
     (sub state ''status'' = JStr ''CREATED'' \<and> sub state ''controller'' = JNull \<and> elems (sub state ''plans'') = []
      \<and> items (sub state ''pending_dispatches'') = [])"

section \<open>The initial state\<close>

definition fresh_runtime :: "frozen_run_config \<Rightarrow> json" where
  "fresh_runtime config =
     JObj [(''operation_id'', JNull), (''attempt_no'', JInt 0), (''failure_count'', JInt 0),
       (''max_attempts'', JInt (task_attempts config)), (''active_attempt_token'', JNull), (''last_error'', JNull)]"

definition initial_state ::
  "string \<Rightarrow> string \<Rightarrow> frozen_run_config \<Rightarrow> repository_baseline \<Rightarrow> string \<Rightarrow> artifact_ref \<Rightarrow> artifact_ref \<Rightarrow> string \<Rightarrow> json" where
  "initial_state run_id goal config baseline run_ref intent_ref config_ref at =
     JObj [(''schema_version'', JInt 4), (''run_id'', JStr run_id), (''revision'', JInt 0), (''goal'', JStr goal),
       (''repository'', JObj [(''identity'', JStr (rb_identity baseline)), (''base_ref'', JStr (rb_base_ref baseline)),
          (''base_sha'', JStr (rb_base_sha baseline)), (''integration_ref'', JStr run_ref),
          (''integration_head'', JStr (rb_base_sha baseline))]),
       (''status'', JStr ''CREATED''), (''resume_status'', JNull), (''plan_version'', JInt 0), (''repair_round'', JInt 0),
       (''max_repair_rounds'', JInt (repair_rounds config)), (''max_workers'', JInt (max_workers config)),
       (''controller'', JNull), (''creation'', JObj [(''intent'', artifact_as_dict intent_ref), (''receipt'', JNull)]),
       (''config'', artifact_as_dict config_ref),
       (''artifact_index'', JList [artifact_as_dict intent_ref, artifact_as_dict config_ref]), (''plans'', JList []),
       (''role_attempts'', JObj [(''planner'', JList []), (''evaluator'', JList [])]),
       (''role_runtime'', JObj [(''planner'', fresh_runtime config), (''evaluator'', fresh_runtime config)]),
       (''evaluations'', JList []), (''verifications'', JList []), (''legacy_import'', JNull), (''tasks'', JObj []),
       (''pending_dispatches'', JObj []), (''pending_source_commit'', JNull), (''pending_integration'', JNull),
       (''pending_evaluation'', JNull), (''latest_evaluation'', JNull), (''global_verification'', JNull),
       (''stop_receipts'', JList []), (''last_error'', JNull), (''created_at'', JStr at), (''updated_at'', JStr at)]"

definition creation_state_matches ::
  "json \<Rightarrow> string \<Rightarrow> string \<Rightarrow> string \<Rightarrow> string \<Rightarrow> artifact_ref \<Rightarrow> artifact_ref \<Rightarrow> bool" where
  "creation_state_matches state goal identity base_sha run_ref intent_ref config_ref =
     (let repository = sub state ''repository'' in
      sub state ''goal'' = JStr goal \<and> sub repository ''identity'' = JStr identity
      \<and> sub repository ''base_sha'' = JStr base_sha \<and> sub repository ''integration_ref'' = JStr run_ref
      \<and> sub repository ''integration_head'' = JStr base_sha
      \<and> py_eq (sub (sub state ''creation'') ''intent'') (artifact_as_dict intent_ref)
      \<and> py_eq (sub state ''config'') (artifact_as_dict config_ref))"

section \<open>Finishing a creation\<close>

definition creation_intent :: "string \<Rightarrow> string \<Rightarrow> string \<Rightarrow> repository_baseline \<Rightarrow> string \<Rightarrow> string \<Rightarrow> json" where
  "creation_intent run_id fingerprint goal baseline run_ref config_body =
     JObj [(''schema_version'', JInt 1), (''run_id'', JStr run_id), (''creation_fingerprint'', JStr fingerprint),
       (''goal_sha256'', JStr (digest_of goal)), (''repository_identity'', JStr (rb_identity baseline)),
       (''base_sha'', JStr (rb_base_sha baseline)), (''run_ref'', JStr run_ref), (''config_sha256'', JStr (digest_of config_body))]"

definition creation_receipt :: "string \<Rightarrow> string \<Rightarrow> artifact_ref \<Rightarrow> string \<Rightarrow> string \<Rightarrow> string \<Rightarrow> json" where
  "creation_receipt run_id fingerprint intent_ref run_ref base_sha at =
     JObj [(''schema_version'', JInt 1), (''run_id'', JStr run_id), (''creation_fingerprint'', JStr fingerprint),
       (''intent'', artifact_as_dict intent_ref), (''run_ref'', JStr run_ref), (''base_sha'', JStr base_sha),
       (''created_at'', JStr at)]"

definition binding_receipt :: "string \<Rightarrow> json \<Rightarrow> refs \<Rightarrow> json result" where
  "binding_receipt at current refs =
     bnd (ref_at refs ''creation.receipt.json'') (\<lambda>r.
     Inr (stamp at (upd current ''creation'' (\<lambda>x. put x ''receipt'' (artifact_as_dict r)))))"

definition RUN_REF :: "string \<Rightarrow> string" where
  "RUN_REF run_id = ''refs/heads/vibe/run-'' @ run_id"

text \<open>\<^verbatim>\<open>with store.lock():\<close>, released on every exit.\<close>

definition with_lock :: "('g world, 'a) eff \<Rightarrow> ('g world, 'a) eff" where
  "with_lock m = (\<lambda>w. case on_dir lock w of
     (Inl e, w') \<Rightarrow> (Inl e, w')
   | (Inr _, w') \<Rightarrow> (case m w' of (r, w'') \<Rightarrow> (r, snd (on_dir unlock w''))))"

text \<open>The stored state, or a new one when none can be loaded.\<close>

definition load_or_create ::
  "'g machine \<Rightarrow> string \<Rightarrow> string \<Rightarrow> frozen_run_config \<Rightarrow> repository_baseline \<Rightarrow> artifact_ref \<Rightarrow> artifact_ref \<Rightarrow> ('g world, json) eff" where
  "load_or_create m run_id goal config baseline intent_ref config_ref =
     stry (sget (\<lambda>w. load (wd w)))
       (sbnd (now m) (\<lambda>at.
        on_dir (create (initial_state run_id goal config baseline (RUN_REF run_id) intent_ref config_ref at) [])))"

definition bind_creation_receipt ::
  "'g machine \<Rightarrow> string \<Rightarrow> string \<Rightarrow> repository_baseline \<Rightarrow> artifact_ref \<Rightarrow> json \<Rightarrow> ('g world, json) eff" where
  "bind_creation_receipt m run_id fingerprint baseline intent_ref state =
     (if sub (sub state ''creation'') ''receipt'' \<noteq> JNull then slift (Inr state)
      else
        sbnd (now m) (\<lambda>created_at.
        sbnd (slift (canonical_json_bytes (creation_receipt run_id fingerprint intent_ref (RUN_REF run_id)
          (rb_base_sha baseline) created_at))) (\<lambda>body.
        sbnd (now m) (\<lambda>at.
        on_dir (transact (int_of (sub state ''revision'')) [(''creation.receipt.json'', body)] (binding_receipt at))))))"

definition finish_creation ::
  "(string \<Rightarrow> ('g world, unit) eff) \<Rightarrow> 'g machine \<Rightarrow> 'g host \<Rightarrow> string \<Rightarrow> string \<Rightarrow> frozen_run_config \<Rightarrow> string \<Rightarrow>
   repository_baseline \<Rightarrow> string \<Rightarrow> ('g world, string) eff" where
  "finish_creation hook m h run_id goal config config_body baseline fingerprint =
     sbnd (slift (chk (RUN_ID_RE run_id))) (\<lambda>_.
     sbnd (slift (canonical_json_bytes (creation_intent run_id fingerprint goal baseline (RUN_REF run_id) config_body))) (\<lambda>intent_body.
     with_lock
       (sbnd (on_dir (prepare_artifact ''creation.intent.json'' intent_body)) (\<lambda>intent_ref.
        sbnd (on_dir (prepare_artifact ''config.json'' config_body)) (\<lambda>config_ref.
        sbnd (hook ''after_creation_intent_before_ref'') (\<lambda>_.
        sbnd (on_host (create_run_ref h run_id (rb_base_sha baseline))) (\<lambda>_.
        sbnd (hook ''after_creation_ref_before_state'') (\<lambda>_.
        sbnd (load_or_create m run_id goal config baseline intent_ref config_ref) (\<lambda>state.
        sbnd (slift (chk (creation_state_matches state goal (rb_identity baseline) (rb_base_sha baseline) (RUN_REF run_id)
          intent_ref config_ref))) (\<lambda>_.
        sbnd (hook ''after_creation_state_before_receipt'') (\<lambda>_.
        sbnd (bind_creation_receipt m run_id fingerprint baseline intent_ref state) (\<lambda>_.
        sbnd (hook ''after_creation_receipt_before_return'') (\<lambda>_.
        slift (Inr run_id))))))))))))))"

section \<open>Choosing the run\<close>

definition matching_creation_runs :: "(string, run_dir) dict \<Rightarrow> string \<Rightarrow> string list" where
  "matching_creation_runs runs fingerprint =
     filter (\<lambda>name. RUN_ID_RE name \<and>
        (case map_of runs name of None \<Rightarrow> False | Some d \<Rightarrow>
          (case map_of (rd_files d) ''creation.intent.json'' of None \<Rightarrow> False | Some body \<Rightarrow>
            (case bnd (read_bounded body MAX_STATE_BYTES) parse_json_object_bytes of
               Inl _ \<Rightarrow> False | Inr intent \<Rightarrow> sub intent ''creation_fingerprint'' = JStr fingerprint))))
       (sort (keys_of runs))"

definition reservation_ids :: "string \<Rightarrow> string list result" where
  "reservation_ids body =
     bnd (bnd (read_bounded body MAX_STATE_BYTES) parse_json_object_bytes) (\<lambda>v.
     bnd (chk (py_eq (sub v ''schema_version'') (JInt 1) \<and> sub v ''state'' = JStr ''PREPARED'' \<and> is_list (sub v ''requirements''))) (\<lambda>_.
     mapr (\<lambda>x. bnd (chk (is_obj x)) (\<lambda>_.
            bnd (chk (is_str (sub x ''run_id'') \<and> RUN_ID_RE (str_of (sub x ''run_id'')))) (\<lambda>_.
            Inr (str_of (sub x ''run_id''))))) (elems (sub v ''requirements''))))"

definition reserved_run_ids :: "(string, string) dict \<Rightarrow> string list result" where
  "reserved_run_ids files =
     bnd (mapr (\<lambda>name. case map_of files name of None \<Rightarrow> Inr [] | Some body \<Rightarrow> reservation_ids body)
       (filter (\<lambda>name. endswith name ''.json'' \<and> name \<noteq> ''.json'') (sort (keys_of files)))) (\<lambda>ids. Inr (concat ids))"

definition run_id_for :: "string \<Rightarrow> nat \<Rightarrow> string" where
  "run_id_for date n = ''RUN-'' @ date @ ''-'' @ pad3 (int n)"

text \<open>\<open>refs\<close> are the names of the refs that the protected snapshot lists.\<close>

definition free_run_id :: "string \<Rightarrow> string list \<Rightarrow> string list \<Rightarrow> string result" where
  "free_run_id date names refs =
     (case find (\<lambda>n. run_id_for date n \<notin> set names \<and> RUN_REF (run_id_for date n) \<notin> set refs) [1..<1000] of
        None \<Rightarrow> Inl ContractError | Some n \<Rightarrow> Inr (run_id_for date n))"

text \<open>\<^verbatim>\<open>strftime("%Y%m%d")\<close> of a UTC time in ISO format.\<close>

definition compact_date :: "string \<Rightarrow> string" where
  "compact_date at = take 4 at @ take 2 (drop 5 at) @ take 2 (drop 8 at)"

definition on_site :: "('g, 'a) eff \<Rightarrow> ('g site, 'a) eff" where
  "on_site m = (\<lambda>s. case m (st_host s) of (r, g) \<Rightarrow> (r, s\<lparr>st_host := g\<rparr>))"

definition allocate_run_id :: "'g machine \<Rightarrow> 'g host \<Rightarrow> ('g site, string) eff" where
  "allocate_run_id m h =
     sbnd (on_site (\<lambda>g. case m_now m g of (t, g') \<Rightarrow> (Inr t, g'))) (\<lambda>at.
     sbnd (sget (\<lambda>s. bnd (reserved_run_ids (st_reservations s)) (\<lambda>ids. Inr (keys_of (st_runs s) @ ids)))) (\<lambda>names.
     sbnd (on_site (snapshot_protected_git h None)) (\<lambda>snapshot.
     slift (free_run_id (compact_date at) names (map fst (pg_refs snapshot))))))"

definition run_dir_of :: "'g site \<Rightarrow> string \<Rightarrow> run_dir" where
  "run_dir_of s run_id = (case map_of (st_runs s) run_id of None \<Rightarrow> empty_dir | Some d \<Rightarrow> d)"

definition on_run :: "string \<Rightarrow> ('g world, 'a) eff \<Rightarrow> ('g site, 'a) eff" where
  "on_run run_id m = (\<lambda>s. case m \<lparr>wd = run_dir_of s run_id, wg = st_host s\<rparr> of
     (r, w) \<Rightarrow> (r, s\<lparr>st_runs := AList.update run_id (wd w) (st_runs s), st_host := wg w\<rparr>))"

text \<open>The one run with the fingerprint, unless it has already begun; otherwise a new one.\<close>

definition chosen_run :: "'g machine \<Rightarrow> 'g host \<Rightarrow> string \<Rightarrow> ('g site, string) eff" where
  "chosen_run m h fingerprint =
     sbnd (sget (\<lambda>s. Inr (matching_creation_runs (st_runs s) fingerprint))) (\<lambda>matches.
     sbnd (slift (chk (\<not> length matches > 1))) (\<lambda>_.
     case matches of
       [] \<Rightarrow> allocate_run_id m h
     | run_id # _ \<Rightarrow>
         sbnd (sget (\<lambda>s. case load (run_dir_of s run_id) of
             Inr state \<Rightarrow> Inr (Some state) | Inl e \<Rightarrow> if is_contract_error e then Inr None else Inl e)) (\<lambda>state.
         if state \<noteq> None \<and> \<not> is_pristine_created (the state) then allocate_run_id m h else slift (Inr run_id))))"

definition create_run ::
  "(string \<Rightarrow> ('g world, unit) eff) \<Rightarrow> 'g machine \<Rightarrow> 'g host \<Rightarrow> nat \<Rightarrow> string \<Rightarrow> string \<Rightarrow> frozen_run_config \<Rightarrow> ('g site, string) eff" where
  "create_run hook m h depth identity goal config =
     sbnd (slift (validate_goal goal)) (\<lambda>normalized.
     sbnd (slift (frozen_config_bytes config)) (\<lambda>config_body.
     sbnd (on_site (assert_clean_baseline depth h identity)) (\<lambda>baseline.
     sbnd (slift (creation_fingerprint (rb_identity baseline) (rb_base_sha baseline) normalized config_body)) (\<lambda>fingerprint.
     sbnd (chosen_run m h fingerprint) (\<lambda>run_id.
     on_run run_id (finish_creation hook m h run_id normalized config config_body baseline fingerprint))))))"

section \<open>Run ids and refs\<close>

lemma ref_pairs_outside: "r \<in> set (map fst (ref_pairs excluded fs)) \<Longrightarrow> \<not> startswith r ''refs/heads/vibe/''"
  by (induction excluded fs rule: ref_pairs.induct) (auto simp: Let_def split: if_splits)

lemma run_ref_inside: "startswith (RUN_REF run_id) ''refs/heads/vibe/''"
  by (simp add: RUN_REF_def startswith_def)

text \<open>The choice of a run id looks for run refs in a listing that never contains them: the protected
  snapshot leaves out every ref below \<^verbatim>\<open>refs/heads/vibe/\<close>, where the run refs are.  So an id whose run
  directory is gone but whose ref is left is chosen as if the ref did not exist.\<close>

lemma run_refs_not_consulted:
  assumes "snapshot_protected_git h None g = (Inr snapshot, g')"
  shows "free_run_id date names (map fst (pg_refs snapshot)) = free_run_id date names []"
proof -
  from assms obtain fs where "pg_refs snapshot = sort (ref_pairs None fs)"
    by (auto simp: snapshot_protected_git_def sbnd_Inr)
  then have "set (map fst (pg_refs snapshot)) = set (map fst (ref_pairs None fs))" by simp
  then have none: "RUN_REF run_id \<notin> set (map fst (pg_refs snapshot))" for run_id
    using ref_pairs_outside [of "RUN_REF run_id" None fs] run_ref_inside [of run_id] by blast
  then show ?thesis by (simp add: free_run_id_def del: set_map)
qed

section \<open>The initial state is a valid run state\<close>

definition baseline_ok :: "repository_baseline \<Rightarrow> bool" where
  "baseline_ok b \<longleftrightarrow> DIGEST_RE (rb_identity b) \<and> OID_RE (rb_base_sha b)
     \<and> ok (require_string (JStr (rb_base_ref b)))
     \<and> (rb_base_ref b = ''HEAD'' \<or> startswith (rb_base_ref b) ''refs/'')"

definition time_ok :: "string \<Rightarrow> bool" where
  "time_ok at \<longleftrightarrow> ok (require_rfc3339 (JStr at))"

lemma ascii_texts:
  "DIGEST_RE t \<Longrightarrow> require_string (JStr t) = Inr t" "OID_RE t \<Longrightarrow> require_string (JStr t) = Inr t"
proof -
  show "require_string (JStr t) = Inr t" if "DIGEST_RE t"
  proof -
    from that have t: "t = ''sha256:'' @ drop 7 t" "list_all is_hex (drop 7 t)"
      using append_take_drop_id [of 7 t] by (auto simp: DIGEST_RE_def)
    have a: "ascii t" using hex_ascii [OF t(2)] by (subst t(1)) (simp add: ascii_def byte_def)
    moreover have "\<not> blank t" by (subst t(1)) (simp add: blank_def byte_def py_space_def)
    ultimately show ?thesis using ascii_no_surrogate [OF a] by (simp add: require_string_def)
  qed
  show "require_string (JStr t) = Inr t" if "OID_RE t"
  proof -
    from that have h: "list_all is_hex t" "t \<noteq> []" by (auto simp: OID_RE_def)
    then obtain x xs where "t = x # xs" by (cases t) auto
    with h have "\<not> blank t"
      using hex_ascii [OF h(1)] by (auto simp: blank_def codepoints_ascii is_hex_def is_dec_def py_space_def)
    with ascii_no_surrogate [OF hex_ascii [OF h(1)]] show ?thesis by (simp add: require_string_def)
  qed
qed

lemma artifact_digest:
  "relative_artifact_path path = Inr () \<Longrightarrow> ok (require_string (JStr path)) \<Longrightarrow>
     artifact (artifact_as_dict \<lparr>ar_path = path, ar_sha256 = digest_of body\<rparr>) = Inr \<lparr>ar_path = path, ar_sha256 = digest_of body\<rparr>"
  by (auto simp: artifact_def artifact_as_dict_def require_exact_fields_def relative_artifact_path_def ok_iff bnd_eq_Inr
      is_obj_def jkeys_def items_def require_string_def digest_of_no_surrogate digest_of_not_blank split: if_splits)

abbreviation first_state :: "string \<Rightarrow> string \<Rightarrow> frozen_run_config \<Rightarrow> repository_baseline \<Rightarrow> string \<Rightarrow> string \<Rightarrow> string \<Rightarrow> json" where
  "first_state run_id goal config baseline intent_body config_body at \<equiv>
     initial_state run_id goal config baseline (RUN_REF run_id)
       \<lparr>ar_path = ''creation.intent.json'', ar_sha256 = digest_of intent_body\<rparr>
       \<lparr>ar_path = ''config.json'', ar_sha256 = digest_of config_body\<rparr> at"

lemma codepoints_ascii_prefix: "ascii a \<Longrightarrow> codepoints (a @ b) = map byte a @ codepoints b"
  by (induction a) (auto simp: ascii_def)

lemma surrogate_ascii_prefix: "ascii a \<Longrightarrow> has_surrogate (a @ b) = has_surrogate b"
  using ascii_no_surrogate [of a] by (simp add: has_surrogate_def codepoints_ascii_prefix codepoints_ascii)

text \<open>C37. Every run starts in a state that satisfies the run-state contract: with a well-formed run id,
  goal, baseline, configuration and clock, the state that is stored first passes
  \<^verbatim>\<open>validate_run_state\<close>, so the run can be loaded again.\<close>

theorem initial_state_valid:
  assumes "RUN_ID_RE run_id" and "ok (require_string (JStr run_id))" and "ok (require_string (JStr goal))"
    and "baseline_ok baseline" and "config_ok config" and "time_ok at"
  shows "valid (first_state run_id goal config baseline intent_body config_body at)"
proof -
  let ?s = "first_state run_id goal config baseline intent_body config_body at"
  let ?i = "\<lparr>ar_path = ''creation.intent.json'', ar_sha256 = digest_of intent_body\<rparr>"
  let ?c = "\<lparr>ar_path = ''config.json'', ar_sha256 = digest_of config_body\<rparr>"
  note keys = initial_state_def sub_Cons
  have texts: "require_string (JStr run_id) = Inr run_id" "require_string (JStr goal) = Inr goal"
    "require_string (JStr (rb_base_ref baseline)) = Inr (rb_base_ref baseline)"
    using assms(2,3,4) by (auto simp: ok_iff baseline_ok_def require_string_def split: if_splits)
  have base: "require_string (JStr (rb_identity baseline)) = Inr (rb_identity baseline)"
    "require_string (JStr (rb_base_sha baseline)) = Inr (rb_base_sha baseline)"
    using assms(4) ascii_texts by (auto simp: baseline_ok_def)
  from assms(6) have time: "require_rfc3339 (JStr at) = Inr at" "require_string (JStr at) = Inr at"
    by (auto simp: time_ok_def ok_iff require_rfc3339_def bnd_eq_Inr require_string_def split: option.splits if_splits)
  have refs: "artifact (artifact_as_dict ?i) = Inr ?i" "artifact (artifact_as_dict ?c) = Inr ?c"
    by (rule artifact_digest; code_simp)+
  have limits: "1 \<le> repair_rounds config" "1 \<le> max_workers config" "1 \<le> task_attempts config"
    using assms(5) by (auto simp: config_ok_def)
  have "scalar_part ?s"
    using assms(1,4) texts base limits
    by (simp add: scalar_part_def keys validate_repository_def require_exact_fields_def jkeys_def items_def is_obj_def
        RUN_REF_def require_oid_def baseline_ok_def require_plain_int_def ok_def validate_controller_def void_def)
       blast
  moreover have "time_part ?s" using time by (simp add: time_part_def keys)
  moreover have "status_part ?s"
    by (simp add: status_part_def keys validate_resume_status_def optional_error_def validate_status_coherence_def)
       (rule exI [of _ CREATED], simp add: run_status_value.simps)
  moreover have "body_part ?s"
  proof -
    have "validate_runtime_of (fresh_runtime config) = Inr ()"
      using limits by (simp add: validate_runtime_of_def fresh_runtime_def require_exact_fields_def sub_Cons jkeys_def items_def
          is_obj_def require_plain_int_def optional_error_def void_def)
    moreover have "artifact_list (JList [artifact_as_dict ?i, artifact_as_dict ?c]) = Inr [?i, ?c]"
      "artifact_list (JList []) = Inr []"
      using refs by (simp_all add: artifact_list_def is_list_def elems_def note_reference_def)
    ultimately have "validate_histories ?s = Inr ()"
      using refs by (simp add: validate_histories_def keys require_exact_fields_def jkeys_def items_def is_obj_def
          optional_artifact_def validate_role_runtime_def void_def note_reference_def)
    moreover have "validate_work ?s = Inr ()"
      by (simp add: validate_work_def keys is_obj_def items_def validate_prepared_markers_def)
    ultimately show ?thesis
      by (simp add: body_part_def keys validate_latest_evaluation_def validate_global_verification_def
          validate_stop_receipts_def is_list_def elems_def)
  qed
  moreover have "clean ?s"
  proof -
    have "list_all (\<lambda>k. \<not> has_surrogate k) [''schema_version'', ''run_id'', ''revision'', ''goal'', ''repository'', ''status'', ''resume_status'', ''plan_version'', ''repair_round'', ''max_repair_rounds'', ''max_workers'', ''controller'', ''creation'', ''config'', ''artifact_index'', ''plans'', ''role_attempts'', ''role_runtime'', ''evaluations'', ''verifications'', ''legacy_import'', ''tasks'', ''pending_dispatches'', ''pending_source_commit'', ''pending_integration'', ''pending_evaluation'', ''latest_evaluation'', ''global_verification'', ''stop_receipts'', ''last_error'', ''created_at'', ''updated_at'', ''identity'', ''base_ref'', ''base_sha'', ''integration_ref'', ''integration_head'', ''CREATED'', ''intent'', ''receipt'', ''path'', ''sha256'', ''planner'', ''evaluator'', ''operation_id'', ''attempt_no'', ''failure_count'', ''max_attempts'', ''active_attempt_token'', ''creation.intent.json'', ''config.json'']"
      by code_simp
    moreover have "\<not> has_surrogate run_id" "\<not> has_surrogate goal" "\<not> has_surrogate at" "\<not> has_surrogate (rb_identity baseline)"
      "\<not> has_surrogate (rb_base_sha baseline)" "\<not> has_surrogate (rb_base_ref baseline)"
      using texts base time by (auto simp: require_string_def split: if_splits)
    moreover have "\<not> has_surrogate (RUN_REF run_id)"
      using calculation(2) surrogate_ascii_prefix [of "''refs/heads/vibe/run-''" run_id]
      by (simp add: RUN_REF_def ascii_def byte_def del: append.simps)
    ultimately show ?thesis
      by (simp add: initial_state_def fresh_runtime_def artifact_as_dict_def digest_of_no_surrogate)
  qed
  moreover have "is_obj ?s \<and> set (jkeys ?s) = set RUN_FIELDS"
  proof -
    have "jkeys ?s = RUN_FIELDS" by (simp add: initial_state_def jkeys_def items_def RUN_FIELDS_def)
    then show ?thesis by (simp add: initial_state_def is_obj_def)
  qed
  ultimately show ?thesis by (simp add: valid_iff)
qed

end
