(* ===== verification/JsonFuel.thy ===== *)
theory JsonFuel
  imports JsonText
begin

text \<open>
  The bounds of the JSON reader of \<^verbatim>\<open>canonical.py\<close>: each step consumes a character at least, so the fuel
  that \<open>json_loads\<close> gives never runs out, whatever the input.
\<close>

lemma skip_ws_length: "length (skip_ws s) \<le> length s"
  unfolding skip_ws_def by (rule length_dropWhile_le)

section \<open>Strings\<close>

text \<open>A step ends the string, refuses it, or goes on with a shorter rest, whatever the fuel.\<close>

lemma parse_str_step:
  "(\<forall>n. parse_str (Suc n) (c # r) = None) \<or> (\<forall>n. parse_str (Suc n) (c # r) = Some ([], r))
   \<or> (\<exists>p r'. length r' \<le> length r \<and> (\<forall>n. parse_str (Suc n) (c # r) = map_option (\<lambda>(t, q). (p @ t, q)) (parse_str n r')))"
  (is "?none \<or> ?end \<or> ?more")
proof -
  have more: ?more if "length r' \<le> length r" "\<And>n. parse_str (Suc n) (c # r) = map_option (\<lambda>(t, q). (p @ t, q)) (parse_str n r')"
    for p r' using that by blast
  consider "c = QUOTE" | "c \<noteq> QUOTE" "c = BACKSLASH" | "c \<noteq> QUOTE" "c \<noteq> BACKSLASH" by blast
  then show ?thesis
  proof cases
    case 1
    then show ?thesis by (simp add: parse_str.simps)
  next
    case 2
    show ?thesis
    proof (cases r)
      case Nil
      with 2 show ?thesis by (simp add: parse_str.simps)
    next
      case (Cons e r1)
      show ?thesis
      proof (cases "e = CHR ''u''")
        case False
        show ?thesis
        proof (cases "simple_escape e")
          case None
          with 2 Cons False show ?thesis by (simp add: parse_str.simps)
        next
          case (Some x)
          with 2 Cons False have ?more by (intro more [of r1 "[x]"]) (simp_all add: parse_str.simps)
          then show ?thesis by blast
        qed
      next
        case u: True
        show ?thesis
        proof (cases "\<exists>p q v w r2 x. r1 = p # q # v # w # r2 \<and> hex4 p q v w = Some x")
          case False
          with 2 Cons u have ?none by (auto simp: parse_str.simps split: list.split option.split)
          then show ?thesis by blast
        next
          case True
          then obtain p q v w r2 x where h: "r1 = p # q # v # w # r2" "hex4 p q v w = Some x" by blast
          show ?thesis
          proof (cases "if 0xD800 \<le> x \<and> x \<le> 0xDBFF then low_surrogate r2 else None")
            case None
            with 2 Cons u h have ?more
              by (intro more [of r2 "utf8_encode x"]) (simp_all add: parse_str.simps del: if_split)
            then show ?thesis by blast
          next
            case (Some l)
            with 2 Cons u h have ?more
              by (intro more [of "drop 6 r2" "utf8_encode (0x10000 + (x - 0xD800) * 0x400 + (l - 0xDC00))"])
                (simp_all add: parse_str.simps del: if_split)
            then show ?thesis by blast
          qed
        qed
      qed
    qed
  next
    case 3
    show ?thesis
    proof (cases "byte c < 32")
      case True
      with 3 show ?thesis by (simp add: parse_str.simps)
    next
      case False
      with 3 have ?more by (intro more [of r "[c]"]) (simp_all add: parse_str.simps)
      then show ?thesis by blast
    qed
  qed
qed

lemma parse_str_consumes: "parse_str n s = Some (t, r) \<Longrightarrow> length r < length s"
proof (induction n arbitrary: s t r)
  case (Suc n)
  show ?case
  proof (cases s)
    case (Cons c q)
    from parse_str_step [of c q] Suc Cons show ?thesis
      by (auto simp: less_Suc_eq_le) (meson le_trans less_imp_le)+
  qed (use Suc in \<open>simp add: parse_str.simps\<close>)
qed (simp add: parse_str.simps)

lemma parse_str_fuel: "length s \<le> m \<Longrightarrow> length s \<le> n \<Longrightarrow> parse_str m s = parse_str n s"
proof (induction m arbitrary: s n)
  case 0
  then show ?case by (cases n) (auto simp: parse_str.simps)
next
  case (Suc m)
  show ?case
  proof (cases s)
    case Nil
    then show ?thesis by (cases n) (auto simp: parse_str.simps)
  next
    case (Cons c r)
    with Suc.prems obtain k where n: "n = Suc k" by (cases n) auto
    have step: "parse_str m r' = parse_str k r'" if "length r' \<le> length r" for r'
      using Suc.prems Cons n that by (intro Suc.IH) auto
    from parse_str_step [of c r] show ?thesis unfolding n Cons by (elim disjE exE conjE) (simp_all add: step)
  qed
qed

section \<open>Values\<close>

lemma int_part_length: "length (int_part s) \<le> length s"
  by (auto simp: int_part_def length_takeWhile_le split: list.split)

lemma parse_number_consumes: "parse_number s = Some (v, r) \<Longrightarrow> length r < length s"
proof -
  assume a: "parse_number s = Some (v, r)"
  define s1 where "s1 = (if (case s of c # _ \<Rightarrow> c = CHR ''-'' | [] \<Rightarrow> False) then tl s else s)"
  from a obtain n where r: "r = drop n s1" "int_part s1 \<noteq> []" "n \<ge> length (int_part s1)"
    unfolding parse_number_def Let_def s1_def [symmetric] by (auto simp: add.assoc split: if_splits)
  from r(2) have "s1 \<noteq> []" "n > 0" using r(3) by (auto simp: int_part_def) (cases n; auto)
  then have "length (drop n s1) < length s1" using r(3) by (cases s1) (auto simp: not_less_eq_eq)
  moreover have "length s1 \<le> length s" by (simp add: s1_def)
  ultimately show ?thesis using r(1) by simp
qed

lemma literal_consumes: "startswith s p \<Longrightarrow> p \<noteq> [] \<Longrightarrow> length (drop (length p) s) < length s"
  by (cases s; cases p) (auto simp: startswith_def)

text \<open>A reader consumes a character at least; two readers agree on the texts up to a length.\<close>

definition consumes :: "(string \<Rightarrow> ('a \<times> string) option) \<Rightarrow> bool" where
  "consumes p \<longleftrightarrow> (\<forall>s v r. p s = Some (v, r) \<longrightarrow> length r < length s)"

definition agree :: "nat \<Rightarrow> (string \<Rightarrow> 'a option) \<Rightarrow> (string \<Rightarrow> 'a option) \<Rightarrow> bool" where
  "agree l p q \<longleftrightarrow> (\<forall>s. length s \<le> l \<longrightarrow> p s = q s)"

lemma consumesD: "consumes p \<Longrightarrow> p s = Some (v, r) \<Longrightarrow> length r < length s"
  by (auto simp: consumes_def)

lemma skip_ws_rest: "skip_ws s = d # t \<Longrightarrow> length t < length s"
  using skip_ws_length [of s] by simp

lemma rest_le: "consumes p \<Longrightarrow> r = t \<or> (\<exists>w. p (skip_ws t) = Some (w, r)) \<Longrightarrow> length r \<le> length t"
  using skip_ws_length [of t] consumesD [of p "skip_ws t" _ r] by fastforce

lemma value_consumes:
  assumes "consumes (parse_elems n)" and "consumes (parse_members n)"
  shows "consumes (parse_value (Suc n))"
  unfolding consumes_def
proof (intro allI impI)
  fix s v r assume a: "parse_value (Suc n) s = Some (v, r)"
  then obtain c t where s: "s = c # t" by (cases s) (auto simp: parse_value.simps)
  have drops: "k > 0 \<Longrightarrow> length (drop k s) < length s" for k by (simp add: s)
  consider "c = QUOTE" | "c \<noteq> QUOTE" "c = CHR ''{''" | "c \<noteq> QUOTE" "c \<noteq> CHR ''{''" "c = CHR ''[''"
    | "c \<noteq> QUOTE" "c \<noteq> CHR ''{''" "c \<noteq> CHR ''[''" by blast
  then show "length r < length s"
  proof cases
    case 1
    with a s obtain u where "parse_str (length t) t = Some (u, r)" by (auto simp: parse_value.simps)
    from parse_str_consumes [OF this] s show ?thesis by simp
  next
    case 2
    with a s obtain d u where d: "skip_ws t = d # u" "r = u \<or> (\<exists>ps. parse_members n (d # u) = Some (ps, r))"
      by (auto simp: parse_value.simps bind_eq_Some_conv split: list.splits if_splits)
    with consumesD [OF assms(2), of "d # u"] skip_ws_rest [OF d(1)] s show ?thesis by fastforce
  next
    case 3
    with a s obtain d u where d: "skip_ws t = d # u" "r = u \<or> (\<exists>vs. parse_elems n (d # u) = Some (vs, r))"
      by (auto simp: parse_value.simps split: list.splits if_splits)
    with consumesD [OF assms(1), of "d # u"] skip_ws_rest [OF d(1)] s show ?thesis by fastforce
  next
    case 4
    with a s have "r = drop 4 s \<or> r = drop 5 s \<or> parse_number s = Some (v, r)"
      by (auto simp: parse_value.simps split: if_splits)
    with drops parse_number_consumes show ?thesis by auto
  qed
qed

lemma elems_consume:
  assumes "consumes (parse_value n)" and "consumes (parse_elems n)"
  shows "consumes (parse_elems (Suc n))"
  unfolding consumes_def
proof (intro allI impI)
  fix s vs r assume "parse_elems (Suc n) s = Some (vs, r)"
  then obtain v q where v: "parse_value n s = Some (v, q)" "(case skip_ws q of [] \<Rightarrow> None
       | c # r1 \<Rightarrow> if c = CHR '']'' then Some ([v], r1)
           else if c = CHR '','' then map_option (\<lambda>(vs, r2). (v # vs, r2)) (parse_elems n (skip_ws r1)) else None) = Some (vs, r)"
    by (simp only: parse_elems.simps bind_eq_Some_conv split_paired_Ex prod.case) blast
  then obtain c t where c: "skip_ws q = c # t" by (cases "skip_ws q") simp_all
  with v(2) have rest: "r = t \<or> (\<exists>ws. parse_elems n (skip_ws t) = Some (ws, r))" by (simp split: if_splits) force
  have "length r \<le> length t"
    by (rule rest_le [OF assms(2) rest])
  with consumesD [OF assms(1) v(1)] skip_ws_rest [OF c] show "length r < length s" by simp
qed

lemma members_consume:
  assumes "consumes (parse_value n)" and "consumes (parse_members n)"
  shows "consumes (parse_members (Suc n))"
  unfolding consumes_def
proof (intro allI impI)
  fix s ps r assume a: "parse_members (Suc n) s = Some (ps, r)"
  then obtain x r0 where s: "s = x # r0" by (cases s) (auto simp: parse_members.simps)
  from a obtain k q where k: "parse_str (length r0) r0 = Some (k, q)" "(case skip_ws q of [] \<Rightarrow> None
       | c # r1 \<Rightarrow> if c \<noteq> CHR '':'' then None
           else Option.bind (parse_value n (skip_ws r1)) (\<lambda>(v, r2).
             case skip_ws r2 of [] \<Rightarrow> None
             | e # r3 \<Rightarrow> if e = CHR ''}'' then Some ([(k, v)], r3)
                 else if e = CHR '','' then map_option (\<lambda>(ps, r4). ((k, v) # ps, r4)) (parse_members n (skip_ws r3))
                 else None)) = Some (ps, r)"
    unfolding s parse_members.simps list.case bind_eq_Some_conv by (auto simp: bind_eq_Some_conv simp del: not_None_eq split: if_splits)
  then obtain c t where c: "skip_ws q = c # t" by (cases "skip_ws q") simp_all
  with k(2) obtain v q2 where v: "parse_value n (skip_ws t) = Some (v, q2)" "(case skip_ws q2 of [] \<Rightarrow> None
             | e # r3 \<Rightarrow> if e = CHR ''}'' then Some ([(k, v)], r3)
                 else if e = CHR '','' then map_option (\<lambda>(ps, r4). ((k, v) # ps, r4)) (parse_members n (skip_ws r3))
                 else None) = Some (ps, r)"
    by (auto simp: bind_eq_Some_conv simp del: not_None_eq split: if_splits)
  then obtain e t2 where e: "skip_ws q2 = e # t2" by (cases "skip_ws q2") simp_all
  with v(2) have rest: "r = t2 \<or> (\<exists>qs. parse_members n (skip_ws t2) = Some (qs, r))" by (simp split: if_splits) force
  have "length q < length r0" using parse_str_consumes [OF k(1)] .
  moreover have "length q2 < length q"
    using consumesD [OF assms(1) v(1)] skip_ws_rest [OF c] skip_ws_length [of t] by simp
  moreover have "length r \<le> length t2"
    by (rule rest_le [OF assms(2) rest])
  then have "length r < length q2" using skip_ws_rest [OF e] by simp
  ultimately show "length r < length s" by (simp add: s)
qed

lemma parse_consumes: "consumes (parse_value n) \<and> consumes (parse_elems n) \<and> consumes (parse_members n)"
proof (induction n)
  case 0
  then show ?case by (simp add: consumes_def parse_value.simps parse_elems.simps parse_members.simps)
next
  case (Suc n)
  then show ?case using value_consumes elems_consume members_consume by blast
qed

section \<open>Enough fuel\<close>

lemma agreeD: "agree l p q \<Longrightarrow> length s \<le> l \<Longrightarrow> p s = q s"
  by (simp add: agree_def)

lemma value_agree:
  assumes "agree l (parse_elems m) (parse_elems n)" and "agree l (parse_members m) (parse_members n)"
  shows "agree (Suc l) (parse_value (Suc m)) (parse_value (Suc n))"
  unfolding agree_def
proof (intro allI impI)
  fix s :: string assume l: "length s \<le> Suc l"
  have "parse_elems m (d # u) = parse_elems n (d # u)" "parse_members m (d # u) = parse_members n (d # u)"
    if "s = c # t" "skip_ws t = d # u" for c t d u
    using that l skip_ws_length [of t] by (auto intro!: agreeD [OF assms(1)] agreeD [OF assms(2)])
  then show "parse_value (Suc m) s = parse_value (Suc n) s"
    by (auto simp: parse_value.simps split: list.split)
qed

lemma elems_agree:
  assumes "agree (Suc l) (parse_value m) (parse_value n)" and "agree l (parse_elems m) (parse_elems n)"
  shows "agree (Suc l) (parse_elems (Suc m)) (parse_elems (Suc n))"
  unfolding agree_def
proof (intro allI impI)
  fix s :: string assume l: "length s \<le> Suc l"
  have "parse_elems m (skip_ws t) = parse_elems n (skip_ws t)" if "parse_value n s = Some (v, q)" "skip_ws q = c # t" for v q c t
    using consumesD [of "parse_value n", OF _ that(1)] parse_consumes skip_ws_rest [OF that(2)] skip_ws_length [of t] l
    by (intro agreeD [OF assms(2)]) simp
  then show "parse_elems (Suc m) s = parse_elems (Suc n) s"
    unfolding parse_elems.simps agreeD [OF assms(1) l]
    by (intro Option.bind_cong) (auto split: list.split)
qed

lemma members_agree:
  assumes "agree l (parse_value m) (parse_value n)" and "agree l (parse_members m) (parse_members n)"
  shows "agree (Suc l) (parse_members (Suc m)) (parse_members (Suc n))"
  unfolding agree_def
proof (intro allI impI)
  fix s :: string assume l: "length s \<le> Suc l"
  show "parse_members (Suc m) s = parse_members (Suc n) s"
  proof (cases s)
    case (Cons x r0)
    have vals: "parse_value m (skip_ws t) = parse_value n (skip_ws t)"
      if "parse_str (length r0) r0 = Some (k, q)" "skip_ws q = c # t" for k q c t
      using parse_str_consumes [OF that(1)] skip_ws_rest [OF that(2)] skip_ws_length [of t] l Cons
      by (intro agreeD [OF assms(1)]) simp
    have more: "parse_members m (skip_ws t2) = parse_members n (skip_ws t2)"
      if "parse_str (length r0) r0 = Some (k, q)" "skip_ws q = c # t" "parse_value n (skip_ws t) = Some (v, q2)" "skip_ws q2 = e # t2"
      for k q c t v q2 e t2
      using parse_str_consumes [OF that(1)] skip_ws_rest [OF that(2)] skip_ws_length [of t] l Cons
        consumesD [of "parse_value n", OF _ that(3)] parse_consumes skip_ws_rest [OF that(4)] skip_ws_length [of t2]
      by (intro agreeD [OF assms(2)]) simp
    show ?thesis
      unfolding Cons parse_members.simps list.case
      by (intro if_cong refl Option.bind_cong) (auto split: list.split simp: vals more intro!: Option.bind_cong)
  qed (simp add: parse_members.simps)
qed

lemma agree_mono: "agree k p q \<Longrightarrow> l \<le> k \<Longrightarrow> agree l p q"
  by (auto simp: agree_def)

lemma parse_agree:
  "2 * l + 1 \<le> m \<Longrightarrow> 2 * l + 1 \<le> n \<Longrightarrow> agree l (parse_value m) (parse_value n)"
  "2 * l + 2 \<le> m \<Longrightarrow> 2 * l + 2 \<le> n \<Longrightarrow> agree l (parse_elems m) (parse_elems n)"
  "2 * l + 2 \<le> m \<Longrightarrow> 2 * l + 2 \<le> n \<Longrightarrow> agree l (parse_members m) (parse_members n)"
proof (induction l arbitrary: m n)
  case 0
  have e: "parse_value (Suc k) [] = None" "parse_elems (Suc (Suc k)) [] = None" "parse_members (Suc k) [] = None" for k
    by (simp_all add: parse_value.simps parse_elems.simps parse_members.simps)
  {
    case 1 then show ?case by (cases m; cases n) (auto simp: agree_def e)
  next
    case 2 then show ?case by (cases m; cases n; cases "m - 1"; cases "n - 1") (auto simp: agree_def e)
  next
    case 3 then show ?case by (cases m; cases n) (auto simp: agree_def e)
  }
next
  case (Suc l)
  have v: "agree (Suc l) (parse_value m) (parse_value n)" if mn: "2 * Suc l + 1 \<le> m" "2 * Suc l + 1 \<le> n" for m n
  proof -
    from mn obtain a b where "m = Suc a" "n = Suc b" "2 * l + 2 \<le> a" "2 * l + 2 \<le> b" by (cases m; cases n) auto
    then show ?thesis using value_agree Suc.IH(2,3) by blast
  qed
  {
    case 1 then show ?case by (rule v)
  next
    case 2
    then obtain a b where ab: "m = Suc a" "n = Suc b" "2 * Suc l + 1 \<le> a" "2 * Suc l + 1 \<le> b" by (cases m; cases n) auto
    then have "agree l (parse_elems a) (parse_elems b)" by (intro Suc.IH(2)) auto
    then show ?case unfolding ab(1,2) by (rule elems_agree [OF v [OF ab(3,4)]])
  next
    case 3
    then obtain a b where ab: "m = Suc a" "n = Suc b" "2 * l + 2 \<le> a" "2 * l + 2 \<le> b" by (cases m; cases n) auto
    have "agree l (parse_value a) (parse_value b)" using ab by (intro Suc.IH(1)) auto
    moreover have "agree l (parse_members a) (parse_members b)" using ab by (intro Suc.IH(3)) auto
    ultimately show ?case unfolding ab(1,2) by (rule members_agree)
  }
qed


end
