(* ===== verification/Pausing.thy ===== *)
theory Pausing
  imports StopControl JsonFuel
begin

text \<open>
  A change of the fields that no history and no reference depends on always commits: the conditions of
  a transaction follow from those of the load.  So a run in a running phase can always be paused.
\<close>

section \<open>Loaded states\<close>

text \<open>A parsed value has no repeated key.\<close>

definition yields_wf :: "(string \<Rightarrow> ('a \<times> string) option) \<Rightarrow> ('a \<Rightarrow> bool) \<Rightarrow> bool" where
  "yields_wf p good \<longleftrightarrow> (\<forall>s v r. p s = Some (v, r) \<longrightarrow> good v)"

lemma parse_wf:
  "yields_wf (parse_value n) wf_json \<and> yields_wf (parse_elems n) wf_list \<and> yields_wf (parse_members n) wf_dict"
proof (induction n)
  case 0
  then show ?case by (simp add: yields_wf_def parse_value.simps parse_elems.simps parse_members.simps)
next
  case (Suc n)
  have "yields_wf (parse_value (Suc n)) wf_json"
    unfolding yields_wf_def
  proof (intro allI impI)
    fix s v r assume "parse_value (Suc n) s = Some (v, r)"
    with Suc.IH show "wf_json v"
      by (auto simp: yields_wf_def parse_value.simps parse_number_def strict_object_def keys_of_def Let_def bind_eq_Some_conv
          split: list.splits if_splits) blast+
  qed
  moreover have "yields_wf (parse_elems (Suc n)) wf_list"
    unfolding yields_wf_def
  proof (intro allI impI)
    fix s vs r assume "parse_elems (Suc n) s = Some (vs, r)"
    then obtain v q where v: "parse_value n s = Some (v, q)" "(case skip_ws q of [] \<Rightarrow> None
       | c # r1 \<Rightarrow> if c = CHR '']'' then Some ([v], r1)
           else if c = CHR '','' then map_option (\<lambda>(vs, r2). (v # vs, r2)) (parse_elems n (skip_ws r1)) else None) = Some (vs, r)"
      by (simp only: parse_elems.simps bind_eq_Some_conv split_paired_Ex prod.case) blast
    from v(1) Suc.IH have "wf_json v" by (auto simp: yields_wf_def)
    moreover have "vs = [v] \<or> (\<exists>ws t. vs = v # ws \<and> parse_elems n t = Some (ws, r))"
      using v(2) by (cases "skip_ws q") (auto split: if_splits)
    ultimately show "wf_list vs" using Suc.IH by (auto simp: yields_wf_def) blast+
  qed
  moreover have "yields_wf (parse_members (Suc n)) wf_dict"
    unfolding yields_wf_def
  proof (intro allI impI)
    fix s ps r assume a: "parse_members (Suc n) s = Some (ps, r)"
    then obtain x r0 where s: "s = x # r0" by (cases s) (auto simp: parse_members.simps)
    from a obtain k q where k: "(case skip_ws q of [] \<Rightarrow> None
       | c # r1 \<Rightarrow> if c \<noteq> CHR '':'' then None
           else Option.bind (parse_value n (skip_ws r1)) (\<lambda>(v, r2).
             case skip_ws r2 of [] \<Rightarrow> None
             | e # r3 \<Rightarrow> if e = CHR ''}'' then Some ([(k, v)], r3)
                 else if e = CHR '','' then map_option (\<lambda>(ps, r4). ((k, v) # ps, r4)) (parse_members n (skip_ws r3))
                 else None)) = Some (ps, r)"
      unfolding s parse_members.simps list.case bind_eq_Some_conv by (auto simp: bind_eq_Some_conv simp del: not_None_eq split: if_splits)
    then obtain c t where c: "skip_ws q = c # t" by (cases "skip_ws q") simp_all
    with k obtain v q2 where v: "parse_value n (skip_ws t) = Some (v, q2)" "(case skip_ws q2 of [] \<Rightarrow> None
             | e # r3 \<Rightarrow> if e = CHR ''}'' then Some ([(k, v)], r3)
                 else if e = CHR '','' then map_option (\<lambda>(ps, r4). ((k, v) # ps, r4)) (parse_members n (skip_ws r3))
                 else None) = Some (ps, r)"
      by (auto simp: bind_eq_Some_conv simp del: not_None_eq split: if_splits)
    from v(1) Suc.IH have "wf_json v" by (auto simp: yields_wf_def)
    moreover have "ps = [(k, v)] \<or> (\<exists>qs t. ps = (k, v) # qs \<and> parse_members n t = Some (qs, r))"
      using v(2) by (cases "skip_ws q2") (auto split: if_splits)
    ultimately show "wf_dict ps" using Suc.IH by (auto simp: yields_wf_def) blast+
  qed
  ultimately show ?case by blast
qed

lemma loads_wf: "json_loads s = Some v \<Longrightarrow> wf_json v"
proof -
  have "wf_json v" if "(case parse_value n t of None \<Rightarrow> None | Some (v, r) \<Rightarrow> if skip_ws r = [] then Some v else None) = Some v" for n t
  proof -
    from that obtain r where "parse_value n t = Some (v, r)"
      by (cases "parse_value n t") (auto simp del: parse_value.simps split: if_splits)
    with parse_wf [of n] show ?thesis by (auto simp only: yields_wf_def)
  qed
  then show "json_loads s = Some v \<Longrightarrow> wf_json v" unfolding json_loads_def .
qed

lemma parsed_wf: "parse_json_object_bytes body = Inr v \<Longrightarrow> wf_json v"
  by (auto simp: parse_json_object_bytes_def bnd_eq_Inr intro: loads_wf split: if_splits option.splits)

lemma load_wf: "load d = Inr s \<Longrightarrow> wf_json s"
  by (auto simp: load_def bnd_eq_Inr dest!: validate_run_state_id dest: parsed_wf)

section \<open>Histories\<close>

lemma valid_parts:
  assumes "valid s"
  shows "is_list (sub s ''plans'')" "is_list (sub s ''evaluations'')" "is_list (sub s ''verifications'')"
    "is_list (sub s ''stop_receipts'')" "is_obj (sub s ''role_attempts'')" "is_obj (sub s ''tasks'')"
    "set (jkeys (sub s ''role_attempts'')) = {''planner'', ''evaluator''}"
    "is_list (sub (sub s ''role_attempts'') ''planner'')" "is_list (sub (sub s ''role_attempts'') ''evaluator'')"
    "i \<in> set (jkeys (sub s ''tasks'')) \<Longrightarrow> is_obj (sub (sub s ''tasks'') i) \<and> has_key (sub (sub s ''tasks'') i) ''attempts''
       \<and> is_list (sub (sub (sub s ''tasks'') i) ''attempts'')"
proof -
  from assms have h: "validate_histories s = Inr ()" and w: "validate_work s = Inr ()" and r: "validate_stop_receipts (sub s ''stop_receipts'') = Inr ()"
    by (auto simp: valid_iff body_part_def)
  have al: "artifact_list v = Inr rs \<Longrightarrow> is_list v" for v rs by (auto simp: artifact_list_def split: if_splits)
  show "is_list (sub s ''stop_receipts'')" using r by (auto simp: validate_stop_receipts_def split: if_splits)
  show "is_list (sub s ''plans'')" "is_list (sub s ''evaluations'')" "is_list (sub s ''verifications'')" "is_obj (sub s ''role_attempts'')"
    "set (jkeys (sub s ''role_attempts'')) = {''planner'', ''evaluator''}"
    "is_list (sub (sub s ''role_attempts'') ''planner'')" "is_list (sub (sub s ''role_attempts'') ''evaluator'')"
    using h by (auto simp: validate_histories_def bnd_eq_Inr void_def require_exact_fields_def dest: al split: if_splits)
  show "is_obj (sub s ''tasks'')" using w by (auto simp: validate_work_def bnd_eq_Inr chk_def split: if_splits)
  assume m0: "i \<in> set (jkeys (sub s ''tasks''))"
  then have m: "(i, sub (sub s ''tasks'') i) \<in> set (items (sub s ''tasks''))"
    by (auto simp: jkeys_def sub_def jget_def keys_of_def split: option.splits dest: map_of_SomeD weak_map_of_SomeI)
  with w have "validate_task i (sub (sub s ''tasks'') i) = Inr ()"
    by (auto simp: validate_work_def bnd_eq_Inr forr_eq_Inr)
  then show "is_obj (sub (sub s ''tasks'') i) \<and> has_key (sub (sub s ''tasks'') i) ''attempts''
       \<and> is_list (sub (sub (sub s ''tasks'') i) ''attempts'')"
    by (auto simp: validate_task_def bnd_eq_Inr require_exact_fields_def TASK_FIELDS_def has_key_iff dest: al split: if_splits)
qed

definition kept_fields :: "string list" where
  "kept_fields = [''plans'', ''evaluations'', ''verifications'', ''role_attempts'', ''stop_receipts'', ''tasks'',
     ''artifact_index'', ''legacy_import'']"

lemma kept_key: "valid s \<Longrightarrow> k \<in> set kept_fields \<Longrightarrow> has_key s k"
proof -
  have "list_all (\<lambda>k. k \<in> set RUN_FIELDS) kept_fields" by code_simp
  then show "valid s \<Longrightarrow> k \<in> set kept_fields \<Longrightarrow> has_key s k" by (auto simp: valid_iff has_key_iff list_all_iff)
qed

lemma path_root:
  assumes "p \<in> set (history_paths s)" shows "\<exists>k q. p = k # q \<and> k \<in> set kept_fields"
proof -
  let ?good = "\<lambda>p. p \<noteq> [] \<and> hd p \<in> set kept_fields"
  have "list_all ?good [[''plans''], [''evaluations''], [''verifications''],
      [''role_attempts'', ''planner''], [''role_attempts'', ''evaluator''], [''stop_receipts'']]" by code_simp
  moreover have "?good [''tasks'', i, ''attempts'']" for i by (simp add: kept_fields_def)
  then have "list_all ?good (map (\<lambda>i. [''tasks'', i, ''attempts'']) is)" for "is" by (induction "is") auto
  ultimately have "list_all ?good (history_paths s)" unfolding history_paths_def list_all_append by blast
  with assms have "p \<noteq> []" "hd p \<in> set kept_fields" by (auto simp only: list_all_iff)
  then show ?thesis by (cases p) auto
qed

lemma history_exists:
  assumes "valid s" and "p \<in> set (history_paths s)"
  shows "\<exists>h. history_at s p = Inr h"
proof -
  note parts = valid_parts [OF assms(1)]
  have k: "is_obj s" "has_key s ''plans''" "has_key s ''evaluations''" "has_key s ''verifications''" "has_key s ''stop_receipts''"
    "has_key s ''role_attempts''" "has_key s ''tasks''"
    using assms(1) kept_key [OF assms(1)] by (simp_all add: valid_iff kept_fields_def)
  have r: "has_key (sub s ''role_attempts'') ''planner''" "has_key (sub s ''role_attempts'') ''evaluator''"
    using parts(5,7) by (simp_all add: has_key_iff)
  have task: "\<exists>h. history_at s [''tasks'', i, ''attempts''] = Inr h" if "i \<in> set (jkeys (sub s ''tasks''))" for i
    using parts(6) parts(10) [OF that] k that by (simp add: has_key_iff)
  have fixed: "list_all (\<lambda>p. \<exists>h. history_at s p = Inr h) [[''plans''], [''evaluations''], [''verifications''],
      [''role_attempts'', ''planner''], [''role_attempts'', ''evaluator''], [''stop_receipts'']]"
    using parts(1-5,8,9) k r by simp
  show ?thesis
    using assms(2) fixed task unfolding history_paths_def list_all_iff set_append Un_iff set_map set_sort by blast
qed

section \<open>A change that no history depends on\<close>

lemma history_same:
  assumes "p \<in> set (history_paths s)" and "valid s" "is_obj u"
    and "\<And>k. k \<in> set kept_fields \<Longrightarrow> has_key u k \<and> sub u k = sub s k"
  shows "history_at u p = history_at s p"
proof -
  from path_root [OF assms(1)] obtain k q where k: "p = k # q" "k \<in> set kept_fields" by blast
  have "is_obj s" "is_obj u" "has_key s k" "has_key u k" using assms(2-4) kept_key k(2) by (auto simp: valid_iff)
  with k assms(4) show ?thesis by simp
qed

lemma history_wf: "history_at v q = Inr h \<Longrightarrow> wf_json v \<Longrightarrow> wf_list h"
  by (induction v q arbitrary: h rule: history_at.induct) (auto simp: wf_sub wf_list_iff wf_elems split: if_splits)

lemma take_refl: "wf_list h \<Longrightarrow> py_eq_list (take (length h) h) h"
  using py_eq_refl [of "JList h"] by simp

lemma histories_kept:
  assumes "valid s" "wf_json s" "is_obj u" "\<And>k. k \<in> set kept_fields \<Longrightarrow> has_key u k \<and> sub u k = sub s k"
  shows "\<exists>hs. history_prefixes s = Inr hs \<and> require_history_prefixes u hs = Inr ()"
proof -
  have same: "history_at u p = history_at s p" if "p \<in> set (history_paths s)" for p
    using history_same [OF that assms(1,3,4)] .
  have "ok (mapr (\<lambda>path. bnd (history_at s path) (\<lambda>h. Inr (path, h))) (history_paths s))"
    unfolding ok_mapr list_all_iff using history_exists [OF assms(1)] by (auto simp: ok_iff bnd_eq_Inr)
  then obtain hs where hs: "history_prefixes s = Inr hs" by (auto simp: history_prefixes_def ok_iff)
  have "(case x of (path, old) \<Rightarrow> bnd (history_at u path) (\<lambda>current. chk (py_eq_list (take (length old) current) old))) = Inr ()"
    if "x \<in> set hs" for x
  proof -
    from mapr_member [OF hs [unfolded history_prefixes_def] that] obtain p h where p: "p \<in> set (history_paths s)"
      "history_at s p = Inr h" "x = (p, h)" by (auto simp: bnd_eq_Inr)
    with same take_refl [OF history_wf [OF p(2) assms(2)]] show ?thesis by (simp add: chk_def)
  qed
  then have "require_history_prefixes u hs = Inr ()" by (simp add: require_history_prefixes_def forr_eq_Inr)
  with hs show ?thesis by blast
qed

section \<open>References\<close>

lemma notes_paths: "foldr_r note_binding d rs = Inr m \<Longrightarrow> r \<in> set rs \<Longrightarrow> relative_artifact_path (ar_path r) = Inr ()"
  by (induction rs arbitrary: d) (auto simp: note_binding_def bnd_eq_Inr)

lemma notes_fewer:
  assumes "\<And>r. r \<in> set rs \<Longrightarrow> relative_artifact_path (ar_path r) = Inr () \<and> map_of m (ar_path r) = Some (ar_sha256 r)"
    and "\<And>p. p \<in> set d \<Longrightarrow> map_of m (fst p) = Some (snd p)"
  shows "\<exists>m'. foldr_r note_binding d rs = Inr m' \<and> (\<forall>p\<in>set m'. map_of m (fst p) = Some (snd p))"
  using assms
proof (induction rs arbitrary: d)
  case (Cons r rs)
  let ?d = "AList.update (ar_path r) (ar_sha256 r) d"
  have "case map_of d (ar_path r) of None \<Rightarrow> True | Some digest \<Rightarrow> digest = ar_sha256 r"
    using Cons.prems(1) [of r] Cons.prems(2) by (auto dest: map_of_SomeD split: option.split)
  then have n: "note_binding d r = Inr ?d" using Cons.prems(1) [of r] by (simp add: note_binding_def chk_def)
  have "map_of m (fst p) = Some (snd p)" if "p \<in> set ?d" for p
    using that Cons.prems(1) [of r] Cons.prems(2) set_alist_update [of "ar_path r" "ar_sha256 r" d] by auto
  then obtain m' where "foldr_r note_binding ?d rs = Inr m'" "\<forall>p\<in>set m'. map_of m (fst p) = Some (snd p)"
    using Cons.IH [of ?d] Cons.prems(1) by auto
  with n show ?case by simp
qed auto

lemma bindings_fewer:
  assumes "load d = Inr s" and "set (artifact_refs u) \<subseteq> set (artifact_refs s)"
  shows "validate_artifact_bindings d u [] = Inr ()"
proof -
  obtain m bodies where m: "bindings_of s = Inr m"
    and r: "mapr (\<lambda>(path, digest). bnd (read_artifact d path) (\<lambda>body. bnd (chk (digest_of body = digest)) (\<lambda>_. Inr (path, body)))) m = Inr bodies"
    using assms(1) by (auto simp: load_def bnd_eq_Inr verify_and_cache_bound_artifacts_def dest!: validate_run_state_id)
  have "relative_artifact_path (ar_path x) = Inr () \<and> map_of m (ar_path x) = Some (ar_sha256 x)" if "x \<in> set (artifact_refs u)" for x
    using that assms(2) m bindings_fold [of "[]" "artifact_refs s" m] notes_paths [of "[]" "artifact_refs s" m x]
    by (auto simp: bindings_of_def)
  from notes_fewer [OF this, of _ "[]"] obtain m' where m': "bindings_of u = Inr m'" "\<forall>p\<in>set m'. map_of m (fst p) = Some (snd p)"
    by (auto simp: bindings_of_def)
  have "sha256_bound_artifact d (fst p) = Inr (snd p)" if "p \<in> set m'" for p
  proof -
    from that m'(2) have "p \<in> set m" by (metis map_of_SomeD prod.collapse)
    with r [unfolded mapr_eq_Inr] show ?thesis
      by (cases p) (auto simp: sha256_bound_artifact_def list_all2_conv_all_nth in_set_conv_nth bnd_eq_Inr chk_def split: if_splits)
  qed
  with m' show ?thesis by (auto simp: validate_artifact_bindings_def forr_eq_Inr chk_def)
qed

lemma key_put: "has_key v k' \<Longrightarrow> has_key (put v k w) k'"
proof -
  assume a: "has_key v k'"
  then have "is_obj v" by (cases v) (auto simp: has_key_def jget_def items_def is_obj_def)
  with a show ?thesis by (simp add: has_key_iff)
qed

lemma refs_put:
  assumes "has_key v ''status''" and "k \<noteq> ''path''"
  shows "set (artifact_refs (put v k w)) \<subseteq> set (artifact_refs v) \<union> set (artifact_refs w)"
proof (cases v)
  case (JObj d)
  have upd: "set (artifact_refs_dict (AList.update k w e)) \<subseteq> set (artifact_refs_dict e) \<union> set (artifact_refs w)" for e
    by (induction e) auto
  have key: "''status'' \<in> set (keys_of d)" using assms(1) JObj by (simp add: has_key_iff)
  have "set (keys_of (AList.update k w d)) = insert k (set (keys_of d))"
    using set_jkeys_put [of "JObj d" k w] by (simp add: put_def)
  with key have "''status'' \<in> set (keys_of (AList.update k w d))" by simp
  moreover have "''status'' \<notin> {''path'', ''sha256''}" by simp
  ultimately have "set (keys_of d) \<noteq> {''path'', ''sha256''}" "set (keys_of (AList.update k w d)) \<noteq> {''path'', ''sha256''}"
    using key by metis+
  then show ?thesis using JObj upd by (simp add: put_def)
qed (use assms in \<open>auto simp: has_key_def jget_def items_def\<close>)

section \<open>The transaction commits\<close>

lemma frame_commits:
  assumes "load d = Inr s" "stored_state d s" "rd_locked d" "sub s ''revision'' = JInt n"
    and "f s [] = Inr u" and v: "valid (put u ''revision'' (JInt (n + 1)))" and "finite_floats u"
    and "\<And>k. k \<in> set kept_fields \<Longrightarrow> sub u k = sub s k" and "set (artifact_refs u) \<subseteq> set (artifact_refs s)" and "has_key u ''status''"
  shows "\<exists>d'. transact n [] f d = (Inr (put u ''revision'' (JInt (n + 1))), d')"
proof -
  let ?u = "put u ''revision'' (JInt (n + 1))"
  have s: "valid s" "wf_json s" using load_valid load_wf assms(1) by auto
  have rev: "''revision'' \<notin> set kept_fields" by (simp add: kept_fields_def)
  have obj: "is_obj u" using v by (simp add: valid_iff)
  have kept: "has_key u k \<and> sub u k = sub s k" if "k \<in> set kept_fields" for k
    using kept_key [OF v that] assms(8) [OF that] rev that obj by (cases "k = ''revision''") (auto simp: has_key_iff)
  obtain hs where hs: "history_prefixes s = Inr hs" "require_history_prefixes u hs = Inr ()"
    using histories_kept [OF s obj kept] by blast
  have items: "item u k = Inr (sub s k)" if "k \<in> set kept_fields" for k
    using kept [OF that] by (auto simp: item_def sub_def has_key_def split: option.splits)
  have "''artifact_index'' \<in> set kept_fields" "''legacy_import'' \<in> set kept_fields" by (simp_all add: kept_fields_def)
  note items = this [THEN items]
  obtain xs where xs: "sub s ''artifact_index'' = JList xs" "wf_list xs"
    using s(1) wf_sub [OF s(2), of "''artifact_index''"]
    by (cases "sub s ''artifact_index''")
       (auto simp: valid_iff body_part_def validate_histories_def artifact_list_def bnd_eq_Inr is_list_def split: if_splits)
  have index: "require_index_prefix u (sub s ''artifact_index'') = Inr ()"
    using items(1) xs take_refl [OF xs(2)] by (simp add: require_index_prefix_def elems_def chk_def)
  have legacy: "require_legacy_import (sub s ''legacy_import'') u = Inr ()"
    using items(2) py_eq_refl [OF wf_sub [OF s(2)]] by (simp add: require_legacy_import_def chk_def)
  have "set (artifact_refs ?u) \<subseteq> set (artifact_refs s)"
    using refs_put [OF assms(10), of "''revision''" "JInt (n + 1)"] assms(9) by auto
  then have bound: "validate_artifact_bindings d ?u [] = Inr ()" by (rule bindings_fewer [OF assms(1)])
  have "validate_run_state ?u = Inr ?u" using v by (simp add: valid_def)
  then have next0: "next_state d n [] f = Inr ?u"
    using assms(1,4,5) hs index legacy bound
    by (simp add: next_state_def artifact_references_def chk_state_def Let_def)
  have "finite_floats ?u" using assms(7) obj by (cases u) (auto simp: put_def finite_floats_dict_iff dest!: set_alist_update [THEN subsetD])
  moreover have "clean ?u" using v by (simp add: valid_iff)
  ultimately have "ok (canonical_json_bytes ?u)" by (simp add: canonical_json_bytes_def)
  with next0 assms(3) show ?thesis
    by (auto simp: transact_def sbnd_def require_lock_def replace_state_def replace_mutable_def slift_def ok_iff)
qed

section \<open>Pausing\<close>

text \<open>A text that \<^verbatim>\<open>_require_string\<close> accepts.\<close>

definition plain_text :: "string \<Rightarrow> bool" where
  "plain_text t \<longleftrightarrow> require_string (JStr t) = Inr t"

text \<open>The clock reads a time with an offset that is not before the creation of the run.\<close>

definition time_after :: "json \<Rightarrow> string \<Rightarrow> bool" where
  "time_after state at \<longleftrightarrow> require_rfc3339 (JStr at) = Inr at \<and> instant_of (str_of (sub state ''created_at'')) \<le> instant_of at"

lemma error_accepted: "plain_text code \<Longrightarrow> plain_text message \<Longrightarrow>
    optional_error (error_value code message retryable) = Inr (error_value code message retryable)"
  by (simp add: optional_error_def error_value_def plain_text_def void_def is_obj_def jkeys_def items_def keys_of_def chk_def
      is_bool_def has_key_def jget_def bnd_eq_Inr)

lemma error_clean: "plain_text code \<Longrightarrow> plain_text message \<Longrightarrow> clean (error_value code message retryable)"
proof -
  have "list_all (\<lambda>k. \<not> has_surrogate k) [''code'', ''message'', ''retryable'']" by code_simp
  then show "plain_text code \<Longrightarrow> plain_text message \<Longrightarrow> clean (error_value code message retryable)"
    by (auto simp: error_value_def plain_text_def require_string_def split: if_splits)
qed

text \<open>A state that is paused with a phase to resume in stays valid when the error and the time are recorded.\<close>

lemma paused_valid:
  assumes p: "valid p" and t: "sub p ''status'' = JStr ''PAUSED''" "sub p ''resume_status'' \<noteq> JNull"
    and e: "plain_text code" "plain_text message" and "time_after p at" and n: "0 \<le> n"
  shows "valid (put (put (put p ''last_error'' (error_value code message True)) ''updated_at'' (JStr at)) ''revision'' (JInt n))"
    (is "valid ?u")
proof -
  let ?e = "error_value code message True"
  have obj: "is_obj p" and keys: "set (jkeys p) = set RUN_FIELDS" and c: "clean p" using p by (auto simp: valid_iff)
  have names: "list_all (\<lambda>k. k \<in> set RUN_FIELDS \<and> \<not> has_surrogate k) [''last_error'', ''updated_at'', ''revision'']" by code_simp
  have at: "\<not> has_surrogate at" using assms(6)
    by (auto simp: time_after_def require_rfc3339_def bnd_eq_Inr require_string_def split: if_splits)
  have "clean ?u" using names c at error_clean [OF e] by (auto intro!: clean_put)
  moreover have "set (jkeys ?u) = set RUN_FIELDS" using names obj keys by auto
  moreover have "scalar_part ?u"
  proof -
    have "scalar_part p" using p by (simp add: valid_iff)
    then show ?thesis using n obj by (simp add: scalar_part_def require_plain_int_def ok_def)
  qed
  moreover have "body_part ?u" using p by (simp add: valid_iff body_part_frame history_fields_def work_fields_def)
  moreover have "time_part ?u"
  proof -
    from p obtain c0 where "require_rfc3339 (sub p ''created_at'') = Inr c0" by (auto simp: valid_iff time_part_def)
    moreover from this have "sub p ''created_at'' = JStr c0"
      by (auto simp: require_rfc3339_def bnd_eq_Inr require_string_def split: json.splits if_splits option.splits)
    ultimately show ?thesis using obj assms(6) by (auto simp: time_part_def time_after_def str_of_def)
  qed
  moreover have "status_part ?u"
  proof -
    from p obtain le where "validate_resume_status (sub p ''resume_status'') = Inr ()" by (auto simp: valid_iff status_part_def)
    moreover have "validate_status_coherence ?u PAUSED ?e = Inr ()"
      using obj t by (simp add: validate_status_coherence_def chk_def)
    ultimately show ?thesis
      unfolding status_part_def using obj t error_accepted [OF e] by (intro exI [of _ PAUSED] exI [of _ ?e]) simp
  qed
  ultimately show ?thesis using obj by (simp add: valid_iff)
qed

lemma controller_gone: "valid s \<Longrightarrow> valid (put s ''controller'' JNull)"
proof -
  assume v: "valid s"
  then have "is_obj s" "set (jkeys s) = set RUN_FIELDS" "clean s" "scalar_part s" "status_part s" by (auto simp: valid_iff)
  moreover have "''controller'' \<in> set RUN_FIELDS \<and> \<not> has_surrogate ''controller''" by code_simp
  moreover have "clean (put s ''controller'' JNull)" using calculation by (intro clean_put) auto
  moreover have "status_part (put s ''controller'' JNull)"
    using calculation(5) by (simp add: status_part_def validate_status_coherence_def Let_def)
  moreover have "scalar_part (put s ''controller'' JNull)"
    using calculation(1,4) by (simp add: scalar_part_def validate_controller_def)
  ultimately show ?thesis
    using v by (auto simp: valid_iff part_frames history_fields_def work_fields_def)
qed

section \<open>Writing fields that nothing depends on\<close>

definition puts :: "json \<Rightarrow> (string \<times> json) list \<Rightarrow> json" where
  "puts s kvs = foldl (\<lambda>v (k, x). put v k x) s kvs"

definition free_field :: "json \<Rightarrow> string \<times> json \<Rightarrow> bool" where
  "free_field s kx \<longleftrightarrow> fst kx \<notin> set kept_fields \<and> fst kx \<noteq> ''path'' \<and> set (artifact_refs (snd kx)) \<subseteq> set (artifact_refs s)
     \<and> finite_floats (snd kx)"

lemma puts_keep:
  assumes "list_all (free_field s) kvs" and "finite_floats s" and "has_key s ''status''"
  shows "finite_floats (puts s kvs) \<and> has_key (puts s kvs) ''status'' \<and> set (artifact_refs (puts s kvs)) \<subseteq> set (artifact_refs s)
    \<and> (\<forall>k\<in>set kept_fields. sub (puts s kvs) k = sub s k)"
  using assms(1)
proof (induction kvs rule: rev_induct)
  case (snoc kx kvs)
  obtain k x where kx: "kx = (k, x)" by force
  with snoc have f: "free_field s (k, x)" and IH: "finite_floats (puts s kvs)" "has_key (puts s kvs) ''status''"
      "set (artifact_refs (puts s kvs)) \<subseteq> set (artifact_refs s)" "\<forall>k\<in>set kept_fields. sub (puts s kvs) k = sub s k"
    by auto
  have "finite_floats (put (puts s kvs) k x)"
    using IH(1) f by (cases "puts s kvs") (auto simp: put_def free_field_def finite_floats_dict_iff dest!: set_alist_update [THEN subsetD])
  moreover have "sub (put (puts s kvs) k x) k' = sub s k'" if "k' \<in> set kept_fields" for k'
    using that f IH(4) by (cases "k = k'") (auto simp: free_field_def)
  ultimately show ?case
    using f IH key_put [OF IH(2)] refs_put [OF IH(2), of k x] by (auto simp: puts_def kx free_field_def)
qed (use assms in \<open>simp add: puts_def\<close>)

lemma puts_commit:
  assumes "holds s state" "stored_state (wd (ss_world s)) state" "rd_locked (wd (ss_world s))" "clock c s = (Inr at, s1)"
    and "f at state [] = Inr (puts state kvs)" and "list_all (free_field state) kvs"
    and "valid (put (puts state kvs) ''revision'' (JInt (int_of (sub state ''revision'') + 1)))"
  shows "\<exists>s'. commit_now c state [] f s = (Inr (put (puts state kvs) ''revision'' (JInt (int_of (sub state ''revision'') + 1))), s')"
proof -
  let ?n = "int_of (sub state ''revision'')"
  from clock_keeps_dir [OF assms(4)] obtain g where g: "s1 = s\<lparr>ss_world := (ss_world s)\<lparr>wg := g\<rparr>\<rparr>" by blast
  have l: "load (wd (ss_world s)) = Inr state" and v: "valid state" using assms(1) load_valid by (auto simp: holds_def)
  have rev: "sub state ''revision'' = JInt ?n"
    using v by (auto simp: valid_iff scalar_part_def ok_iff require_plain_int_def int_of_def split: json.splits if_splits)
  have "finite_floats state" using assms(2) by (auto simp: stored_state_def canonical_json_bytes_def split: if_splits)
  moreover have "has_key state ''status''" using valid_has_key [OF v, of "''status''"] by (simp add: RUN_FIELDS_def)
  ultimately have keep: "finite_floats (puts state kvs)" "has_key (puts state kvs) ''status''"
      "set (artifact_refs (puts state kvs)) \<subseteq> set (artifact_refs state)" "\<forall>k\<in>set kept_fields. sub (puts state kvs) k = sub state k"
    using puts_keep [OF assms(6)] by auto
  obtain d where "transact ?n [] (f at) (wd (ss_world s)) = (Inr (put (puts state kvs) ''revision'' (JInt (?n + 1))), d)"
    using frame_commits [where f = "f at", OF l assms(2,3) rev assms(5,7) keep(1) _ keep(3,2)] keep(4) by blast
  with assms(4) g show ?thesis by (simp add: commit_now_def sbnd_def commit_def on_world_def on_dir_def)
qed

section \<open>Every running phase can be paused\<close>

text \<open>A run in a running phase, as the store wrote it, and a clock that does not run backwards.\<close>

definition pausable :: "'g deps \<Rightarrow> json \<Rightarrow> 'g session \<Rightarrow> bool" where
  "pausable c state s \<longleftrightarrow> holds s state \<and> stored_state (wd (ss_world s)) state \<and> rd_locked (wd (ss_world s))
     \<and> (\<exists>t. sub state ''status'' = JStr (run_status_value t) \<and> t \<notin> set static_for_resume)
     \<and> (\<exists>at s1. clock c s = (Inr at, s1) \<and> time_after state at)"

lemma pausable_paused:
  assumes "pausable c state s"
  shows "\<exists>at s1. clock c s = (Inr at, s1) \<and> time_after state at \<and> 0 \<le> int_of (sub state ''revision'') \<and> is_obj state
    \<and> valid (put (put state ''resume_status'' (sub state ''status'')) ''status'' (JStr ''PAUSED''))
    \<and> (\<exists>t. sub state ''status'' = JStr (run_status_value t) \<and> t \<notin> set static_for_resume)"
proof -
  from assms obtain t at s1 where t: "sub state ''status'' = JStr (run_status_value t)" "t \<notin> set static_for_resume"
      "clock c s = (Inr at, s1)" "time_after state at" and v: "valid state"
    by (auto simp: pausable_def holds_def dest: load_valid)
  have "valid (put (put state ''resume_status'' (sub state ''status'')) ''status'' (JStr ''PAUSED''))"
    using valid_put_status [OF v, of "sub state ''status''" PAUSED] t by (auto simp: halted_def)
  moreover have "0 \<le> int_of (sub state ''revision'')" "is_obj state"
    using v by (auto simp: valid_iff scalar_part_def ok_iff require_plain_int_def int_of_def split: json.splits if_splits)
  ultimately show ?thesis using t by blast
qed

lemma free_texts: "plain_text code \<Longrightarrow> free_field s (''last_error'', error_value code message b)"
    "free_field s (''status'', JStr x)" "free_field s (''resume_status'', JStr x)" "free_field s (''updated_at'', JStr x)"
    "free_field s (''controller'', JNull)"
  by (simp_all add: free_field_def kept_fields_def error_value_def keys_of_def)

lemma pause_commits:
  assumes "pausable c state s" and e: "plain_text code" "plain_text message"
  shows "\<exists>u s'. commit_now c state [] (pausing code message) s = (Inr u, s')
    \<and> sub u ''status'' = JStr ''PAUSED'' \<and> sub u ''resume_status'' = sub state ''status''"
proof -
  from pausable_paused [OF assms(1)] obtain at s1 t where p: "clock c s = (Inr at, s1)" "time_after state at"
      "0 \<le> int_of (sub state ''revision'')" "is_obj state" "sub state ''status'' = JStr (run_status_value t)"
      "valid (put (put state ''resume_status'' (sub state ''status'')) ''status'' (JStr ''PAUSED''))" by blast
  let ?kvs = "[(''resume_status'', sub state ''status''), (''status'', JStr ''PAUSED''),
     (''last_error'', error_value code message True), (''updated_at'', JStr at)]"
  have "valid (put (puts state ?kvs) ''revision'' (JInt (int_of (sub state ''revision'') + 1)))"
    using paused_valid [OF p(6) _ _ e, of at "int_of (sub state ''revision'') + 1"] p(2-5) by (simp add: puts_def time_after_def)
  moreover have "list_all (free_field state) ?kvs" using p(5) e by (simp add: free_texts)
  moreover have "pausing code message at state [] = Inr (puts state ?kvs)" by (simp add: pausing_def stamp_def puts_def)
  ultimately obtain s' where "commit_now c state [] (pausing code message) s
      = (Inr (put (puts state ?kvs) ''revision'' (JInt (int_of (sub state ''revision'') + 1))), s')"
    using assms(1) p(1) puts_commit [where f = "pausing code message" and kvs = ?kvs] unfolding pausable_def by blast
  then show ?thesis using p(4) by (simp add: puts_def)
qed

text \<open>C16. A running run can always be paused: in every running phase, with the state that the store wrote
  and a clock that does not run backwards, the transaction that pauses the run commits, and the stored
  state remembers the phase to resume in.\<close>

theorem running_run_pauses:
  assumes "pausable c state s" and "plain_text code" and "plain_text message"
  shows "\<exists>r s'. pause_run c state code message s = (Inr r, s') \<and> stored_state (wd (ss_world s')) (tr_state r)
    \<and> sub (tr_state r) ''status'' = JStr ''PAUSED'' \<and> sub (tr_state r) ''resume_status'' = sub state ''status''"
proof -
  from pause_commits [OF assms] obtain u s' where u: "commit_now c state [] (pausing code message) s = (Inr u, s')"
    "sub u ''status'' = JStr ''PAUSED''" "sub u ''resume_status'' = sub state ''status''" by blast
  moreover have "stored_state (wd (ss_world s')) u"
    using commit_now_Inr [OF u(1)] assms(1) unfolding pausable_def by blast
  ultimately show ?thesis by (simp add: pause_run_def sbnd_def slift_def ticked_def)
qed

end
