(* ===== verification/ControlSample.thy ===== *)
theory ControlSample
  imports Controller Creation Pausing IntegrationSample RoleSample
begin

text \<open>
  Concrete controllers and runs for the witnesses: a provider that refuses every call, a clock that
  stands still, and stored runs in the phases that the theorems are about.
\<close>

section \<open>A controller\<close>

definition mute_provider :: "unit provider" where
  "mute_provider = \<lparr>pv_identity = \<lparr>ei_codex_version = ''1.0'', ei_policy_sha256 = sample_digest\<rparr>,
     pv_start = (\<lambda>_. slift (Inl ContractError)), pv_poll = (\<lambda>_. slift (Inl ContractError)),
     pv_stop = (\<lambda>_. slift (Inl ContractError)), pv_completion = (\<lambda>_. slift (Inl ContractError)),
     pv_result = (\<lambda>_. slift (Inl ContractError))\<rparr>"

definition sample_deps :: "unit deps" where
  "sample_deps = \<lparr>dp_target = ''/repo'', dp_run_root = ''/repo/runs/RUN-1'', dp_config = sample_config,
     dp_config_sha256 = sample_digest, dp_host = script_host, dp_machine = quick_machine, dp_depth = 1,
     dp_provider = mute_provider, dp_registry = shelf_registry, dp_hook = (\<lambda>_. slift (Inr ())), dp_sleep = slift (Inr ()),
     dp_error_text = (\<lambda>_. [])\<rparr>"

definition session_of :: "run_dir \<Rightarrow> unit session" where
  "session_of d = \<lparr>ss_world = \<lparr>wd = d, wg = ()\<rparr>, ss_stop = None, ss_invocations = [], ss_audits = [], ss_meta = []\<rparr>"

lemma sample_quiet: "quiet sample_deps"
  by (simp add: quiet_def sample_deps_def slift_def)

lemma sample_apart: "agents_apart sample_deps"
  by (simp add: agents_apart_def keeps_def fault_def on_world_def sample_deps_def mute_provider_def slift_def)

section \<open>Committing without artifacts\<close>

text \<open>The two files that every sample run has.\<close>

abbreviation run_files :: "string list" where
  "run_files \<equiv> [''creation.intent.json'', ''config.json'']"

definition bare :: "json \<Rightarrow> bool" where
  "bare s \<longleftrightarrow> bindings_of s = Inr (map (\<lambda>p. (p, sample_digest)) run_files)"

lemma bare_bindings: "bare s \<Longrightarrow> validate_artifact_bindings (dir_of t run_files) s [] = Inr ()"
  by (simp add: bare_def validate_artifact_bindings_def sha256_bound_artifact_def read_artifact_def read_regular_def dir_of_def
      sample_paths sample_body_digest chk_def)

section \<open>Runs that rest or wait\<close>

lemma dir_of_load:
  assumes "list_all (\<lambda>f. f s) [is_obj, wf_json, no_floats, all_text utf8_valid]"
    and "int (length (print_json (canon s) @ [NEWLINE])) < 10000" and "validate_run_state (canon s) = Inr (canon s)"
    and "bare (canon s)"
    and "validate_bound_state_semantics (canon s)
      (\<lambda>path. case map_of (map (\<lambda>p. (p, sample_body)) run_files) path of None \<Rightarrow> Inl KeyError | Some body \<Rightarrow> Inr body) = Inr ()"
  shows "load (dir_of s run_files) = Inr (canon s)"
proof (rule load_dir_of)
  show "list_all (\<lambda>p. relative_artifact_path p = Inr ()) run_files" by code_simp
qed (use assms in \<open>simp_all add: bare_def\<close>)

theorem initial_state_valid_witness:
  "valid (first_state ''RUN-20260723-001'' ''build it'' sample_config
     \<lparr>rb_identity = sample_digest, rb_base_ref = ''refs/heads/main'', rb_base_sha = sample_oid\<rparr> ''{}'' ''{}''
     ''2026-07-23T00:00:00+00:00'')"
proof (rule initial_state_valid)
  show "config_ok sample_config" by (rule sample_config_ok)
qed code_simp+

definition one_task_plan :: plan_document where
  "one_task_plan = \<lparr>pd_schema_version = 1, pd_plan_version = 1, pd_summary = ''one task'',
     pd_acceptance_criteria = [\<lparr>ac_id = ''AC-001'', ac_description = ''it works''\<rparr>], pd_global_verification = [''unit''],
     pd_tasks = [ready_contract]\<rparr>"

theorem stored_plan_reads_back_witness:
  "\<exists>body. canonical_json_bytes (plan_to_dict one_task_plan) = Inr body
     \<and> bnd (parse_json_object_bytes body) plan_from_dict = Inr one_task_plan"
proof -
  have plain: "all_text utf8_valid (plan_to_dict one_task_plan)" by code_simp
  have "ok (canonical_json_bytes (plan_to_dict one_task_plan))" by code_simp
  then obtain body where body: "canonical_json_bytes (plan_to_dict one_task_plan) = Inr body" by (auto simp: ok_iff)
  from stored_plan_reads_back [OF plain body] body show ?thesis by blast
qed

section \<open>Closing attempts\<close>

definition small_task :: json where
  "small_task = JObj [(''status'', JStr ''ACTIVE''), (''failure_count'', JInt 2), (''max_attempts'', JInt 3),
     (''attempts'', JList []), (''active_attempt'', JObj []), (''last_error'', JNull)]"

definition two_workers :: json where
  "two_workers = JObj [(''status'', JStr ''EXECUTING''), (''tasks'', JObj [(''TASK-001'', small_task), (''TASK-002'', small_task)]),
     (''pending_dispatches'', JObj [(''ATTEMPT-1'', JObj []), (''ATTEMPT-2'', JObj [])]), (''last_error'', JNull)]"

definition sample_refs :: "string list \<Rightarrow> refs" where
  "sample_refs paths = map (\<lambda>p. (p, \<lparr>ar_path = p, ar_sha256 = sample_digest\<rparr>)) paths"

theorem last_failure_refused_witness:
  "\<exists>updated. freezing_worker ''ATTEMPT-1'' ''TASK-001'' ''WORKER_PROVIDER_FAILED'' ''a.json'' ''now'' two_workers (sample_refs [''a.json''])
     = Inr updated \<and> \<not> valid (put updated ''revision'' (JInt 7))"
proof -
  let ?f = "freezing_worker ''ATTEMPT-1'' ''TASK-001'' ''WORKER_PROVIDER_FAILED'' ''a.json'' ''now'' two_workers (sample_refs [''a.json''])"
  have parts: "ok (item (sub two_workers ''tasks'') ''TASK-001'')" "ok (ref_at (sample_refs [''a.json'']) ''a.json'')"
    "ok (item (sub two_workers ''pending_dispatches'') ''ATTEMPT-1'')" by code_simp+
  then have "ok ?f" by (auto simp: ok_iff freezing_worker_def drop_dispatch_def)
  then obtain updated where u: "?f = Inr updated" by (auto simp: ok_iff)
  have "is_obj (sub (sub two_workers ''tasks'') ''TASK-001'')" "has_key (sub two_workers ''pending_dispatches'') ''ATTEMPT-2''"
    "int_of (sub (sub (sub two_workers ''tasks'') ''TASK-001'') ''max_attempts'')
       \<le> int_of (sub (sub (sub two_workers ''tasks'') ''TASK-001'') ''failure_count'') + 1" "''ATTEMPT-2'' \<noteq> ''ATTEMPT-1''"
    by code_simp+
  from last_failure_refused [OF this(1,3,2,4) u] u show ?thesis by blast
qed

definition planning_state :: json where
  "planning_state = JObj [(''status'', JStr ''PLANNING''), (''role_attempts'', JObj [(''planner'', JList [])]),
     (''role_runtime'', JObj [(''planner'', planner_waiting)]),
     (''pending_dispatches'', JObj [(sample_token, JObj [(''role'', JStr ''planner'')])])]"


section \<open>Stopping\<close>

definition stop_it :: stop_request where
  "stop_it = \<lparr>sr_run_id = ''RUN-20260723-001'', sr_observed_revision = 0, sr_controller_token = ''CONTROLLER-1'',
     sr_requested_at = ''2026-07-23T00:00:00+00:00'', sr_nonce = ''STOP-1''\<rparr>"

definition busy_state :: json where
  "busy_state = JObj [(''status'', JStr ''EXECUTING''), (''resume_status'', JNull), (''controller'', JObj []),
     (''tasks'', JObj [(''TASK-001'', small_task)]), (''stop_receipts'', JList []), (''last_error'', JNull),
     (''pending_dispatches'', JObj [(''ATTEMPT-1'', JObj [(''role'', JStr ''worker''), (''task_id'', JStr ''TASK-001'')])])]"


section \<open>Stored runs\<close>

abbreviation clock_text :: string where
  "clock_text \<equiv> ''2026-07-23T00:00:00+00:00''"

lemma minimal_loads: "load (dir_of minimal_state run_files) = Inr (canon minimal_state)"
  using sample_load by (simp add: sample_dir_def)

lemma minimal_sub: "sub (canon minimal_state) k = canon (sub minimal_state k)"
proof (rule sub_canon)
  show "wf_json minimal_state" by code_simp
qed

lemma minimal_revision: "sub (canon minimal_state) ''revision'' = JInt 0"
  unfolding minimal_sub by code_simp

lemma minimal_round:
  "int_of (sub (canon minimal_state) ''repair_round'') = 0" "int_of (sub (canon minimal_state) ''max_repair_rounds'') = 3"
  unfolding minimal_sub by code_simp+

lemma minimal_status: "sub (canon minimal_state) ''status'' = JStr ''CREATED''"
  unfolding minimal_sub by code_simp

lemma minimal_holds: "holds (session_of (dir_of minimal_state run_files)) (canon minimal_state)"
  by (simp add: holds_def session_of_def minimal_loads)

lemma minimal_stored: "stored_state (dir_of minimal_state run_files) (canon minimal_state)"
proof -
  have "is_obj minimal_state" "wf_json minimal_state" "no_floats minimal_state" "all_text utf8_valid minimal_state" by code_simp+
  then obtain b where "canonical_json_bytes (canon minimal_state) = Inr b"
    using canonical_bytes_parse [of "canon minimal_state"] by (auto simp: canon_preserves)
  then show ?thesis by (auto simp: stored_state_def dir_of_def canonical_json_bytes_def canon_idem split: if_splits)
qed

lemma still_clock:
  "dp_machine c = quick_machine \<Longrightarrow> clock c (session_of d) = (Inr clock_text, session_of d)"
  by (simp add: clock_def on_world_def on_host_def now_def session_of_def quick_machine_def slift_def sbnd_def)

lemma minimal_pausable:
  assumes "dp_machine c = quick_machine"
  shows "pausable c (canon minimal_state) (session_of (dir_of minimal_state run_files))"
proof -
  have "sub (canon minimal_state) ''status'' = JStr (run_status_value CREATED)"
    "instant_of (str_of (sub (canon minimal_state) ''created_at'')) \<le> instant_of clock_text"
    unfolding minimal_sub by code_simp+
  moreover have "require_rfc3339 (JStr clock_text) = Inr clock_text" by code_simp
  moreover have "CREATED \<notin> set static_for_resume" by (simp add: static_for_resume_def)
  moreover have "wd (ss_world (session_of (dir_of minimal_state run_files))) = dir_of minimal_state run_files"
    by (simp add: session_of_def)
  moreover have "rd_locked (dir_of minimal_state run_files)" by (simp add: dir_of_def)
  ultimately show ?thesis
    using minimal_holds minimal_stored still_clock [OF assms] unfolding pausable_def time_after_def by metis
qed

theorem running_run_pauses_witness:
  "\<exists>r s'. pause_run sample_deps (canon minimal_state) ''GIT_FAILED'' ''the ref moved'' (session_of (dir_of minimal_state run_files))
       = (Inr r, s') \<and> stored_state (wd (ss_world s')) (tr_state r) \<and> sub (tr_state r) ''resume_status'' = JStr ''CREATED''"
proof -
  have "plain_text ''GIT_FAILED''" "plain_text ''the ref moved''" by code_simp+
  with running_run_pauses [OF minimal_pausable [of sample_deps] this(1,2)] show ?thesis
    by (auto simp: sample_deps_def minimal_status)
qed

theorem open_repair_bounded_witness:
  "\<exists>r s'. open_repair sample_deps (canon minimal_state) ''GLOBAL_VERIFICATION_FAILED'' ''failed'' (sample_ref ''config.json'')
       (session_of (dir_of minimal_state run_files)) = (Inr r, s') \<and> stored_state (wd (ss_world s')) (tr_state r)
     \<and> (sub (tr_state r) ''status'' = JStr ''REPAIRING'' \<or> sub (tr_state r) ''status'' = JStr ''FAILED'')"
proof -
  let ?s = "session_of (dir_of minimal_state run_files)"
  let ?kvs = "[(''repair_round'', JInt 1), (''status'', JStr ''REPAIRING''),
     (''last_error'', put (error_value ''GLOBAL_VERIFICATION_FAILED'' ''failed'' True) ''evidence'' (sample_ref ''config.json'')),
     (''updated_at'', JStr clock_text)]"
  have "opening_repair ''GLOBAL_VERIFICATION_FAILED'' ''failed'' (sample_ref ''config.json'') clock_text (canon minimal_state) []
      = Inr (puts (canon minimal_state) ?kvs)"
    by (simp add: opening_repair_def stamp_def puts_def minimal_round)
  moreover have "list_all (free_field (canon minimal_state)) ?kvs" "valid (put (puts (canon minimal_state) ?kvs) ''revision'' (JInt 1))"
    by code_simp+
  moreover have "stored_state (wd (ss_world ?s)) (canon minimal_state)" "rd_locked (wd (ss_world ?s))"
    using minimal_stored by (simp_all add: session_of_def dir_of_def)
  ultimately obtain u s' where
    c: "commit_now sample_deps (canon minimal_state) [] (opening_repair ''GLOBAL_VERIFICATION_FAILED'' ''failed'' (sample_ref ''config.json'')) ?s
      = (Inr u, s')"
    using puts_commit [where f = "opening_repair ''GLOBAL_VERIFICATION_FAILED'' ''failed'' (sample_ref ''config.json'')" and kvs = ?kvs,
        OF minimal_holds _ _ still_clock, of sample_deps] minimal_revision
    by (auto simp: sample_deps_def int_of_def)
  have "int_of (sub (canon minimal_state) ''repair_round'') < int_of (sub (canon minimal_state) ''max_repair_rounds'')"
    by (simp add: minimal_round)
  with c have o: "open_repair sample_deps (canon minimal_state) ''GLOBAL_VERIFICATION_FAILED'' ''failed'' (sample_ref ''config.json'') ?s
      = (Inr (ticked u), s')" by (simp add: open_repair_def sbnd_def slift_def)
  from open_repair_bounded [OF o minimal_holds] o show ?thesis by blast
qed

text \<open>A host on which the integration ref has moved.\<close>

definition moved_host :: "unit host" where
  "moved_host = script_host\<lparr>h_git := (\<lambda>args env g. ((0, hexes (CHR ''b'') 40 @ [NEWLINE]), g))\<rparr>"

definition moved_deps :: "unit deps" where
  "moved_deps = sample_deps\<lparr>dp_host := moved_host\<rparr>"

lemma moved_ref: "resolve_ref moved_host ''refs/heads/vibe/run-RUN-20260723-001'' () = (Inr (hexes (CHR ''b'') 40), ())"
  by code_simp

lemma moved_head:
  assumes "str_of (sub (sub v ''repository'') ''integration_ref'') = ''refs/heads/vibe/run-RUN-20260723-001''"
    "integration_head v = JStr sample_oid"
  shows "ref_at_head moved_deps v (session_of d) = (Inr False, session_of d)"
proof -
  have "hexes (CHR ''b'') 40 \<noteq> sample_oid" by (simp add: hexes_def sample_oid_def)
  with assms moved_ref show ?thesis
    by (simp add: ref_at_head_def on_git_def on_world_def on_host_def sbnd_def slift_def session_of_def moved_deps_def)
qed

lemma moved_machine: "dp_machine moved_deps = quick_machine"
  by (simp add: moved_deps_def sample_deps_def)


lemma exit_pause_commits:
  assumes "pausable c state s"
  shows "\<exists>u s'. commit_now c state [] (pausing_after_exit (sub state ''status'')) s = (Inr u, s')"
proof -
  have e: "plain_text ''CONTROLLER_EXIT_RECOVERED''" "plain_text ''the prior foreground Controller exited''" by code_simp+
  from pausable_paused [OF assms] obtain at s1 t where p: "clock c s = (Inr at, s1)" "time_after state at"
      "0 \<le> int_of (sub state ''revision'')" "is_obj state" "sub state ''status'' = JStr (run_status_value t)"
      "valid (put (put state ''resume_status'' (sub state ''status'')) ''status'' (JStr ''PAUSED''))" by blast
  let ?kvs = "[(''resume_status'', sub state ''status''), (''status'', JStr ''PAUSED''), (''controller'', JNull),
     (''last_error'', error_value ''CONTROLLER_EXIT_RECOVERED'' ''the prior foreground Controller exited'' True),
     (''updated_at'', JStr at)]"
  have "valid (put (puts state ?kvs) ''revision'' (JInt (int_of (sub state ''revision'') + 1)))"
    using paused_valid [OF controller_gone [OF p(6)] _ _ e, of at "int_of (sub state ''revision'') + 1"] p(2-5)
    by (simp add: puts_def time_after_def)
  moreover have "list_all (free_field state) ?kvs" using p(5) e by (simp add: free_texts)
  moreover have "pausing_after_exit (sub state ''status'') at state [] = Inr (puts state ?kvs)"
    by (simp add: pausing_after_exit_def stamp_def puts_def chk_state_def)
  ultimately show ?thesis
    using assms p(1) puts_commit [where f = "pausing_after_exit (sub state ''status'')" and kvs = ?kvs] unfolding pausable_def by blast
qed


section \<open>A verdict for a run at rest\<close>

definition needs_repair :: evaluation_result where
  "needs_repair = \<lparr>er_schema_version = 1, er_verdict = NEEDS_REPAIR, er_criteria = [], er_findings = [], er_evidence_requests = [],
     er_residual_risks = []\<rparr>"


section \<open>A stop request\<close>

definition owned_state :: json where
  "owned_state = put (sample_state ''EXECUTING'' JNull [] []) ''controller''
     (controller_entry \<lparr>ow_pid = 7, ow_process_start_identity = ''7:1'', ow_process_group = 7\<rparr> ''CONTROLLER-1'')"

lemma owned_loads: "load (dir_of owned_state run_files) = Inr (canon owned_state)"
proof (rule dir_of_load)
  show "int (length (print_json (canon owned_state) @ [NEWLINE])) < 10000" unfolding int_length_fold by code_simp
qed code_simp+

definition stop_body :: string where
  "stop_body = print_json (canon (stop_request_as_dict stop_it)) @ [NEWLINE]"

definition stop_session :: "unit session" where
  "stop_session = (session_of (dir_of owned_state run_files))\<lparr>ss_stop := Some stop_body\<rparr>"

lemma stop_read: "read_stop_request stop_session = Inr (Some stop_it)"
proof -
  let ?v = "stop_request_as_dict stop_it"
  have "is_obj ?v" "wf_json ?v" "no_floats ?v" "all_text utf8_valid ?v" by code_simp+
  from canonical_bytes_parse [OF this] have p: "parse_json_object_bytes stop_body = Inr (canon ?v)"
    by (auto simp: canonical_json_bytes_def stop_body_def split: if_splits)
  have "int (length stop_body) < 10000" unfolding int_length_fold by code_simp
  then have "\<not> length stop_body > MAX_STOP_BYTES" by (simp add: MAX_STOP_BYTES_def)
  moreover have "set (jkeys (canon ?v)) = set STOP_FIELDS" "fromisoformat (str_of (sub (canon ?v) ''requested_at'')) \<noteq> None"
    "\<not> (\<not> is_str (sub (canon ?v) ''run_id'') \<or> \<not> is_int (sub (canon ?v) ''observed_revision'')
         \<or> int_of (sub (canon ?v) ''observed_revision'') < 0 \<or> \<not> is_str (sub (canon ?v) ''controller_token'')
         \<or> \<not> is_str (sub (canon ?v) ''requested_at'') \<or> \<not> is_str (sub (canon ?v) ''nonce'')
         \<or> \<not> startswith (str_of (sub (canon ?v) ''nonce'')) ''STOP-'')"
    "\<lparr>sr_run_id = str_of (sub (canon ?v) ''run_id''), sr_observed_revision = int_of (sub (canon ?v) ''observed_revision''),
       sr_controller_token = str_of (sub (canon ?v) ''controller_token''), sr_requested_at = str_of (sub (canon ?v) ''requested_at''),
       sr_nonce = str_of (sub (canon ?v) ''nonce'')\<rparr> = stop_it"
    by code_simp+
  ultimately show ?thesis
    unfolding read_stop_request_def parse_stop_request_def
    by (simp add: stop_session_def read_optional_regular_def read_bounded_def p chk_def)
qed

theorem stop_ends_drive_witness:
  "\<exists>r s'. drive 1 sample_deps (canon owned_state) stop_session = Some (r, s')
    \<and> (case r of Inl e \<Rightarrow> True | Inr final \<Rightarrow> sub final ''status'' = JStr ''STOPPED'' \<and> ss_stop s' = None)"
proof -
  have s: "sub (canon owned_state) ''status'' = JStr (run_status_value EXECUTING)" by code_simp
  have h: "holds stop_session (canon owned_state)" by (simp add: holds_def stop_session_def session_of_def owned_loads)
  have o: "owns_run (canon owned_state) stop_it" and n: "receipt_for (canon owned_state) (sr_nonce stop_it) = None" by code_simp+
  have "EXECUTING \<notin> set STATIC_RUN_STATUSES" by (simp add: STATIC_RUN_STATUSES_def)
  from stop_ends_drive [OF h s this stop_read o n sample_apart, of 0] show ?thesis by simp
qed

section \<open>Evidence\<close>

definition plan_bytes :: string where
  "plan_bytes = print_json (canon (plan_to_dict one_task_plan)) @ [NEWLINE]"

definition manifest_document :: json where
  "manifest_document = JObj [(''commit_sha'', JStr sample_oid), (''commands'', JList [JObj [(''command_id'', JStr ''unit'')]])]"

definition manifest_bytes :: string where
  "manifest_bytes = print_json (canon manifest_document) @ [NEWLINE]"

definition evidence_dir :: run_dir where
  "evidence_dir = \<lparr>rd_state = None, rd_files = [(''plan.json'', plan_bytes), (''manifest.json'', manifest_bytes)],
     rd_log = [], rd_locked = True\<rparr>"

definition body_ref :: "string \<Rightarrow> string \<Rightarrow> json" where
  "body_ref path body = artifact_as_dict \<lparr>ar_path = path, ar_sha256 = digest_of body\<rparr>"

definition verified_state :: json where
  "verified_state = JObj [(''repository'', sample_repository), (''plans'', JList [body_ref ''plan.json'' plan_bytes]),
     (''tasks'', JObj []), (''latest_evaluation'', JNull),
     (''global_verification'', JObj [(''verification'', body_ref ''manifest.json'' manifest_bytes)])]"

lemma ref_of_body [simp]: "ref_of_dict (body_ref path body) = \<lparr>ar_path = path, ar_sha256 = digest_of body\<rparr>"
  by (simp add: body_ref_def artifact_as_dict_def ref_of_dict_def str_of_def sub_Cons)

lemma evidence_reads:
  "read_json_ref evidence_dir (body_ref ''plan.json'' plan_bytes) = Inr (canon (plan_to_dict one_task_plan))"
  "read_json_ref evidence_dir (body_ref ''manifest.json'' manifest_bytes) = Inr (canon manifest_document)"
proof -
  have parse: "parse_json_object_bytes (print_json (canon v) @ [NEWLINE]) = Inr (canon v)"
    if "is_obj v" "wf_json v" "no_floats v" "all_text utf8_valid v" for v
    using canonical_bytes_parse [OF that] by (auto simp: canonical_json_bytes_def split: if_splits)
  have "int (length plan_bytes) < 10000" "int (length manifest_bytes) < 10000" unfolding int_length_fold by code_simp+
  then have short: "\<not> length plan_bytes > MAX_ARTIFACT_BYTES" "\<not> length manifest_bytes > MAX_ARTIFACT_BYTES"
    by (simp_all add: MAX_ARTIFACT_BYTES_def)
  have parts: "join_with (CHR ''/'') (posix_parts ''plan.json'') = ''plan.json''"
    "join_with (CHR ''/'') (posix_parts ''manifest.json'') = ''manifest.json''" by code_simp+
  have "parse_json_object_bytes plan_bytes = Inr (canon (plan_to_dict one_task_plan))"
    unfolding plan_bytes_def by (rule parse; code_simp)
  moreover have "parse_json_object_bytes manifest_bytes = Inr (canon manifest_document)"
    unfolding manifest_bytes_def by (rule parse; code_simp)
  ultimately show "read_json_ref evidence_dir (body_ref ''plan.json'' plan_bytes) = Inr (canon (plan_to_dict one_task_plan))"
    "read_json_ref evidence_dir (body_ref ''manifest.json'' manifest_bytes) = Inr (canon manifest_document)"
    using short by (simp_all add: read_json_ref_def read_ref_def read_regular_def read_bounded_def evidence_dir_def parts chk_def)
qed

theorem evidence_catalog_current_witness:
  "\<exists>catalog e. evidence_catalog evidence_dir verified_state = Inr catalog \<and> (''global:unit'', e) \<in> set (items catalog)
     \<and> head_evidence evidence_dir verified_state e"
proof -
  have m: "item (canon manifest_document) ''commit_sha'' = Inr (JStr sample_oid)"
    "item (canon manifest_document) ''commands'' = Inr (JList [JObj [(''command_id'', JStr ''unit'')]])"
    "item (JObj [(''command_id'', JStr ''unit'')]) ''command_id'' = Inr (JStr ''unit'')" by code_simp+
  have s: "elems (sub verified_state ''plans'') = [body_ref ''plan.json'' plan_bytes]"
    "sub verified_state ''global_verification'' = JObj [(''verification'', body_ref ''manifest.json'' manifest_bytes)]"
    "items (sub verified_state ''tasks'') = []" "sub verified_state ''latest_evaluation'' = JNull"
    "integration_head verified_state = JStr sample_oid"
    by (simp_all add: verified_state_def sub_Cons elems_def items_def integration_head_def sample_repository_def)
  have p: "load_plans evidence_dir verified_state = Inr [one_task_plan]"
    by (simp add: load_plans_def s evidence_reads plan_back)
  have eq: "py_eq (JStr sample_oid) (JStr sample_oid)" by code_simp
  let ?e = "catalog_entry ''global'' (body_ref ''manifest.json'' manifest_bytes) (JStr sample_oid) (JStr ''unit'') JNull JNull
      (jstrs (map ac_id (pd_acceptance_criteria one_task_plan)))"
  have "evidence_catalog evidence_dir verified_state = Inr (JObj [(''global:unit'', ?e)])"
    by (simp add: evidence_catalog_def first_criteria_def task_contracts_def p s global_evidence_def add_commands_def head_commands_def
        commit_of_def evidence_reads m eq supplemental_evidence_def is_obj_def elems_def put_def str_of_def Let_def)
  moreover from evidence_catalog_current [OF this, of "''global:unit''" ?e]
  have "head_evidence evidence_dir verified_state ?e" by (simp add: items_def)
  ultimately show ?thesis by (intro exI [of _ "JObj [(''global:unit'', ?e)]"] exI [of _ ?e]) (simp add: items_def)
qed

end
