(* ===== verification/Spec2Isabelle.thy ===== *)
theory Spec2Isabelle
  imports GoalGate Config Scheduler Attempts Manifest StoreSample IntegrationSample RoleSample ControlSample
begin

text \<open>
  Verification of the harness.
\<close>

section \<open>The empty authorization\<close>

text \<open>The literal digest that \<^verbatim>\<open>config.py\<close> pins for runs without project commands is the
  SHA-256 digest of the document \<^verbatim>\<open>{}\<close> followed by a newline, the bytes that
  \<^verbatim>\<open>load_run_config\<close> assumes when there is no project file.\<close>

lemma empty_authorization_digest:
  "ca_source_sha256 EMPTY_COMMAND_AUTHORIZATION = digest_of (''{}'' @ [NEWLINE])"
  using digest_empty_object by (simp add: EMPTY_COMMAND_AUTHORIZATION_def)

end
